(* ===== verification/Py_Base.thy ===== *)
theory Py_Base
  imports Complex_Main "HOL-Library.AList" "HOL-Library.Word" "HOL-Library.Multiset"
begin

text \<open>
  The prelude of the development: Python values, exceptions as values, the
  result type of a call that may raise, dictionaries in insertion order, truth
  testing and equality, and the lemmas about them that every component shares.

  \<^item> An exception is its class; messages are not modelled.
  \<^item> \<open>'a res\<close> is the outcome of a Python call: \<open>Inl e\<close> when it raises, \<open>Inr x\<close>
    when it returns.  \<open>bindE\<close> sequences two calls.
  \<^item> \<open>pyval\<close> holds the values that option dictionaries, query parameters and
    server replies carry.  A \<open>str\<close> is a list of characters, a \<open>float\<close> a finite
    rational, a \<open>timedelta\<close> its length in microseconds, an object of a class of
    the program its class name and its attributes.
  \<^item> a \<open>dict\<close> is an association list with distinct keys, in insertion order.
\<close>

named_theorems py_simps \<open>unfolding of the prelude's operations\<close>
named_theorems dict_simps \<open>lookups after dictionary updates\<close>

subsection \<open>Exceptions and results\<close>

datatype exc =
    CouchbaseException | InvalidArgumentException | InternalSDKException
  | AlreadyQueriedException | AmbiguousTimeoutException | UnAmbiguousTimeoutException
  | CasMismatchException | DeltaInvalidException | DocumentExistsException
  | DocumentLockedException | DocumentNotFoundException | DocumentNotJsonException
  | FeatureUnavailableException | InvalidIndexException | MissingTokenException
  | NumberTooBigException | PathExistsException | PathInvalidException
  | PathMismatchException | PathNotFoundException | PathTooBigException
  | PathTooDeepException | QueueEmpty | RangeScanCompletedException
  | ServiceUnavailableException | SubdocCantInsertValueException
  | TemporaryFailException | ValueFormatException | ValueTooDeepException
  | StopIteration | TypeError | ValueError | KeyError | IndexError
  | AttributeError | UnboundLocalError | OverflowError | NotImplementedError | UnicodeDecodeError
  | JSONDecodeError
  | SDKException string

text \<open>
  The classes that derive from \<open>CouchbaseException\<close> of \<open>couchbase/exceptions.py\<close>;
  the others are built-in exceptions of Python.
\<close>

definition is_couchbase_exc :: "exc \<Rightarrow> bool" where
  "is_couchbase_exc e \<longleftrightarrow>
     e \<notin> {StopIteration, TypeError, ValueError, KeyError, IndexError, AttributeError,
          UnboundLocalError, OverflowError, NotImplementedError, UnicodeDecodeError, JSONDecodeError}"

type_synonym 'a res = "exc + 'a"

definition bindE :: "'a res \<Rightarrow> ('a \<Rightarrow> 'b res) \<Rightarrow> 'b res" where
  "bindE m f = (case m of Inl e \<Rightarrow> Inl e | Inr x \<Rightarrow> f x)"

lemma bindE_simps [simp]:
  "bindE (Inl e) f = Inl e"
  "bindE (Inr x) f = f x"
  by (simp_all add: bindE_def)

lemma bindE_eq_Inr: "bindE m f = Inr y \<longleftrightarrow> (\<exists>x. m = Inr x \<and> f x = Inr y)"
  by (cases m) auto

lemma bindE_eq_Inl: "bindE m f = Inl e \<longleftrightarrow> m = Inl e \<or> (\<exists>x. m = Inr x \<and> f x = Inl e)"
  by (cases m) auto

lemma bindE_cong [fundef_cong]:
  "m = m' \<Longrightarrow> (\<And>x. m' = Inr x \<Longrightarrow> f x = f' x) \<Longrightarrow> bindE m f = bindE m' f'"
  by (cases m') auto

definition okE :: "'a res \<Rightarrow> 'a option" where
  "okE m = (case m of Inl _ \<Rightarrow> None | Inr x \<Rightarrow> Some x)"

lemma okE_simps [simp]: "okE (Inl e) = None" "okE (Inr x) = Some x"
  by (simp_all add: okE_def)

lemma okE_bindE: "okE (bindE m f) = Option.bind (okE m) (\<lambda>x. okE (f x))"
  by (cases m) auto

text \<open>A loop that applies a function which may raise to each element of a list.\<close>

fun mapE :: "('a \<Rightarrow> 'b res) \<Rightarrow> 'a list \<Rightarrow> 'b list res" where
  "mapE f [] = Inr []"
| "mapE f (x # xs) = bindE (f x) (\<lambda>y. bindE (mapE f xs) (\<lambda>ys. Inr (y # ys)))"

fun foldE :: "('a \<Rightarrow> 's \<Rightarrow> 's res) \<Rightarrow> 'a list \<Rightarrow> 's \<Rightarrow> 's res" where
  "foldE f [] s = Inr s"
| "foldE f (x # xs) s = bindE (f x s) (foldE f xs)"

lemma mapE_Inr: "(\<And>x. x \<in> set xs \<Longrightarrow> f x = Inr (g x)) \<Longrightarrow> mapE f xs = Inr (map g xs)"
  by (induction xs) auto

lemma mapE_cong [fundef_cong]:
  "xs = ys \<Longrightarrow> (\<And>x. x \<in> set ys \<Longrightarrow> f x = g x) \<Longrightarrow> mapE f xs = mapE g ys"
  by (induction xs arbitrary: ys) auto

lemma mapE_length: "mapE f xs = Inr ys \<Longrightarrow> length ys = length xs"
  by (induction xs arbitrary: ys) (auto simp: bindE_eq_Inr)

lemma foldE_append: "foldE f (xs @ ys) s = bindE (foldE f xs s) (foldE f ys)"
proof (induction xs arbitrary: s)
  case (Cons x xs)
  then show ?case by (cases "f x s") auto
qed simp

lemma foldE_invariant:
  assumes "foldE f xs s = Inr t" and "P s"
    and "\<And>x s t. x \<in> set xs \<Longrightarrow> f x s = Inr t \<Longrightarrow> P s \<Longrightarrow> P t"
  shows "P t"
  using assms
proof (induction xs arbitrary: s)
  case (Cons x xs)
  from Cons.prems(1) obtain u where u: "f x s = Inr u" "foldE f xs u = Inr t"
    by (auto simp: bindE_eq_Inr)
  then have "P u" using Cons.prems(2,3) by auto
  with u(2) show ?case using Cons.IH Cons.prems(3) by (metis list.set_intros(2))
qed simp

lemma foldE_ok_iff:
  assumes "\<And>x s. x \<in> set xs \<Longrightarrow> (\<exists>t. f x s = Inr t) \<longleftrightarrow> P x"
  shows "(\<exists>t. foldE f xs s = Inr t) \<longleftrightarrow> (\<forall>x \<in> set xs. P x)"
  using assms
proof (induction xs arbitrary: s)
  case (Cons x xs)
  show ?case
  proof (cases "f x s")
    case (Inl e)
    with Cons.prems [of x s] show ?thesis by simp
  next
    case (Inr t)
    with Cons.prems [of x s] have "P x" by auto
    with Inr Cons show ?thesis by simp
  qed
qed simp

text \<open>
  Seen as option-valued steps, a \<open>foldE\<close> is a \<open>fold\<close>; so a loop whose steps
  commute does not depend on the order of its elements.
\<close>

lemma okE_foldE:
  "okE (foldE f xs s) = fold (\<lambda>x m. Option.bind m (\<lambda>t. okE (f x t))) xs (Some s)"
proof -
  have none: "fold (\<lambda>x m. Option.bind m (\<lambda>t. okE (f x t))) ys None = None" for ys
    by (induction ys) auto
  show ?thesis
  proof (induction xs arbitrary: s)
    case (Cons x xs)
    then show ?case by (cases "f x s") (auto simp: none)
  qed simp
qed


lemma foldE_commute:
  assumes "\<And>x y s. x \<in> set xs \<Longrightarrow> y \<in> set xs \<Longrightarrow> x \<noteq> y \<Longrightarrow>
      okE (bindE (f x s) (f y)) = okE (bindE (f y s) (f x))"
    and "mset xs = mset ys"
  shows "okE (foldE f xs s) = okE (foldE f ys s)"
proof -
  define g where "g x m = Option.bind m (\<lambda>t. okE (f x t))" for x m
  have "fold g xs = fold g ys"
  proof (rule fold_multiset_equiv)
    fix x y assume "x \<in> set xs" "y \<in> set xs"
    then show "g x \<circ> g y = g y \<circ> g x"
      using assms(1) [of x y] by (cases "x = y") (auto simp: g_def okE_bindE fun_eq_iff)
  qed (use assms(2) in simp)
  then show ?thesis by (simp add: okE_foldE g_def [abs_def])
qed

subsection \<open>Values\<close>

datatype pyval =
    PNone
  | PBool bool
  | PInt int
  | PFloat rat
  | PStr string
  | PBytes "8 word list"
  | PBytearray "8 word list"
  | PList "pyval list"
  | PTuple "pyval list"
  | PSet "pyval list"
  | PDict "(pyval \<times> pyval) list"
  | PTimedelta int
  | PEnum string string string
  | PIntEnum string string int
  | PInst string "(string \<times> pyval) list"

text \<open>
  \<open>PEnum c m v\<close> is the member \<open>m\<close> with value \<open>v\<close> of an \<open>Enum\<close> class \<open>c\<close>,
  \<open>PIntEnum c m v\<close> one of an \<open>IntEnum\<close>, whose members are integers.  A \<open>bool\<close>
  is an integer too, as in Python.
\<close>

fun num_of :: "pyval \<Rightarrow> rat option" where
  "num_of (PBool b) = Some (if b then 1 else 0)"
| "num_of (PInt i) = Some (of_int i)"
| "num_of (PIntEnum _ _ i) = Some (of_int i)"
| "num_of (PFloat q) = Some q"
| "num_of _ = None"

fun int_of :: "pyval \<Rightarrow> int option" where
  "int_of (PBool b) = Some (if b then 1 else 0)"
| "int_of (PInt i) = Some i"
| "int_of (PIntEnum _ _ i) = Some i"
| "int_of _ = None"

definition is_int :: "pyval \<Rightarrow> bool" where
  "is_int v = (int_of v \<noteq> None)"

fun is_str :: "pyval \<Rightarrow> bool" where
  "is_str (PStr _) = True"
| "is_str _ = False"

fun is_bool :: "pyval \<Rightarrow> bool" where
  "is_bool (PBool _) = True"
| "is_bool _ = False"

fun is_timedelta :: "pyval \<Rightarrow> bool" where
  "is_timedelta (PTimedelta _) = True"
| "is_timedelta _ = False"

fun is_dict :: "pyval \<Rightarrow> bool" where
  "is_dict (PDict _) = True"
| "is_dict _ = False"

fun truthy :: "pyval \<Rightarrow> bool" where
  "truthy PNone = False"
| "truthy (PBool b) = b"
| "truthy (PInt i) = (i \<noteq> 0)"
| "truthy (PFloat q) = (q \<noteq> 0)"
| "truthy (PStr s) = (s \<noteq> [])"
| "truthy (PBytes s) = (s \<noteq> [])"
| "truthy (PBytearray s) = (s \<noteq> [])"
| "truthy (PList xs) = (xs \<noteq> [])"
| "truthy (PTuple xs) = (xs \<noteq> [])"
| "truthy (PSet xs) = (xs \<noteq> [])"
| "truthy (PDict d) = (d \<noteq> [])"
| "truthy (PTimedelta us) = (us \<noteq> 0)"
| "truthy (PEnum _ _ _) = True"
| "truthy (PIntEnum _ _ i) = (i \<noteq> 0)"
| "truthy (PInst _ _) = True"

text \<open>
  Python's \<open>==\<close> on values: numbers compare by value across \<open>bool\<close>, \<open>int\<close> and
  \<open>float\<close>, dictionaries and sets ignore the order of their elements.
\<close>

fun list_items :: "pyval \<Rightarrow> pyval list option" where
  "list_items (PList xs) = Some xs"
| "list_items _ = None"

fun tuple_items :: "pyval \<Rightarrow> pyval list option" where
  "tuple_items (PTuple xs) = Some xs"
| "tuple_items _ = None"

fun set_items :: "pyval \<Rightarrow> pyval list option" where
  "set_items (PSet xs) = Some xs"
| "set_items _ = None"

fun dict_items :: "pyval \<Rightarrow> (pyval \<times> pyval) list option" where
  "dict_items (PDict d) = Some d"
| "dict_items _ = None"

primrec py_eq :: "pyval \<Rightarrow> pyval \<Rightarrow> bool" where
  "py_eq PNone b = (b = PNone)"
| "py_eq (PBool x) b = (num_of b = Some (if x then 1 else 0))"
| "py_eq (PInt x) b = (num_of b = Some (of_int x))"
| "py_eq (PFloat x) b = (num_of b = Some x)"
| "py_eq (PStr x) b = (b = PStr x)"
| "py_eq (PBytes x) b = (b = PBytes x \<or> b = PBytearray x)"
| "py_eq (PBytearray x) b = (b = PBytes x \<or> b = PBytearray x)"
| "py_eq (PList xs) b =
     (case list_items b of None \<Rightarrow> False
      | Some ys \<Rightarrow> length xs = length ys \<and>
          list_all (\<lambda>p. p) (map2 (\<lambda>f y. f y) (map py_eq xs) ys))"
| "py_eq (PTuple xs) b =
     (case tuple_items b of None \<Rightarrow> False
      | Some ys \<Rightarrow> length xs = length ys \<and>
          list_all (\<lambda>p. p) (map2 (\<lambda>f y. f y) (map py_eq xs) ys))"
| "py_eq (PSet xs) b =
     (case set_items b of None \<Rightarrow> False
      | Some ys \<Rightarrow> length xs = length ys \<and>
          list_all (\<lambda>f. list_ex f ys) (map py_eq xs))"
| "py_eq (PDict d) b =
     (case dict_items b of None \<Rightarrow> False
      | Some e \<Rightarrow> length d = length e \<and>
          list_all (\<lambda>(f, g). list_ex (\<lambda>(k, v). f k \<and> g v) e)
            (map (map_prod py_eq py_eq) d))"
| "py_eq (PTimedelta x) b = (b = PTimedelta x)"
| "py_eq (PEnum c m x) b = (b = PEnum c m x)"
| "py_eq (PIntEnum c m x) b = (num_of b = Some (of_int x))"
| "py_eq (PInst c d) b = (b = PInst c d)"

lemma py_eq_refl [simp]: "py_eq v v"
proof (induction v)
  case (PList xs)
  then show ?case by (auto simp: list_all_iff set_zip)
next
  case (PTuple xs)
  then show ?case by (auto simp: list_all_iff set_zip)
next
  case (PSet xs)
  then show ?case by (auto simp: list_all_iff list_ex_iff)
next
  case (PDict d)
  then show ?case by (fastforce simp: list_all_iff list_ex_iff)
qed auto

text \<open>Python's \<open>in\<close> on a list, and the position of the first equal element.\<close>

definition py_in :: "pyval \<Rightarrow> pyval list \<Rightarrow> bool" where
  "py_in v xs = list_ex (\<lambda>x. py_eq x v) xs"

fun py_index :: "pyval \<Rightarrow> pyval list \<Rightarrow> nat option" where
  "py_index v [] = None"
| "py_index v (x # xs) = (if py_eq x v then Some 0 else map_option Suc (py_index v xs))"

lemma py_index_None: "py_index v xs = None \<longleftrightarrow> \<not> py_in v xs"
  by (induction xs) (auto simp: py_in_def)

lemma py_index_Some:
  "py_index v xs = Some i \<Longrightarrow>
     i < length xs \<and> py_eq (xs ! i) v \<and> (\<forall>j < i. \<not> py_eq (xs ! j) v)"
proof (induction xs arbitrary: i)
  case (Cons x xs)
  then show ?case by (cases i) (auto simp: less_Suc_eq_0_disj split: if_splits)
qed simp

subsection \<open>Dictionaries\<close>

type_synonym pydict = "(string \<times> pyval) list"

text \<open>
  \<open>d.get(k)\<close> is \<open>map_of d k\<close>, \<open>d[k] = v\<close> is \<open>AList.update k v d\<close> (in place, or at
  the end), \<open>d.pop(k)\<close> is \<open>AList.delete k d\<close>.
\<close>

definition dget :: "pydict \<Rightarrow> string \<Rightarrow> pyval \<Rightarrow> pyval" where
  "dget d k v = (case map_of d k of None \<Rightarrow> v | Some w \<Rightarrow> w)"

definition dhas :: "pydict \<Rightarrow> string \<Rightarrow> bool" where
  "dhas d k = (map_of d k \<noteq> None)"

definition dupdate :: "pydict \<Rightarrow> pydict \<Rightarrow> pydict" where
  "dupdate d e = fold (\<lambda>(k, v). AList.update k v) e d"

definition pdict :: "pydict \<Rightarrow> pyval" where
  "pdict d = PDict (map (\<lambda>(k, v). (PStr k, v)) d)"

lemma map_of_update [dict_simps]: "map_of (AList.update k v d) = (map_of d)(k \<mapsto> v)"
  by (simp add: update_conv')

lemma map_of_delete [dict_simps]: "map_of (AList.delete k d) = (map_of d)(k := None)"
  by (simp add: delete_conv')

lemma map_of_dupdate [dict_simps]:
  "distinct (map fst e) \<Longrightarrow> map_of (dupdate d e) = map_of d ++ map_of e"
proof (induction e arbitrary: d)
  case (Cons kv e)
  obtain k v where kv: "kv = (k, v)" by fastforce
  with Cons have "map_of (dupdate (AList.update k v d) e) = (map_of d)(k \<mapsto> v) ++ map_of e"
    by (simp add: dict_simps)
  moreover have "map_of e k = None" using Cons.prems kv by (simp add: map_of_eq_None_iff)
  ultimately show ?case
    by (auto simp: kv dupdate_def map_add_def fun_eq_iff split: option.splits)
qed (simp add: dupdate_def)

lemma dget_simps [dict_simps]:
  "dget (AList.update k v d) l w = (if l = k then v else dget d l w)"
  "dget (AList.delete k d) l w = (if l = k then w else dget d l w)"
  "dhas (AList.update k v d) l = (l = k \<or> dhas d l)"
  "dhas (AList.delete k d) l = (l \<noteq> k \<and> dhas d l)"
  by (auto simp: dget_def dhas_def dict_simps)

lemma dget_Nil [simp]: "dget [] k w = w" "dhas [] k = False"
  by (simp_all add: dget_def dhas_def)

lemma dget_Cons [simp]:
  "dget ((k, v) # d) l w = (if l = k then v else dget d l w)"
  "dhas ((k, v) # d) l = (l = k \<or> dhas d l)"
  by (auto simp: dget_def dhas_def)

lemma distinct_keys_update:
  "distinct (map fst d) \<Longrightarrow> distinct (map fst (AList.update k v d))"
  by (rule distinct_update)

lemma distinct_keys_delete:
  "distinct (map fst d) \<Longrightarrow> distinct (map fst (AList.delete k d))"
  by (rule distinct_delete)

subsection \<open>Iteration and sets\<close>

definition py_iter :: "pyval \<Rightarrow> pyval list res" where
  "py_iter v = (case v of PList xs \<Rightarrow> Inr xs | PTuple xs \<Rightarrow> Inr xs | PSet xs \<Rightarrow> Inr xs
     | PDict d \<Rightarrow> Inr (map fst d) | PStr s \<Rightarrow> Inr (map (\<lambda>c. PStr [c]) s)
     | PBytes s \<Rightarrow> Inr (map (\<lambda>b. PInt (uint b)) s) | PBytearray s \<Rightarrow> Inr (map (\<lambda>b. PInt (uint b)) s)
     | _ \<Rightarrow> Inl TypeError)"

primrec hashable :: "pyval \<Rightarrow> bool" where
  "hashable PNone = True"
| "hashable (PBool b) = True"
| "hashable (PInt i) = True"
| "hashable (PFloat q) = True"
| "hashable (PStr s) = True"
| "hashable (PBytes s) = True"
| "hashable (PBytearray s) = False"
| "hashable (PList xs) = False"
| "hashable (PTuple xs) = list_all (\<lambda>p. p) (map hashable xs)"
| "hashable (PSet xs) = False"
| "hashable (PDict d) = False"
| "hashable (PTimedelta us) = True"
| "hashable (PEnum c m v) = True"
| "hashable (PIntEnum c m i) = True"
| "hashable (PInst c d) = (c \<noteq> ''Role'' \<or> list_all snd (map (map_prod id hashable) d))"

definition py_set :: "pyval list \<Rightarrow> pyval res" where
  "py_set xs =
     (if list_all hashable xs
      then Inr (PSet (fold (\<lambda>x s. if py_in x s then s else s @ [x]) xs []))
      else Inl TypeError)"

fun jget :: "pyval \<Rightarrow> string \<Rightarrow> pyval \<Rightarrow> pyval res" where
  "jget (PDict d) k dflt = Inr (case map_of d (PStr k) of Some v \<Rightarrow> v | None \<Rightarrow> dflt)"
| "jget v k dflt = Inl AttributeError"

lemma py_set_eq:
  "py_set xs = Inr v \<Longrightarrow>
     \<exists>ys. v = PSet ys \<and> set ys \<subseteq> set xs \<and> (\<forall>x \<in> set xs. \<exists>y \<in> set ys. py_eq y x)"
proof -
  define add where "add x s = (if py_in x s then s else s @ [x])" for x :: pyval and s
  have sub: "set (add x s) \<subseteq> insert x (set s)" "set s \<subseteq> set (add x s)" for x s
    by (auto simp: add_def)
  have "set (fold add zs acc) \<subseteq> set acc \<union> set zs" for zs acc
    by (induction zs arbitrary: acc) (use sub(1) in \<open>auto, blast\<close>)
  moreover have mono: "set acc \<subseteq> set (fold add zs acc)" for zs acc
    by (induction zs arbitrary: acc) (use sub(2) in \<open>auto, blast\<close>)
  have "\<exists>y \<in> set (fold add xs acc). py_eq y x" if "x \<in> set xs" for acc x
    using that
  proof (induction xs arbitrary: acc)
    case (Cons z xs)
    have "\<exists>y \<in> set (add z acc). py_eq y z" by (auto simp: add_def py_in_def list_ex_iff)
    then show ?case using Cons mono [of "add z acc" xs] by (auto simp: subset_iff)
  qed simp
  ultimately show "py_set xs = Inr v \<Longrightarrow> ?thesis"
    by (fastforce simp: py_set_def add_def [abs_def] split: if_splits)
qed


end
