(* ===== verification/Py_Float.thy ===== *)
theory Py_Float
  imports Py_Base
begin

text \<open>
  IEEE binary64 rounding, as far as the SDK's conversions of durations use it.
  \<open>fl x\<close> is the double nearest to the rational \<open>x\<close>, ties to even (53 significant
  bits; overflow and subnormal numbers are out of range for durations and are not
  modelled).  Python's \<open>timedelta.total_seconds()\<close> is the correctly rounded quotient
  of the microseconds by \<open>10**6\<close>, \<open>*\<close> on floats is the rounded product, and
  \<open>int()\<close> truncates towards zero.  \<open>td_micros\<close> is the expression
  \<open>int(duration.total_seconds() * 1e6)\<close> that the options of the SDK use to send a
  duration as microseconds.
\<close>

definition round_half_even :: "rat \<Rightarrow> int" where
  "round_half_even x =
     (let q = \<lfloor>x\<rfloor>; r = x - of_int q
      in if r < 1/2 then q else if 1/2 < r then q + 1 else if even q then q else q + 1)"

text \<open>The number of binary digits of a natural number (\<open>int.bit_length\<close>).\<close>

fun bit_length :: "nat \<Rightarrow> nat" where
  "bit_length n = (if n = 0 then 0 else Suc (bit_length (n div 2)))"

declare bit_length.simps [simp del]

definition ilog2 :: "rat \<Rightarrow> int" where
  "ilog2 x = (if 1 \<le> x then int (bit_length (nat \<lfloor>x\<rfloor>)) - 1
              else - int (bit_length (nat (\<lceil>1 / x\<rceil> - 1))))"

definition pow2 :: "int \<Rightarrow> rat" where
  "pow2 e = (if 0 \<le> e then 2 ^ nat e else 1 / 2 ^ nat (- e))"

definition fl_pos :: "rat \<Rightarrow> rat" where
  "fl_pos x = (let e = 52 - ilog2 x in of_int (round_half_even (x * pow2 e)) / pow2 e)"

definition fl :: "rat \<Rightarrow> rat" where
  "fl x = (if x = 0 then 0 else if 0 < x then fl_pos x else - fl_pos (- x))"

definition py_trunc :: "rat \<Rightarrow> int" where
  "py_trunc x = (if 0 \<le> x then \<lfloor>x\<rfloor> else \<lceil>x\<rceil>)"

definition total_seconds :: "int \<Rightarrow> rat" where
  "total_seconds us = fl (of_int us / 10 ^ 6)"

definition td_micros :: "int \<Rightarrow> int" where
  "td_micros us = py_trunc (fl (total_seconds us * 10 ^ 6))"

subsection \<open>The rounding error\<close>

lemma bit_length_0 [simp]: "bit_length 0 = 0"
  by (simp add: bit_length.simps)

lemma bit_length_pos: "0 < n \<Longrightarrow> bit_length n = Suc (bit_length (n div 2))"
  by (subst bit_length.simps) simp

lemma bit_length_upper: "n < 2 ^ bit_length n"
proof (induction n rule: bit_length.induct)
  case (1 n)
  show ?case
  proof (cases "n = 0")
    case False
    with 1 have "n div 2 < 2 ^ bit_length (n div 2)" by simp
    then show ?thesis using False by (simp add: bit_length_pos)
  qed simp
qed

lemma bit_length_lower: "0 < n \<Longrightarrow> 2 ^ (bit_length n - 1) \<le> n"
proof (induction n rule: bit_length.induct)
  case (1 n)
  show ?case
  proof (cases "n div 2 = 0")
    case True
    with 1(2) have "n = 1" by auto
    then show ?thesis by (simp add: bit_length_pos)
  next
    case False
    then have "2 ^ (bit_length (n div 2) - 1) \<le> n div 2" using 1 by simp
    moreover obtain m where "bit_length (n div 2) = Suc m"
      using False bit_length_pos [of "n div 2"] by auto
    ultimately show ?thesis using 1(2) by (simp add: bit_length_pos)
  qed
qed

lemma round_half_even_error: "\<bar>of_int (round_half_even x) - x\<bar> \<le> 1/2"
proof -
  have "of_int \<lfloor>x\<rfloor> \<le> x" "x < of_int \<lfloor>x\<rfloor> + 1" by linarith+
  then show ?thesis by (auto simp: round_half_even_def Let_def)
qed

lemma round_half_even_int [simp]: "round_half_even (of_int i) = i"
  by (simp add: round_half_even_def)

lemma pow2_pos [simp]: "0 < pow2 e"
  by (simp add: pow2_def)

lemma pow2_ilog2_ge: "0 < x \<Longrightarrow> 2 ^ 52 \<le> x * pow2 (52 - ilog2 x)"
proof (cases "1 \<le> x")
  case True
  define n where "n = nat \<lfloor>x\<rfloor>"
  define k where "k = bit_length n"
  have n: "0 < n" "of_nat n \<le> x" using True by (auto simp: n_def le_nat_floor)
  have k: "0 < k" "2 ^ (k - 1) \<le> n" using bit_length_lower [of n] bit_length_pos [of n] n(1)
    by (simp_all add: k_def)
  have "rat_of_nat (2 ^ (k - 1)) \<le> of_nat n" using k(2) of_nat_le_iff by blast
  also note n(2)
  finally have le: "2 ^ (k - 1) \<le> x" by simp
  have il: "ilog2 x = int (k - 1)" using True k(1) by (simp add: ilog2_def k_def n_def)
  have "2 ^ 52 = 2 ^ (k - 1) * pow2 (52 - int (k - 1))"
  proof (cases "k - 1 \<le> 52")
    case True
    then have "nat (52 - int (k - 1)) = 52 - (k - 1)" by simp
    with True show ?thesis by (simp add: pow2_def flip: power_add)
  next
    case False
    then obtain j where j: "k - 1 = 52 + j" "0 < j"
      by (metis less_imp_add_positive not_le)
    then show ?thesis by (simp add: pow2_def power_add)
  qed
  also have "\<dots> \<le> x * pow2 (52 - int (k - 1))"
    using le by (intro mult_right_mono) (auto simp: less_imp_le)
  finally show ?thesis by (simp add: il)
next
  case False
  assume "0 < x"
  define c where "c = \<lceil>1 / x\<rceil>"
  define k where "k = bit_length (nat (c - 1))"
  have "1 < 1 / x" using False \<open>0 < x\<close> by (simp add: field_simps)
  then have c: "1 < c" "1 / x \<le> of_int c" by (auto simp: c_def)
  have "nat (c - 1) < 2 ^ k" unfolding k_def by (rule bit_length_upper)
  then have "c \<le> 2 ^ k" using c(1) by (simp add: nat_less_iff)
  then have "rat_of_int c \<le> rat_of_int (2 ^ k)" using of_int_le_iff by blast
  then have "1 / x \<le> rat_of_int (2 ^ k)" using c(2) by linarith
  then have "1 / x \<le> 2 ^ k" by (simp only: of_int_power of_int_numeral)
  then have ge: "1 \<le> x * 2 ^ k" using \<open>0 < x\<close> by (simp add: field_simps)
  have "ilog2 x = - int k" using False by (simp add: ilog2_def k_def c_def)
  then have "pow2 (52 - ilog2 x) = 2 ^ (52 + k)" by (simp add: pow2_def nat_add_distrib)
  then have "x * pow2 (52 - ilog2 x) = (x * 2 ^ k) * 2 ^ 52" by (simp add: power_add)
  moreover have "1 * 2 ^ 52 \<le> (x * 2 ^ k) * 2 ^ 52" using ge by (intro mult_right_mono) simp_all
  ultimately show ?thesis by (simp only: mult_1)
qed

lemma fl_error: "\<bar>fl x - x\<bar> \<le> \<bar>x\<bar> / 2 ^ 53"
proof -
  have pos: "\<bar>fl_pos y - y\<bar> \<le> y / 2 ^ 53" if "0 < y" for y
  proof -
    define p where "p = pow2 (52 - ilog2 y)"
    have p: "0 < p" "2 ^ 52 \<le> y * p" using pow2_ilog2_ge [OF that] by (simp_all add: p_def)
    have "fl_pos y - y = (of_int (round_half_even (y * p)) - y * p) / p"
      unfolding fl_pos_def Let_def p_def [symmetric] using p(1) by (simp add: diff_divide_distrib)
    then have "\<bar>fl_pos y - y\<bar> = \<bar>of_int (round_half_even (y * p)) - y * p\<bar> / p"
      using p(1) by simp
    also have "\<dots> \<le> (1/2) / p"
      using round_half_even_error [of "y * p"] p(1) by (intro divide_right_mono) simp_all
    also have "\<dots> \<le> y / 2 ^ 53" using p by (simp add: field_simps)
    finally show ?thesis .
  qed
  show ?thesis
  proof (cases "0 \<le> x")
    case True
    with pos [of x] show ?thesis by (cases "x = 0") (simp_all add: fl_def)
  next
    case False
    then have "\<bar>fl x - x\<bar> = \<bar>fl_pos (- x) - (- x)\<bar>" by (simp add: fl_def abs_minus_commute)
    with False pos [of "- x"] show ?thesis by simp
  qed
qed

lemma fl_0 [simp]: "fl 0 = 0"
  by (simp add: fl_def)

lemma fl_nonneg: "0 \<le> x \<Longrightarrow> 0 \<le> fl x"
proof -
  assume "0 \<le> x"
  with fl_error [of x] have "x - fl x \<le> x / 2 ^ 53" by (simp only: abs_le_iff abs_of_nonneg) linarith
  moreover have "x / 2 ^ 53 \<le> x" using \<open>0 \<le> x\<close> by simp
  ultimately show ?thesis by linarith
qed

lemma td_micros_error:
  assumes "0 \<le> us" "us < 2 ^ 51"
  shows "\<bar>fl (total_seconds us * 10 ^ 6) - of_int us\<bar> < 1"
proof -
  define u :: rat where "u = of_int us"
  define y where "y = total_seconds us * 10 ^ 6"
  have u: "0 \<le> u" "u < 2 ^ 51"
    using assms by (simp_all add: u_def)
  have "\<bar>total_seconds us - u / 10 ^ 6\<bar> \<le> \<bar>u / 10 ^ 6\<bar> / 2 ^ 53"
    unfolding total_seconds_def u_def by (rule fl_error)
  then have y: "\<bar>y - u\<bar> \<le> u / 2 ^ 53"
    using u(1) by (simp add: y_def abs_le_iff field_simps)
  have "\<bar>fl y - y\<bar> \<le> \<bar>y\<bar> / 2 ^ 53" by (rule fl_error)
  with y u have "\<bar>fl y - u\<bar> < 1" by (simp add: abs_le_iff abs_less_iff abs_if split: if_splits)
  then show ?thesis by (simp add: u_def y_def)
qed

lemma td_micros_loses_at_most_one:
  assumes "0 \<le> us" "us < 2 ^ 51"
  shows "td_micros us = us \<or> td_micros us = us - 1"
proof -
  define z where "z = fl (total_seconds us * 10 ^ 6)"
  have z: "\<bar>z - of_int us\<bar> < 1" unfolding z_def by (rule td_micros_error [OF assms])
  have "0 \<le> total_seconds us"
    using assms(1) unfolding total_seconds_def by (intro fl_nonneg) simp
  then have "0 \<le> z" unfolding z_def by (intro fl_nonneg) simp
  with z have "of_int (us - 1) < z" "z < of_int (us + 1)" by (simp_all add: abs_less_iff)
  then have "us - 1 \<le> \<lfloor>z\<rfloor>" "\<lfloor>z\<rfloor> < us + 1"
    by (simp add: le_floor_iff, subst floor_less_iff, simp)
  with \<open>0 \<le> z\<close> show ?thesis by (auto simp: td_micros_def py_trunc_def z_def)
qed

lemma fl_int_exact:
  assumes "0 \<le> i" "i < 2 ^ 53"
  shows "fl (of_int i) = of_int i"
proof (cases "i = 0")
  case False
  with assms have i: "0 < i" by simp
  define k where "k = bit_length (nat i)"
  have k: "0 < k" "2 ^ (k - 1) \<le> nat i"
    using bit_length_lower [of "nat i"] bit_length_pos [of "nat i"] i by (simp_all add: k_def)
  have "nat i < 2 ^ 53" using assms by (simp add: nat_less_iff)
  with k(2) have "(2::nat) ^ (k - 1) < 2 ^ 53" by (rule le_less_trans)
  then have "k - 1 < 53" by (rule power_less_imp_less_exp [rotated]) simp
  moreover have il: "ilog2 (of_int i) = int (k - 1)"
    using i k(1) by (simp add: ilog2_def k_def)
  ultimately have "pow2 (52 - ilog2 (of_int i)) = of_int (2 ^ (52 - (k - 1)))"
    by (simp add: pow2_def nat_diff_distrib)
  then have "fl_pos (of_int i) = of_int i"
    by (simp add: fl_pos_def Let_def del: of_int_power of_int_mult flip: of_int_mult)
       (simp del: of_int_power add: of_int_mult)
  with i show ?thesis by (simp add: fl_def)
qed simp

lemma td_micros_whole_seconds:
  assumes "0 \<le> s" "s < 2 ^ 33"
  shows "td_micros (s * 10 ^ 6) = s * 10 ^ 6"
proof -
  have "rat_of_int (s * 10 ^ 6) / 10 ^ 6 = of_int s" by simp
  then have t: "total_seconds (s * 10 ^ 6) = of_int s"
    using fl_int_exact [of s] assms by (simp only: total_seconds_def) simp
  have "fl (of_int (s * 10 ^ 6)) = of_int (s * 10 ^ 6)"
    using assms by (intro fl_int_exact) simp_all
  moreover have "of_int s * 10 ^ 6 = rat_of_int (s * 10 ^ 6)" by simp
  ultimately have "td_micros (s * 10 ^ 6) = py_trunc (of_int (s * 10 ^ 6))"
    by (simp only: td_micros_def t)
  then show ?thesis by (simp only: py_trunc_def floor_of_int ceiling_of_int if_cancel)
qed

lemma td_micros_zero [simp]: "td_micros 0 = 0"
  using td_micros_whole_seconds [of 0] by simp

text \<open>Evaluation of the rounding on given numbers, by bounds.\<close>

lemma round_half_even_eval:
  assumes "of_int m - 1/2 < x" "x < of_int m + 1/2"
  shows "round_half_even x = m"
proof -
  have "\<bar>rat_of_int (round_half_even x) - of_int m\<bar> < 1"
    using round_half_even_error [of x] assms by (simp only: abs_le_iff abs_less_iff) linarith
  then have "\<bar>round_half_even x - m\<bar> < 1"
    by (metis of_int_1_less_iff of_int_abs of_int_diff of_int_less_1_iff)
  then show ?thesis by simp
qed

lemma bit_length_eval:
  assumes "2 ^ l \<le> n" "n < 2 ^ Suc l"
  shows "bit_length n = Suc l"
proof -
  have n: "0 < n" using assms(1) by (metis le_zero_eq neq0_conv power_not_zero zero_neq_numeral)
  have "2 ^ (bit_length n - 1) < (2::nat) ^ Suc l"
    using bit_length_lower [OF n] assms(2) by (rule le_less_trans)
  moreover have "(2::nat) ^ l < 2 ^ bit_length n"
    using assms(1) bit_length_upper [of n] by (rule le_less_trans)
  ultimately have "bit_length n - 1 < Suc l" "l < bit_length n"
    by (simp_all only: power_strict_increasing_iff one_less_numeral_iff semiring_norm)
  then show ?thesis by simp
qed

lemma ilog2_eval:
  assumes "2 ^ l \<le> x" "x < 2 ^ Suc l"
  shows "ilog2 x = int l"
proof -
  have "(2::int) ^ l \<le> \<lfloor>x\<rfloor>" "\<lfloor>x\<rfloor> < (2::int) ^ Suc l"
    using assms by (simp_all add: le_floor_iff floor_less_iff)
  moreover have "(1::int) \<le> 2 ^ l" by simp
  ultimately have "2 ^ l \<le> nat \<lfloor>x\<rfloor>" "int (nat \<lfloor>x\<rfloor>) < int (2 ^ Suc l)"
    by (simp_all add: le_nat_iff)
  then have "bit_length (nat \<lfloor>x\<rfloor>) = Suc l"
    by (intro bit_length_eval) (simp_all only: of_nat_less_iff)
  moreover have "1 \<le> x" using assms(1) by (rule order_trans [rotated]) simp
  ultimately show ?thesis by (simp add: ilog2_def)
qed

lemma fl_eval:
  assumes "2 ^ l \<le> x" "x < 2 ^ Suc l" "d = pow2 (52 - int l)"
    "of_int m - 1/2 < x * d" "x * d < of_int m + 1/2"
  shows "fl x = of_int m / d"
proof -
  have "0 < x" using assms(1) by (rule less_le_trans [rotated]) simp
  moreover have "round_half_even (x * d) = m" using assms(4,5) by (rule round_half_even_eval)
  ultimately show ?thesis
    using ilog2_eval [OF assms(1,2)] assms(3) by (simp add: fl_def fl_pos_def)
qed

lemma td_micros_1001ms: "td_micros 1001000 = 1000999"
proof -
  have t: "total_seconds 1001000 = of_int 4508103226997866 / 2 ^ 52"
    unfolding total_seconds_def by (rule fl_eval [of 0]) (simp_all add: pow2_def)
  have r: "fl (total_seconds 1001000 * 10 ^ 6) = of_int 8598524526591999 / 2 ^ 33"
    unfolding t by (rule fl_eval [of 19]) (simp_all add: pow2_def)
  have "\<lfloor>of_int 8598524526591999 / 2 ^ 33 :: rat\<rfloor> = 1000999"
    by (rule floor_unique) simp_all
  then show ?thesis unfolding td_micros_def py_trunc_def r by simp
qed

end
