(* ===== verification/Utils.thy ===== *)
theory Utils
  imports Py_Float
begin

text \<open>
  \<open>couchbase/_utils.py\<close>: the conversions of durations and expiries, the value
  checks of option dictionaries, and the bidirectional mappings between a settings
  dictionary of the SDK and the dictionary of the server.

  The clock \<open>time()\<close> is an argument.  A transform of \<open>ParamTransform\<close> is a function
  \<open>pyval \<Rightarrow> pyval res\<close>; the classes \<open>Identity\<close>, \<open>EnumToStr\<close>, \<open>StrToEnum\<close>,
  \<open>SecondsToTimeDelta\<close> and \<open>TimeDeltaToSeconds\<close> are the functions their
  \<open>__call__\<close> computes.  \<open>bidi_mapping\<close> states what a table of such transforms owes
  its users: converting to the server's names and back is the identity.
\<close>

subsection \<open>Strings and durations\<close>

definition str_isspace :: "string \<Rightarrow> bool" where
  "str_isspace s \<longleftrightarrow> s \<noteq> [] \<and>
     list_all (\<lambda>c. let n = of_char c :: nat
                   in 9 \<le> n \<and> n \<le> 13 \<or> 28 \<le> n \<and> n \<le> 32 \<or> n = 133 \<or> n = 160) s"

definition bytes_isspace :: "8 word list \<Rightarrow> bool" where
  "bytes_isspace s \<longleftrightarrow> s \<noteq> [] \<and> list_all (\<lambda>c. 9 \<le> c \<and> c \<le> 13 \<or> c = 32) s"

definition is_null_or_empty :: "pyval \<Rightarrow> bool res" where
  "is_null_or_empty value =
     (if \<not> truthy value then Inr True
      else case value of
        PStr s \<Rightarrow> Inr (str_isspace s)
      | PBytes s \<Rightarrow> Inr (bytes_isspace s)
      | PBytearray s \<Rightarrow> Inr (bytes_isspace s)
      | _ \<Rightarrow> Inl AttributeError)"

definition timedelta_as_microseconds :: "pyval \<Rightarrow> int res" where
  "timedelta_as_microseconds duration =
     (if truthy duration \<and> \<not> is_timedelta duration then Inl InvalidArgumentException
      else if truthy duration
      then (case duration of PTimedelta us \<Rightarrow> Inr (td_micros us) | _ \<Rightarrow> Inl AttributeError)
      else Inr 0)"

definition to_microseconds :: "pyval \<Rightarrow> int res" where
  "to_microseconds timeout =
     (if truthy timeout \<and> \<not> (is_timedelta timeout \<or> num_of timeout \<noteq> None)
      then Inl InvalidArgumentException
      else if \<not> truthy timeout then Inr 0
      else case timeout of
        PTimedelta us \<Rightarrow> Inr (td_micros us)
      | _ \<Rightarrow> (case num_of timeout of
               Some q \<Rightarrow> Inr (py_trunc (fl (fl q * 10 ^ 6)))
             | None \<Rightarrow> Inl TypeError))"

definition THIRTY_DAYS_IN_SECONDS :: int where
  "THIRTY_DAYS_IN_SECONDS = 30 * 24 * 60 * 60"

definition timedelta_as_timestamp :: "rat \<Rightarrow> pyval \<Rightarrow> int res" where
  "timedelta_as_timestamp now duration =
     (case duration of
        PTimedelta us \<Rightarrow>
          (let seconds = py_trunc (total_seconds us)
           in if seconds < 0 then Inl InvalidArgumentException
              else if seconds < THIRTY_DAYS_IN_SECONDS then Inr seconds
              else Inr (seconds + py_trunc now))
      | _ \<Rightarrow> Inl InvalidArgumentException)"

definition validate_int :: "pyval \<Rightarrow> pyval res" where
  "validate_int value = (if \<not> is_int value then Inl InvalidArgumentException else Inr value)"

definition validate_bool :: "pyval \<Rightarrow> pyval res" where
  "validate_bool value = (if \<not> is_bool value then Inl InvalidArgumentException else Inr value)"

definition validate_str :: "pyval \<Rightarrow> pyval res" where
  "validate_str value = (if \<not> is_str value then Inl InvalidArgumentException else Inr value)"

subsection \<open>Transforms\<close>

text \<open>The classes \<open>Identity\<close> is used with.\<close>

datatype pytype = Ty_object | Ty_bool | Ty_int | Ty_str

fun isinstance :: "pyval \<Rightarrow> pytype \<Rightarrow> bool" where
  "isinstance v Ty_object = True"
| "isinstance v Ty_bool = is_bool v"
| "isinstance v Ty_int = is_int v"
| "isinstance v Ty_str = is_str v"

definition Identity_call :: "pytype \<Rightarrow> bool \<Rightarrow> pyval \<Rightarrow> pyval res" where
  "Identity_call ty optional x =
     (if optional \<and> x = PNone then Inr x
      else if \<not> isinstance x ty then Inl InvalidArgumentException
      else Inr x)"

text \<open>An enumeration is the list of its members; \<open>enum_value\<close> is \<open>.value\<close>.\<close>

fun enum_value :: "pyval \<Rightarrow> pyval" where
  "enum_value (PEnum c m v) = PStr v"
| "enum_value (PIntEnum c m i) = PInt i"
| "enum_value v = v"

definition EnumToStr_call ::
  "pyval list \<Rightarrow> (pyval \<Rightarrow> pyval) option \<Rightarrow> pyval \<Rightarrow> pyval res" where
  "EnumToStr_call ty conversion_fn value =
     (if is_str value \<and> py_in value (map enum_value ty) then Inr value
      else if value \<notin> set ty then Inl InvalidArgumentException
      else case conversion_fn of
        Some f \<Rightarrow> Inr (f value)
      | None \<Rightarrow> Inr (enum_value value))"

text \<open>\<open>E(value)\<close>: the member with that value, or the member itself.\<close>

definition enum_of_value :: "pyval list \<Rightarrow> pyval \<Rightarrow> pyval res" where
  "enum_of_value ty value =
     (if value \<in> set ty then Inr value
      else case find (\<lambda>m. py_eq (enum_value m) value) ty of
        Some m \<Rightarrow> Inr m
      | None \<Rightarrow> Inl ValueError)"

definition StrToEnum_call ::
  "pyval list \<Rightarrow> (pyval \<Rightarrow> pyval) option \<Rightarrow> bool \<Rightarrow> pyval \<Rightarrow> pyval res" where
  "StrToEnum_call ty conversion_fn optional value =
     (if optional \<and> value = PNone then Inr value
      else case conversion_fn of
        Some f \<Rightarrow> Inr (f value)
      | None \<Rightarrow> enum_of_value ty value)"

text \<open>\<open>timedelta(seconds=value)\<close>, with its range of \<open>999999999\<close> days.\<close>

definition timedelta_in_range :: "int \<Rightarrow> bool" where
  "timedelta_in_range us \<longleftrightarrow>
     - (999999999 * 86400 * 10 ^ 6) \<le> us \<and> us < 1000000000 * 86400 * 10 ^ 6"

definition SecondsToTimeDelta_call :: "pyval \<Rightarrow> pyval res" where
  "SecondsToTimeDelta_call value =
     (case num_of value of
        None \<Rightarrow> Inl TypeError
      | Some q \<Rightarrow>
          (let us = round_half_even (q * 10 ^ 6)
           in if timedelta_in_range us then Inr (PTimedelta us)
              else Inl InvalidArgumentException))"

definition TimeDeltaToSeconds_call :: "pyval \<Rightarrow> pyval res" where
  "TimeDeltaToSeconds_call td =
     (case num_of td of
        Some q \<Rightarrow> Inr (PInt (py_trunc q))
      | None \<Rightarrow> (case td of
                  PTimedelta us \<Rightarrow> Inr (PInt (py_trunc (total_seconds us)))
                | _ \<Rightarrow> Inl AttributeError))"

subsection \<open>Bidirectional mappings\<close>

text \<open>
  One entry of the table: the key in the SDK's dictionary, the name and the
  transform in either direction, and the default.  \<open>mk_transform\<close> is the
  constructor of \<open>BidirectionalTransform\<close>: a direction without a key takes the
  entry's own.
\<close>

record transform_entry =
  t_key :: string
  to_key :: string
  to_fn :: "pyval \<Rightarrow> pyval res"
  from_key :: string
  from_fn :: "pyval \<Rightarrow> pyval res"
  t_default :: pyval

definition BidirectionalTransform ::
  "string \<Rightarrow> string option \<times> (pyval \<Rightarrow> pyval res) \<Rightarrow> string option \<times> (pyval \<Rightarrow> pyval res)
     \<Rightarrow> pyval \<Rightarrow> transform_entry" where
  "BidirectionalTransform key to_dest from_dest dflt =
     \<lparr>t_key = key,
      to_key = (case fst to_dest of None \<Rightarrow> key | Some k \<Rightarrow> k), to_fn = snd to_dest,
      from_key = (case fst from_dest of None \<Rightarrow> key | Some k \<Rightarrow> k), from_fn = snd from_dest,
      t_default = dflt\<rparr>"

type_synonym mapping = "transform_entry list"

fun mapping_get :: "mapping \<Rightarrow> string \<Rightarrow> transform_entry option" where
  "mapping_get [] k = None"
| "mapping_get (t # ts) k = (if t_key t = k then Some t else mapping_get ts k)"

text \<open>
  \<open>convert_to_dest\<close> goes through the given dictionary; a key without an entry keeps
  its name and value.  \<open>convert_from_dest\<close> goes through the table; names of the
  server without an entry are dropped.
\<close>

definition to_dest_components :: "mapping \<Rightarrow> string \<Rightarrow> string \<times> (pyval \<Rightarrow> pyval res)" where
  "to_dest_components mapping k =
     (case mapping_get mapping k of
        None \<Rightarrow> (k, Identity_call Ty_object False)
      | Some t \<Rightarrow> (if to_key t = '''' then k else to_key t, to_fn t))"

definition convert_to_dest :: "mapping \<Rightarrow> pydict \<Rightarrow> pydict res" where
  "convert_to_dest mapping raw_info =
     foldE (\<lambda>(k, v) converted.
        let (key, transform) = to_dest_components mapping k
        in bindE (transform v) (\<lambda>w. Inr (AList.update key w converted))) raw_info []"

definition convert_from_dest :: "mapping \<Rightarrow> pydict \<Rightarrow> pydict res" where
  "convert_from_dest mapping raw_info =
     foldE (\<lambda>t converted.
        case map_of raw_info (from_key t) of
          None \<Rightarrow> Inr converted
        | Some w \<Rightarrow> bindE (from_fn t w) (\<lambda>v. Inr (AList.update (t_key t) v converted)))
       mapping []"

definition set_defaults :: "mapping \<Rightarrow> pydict \<Rightarrow> pydict" where
  "set_defaults mapping data =
     fold (\<lambda>t d. if \<not> dhas d (t_key t) \<and> t_default t \<noteq> PNone
                 then AList.update (t_key t) (t_default t) d else d) mapping data"

definition transform_to_dest :: "mapping \<Rightarrow> pydict \<Rightarrow> pydict res" where
  "transform_to_dest mapping data = convert_to_dest mapping (set_defaults mapping data)"

definition transform_from_dest :: "mapping \<Rightarrow> pydict \<Rightarrow> pydict res" where
  "transform_from_dest mapping data = convert_from_dest mapping data"


subsection \<open>Lemmas on the conversions\<close>

lemma timedelta_as_microseconds_td [py_simps]:
  "timedelta_as_microseconds (PTimedelta us) = Inr (td_micros us)"
  by (simp add: timedelta_as_microseconds_def)

lemma to_microseconds_td [py_simps]: "to_microseconds (PTimedelta us) = Inr (td_micros us)"
  by (simp add: to_microseconds_def)

lemma total_seconds_whole: "0 \<le> s \<Longrightarrow> s < 2 ^ 53 \<Longrightarrow> total_seconds (s * 10 ^ 6) = of_int s"
  using fl_int_exact [of s] by (simp add: total_seconds_def)

lemma py_trunc_int [simp]: "py_trunc (of_int i) = i"
  by (simp add: py_trunc_def)

lemma timedelta_as_timestamp_whole:
  "0 \<le> s \<Longrightarrow> s < 2 ^ 53 \<Longrightarrow>
     timedelta_as_timestamp now (PTimedelta (s * 10 ^ 6)) =
       Inr (if s < THIRTY_DAYS_IN_SECONDS then s else s + py_trunc now)"
  using total_seconds_whole [of s]
  by (simp add: timedelta_as_timestamp_def)

lemma TimeDeltaToSeconds_whole [py_simps]:
  "0 \<le> s \<Longrightarrow> s < 2 ^ 53 \<Longrightarrow> TimeDeltaToSeconds_call (PTimedelta (s * 10 ^ 6)) = Inr (PInt s)"
  using total_seconds_whole [of s] by (simp add: TimeDeltaToSeconds_call_def)

lemma SecondsToTimeDelta_int [py_simps]:
  "timedelta_in_range (s * 10 ^ 6) \<Longrightarrow>
     SecondsToTimeDelta_call (PInt s) = Inr (PTimedelta (s * 10 ^ 6))"
proof -
  have "round_half_even (rat_of_int s * 10 ^ 6) = s * 10 ^ 6"
    using round_half_even_int [of "s * 10 ^ 6"] by simp
  then show "timedelta_in_range (s * 10 ^ 6) \<Longrightarrow> ?thesis"
    by (simp add: SecondsToTimeDelta_call_def)
qed

lemma enum_roundtrip:
  assumes "v \<in> set ty" "\<not> is_str v" "enum_value v \<notin> set ty"
    and "\<And>m. m \<in> set ty \<Longrightarrow> py_eq (enum_value m) (enum_value v) \<Longrightarrow> m = v"
  shows "EnumToStr_call ty None v = Inr (enum_value v) \<and>
         StrToEnum_call ty None opt (enum_value v) =
           (if opt \<and> enum_value v = PNone then Inr PNone else Inr v)"
proof -
  have "find (\<lambda>m. py_eq (enum_value m) (enum_value v)) ty = Some v"
  proof (cases "find (\<lambda>m. py_eq (enum_value m) (enum_value v)) ty")
    case None
    then show ?thesis using assms(1) py_eq_refl [of "enum_value v"]
      by (auto simp: find_None_iff)
  next
    case (Some m)
    then have "m \<in> set ty" "py_eq (enum_value m) (enum_value v)"
      by (auto simp: find_Some_iff)
    with Some assms(4) show ?thesis by auto
  qed
  with assms(1-3) show ?thesis
    by (auto simp: EnumToStr_call_def StrToEnum_call_def enum_of_value_def)
qed

subsection \<open>The contract of a bidirectional mapping\<close>

lemma foldE_update:
  assumes "\<And>x. x \<in> set xs \<Longrightarrow>
      step x = (case p x of None \<Rightarrow> Inr | Some kv \<Rightarrow> (\<lambda>c. Inr (AList.update (fst kv) (snd kv) c)))"
  shows "foldE step xs c = Inr (dupdate c (List.map_filter p xs))"
  using assms
proof (induction xs arbitrary: c)
  case Nil
  then show ?case by (simp add: dupdate_def map_filter_simps)
next
  case (Cons x xs)
  then show ?case
    by (cases "p x") (simp_all add: dupdate_def map_filter_simps case_prod_unfold)
qed

lemma map_of_map_filter:
  assumes "distinct (map f ts)" "t \<in> set ts"
    and "\<And>u kv. u \<in> set ts \<Longrightarrow> p u = Some kv \<Longrightarrow> fst kv = f u"
  shows "map_of (List.map_filter p ts) (f t) = map_option snd (p t)"
  using assms
proof (induction ts)
  case (Cons u ts)
  have notin: "map_of (List.map_filter p ts) (f u) = None"
  proof -
    have "fst ` set (List.map_filter p ts) \<subseteq> f ` set ts"
      using Cons.prems(3) by (fastforce simp: List.map_filter_def)
    then show ?thesis using Cons.prems(1) by (force simp: map_of_eq_None_iff)
  qed
  show ?case
  proof (cases "t = u")
    case True
    then show ?thesis
      using notin Cons.prems(3) [of u] by (cases "p u") (auto simp: map_filter_simps)
  next
    case False
    then have t: "t \<in> set ts" "f t \<noteq> f u" using Cons.prems(1,2) by (auto simp: image_iff)
    then have "map_of (List.map_filter p ts) (f t) = map_option snd (p t)"
      using Cons by auto
    then show ?thesis
      using t(2) Cons.prems(3) [of u] by (cases "p u") (auto simp: map_filter_simps)
  qed
qed simp

lemma distinct_map_filter:
  assumes "distinct (map f ts)"
    and "\<And>u kv. u \<in> set ts \<Longrightarrow> p u = Some kv \<Longrightarrow> fst kv = f u"
  shows "distinct (map fst (List.map_filter p ts))"
  using assms
proof (induction ts)
  case (Cons u ts)
  have "fst ` set (List.map_filter p ts) \<subseteq> f ` set ts"
    using Cons.prems(2) by (fastforce simp: List.map_filter_def)
  then show ?case
    using Cons by (cases "p u") (auto simp: map_filter_simps)
qed (simp add: map_filter_simps)

lemma mapping_get_mem:
  "distinct (map t_key ts) \<Longrightarrow> t \<in> set ts \<Longrightarrow> mapping_get ts (t_key t) = Some t"
  by (induction ts) force+

lemma mapping_get_None: "mapping_get ts k = None \<longleftrightarrow> k \<notin> t_key ` set ts"
  by (induction ts) auto

lemma convert_from_dest_cong:
  "(\<And>t. t \<in> set mapping \<Longrightarrow> map_of a (from_key t) = map_of b (from_key t)) \<Longrightarrow>
     convert_from_dest mapping a = convert_from_dest mapping b"
proof -
  assume eq: "\<And>t. t \<in> set mapping \<Longrightarrow> map_of a (from_key t) = map_of b (from_key t)"
  define f where "f d t c = (case map_of d (from_key t) of None \<Rightarrow> Inr c
      | Some w \<Rightarrow> bindE (from_fn t w) (\<lambda>v. Inr (AList.update (t_key t) v c)))"
    for d :: pydict and t :: transform_entry and c
  have "foldE (f a) ts c = foldE (f b) ts c" if "set ts \<subseteq> set mapping" for ts c
    using that
  proof (induction ts arbitrary: c)
    case (Cons t ts)
    then have "f a t c = f b t c" using eq [of t] by (simp add: f_def)
    with Cons show ?case by (cases "f b t c") simp_all
  qed simp
  then show ?thesis by (simp add: convert_from_dest_def f_def [abs_def])
qed

locale bidi_mapping =
  fixes mapping :: mapping
    and valid :: "string \<Rightarrow> pyval \<Rightarrow> bool"
  assumes keys_distinct: "distinct (map t_key mapping)"
    and dest_distinct: "distinct (map to_key mapping)"
    and keys_match: "t \<in> set mapping \<Longrightarrow> from_key t = to_key t \<and> to_key t \<noteq> ''''"
    and valid_key: "valid k v \<Longrightarrow> k \<in> t_key ` set mapping"
    and inverse: "t \<in> set mapping \<Longrightarrow> valid (t_key t) v \<Longrightarrow>
        \<exists>w. to_fn t v = Inr w \<and> from_fn t w = Inr v"
begin

lemma components_key:
  "t \<in> set mapping \<Longrightarrow> to_dest_components mapping (t_key t) = (to_key t, to_fn t)"
  using mapping_get_mem [OF keys_distinct] keys_match by (simp add: to_dest_components_def)

lemma components_foreign:
  "k \<notin> t_key ` set mapping \<Longrightarrow>
     to_dest_components mapping k = (k, Identity_call Ty_object False)"
  using mapping_get_None [of mapping k] by (simp add: to_dest_components_def)

lemma components_inj:
  assumes "k \<in> t_key ` set mapping \<or> k \<notin> to_key ` set mapping"
    and "l \<in> t_key ` set mapping \<or> l \<notin> to_key ` set mapping"
    and "fst (to_dest_components mapping k) = fst (to_dest_components mapping l)"
  shows "k = l"
proof (cases "k \<in> t_key ` set mapping \<and> l \<in> t_key ` set mapping")
  case True
  then obtain t u where tu: "t \<in> set mapping" "k = t_key t" "u \<in> set mapping" "l = t_key u"
    by auto
  then have "to_key t = to_key u" using assms(3) by (simp add: components_key)
  with tu dest_distinct show ?thesis by (auto simp: distinct_map dest: inj_onD)
next
  case False
  then consider "k \<notin> t_key ` set mapping" "l \<notin> t_key ` set mapping"
    | t where "k \<notin> t_key ` set mapping" "t \<in> set mapping" "l = t_key t"
    | t where "l \<notin> t_key ` set mapping" "t \<in> set mapping" "k = t_key t"
    by auto
  then show ?thesis
    using assms by cases (auto simp: components_key components_foreign)
qed

text \<open>
  A dictionary of valid settings, possibly with further keys that the table does
  not know on either side, converts; and the converted dictionary holds, under the
  server's name of each entry, a value that converts back to the setting.
\<close>

lemma to_dest:
  assumes d: "distinct (map fst d)"
    and ok: "\<And>k v. (k, v) \<in> set d \<Longrightarrow>
        valid k v \<or> k \<notin> t_key ` set mapping \<and> k \<notin> to_key ` set mapping"
  obtains s where "convert_to_dest mapping d = Inr s"
    and "\<And>t. t \<in> set mapping \<Longrightarrow> map_of s (to_key t) =
        map_option (\<lambda>v. projr (to_fn t v)) (map_of d (t_key t))"
proof -
  define c where "c = to_dest_components mapping"
  define p where "p kv = Some (fst (c (fst kv)), projr (snd (c (fst kv)) (snd kv)))"
    for kv :: "string \<times> pyval"
  have known: "k \<in> t_key ` set mapping \<or> k \<notin> to_key ` set mapping" if "k \<in> fst ` set d" for k
    using that ok valid_key by fastforce
  have run: "snd (c k) v = Inr (projr (snd (c k) v))" if "(k, v) \<in> set d" for k v
  proof (cases "valid k v")
    case True
    then obtain t where "t \<in> set mapping" "k = t_key t" using valid_key by blast
    with True inverse [of t v] show ?thesis by (auto simp: c_def components_key)
  next
    case False
    with ok [OF that] have "k \<notin> t_key ` set mapping" by blast
    then show ?thesis by (simp add: c_def components_foreign Identity_call_def)
  qed
  have conv: "convert_to_dest mapping d = Inr (dupdate [] (List.map_filter p d))"
    unfolding convert_to_dest_def
  proof (rule foldE_update)
    fix x assume "x \<in> set d"
    then have "snd (c (fst x)) (snd x) = Inr (projr (snd (c (fst x)) (snd x)))"
      using run [of "fst x" "snd x"] by simp
    then show "(case x of (k, v) \<Rightarrow> \<lambda>converted.
        let (key, transform) = to_dest_components mapping k
        in bindE (transform v) (\<lambda>w. Inr (AList.update key w converted))) =
      (case p x of None \<Rightarrow> Inr | Some kv \<Rightarrow> \<lambda>c. Inr (AList.update (fst kv) (snd kv) c))"
      by (simp add: p_def case_prod_unfold flip: c_def) (metis bindE_simps(2))
  qed
  have dist: "distinct (map (\<lambda>kv. fst (c (fst kv))) d)"
  proof -
    have "inj_on (\<lambda>k. fst (c k)) (fst ` set d)"
    proof (rule inj_onI)
      fix k l assume k: "k \<in> fst ` set d" and l: "l \<in> fst ` set d"
        and "fst (c k) = fst (c l)"
      then show "k = l" unfolding c_def using components_inj [OF known [OF k] known [OF l]] by simp
    qed
    then have "distinct (map (\<lambda>k. fst (c k)) (map fst d))"
      using d by (simp only: distinct_map set_map simp_thms)
    then show ?thesis by (simp only: map_map comp_def)
  qed
  have dm: "map_of (dupdate [] (List.map_filter p d)) = map_of (List.map_filter p d)"
  proof -
    have "distinct (map fst (List.map_filter p d))"
      using dist by (rule distinct_map_filter) (auto simp: p_def)
    then show ?thesis by (simp add: map_of_dupdate)
  qed
  have eq: "map_of (List.map_filter p d) (to_key t) =
      map_option (\<lambda>v. projr (to_fn t v)) (map_of d (t_key t))" if t: "t \<in> set mapping" for t
  proof (cases "map_of d (t_key t)")
    case (Some v)
    then have m: "(t_key t, v) \<in> set d" by (rule map_of_SomeD)
    have "map_of (List.map_filter p d) (fst (c (fst (t_key t, v)))) = map_option snd (p (t_key t, v))"
      using dist m by (rule map_of_map_filter) (auto simp: p_def)
    then show ?thesis using Some t by (simp add: p_def c_def components_key)
  next
    case None
    have "to_key t \<notin> fst ` set (List.map_filter p d)"
    proof
      assume "to_key t \<in> fst ` set (List.map_filter p d)"
      then obtain k v where kv: "(k, v) \<in> set d" "fst (c k) = to_key t"
        by (auto simp: List.map_filter_def p_def)
      then have "k = t_key t"
        using components_inj [of k "t_key t"] known [of k] t by (force simp: c_def components_key)
      with kv(1) None show False by (auto simp: map_of_eq_None_iff image_iff)
    qed
    then have "map_of (List.map_filter p d) (to_key t) = None"
      by (simp only: map_of_eq_None_iff not_False_eq_True)
    with None show ?thesis by simp
  qed
  show ?thesis by (rule that [OF conv]) (simp only: dm eq)
qed

lemma from_dest:
  assumes "\<And>t v. t \<in> set mapping \<Longrightarrow> map_of d (t_key t) = Some v \<Longrightarrow> valid (t_key t) v"
    and "\<And>t. t \<in> set mapping \<Longrightarrow> map_of s (to_key t) =
        map_option (\<lambda>v. projr (to_fn t v)) (map_of d (t_key t))"
  obtains r where "convert_from_dest mapping s = Inr r"
    and "map_of r = (map_of d) |` (t_key ` set mapping)"
proof -
  define p where "p t = (case map_of s (from_key t) of None \<Rightarrow> None
      | Some w \<Rightarrow> Some (t_key t, projr (from_fn t w)))" for t :: transform_entry
  have run: "p t = map_option (\<lambda>v. (t_key t, v)) (map_of d (t_key t)) \<and>
      (\<forall>w. map_of s (from_key t) = Some w \<longrightarrow> from_fn t w = Inr (projr (from_fn t w)))"
    if t: "t \<in> set mapping" for t
  proof (cases "map_of d (t_key t)")
    case (Some v)
    then obtain w where "to_fn t v = Inr w" "from_fn t w = Inr v"
      using assms(1) [OF t] inverse [OF t] by blast
    then show ?thesis using assms(2) [OF t] keys_match [OF t] Some by (simp add: p_def)
  qed (use assms(2) [OF t] keys_match [OF t] in \<open>simp add: p_def\<close>)
  have conv: "convert_from_dest mapping s = Inr (dupdate [] (List.map_filter p mapping))"
    unfolding convert_from_dest_def
  proof (rule foldE_update)
    fix t assume "t \<in> set mapping"
    then have "from_fn t w = Inr (projr (from_fn t w))" if "map_of s (from_key t) = Some w" for w
      using run that by blast
    then show "(\<lambda>converted. case map_of s (from_key t) of None \<Rightarrow> Inr converted
        | Some w \<Rightarrow> bindE (from_fn t w) (\<lambda>v. Inr (AList.update (t_key t) v converted))) =
      (case p t of None \<Rightarrow> Inr | Some kv \<Rightarrow> \<lambda>c. Inr (AList.update (fst kv) (snd kv) c))"
      by (cases "map_of s (from_key t)") (simp_all add: p_def, metis bindE_simps(2))
  qed
  have dm: "map_of (dupdate [] (List.map_filter p mapping)) = map_of (List.map_filter p mapping)"
  proof -
    have "distinct (map fst (List.map_filter p mapping))"
      using keys_distinct by (rule distinct_map_filter) (auto simp: p_def split: option.splits)
    then show ?thesis by (simp add: map_of_dupdate)
  qed
  have eq: "map_of (List.map_filter p mapping) k = ((map_of d) |` (t_key ` set mapping)) k" for k
  proof (cases "k \<in> t_key ` set mapping")
    case True
    then obtain t where t: "t \<in> set mapping" "k = t_key t" by blast
    have "map_of (List.map_filter p mapping) (t_key t) = map_option snd (p t)"
      using keys_distinct t(1) by (rule map_of_map_filter) (auto simp: p_def split: option.splits)
    then show ?thesis using run [OF t(1)] t by (simp add: option.map_comp comp_def option.map_ident)
  next
    case False
    have "fst ` set (List.map_filter p mapping) \<subseteq> t_key ` set mapping"
      by (auto simp: List.map_filter_def p_def split: option.splits)
    with False show ?thesis by (auto simp: restrict_map_def map_of_eq_None_iff)
  qed
  show ?thesis by (rule that [OF conv]) (simp only: dm eq fun_eq_iff simp_thms)
qed

end

end
