(* ===== verification/Durability.thy ===== *)
theory Durability
  imports Utils
begin

text \<open>
  \<open>couchbase/durability.py\<close>: the durability enumerations, their names on the server
  and the parser that turns a durability option into what the core takes; and
  \<open>couchbase/mutation_state.py\<close> with the token of \<open>couchbase/result.py\<close>: the set of
  mutations that a query has to see.

  \<open>enum_codec\<close> is the contract of an enumeration that is sent as a string: reading
  back what a member was written as gives the member.
\<close>

locale enum_codec =
  fixes members :: "pyval list"
    and to_str :: "pyval \<Rightarrow> pyval"
    and from_str :: "pyval \<Rightarrow> pyval res"
  assumes codec: "m \<in> set members \<Longrightarrow> from_str (to_str m) = Inr m"
begin

lemma to_str_inj: "m \<in> set members \<Longrightarrow> n \<in> set members \<Longrightarrow> to_str m = to_str n \<Longrightarrow> m = n"
  using codec by (metis sum.inject(2))

lemma from_str_onto: "set members \<subseteq> {m. \<exists>v. from_str v = Inr m}"
  using codec by blast

lemma distinct_strings: "distinct members \<Longrightarrow> distinct (map to_str members)"
  using to_str_inj by (auto simp: distinct_map inj_on_def)

end

subsection \<open>Enumerations\<close>

definition ReplicateTo :: "pyval list" where
  "ReplicateTo =
     [PIntEnum ''ReplicateTo'' ''NONE'' 0, PIntEnum ''ReplicateTo'' ''ONE'' 1,
      PIntEnum ''ReplicateTo'' ''TWO'' 2, PIntEnum ''ReplicateTo'' ''THREE'' 3]"

definition PersistTo :: "pyval list" where
  "PersistTo =
     [PIntEnum ''PersistTo'' ''NONE'' 0, PIntEnum ''PersistTo'' ''ONE'' 2,
      PIntEnum ''PersistTo'' ''TWO'' 3, PIntEnum ''PersistTo'' ''THREE'' 4]"

definition PersistToExtended :: "pyval list" where
  "PersistToExtended =
     [PIntEnum ''PersistToExtended'' ''NONE'' 0, PIntEnum ''PersistToExtended'' ''ACTIVE'' 1,
      PIntEnum ''PersistToExtended'' ''ONE'' 2, PIntEnum ''PersistToExtended'' ''TWO'' 3,
      PIntEnum ''PersistToExtended'' ''THREE'' 4, PIntEnum ''PersistToExtended'' ''FOUR'' 5]"

definition DurabilityLevel_NONE :: pyval where
  "DurabilityLevel_NONE = PIntEnum ''DurabilityLevel'' ''NONE'' 0"

definition DurabilityLevel_MAJORITY :: pyval where
  "DurabilityLevel_MAJORITY = PIntEnum ''DurabilityLevel'' ''MAJORITY'' 1"

definition DurabilityLevel_MAJORITY_AND_PERSIST_TO_ACTIVE :: pyval where
  "DurabilityLevel_MAJORITY_AND_PERSIST_TO_ACTIVE =
     PIntEnum ''DurabilityLevel'' ''MAJORITY_AND_PERSIST_TO_ACTIVE'' 2"

definition DurabilityLevel_PERSIST_TO_MAJORITY :: pyval where
  "DurabilityLevel_PERSIST_TO_MAJORITY = PIntEnum ''DurabilityLevel'' ''PERSIST_TO_MAJORITY'' 3"

lemmas DurabilityLevel_defs =
  DurabilityLevel_NONE_def DurabilityLevel_MAJORITY_def
  DurabilityLevel_MAJORITY_AND_PERSIST_TO_ACTIVE_def DurabilityLevel_PERSIST_TO_MAJORITY_def

definition DurabilityLevel :: "pyval list" where
  "DurabilityLevel =
     [DurabilityLevel_NONE, DurabilityLevel_MAJORITY,
      DurabilityLevel_MAJORITY_AND_PERSIST_TO_ACTIVE, DurabilityLevel_PERSIST_TO_MAJORITY]"

definition DurabilityLevel_to_server_str :: "pyval \<Rightarrow> pyval" where
  "DurabilityLevel_to_server_str value =
     (if py_eq value DurabilityLevel_MAJORITY_AND_PERSIST_TO_ACTIVE
      then PStr ''majorityAndPersistActive''
      else if py_eq value DurabilityLevel_NONE then PStr ''none''
      else if py_eq value DurabilityLevel_MAJORITY then PStr ''majority''
      else if py_eq value DurabilityLevel_PERSIST_TO_MAJORITY then PStr ''persistToMajority''
      else PStr ''none'')"

definition DurabilityLevel_from_server_str :: "pyval \<Rightarrow> pyval" where
  "DurabilityLevel_from_server_str value =
     (if value = PStr ''majorityAndPersistActive''
      then DurabilityLevel_MAJORITY_AND_PERSIST_TO_ACTIVE
      else if value = PStr ''none'' then DurabilityLevel_NONE
      else if value = PStr ''majority'' then DurabilityLevel_MAJORITY
      else if value = PStr ''persistToMajority'' then DurabilityLevel_PERSIST_TO_MAJORITY
      else DurabilityLevel_NONE)"

lemma DurabilityLevel_str_simps [simp]:
  "DurabilityLevel_to_server_str DurabilityLevel_NONE = PStr ''none''"
  "DurabilityLevel_to_server_str DurabilityLevel_MAJORITY = PStr ''majority''"
  "DurabilityLevel_to_server_str DurabilityLevel_MAJORITY_AND_PERSIST_TO_ACTIVE =
     PStr ''majorityAndPersistActive''"
  "DurabilityLevel_to_server_str DurabilityLevel_PERSIST_TO_MAJORITY = PStr ''persistToMajority''"
  by (simp_all add: DurabilityLevel_to_server_str_def DurabilityLevel_defs)

lemma DurabilityLevel_of_str_simps [simp]:
  "DurabilityLevel_from_server_str (PStr ''none'') = DurabilityLevel_NONE"
  "DurabilityLevel_from_server_str (PStr ''majority'') = DurabilityLevel_MAJORITY"
  "DurabilityLevel_from_server_str (PStr ''majorityAndPersistActive'') =
     DurabilityLevel_MAJORITY_AND_PERSIST_TO_ACTIVE"
  "DurabilityLevel_from_server_str (PStr ''persistToMajority'') =
     DurabilityLevel_PERSIST_TO_MAJORITY"
  by (simp_all add: DurabilityLevel_from_server_str_def)

interpretation durability_level: enum_codec DurabilityLevel DurabilityLevel_to_server_str
  "\<lambda>v. Inr (DurabilityLevel_from_server_str v)"
proof
  fix m assume "m \<in> set DurabilityLevel"
  then consider "m = DurabilityLevel_NONE" | "m = DurabilityLevel_MAJORITY"
    | "m = DurabilityLevel_MAJORITY_AND_PERSIST_TO_ACTIVE"
    | "m = DurabilityLevel_PERSIST_TO_MAJORITY"
    unfolding DurabilityLevel_def by auto
  then show "Inr (DurabilityLevel_from_server_str (DurabilityLevel_to_server_str m)) = (Inr m :: pyval res)"
    by cases simp_all
qed

subsection \<open>Durability options\<close>

definition ClientDurability :: "pyval \<Rightarrow> pyval \<Rightarrow> pyval" where
  "ClientDurability replicate_to persist_to =
     PInst ''ClientDurability'' [(''_replicate_to'', replicate_to), (''_persist_to'', persist_to)]"

definition ServerDurability :: "pyval \<Rightarrow> pyval" where
  "ServerDurability level = PInst ''ServerDurability'' [(''_level'', level)]"

fun attr :: "pyval \<Rightarrow> string \<Rightarrow> pyval" where
  "attr (PInst c d) a = dget d a PNone"
| "attr v a = PNone"

fun is_instance_of :: "pyval \<Rightarrow> string \<Rightarrow> bool" where
  "is_instance_of (PInst c d) k = (c = k)"
| "is_instance_of v k = False"

text \<open>
  The attribute \<open>value\<close>, which the members of an enumeration have and numbers or strings have not: a
  level that is given as a number makes the parser raise \<open>AttributeError\<close>.
\<close>

definition value_attr :: "pyval \<Rightarrow> pyval res" where
  "value_attr v = (case v of PEnum _ _ _ \<Rightarrow> Inr (enum_value v) | PIntEnum _ _ _ \<Rightarrow> Inr (enum_value v)
     | PInst _ d \<Rightarrow> (case map_of d ''value'' of Some w \<Rightarrow> Inr w | None \<Rightarrow> Inl AttributeError)
     | _ \<Rightarrow> Inl AttributeError)"

definition parse_durability :: "pyval \<Rightarrow> pyval res" where
  "parse_durability durability =
     (if is_instance_of durability ''ClientDurability''
      then bindE (value_attr (attr durability ''_replicate_to'')) (\<lambda>replicate_to.
           bindE (value_attr (attr durability ''_persist_to'')) (\<lambda>persist_to.
             Inr (pdict [(''replicate_to'', replicate_to), (''persist_to'', persist_to)])))
      else if is_instance_of durability ''ServerDurability''
      then value_attr (attr durability ''_level'')
      else Inr PNone)"

lemma parse_durability_simps [py_simps]:
  "parse_durability (ClientDurability r p) =
     bindE (value_attr r) (\<lambda>r. bindE (value_attr p) (\<lambda>p. Inr (pdict [(''replicate_to'', r), (''persist_to'', p)])))"
  "parse_durability (ServerDurability l) = value_attr l"
  by (simp_all add: parse_durability_def ClientDurability_def ServerDurability_def)

lemma value_attr_simps [py_simps]:
  "value_attr (PEnum c n v) = Inr (enum_value (PEnum c n v))"
  "value_attr (PIntEnum c n i) = Inr (enum_value (PIntEnum c n i))"
  "value_attr (PInt i) = Inl AttributeError" "value_attr (PStr s) = Inl AttributeError"
  "value_attr PNone = Inl AttributeError"
  by (simp_all add: value_attr_def)

text \<open>The level the core receives determines the level that was asked for.\<close>

lemma server_durability_inj:
  "l \<in> set DurabilityLevel \<Longrightarrow> m \<in> set DurabilityLevel \<Longrightarrow>
     parse_durability (ServerDurability l) = parse_durability (ServerDurability m) \<Longrightarrow> l = m"
  by (auto simp: py_simps DurabilityLevel_def DurabilityLevel_defs)

subsection \<open>Mutation tokens and states\<close>

record mutation_token =
  partition_id :: int
  partition_uuid :: int
  sequence_number :: int
  bucket_name :: string

definition as_dict :: "mutation_token \<Rightarrow> pydict" where
  "as_dict t = [(''partition_id'', PInt (partition_id t)), (''partition_uuid'', PInt (partition_uuid t)),
     (''sequence_number'', PInt (sequence_number t)), (''bucket_name'', PStr (bucket_name t))]"

lemma as_dict_inj: "as_dict t = as_dict u \<Longrightarrow> t = u"
  by (cases t; cases u) (simp add: as_dict_def)

text \<open>
  The state is the set \<open>_sv\<close>.  A result of a mutation is modelled by what its
  \<open>mutation_token()\<close> returns, \<open>None\<close> when the server sent none.  A call that
  raises keeps the tokens it had added before, so the state is returned beside
  the outcome.
\<close>

record mutation_state =
  sv :: "mutation_token set"

definition empty_state :: mutation_state where
  "empty_state = \<lparr>sv = {}\<rparr>"

definition add_mutation_token :: "mutation_token option \<Rightarrow> mutation_state \<Rightarrow> mutation_state" where
  "add_mutation_token mut_token s =
     (case mut_token of None \<Rightarrow> s | Some t \<Rightarrow> s\<lparr>sv := insert t (sv s)\<rparr>)"

definition add_scanvec ::
  "mutation_token option \<Rightarrow> mutation_state \<Rightarrow> bool \<times> mutation_state" where
  "add_scanvec mut_token s =
     (case mut_token of None \<Rightarrow> (False, s) | Some t \<Rightarrow> (True, s\<lparr>sv := insert t (sv s)\<rparr>))"

fun add_results_loop ::
  "bool \<Rightarrow> mutation_token option list \<Rightarrow> mutation_state \<Rightarrow> bool res \<times> mutation_state" where
  "add_results_loop quiet [] s = (Inr True, s)"
| "add_results_loop quiet (rv # rvs) s =
     (if rv = None
      then (if quiet then (Inr False, s) else (Inl MissingTokenException, s))
      else let (added, s') = add_scanvec rv s
           in if \<not> added then (Inr False, s') else add_results_loop quiet rvs s')"

definition add_results ::
  "bool \<Rightarrow> mutation_token option list \<Rightarrow> mutation_state \<Rightarrow> bool res \<times> mutation_state" where
  "add_results quiet rvs s =
     (if rvs = [] then (Inl MissingTokenException, s) else add_results_loop quiet rvs s)"

definition MutationState_init :: "bool \<Rightarrow> mutation_token option list \<Rightarrow> mutation_state res" where
  "MutationState_init quiet docs =
     (if docs \<noteq> []
      then (case add_results quiet docs empty_state of
              (Inl e, s) \<Rightarrow> Inl e
            | (Inr b, s) \<Rightarrow> Inr s)
      else Inr empty_state)"

lemma add_results_loop_eq:
  "add_results_loop quiet rvs s =
     ((if None \<in> set rvs then (if quiet then Inr False else Inl MissingTokenException) else Inr True),
      s\<lparr>sv := sv s \<union> {t. Some t \<in> set (takeWhile (\<lambda>r. r \<noteq> None) rvs)}\<rparr>)"
proof (induction rvs arbitrary: s)
  case (Cons rv rvs)
  show ?case
  proof (cases rv)
    case None
    then show ?thesis by simp
  next
    case (Some t)
    have "{u. u = t \<or> Some u \<in> A} = insert t {u. Some u \<in> A}" for A by auto
    then show ?thesis using Some by (auto simp: add_scanvec_def Cons.IH)
  qed
qed simp

end
