(* ===== verification/Options.thy ===== *)
theory Options
  imports Durability
begin

text \<open>
  The option dictionaries: \<open>forward_args\<close> of \<open>couchbase/options.py\<close>, \<open>get_valid_args\<close>
  and the multi-operation options of \<open>couchbase/logic/options.py\<close>, the enumerations
  and the bounded integers of that file.

  An option table maps the name of an option to the names it is sent under, each
  with its transform.  The calls of the standard library that depend on the
  outside, the clock \<open>time()\<close> and the text \<open>str(x)\<close> of a value, are fields of a
  \<open>py_env\<close> that the definitions take as an argument.
\<close>

record py_env =
  time_now :: rat
  str_of :: "pyval \<Rightarrow> string"

type_synonym opt_table = "(string \<times> (string \<times> (pyval \<Rightarrow> pyval res)) list) list"

subsection \<open>Merging options and keyword arguments\<close>

text \<open>A dictionary whose keys are all strings, where the code hands it on as keyword arguments.\<close>

fun str_items :: "(pyval \<times> pyval) list \<Rightarrow> pydict option" where
  "str_items [] = Some []"
| "str_items ((k, v) # d) =
     (case k of PStr s \<Rightarrow> map_option ((#) (s, v)) (str_items d) | _ \<Rightarrow> None)"

text \<open>
  \<open>update\<close> takes over every entry of \<open>arg_vars.pop("kwargs", {})\<close>; an entry whose key is no string names
  no option.  A value that is no dictionary is not accepted.
\<close>

definition str_keys :: "(pyval \<times> pyval) list \<Rightarrow> pydict" where
  "str_keys d = List.map_filter (\<lambda>(k, v). case k of PStr s \<Rightarrow> Some (s, v) | _ \<Rightarrow> None) d"

lemma str_keys_simps [simp]:
  "str_keys [] = []"
  "str_keys ((PStr s, v) # d) = (s, v) # str_keys d"
  "str_keys (map (\<lambda>(k, v). (PStr k, v)) e) = e"
  by (simp_all add: str_keys_def) (induction e; auto simp: List.map_filter_def)

definition nested_kwargs :: "pydict \<Rightarrow> pydict res" where
  "nested_kwargs arg_vars =
     (case map_of arg_vars ''kwargs'' of
        None \<Rightarrow> Inr []
      | Some (PDict d) \<Rightarrow> Inr (str_keys d)
      | Some _ \<Rightarrow> Inl TypeError)"

definition get_temp_opts :: "pydict \<Rightarrow> pydict list \<Rightarrow> pydict res" where
  "get_temp_opts arg_vars options =
     (let temp_options = (case options of [] \<Rightarrow> [] | d # _ \<Rightarrow> d)
      in bindE (nested_kwargs arg_vars) (\<lambda>kwargs.
           Inr (dupdate (dupdate temp_options kwargs) (AList.delete ''kwargs'' arg_vars))))"

text \<open>A keyword argument that names a positional parameter makes the call raise.\<close>

definition no_clash :: "string list \<Rightarrow> pydict \<Rightarrow> pydict res" where
  "no_clash params kwargs = (if list_ex (dhas kwargs) params then Inl TypeError else Inr kwargs)"

subsection \<open>Applying an option table\<close>

definition convert_option ::
  "(string \<times> (pyval \<Rightarrow> pyval res)) list \<Rightarrow> pyval \<Rightarrow> pydict \<Rightarrow> pydict res" where
  "convert_option map_item v end_options =
     foldE (\<lambda>(out_k, out_f) opts. bindE (out_f v) (\<lambda>converted.
        Inr (if converted \<noteq> PNone then AList.update out_k converted opts else opts)))
       map_item end_options"

definition forward_step :: "opt_table \<Rightarrow> string \<times> pyval \<Rightarrow> pydict \<Rightarrow> pydict res" where
  "forward_step tab kv end_options =
     (case map_of tab (fst kv) of
        Some map_item \<Rightarrow> convert_option map_item (snd kv) end_options
      | None \<Rightarrow> Inr (AList.update (fst kv) (snd kv) end_options))"

definition lock_seconds :: "pyval \<Rightarrow> pyval res" where
  "lock_seconds x = (case x of PTimedelta us \<Rightarrow> Inr (PInt (py_trunc (total_seconds us)))
     | _ \<Rightarrow> Inl AttributeError)"

definition py_int :: "int res \<Rightarrow> pyval res" where
  "py_int r = bindE r (\<lambda>i. Inr (PInt i))"

definition arg_mapping :: "py_env \<Rightarrow> opt_table" where
  "arg_mapping env =
     [(''spec'', [(''specs'', Inr)]),
      (''id'', []),
      (''timeout'', [(''timeout'', \<lambda>x. py_int (timedelta_as_microseconds x))]),
      (''expiry'', [(''expiry'', \<lambda>x. py_int (timedelta_as_timestamp (time_now env) x))]),
      (''lock_time'', [(''lock_time'', lock_seconds)]),
      (''self'', []),
      (''options'', []),
      (''durability'', [(''durability'', parse_durability)]),
      (''disable_scoring'', [(''disable_scoring'', \<lambda>x. Inr (if truthy x then PBool True else PNone))]),
      (''preserve_expiry'', [(''preserve_expiry'', Inr)]),
      (''report_id'', [(''report_id'', \<lambda>x. Inr (PStr (str_of env x)))]),
      (''batch_byte_limit'', [(''batch_byte_limit'', validate_int)]),
      (''batch_item_limit'', [(''batch_item_limit'', validate_int)]),
      (''concurrency'', [(''concurrency'', validate_int)]),
      (''read_preference'', [(''read_preference'', value_attr)])]"

definition forward_args :: "py_env \<Rightarrow> pydict \<Rightarrow> pydict list \<Rightarrow> pydict res" where
  "forward_args env arg_vars options =
     bindE (get_temp_opts arg_vars options) (\<lambda>temp_options.
       foldE (forward_step (arg_mapping env)) temp_options [])"

definition valid_step :: "opt_table \<Rightarrow> string \<times> pyval \<Rightarrow> pydict \<Rightarrow> pydict res" where
  "valid_step tab kv final_options =
     (case map_of tab (fst kv) of
        None \<Rightarrow> Inr final_options
      | Some items \<Rightarrow> convert_option items (snd kv) final_options)"

definition get_valid_args :: "opt_table \<Rightarrow> pydict \<Rightarrow> pydict list \<Rightarrow> pydict res" where
  "get_valid_args valid_opts arg_vars options =
     bindE (get_temp_opts arg_vars options) (\<lambda>temp_options.
       foldE (valid_step valid_opts) temp_options [])"

subsection \<open>Options of the multi operations\<close>

definition VALID_MULTI_OPTS :: "py_env \<Rightarrow> (string \<times> (pyval \<Rightarrow> pyval res)) list" where
  "VALID_MULTI_OPTS env =
     [(''timeout'', \<lambda>x. py_int (timedelta_as_microseconds x)),
      (''expiry'', \<lambda>x. py_int (timedelta_as_timestamp (time_now env) x)),
      (''preserve_expiry'', validate_bool),
      (''with_expiry'', validate_bool),
      (''cas'', validate_int),
      (''durability'', parse_durability),
      (''transcoder'', Inr),
      (''span'', Inr),
      (''project'', Inr),
      (''delta'', Inr),
      (''initial'', Inr),
      (''read_preference'', value_attr),
      (''per_key_options'', Inr),
      (''return_exceptions'', validate_bool)]"

definition multi_step ::
  "py_env \<Rightarrow> string list \<Rightarrow> string \<times> pyval \<Rightarrow> pydict \<Rightarrow> pydict res" where
  "multi_step env valid_opt_keys kv final_opts =
     (if fst kv \<notin> set valid_opt_keys then Inr final_opts
      else case map_of (VALID_MULTI_OPTS env) (fst kv) of
        None \<Rightarrow> Inr final_opts
      | Some transform \<Rightarrow>
          bindE (transform (snd kv)) (\<lambda>w. Inr (AList.update (fst kv) w final_opts)))"

definition get_valid_global_multi_opts ::
  "py_env \<Rightarrow> pydict \<Rightarrow> string list \<Rightarrow> pydict res" where
  "get_valid_global_multi_opts env temp_options valid_opt_keys =
     (if temp_options = [] then Inr [] else foldE (multi_step env valid_opt_keys) temp_options [])"

definition get_per_key_opts ::
  "py_env \<Rightarrow> (pyval \<times> pyval) list \<Rightarrow> string list \<Rightarrow> (pyval \<times> pyval) list res" where
  "get_per_key_opts env per_key_opts valid_opt_keys =
     foldE (\<lambda>(key, opts) final.
        case opts of
          PDict d \<Rightarrow> bindE (foldE (multi_step env valid_opt_keys) (str_keys d) [])
             (\<lambda>key_opts. Inr (AList.update key (pdict key_opts) final))
        | _ \<Rightarrow> Inl InvalidArgumentException)
       per_key_opts []"

definition get_valid_multi_args ::
  "py_env \<Rightarrow> string list \<Rightarrow> pydict \<Rightarrow> pydict list \<Rightarrow> pydict res" where
  "get_valid_multi_args env valid_opt_keys arg_vars options =
     bindE (get_temp_opts arg_vars options) (\<lambda>temp_options.
       bindE (get_valid_global_multi_opts env temp_options valid_opt_keys) (\<lambda>final_opts.
         if temp_options = [] then Inr final_opts
         else case map_of temp_options ''per_key_options'' of
             None \<Rightarrow> Inr final_opts
           | Some pk \<Rightarrow>
               if \<not> truthy pk then Inr final_opts
               else case pk of
                   PDict d \<Rightarrow> bindE (get_per_key_opts env d valid_opt_keys) (\<lambda>final_key_opts.
                     Inr (AList.update ''per_key_options'' (PDict final_key_opts) final_opts))
                 | _ \<Rightarrow> Inl AttributeError))"

subsection \<open>Bounded integers\<close>

datatype cint = SignedInt64 | UnsignedInt32 | UnsignedInt64 | DeltaValue

fun cint_max :: "cint \<Rightarrow> int" where
  "cint_max SignedInt64 = 0x7FFFFFFFFFFFFFFF"
| "cint_max UnsignedInt32 = 0x00000000"
| "cint_max UnsignedInt64 = 0x8000000000000000"
| "cint_max DeltaValue = 0x7FFFFFFFFFFFFFFF"

fun cint_min :: "cint \<Rightarrow> int" where
  "cint_min SignedInt64 = -0x8000000000000000"
| "cint_min UnsignedInt32 = 0x80000000"
| "cint_min UnsignedInt64 = 0x0000000000000000"
| "cint_min DeltaValue = 0"

fun cint_name :: "cint \<Rightarrow> string" where
  "cint_name SignedInt64 = ''SignedInt64''"
| "cint_name UnsignedInt32 = ''UnsignedInt32''"
| "cint_name UnsignedInt64 = ''UnsignedInt64''"
| "cint_name DeltaValue = ''DeltaValue''"

text \<open>An \<open>Enum\<close> member and an object have a \<open>value\<close> attribute, a number has none.\<close>

definition item_value :: "pyval \<Rightarrow> pyval" where
  "item_value item = (case value_attr item of Inr w \<Rightarrow> w | Inl _ \<Rightarrow> item)"

definition verify_value :: "cint \<Rightarrow> pyval \<Rightarrow> pyval res" where
  "verify_value cls item =
     (let value = item_value item
      in case int_of value of
           None \<Rightarrow> Inl InvalidArgumentException
         | Some i \<Rightarrow> if \<not> (cint_min cls \<le> i \<and> i \<le> cint_max cls)
                     then Inl InvalidArgumentException else Inr value)"

definition ConstrainedInt :: "cint \<Rightarrow> pyval \<Rightarrow> pyval res" where
  "ConstrainedInt cls value =
     bindE (verify_value cls value) (\<lambda>v. Inr (PInst (cint_name cls) [(''value'', v)]))"

definition cint_is_valid :: "cint \<Rightarrow> pyval \<Rightarrow> bool" where
  "cint_is_valid cls item = is_instance_of item (cint_name cls)"

definition cint_int :: "pyval \<Rightarrow> pyval" where
  "cint_int self = attr self ''value''"

text \<open>\<open>__add__\<close> checks the bounds and has no \<open>return\<close>.\<close>

definition cint_add :: "cint \<Rightarrow> pyval \<Rightarrow> int \<Rightarrow> pyval res" where
  "cint_add cls self other =
     (case int_of (cint_int self) of
        None \<Rightarrow> Inl TypeError
      | Some i \<Rightarrow> if \<not> (cint_min cls \<le> i + other \<and> i + other \<le> cint_max cls)
                  then Inl InvalidArgumentException else Inr PNone)"

subsection \<open>Enumerations of the options\<close>

definition IpProtocol :: "pyval list" where
  "IpProtocol = [PEnum ''IpProtocol'' ''Any'' ''any'', PEnum ''IpProtocol'' ''ForceIPv4'' ''force_ipv4'',
     PEnum ''IpProtocol'' ''ForceIPv6'' ''force_ipv6'']"

definition IpProtocol_from_str :: "pyval \<Rightarrow> pyval res" where
  "IpProtocol_from_str value =
     (if value = PStr ''any'' then Inr (PEnum ''IpProtocol'' ''Any'' ''any'')
      else if value = PStr ''force_ipv4'' then Inr (PEnum ''IpProtocol'' ''ForceIPv4'' ''force_ipv4'')
      else if value = PStr ''force_ipv6'' then Inr (PEnum ''IpProtocol'' ''ForceIPv6'' ''force_ipv6'')
      else Inl InvalidArgumentException)"

definition IpProtocol_to_str :: "pyval \<Rightarrow> pyval res" where
  "IpProtocol_to_str value =
     (if value \<in> set IpProtocol then Inr (enum_value value)
      else if value = PStr ''any'' \<or> value = PStr ''force_ipv4'' \<or> value = PStr ''force_ipv6''
      then Inr value
      else Inl InvalidArgumentException)"

definition TLSVerifyMode :: "pyval list" where
  "TLSVerifyMode = [PEnum ''TLSVerifyMode'' ''NONE'' ''none'', PEnum ''TLSVerifyMode'' ''PEER'' ''peer'',
     PEnum ''TLSVerifyMode'' ''NO_VERIFY'' ''no_verify'']"

definition TLSVerifyMode_from_str :: "pyval \<Rightarrow> pyval res" where
  "TLSVerifyMode_from_str value =
     (if value = PStr ''none'' then Inr (PEnum ''TLSVerifyMode'' ''NONE'' ''none'')
      else if value = PStr ''peer'' then Inr (PEnum ''TLSVerifyMode'' ''PEER'' ''peer'')
      else if value = PStr ''no_verify'' then Inr (PEnum ''TLSVerifyMode'' ''NONE'' ''none'')
      else Inl InvalidArgumentException)"

definition TLSVerifyMode_to_str :: "pyval \<Rightarrow> pyval res" where
  "TLSVerifyMode_to_str value =
     (if value \<in> set TLSVerifyMode
      then (if value = PEnum ''TLSVerifyMode'' ''NO_VERIFY'' ''no_verify'' then Inr (PStr ''none'')
            else Inr (enum_value value))
      else if value = PStr ''none'' then Inr (PStr ''none'')
      else if value = PStr ''peer'' then Inr (PStr ''peer'')
      else if value = PStr ''no_verify'' then Inr (PStr ''none'')
      else Inl InvalidArgumentException)"

interpretation ip_protocol: enum_codec IpProtocol enum_value IpProtocol_from_str
proof
  fix m assume "m \<in> set IpProtocol"
  then consider "m = PEnum ''IpProtocol'' ''Any'' ''any''"
    | "m = PEnum ''IpProtocol'' ''ForceIPv4'' ''force_ipv4''"
    | "m = PEnum ''IpProtocol'' ''ForceIPv6'' ''force_ipv6''"
    unfolding IpProtocol_def by auto
  then show "IpProtocol_from_str (enum_value m) = Inr m"
    by cases (simp_all add: IpProtocol_from_str_def)
qed

subsection \<open>What an option table does to a dictionary\<close>

lemma convert_option_frame:
  "convert_option items v e = Inr r \<Longrightarrow> out \<notin> fst ` set items \<Longrightarrow> map_of r out = map_of e out"
proof (induction items arbitrary: e)
  case (Cons kf items)
  obtain out_k f where kf: "kf = (out_k, f)" by fastforce
  from Cons.prems(1) obtain w where "f v = Inr w"
    "convert_option items v (if w \<noteq> PNone then AList.update out_k w e else e) = Inr r"
    by (auto simp: convert_option_def kf bindE_eq_Inr)
  with Cons.IH Cons.prems(2) show ?case by (auto simp: kf dict_simps split: if_splits)
qed (simp add: convert_option_def)

lemma convert_option_single:
  "convert_option [(out, f)] v e =
     bindE (f v) (\<lambda>w. Inr (if w \<noteq> PNone then AList.update out w e else e))"
  by (cases "f v") (simp_all add: convert_option_def)

text \<open>
  An option sent under its own name only, by a table in which no other option uses
  that name, is in the result exactly when its transform gives a value other than
  \<open>None\<close>, and then with that value.
\<close>

definition sole_source :: "opt_table \<Rightarrow> string \<Rightarrow> (pyval \<Rightarrow> pyval res) \<Rightarrow> bool" where
  "sole_source tab k f \<longleftrightarrow> map_of tab k = Some [(k, f)] \<and>
     (\<forall>k' items. k' \<noteq> k \<longrightarrow> map_of tab k' = Some items \<longrightarrow> k \<notin> fst ` set items)"

definition converted :: "(pyval \<Rightarrow> pyval res) \<Rightarrow> pyval option \<Rightarrow> pyval option \<Rightarrow> pyval option" where
  "converted f given old =
     (case given of None \<Rightarrow> old
      | Some v \<Rightarrow> (case f v of Inl _ \<Rightarrow> old | Inr w \<Rightarrow> if w = PNone then old else Some w))"

lemma forward_lookup_from:
  assumes "sole_source tab k f" "distinct (map fst d)" "foldE (forward_step tab) d e = Inr r"
  shows "map_of r k = converted f (map_of d k) (map_of e k)"
  using assms(2,3)
proof (induction d arbitrary: e)
  case Nil
  then show ?case by (simp add: converted_def)
next
  case (Cons kv d)
  obtain k' v where kv: "kv = (k', v)" by fastforce
  from Cons.prems(2) obtain e' where e': "forward_step tab kv e = Inr e'"
    "foldE (forward_step tab) d e' = Inr r" by (auto simp: bindE_eq_Inr)
  have IH: "map_of r k = converted f (map_of d k) (map_of e' k)"
    using Cons.IH [OF _ e'(2)] Cons.prems(1) by simp
  show ?case
  proof (cases "k' = k")
    case True
    have "map_of d k = None" using Cons.prems(1) True kv by (simp add: map_of_eq_None_iff)
    moreover have "map_of e' k = converted f (Some v) (map_of e k)"
      using e'(1) True kv assms(1)
      by (auto simp: forward_step_def sole_source_def convert_option_single converted_def
          dict_simps bindE_eq_Inr)
    ultimately show ?thesis using IH True kv by (simp add: converted_def)
  next
    case False
    have "map_of e' k = map_of e k"
    proof (cases "map_of tab k'")
      case None
      then show ?thesis using e'(1) False kv by (auto simp: forward_step_def dict_simps)
    next
      case (Some items)
      then have "k \<notin> fst ` set items" using assms(1) False by (auto simp: sole_source_def)
      then show ?thesis using e'(1) kv Some convert_option_frame
        by (auto simp: forward_step_def)
    qed
    then show ?thesis using IH False kv by simp
  qed
qed

text \<open>
  The merged dictionary: a keyword argument overrides the option of the same name.
\<close>

definition merged_opt :: "pydict \<Rightarrow> pydict list \<Rightarrow> string \<Rightarrow> pyval option" where
  "merged_opt kwargs options k =
     (case map_of kwargs k of Some v \<Rightarrow> Some v
      | None \<Rightarrow> (case options of [] \<Rightarrow> None | d # _ \<Rightarrow> map_of d k))"

definition wf_args :: "pydict \<Rightarrow> pydict list \<Rightarrow> bool" where
  "wf_args kwargs options \<longleftrightarrow>
     distinct (map fst kwargs) \<and> (\<forall>d \<in> set options. distinct (map fst d)) \<and> \<not> dhas kwargs ''kwargs''"

lemma distinct_dupdate:
  "distinct (map fst d) \<Longrightarrow> distinct (map fst (dupdate d e))"
proof -
  have "distinct (map fst (fold (\<lambda>(k, v). AList.update k v) e d))"
    if "distinct (map fst d)" for e d :: pydict
    using that by (induction e arbitrary: d) (auto simp: distinct_update)
  then show "distinct (map fst d) \<Longrightarrow> ?thesis" by (simp add: dupdate_def)
qed

lemma delete_absent: "\<not> dhas d k \<Longrightarrow> AList.delete k d = d"
proof (induction d)
  case (Cons kv d)
  then show ?case by (cases kv) (auto simp: dhas_def split: if_splits)
qed simp

lemma get_temp_opts_wf:
  assumes "wf_args kwargs options"
  shows "\<exists>t. get_temp_opts kwargs options = Inr t \<and> distinct (map fst t) \<and>
           (\<forall>k. map_of t k = merged_opt kwargs options k)"
proof -
  define o' :: pydict where "o' = (case options of [] \<Rightarrow> [] | d # _ \<Rightarrow> d)"
  have n: "map_of kwargs ''kwargs'' = None" using assms by (simp add: wf_args_def dhas_def)
  have d: "distinct (map fst o')" "distinct (map fst kwargs)"
    using assms by (auto simp: wf_args_def o'_def split: list.splits)
  have u: "dupdate o' [] = o'" by (simp add: dupdate_def)
  have 1: "get_temp_opts kwargs options = Inr (dupdate o' kwargs)"
    using assms n u by (simp add: get_temp_opts_def nested_kwargs_def delete_absent wf_args_def o'_def)
  have 2: "map_of (dupdate o' kwargs) k = merged_opt kwargs options k" for k
    using d by (auto simp: map_of_dupdate merged_opt_def o'_def map_add_def split: option.splits list.splits)
  show ?thesis using 1 distinct_dupdate [OF d(1)] 2 by blast
qed

lemma forward_args_lookup:
  assumes "wf_args kwargs options" "sole_source (arg_mapping env) k f"
    and "forward_args env kwargs options = Inr r"
  shows "map_of r k = converted f (merged_opt kwargs options k) None"
proof -
  from assms(1) obtain t where t: "get_temp_opts kwargs options = Inr t" "distinct (map fst t)"
    "\<forall>k. map_of t k = merged_opt kwargs options k" using get_temp_opts_wf by blast
  then have "foldE (forward_step (arg_mapping env)) t [] = Inr r"
    using assms(3) by (simp add: forward_args_def)
  from forward_lookup_from [OF assms(2) t(2) this] show ?thesis by (simp add: t(3))
qed

lemma sole_sourceI:
  assumes "map_of tab k = Some [(k, f)]"
    and "list_all (\<lambda>(k', items). k' = k \<or> k \<notin> fst ` set items) tab"
  shows "sole_source tab k f"
proof -
  have "k \<notin> fst ` set items" if "k' \<noteq> k" "map_of tab k' = Some items" for k' items
    using that assms(2) map_of_SomeD [of tab k' items] by (auto simp: list_all_iff)
  with assms(1) show ?thesis by (auto simp: sole_source_def)
qed

lemma sole_timeout:
  "sole_source (arg_mapping env) ''timeout'' (\<lambda>x. py_int (timedelta_as_microseconds x))"
  by (rule sole_sourceI) (simp_all add: arg_mapping_def)

lemma sole_expiry:
  "sole_source (arg_mapping env) ''expiry'' (\<lambda>x. py_int (timedelta_as_timestamp (time_now env) x))"
  by (rule sole_sourceI) (simp_all add: arg_mapping_def)

lemma sole_durability:
  "sole_source (arg_mapping env) ''durability'' parse_durability"
  by (rule sole_sourceI) (simp_all add: arg_mapping_def)

lemma sole_preserve_expiry: "sole_source (arg_mapping env) ''preserve_expiry'' Inr"
  by (rule sole_sourceI) (simp_all add: arg_mapping_def)


lemma convert_option_ok:
  "(\<exists>r. convert_option items v e = Inr r) \<longleftrightarrow> (\<forall>kf \<in> set items. \<exists>w. snd kf v = Inr w)"
  unfolding convert_option_def
proof (rule foldE_ok_iff)
  fix kf :: "string \<times> (pyval \<Rightarrow> pyval res)" and s :: pydict
  show "(\<exists>t. (case kf of (out_k, out_f) \<Rightarrow> \<lambda>opts. bindE (out_f v) (\<lambda>converted.
      Inr (if converted \<noteq> PNone then AList.update out_k converted opts else opts))) s = Inr t) \<longleftrightarrow>
    (\<exists>w. snd kf v = Inr w)"
    by (cases "snd kf v") (auto simp: case_prod_unfold)
qed

definition accepted :: "opt_table \<Rightarrow> string \<Rightarrow> pyval \<Rightarrow> bool" where
  "accepted tab k v \<longleftrightarrow>
     (case map_of tab k of None \<Rightarrow> True | Some items \<Rightarrow> \<forall>kf \<in> set items. \<exists>w. snd kf v = Inr w)"

lemma forward_step_ok: "(\<exists>r. forward_step tab kv e = Inr r) \<longleftrightarrow> accepted tab (fst kv) (snd kv)"
  by (auto simp: forward_step_def accepted_def convert_option_ok split: option.splits)

lemma forward_args_ok:
  assumes "wf_args kwargs options"
  shows "(\<exists>r. forward_args env kwargs options = Inr r) \<longleftrightarrow>
    (\<forall>k v. merged_opt kwargs options k = Some v \<longrightarrow> accepted (arg_mapping env) k v)"
proof -
  from get_temp_opts_wf [OF assms] obtain t where t: "get_temp_opts kwargs options = Inr t"
    "distinct (map fst t)" "\<forall>k. map_of t k = merged_opt kwargs options k" by blast
  have "(\<exists>r. forward_args env kwargs options = Inr r) \<longleftrightarrow>
      (\<forall>kv \<in> set t. accepted (arg_mapping env) (fst kv) (snd kv))"
    using foldE_ok_iff [OF forward_step_ok] by (simp add: forward_args_def t(1))
  also have "\<dots> \<longleftrightarrow> (\<forall>k v. map_of t k = Some v \<longrightarrow> accepted (arg_mapping env) k v)"
    using t(2) by force
  finally show ?thesis using t(3) by simp
qed

text \<open>A name that the table neither knows nor sends anything under is passed through.\<close>

lemma not_sent:
  "list_all (\<lambda>(k', items). k \<notin> fst ` set items) tab \<Longrightarrow>
     \<forall>k' items. map_of tab k' = Some items \<longrightarrow> k \<notin> fst ` set items"
proof (intro allI impI)
  fix k' items
  assume "list_all (\<lambda>(k', items). k \<notin> fst ` set items) tab" "map_of tab k' = Some items"
  then show "k \<notin> fst ` set items" using map_of_SomeD [of tab k' items] by (auto simp: list_all_iff)
qed

lemma forward_foreign_from:
  assumes "map_of tab k = None" "\<forall>k' items. map_of tab k' = Some items \<longrightarrow> k \<notin> fst ` set items"
    "distinct (map fst d)" "foldE (forward_step tab) d e = Inr r"
  shows "map_of r k = (case map_of d k of None \<Rightarrow> map_of e k | Some v \<Rightarrow> Some v)"
  using assms(3,4)
proof (induction d arbitrary: e)
  case (Cons kv d)
  obtain k' v where kv: "kv = (k', v)" by fastforce
  from Cons.prems(2) obtain e' where e': "forward_step tab kv e = Inr e'"
    "foldE (forward_step tab) d e' = Inr r" by (auto simp: bindE_eq_Inr)
  have IH: "map_of r k = (case map_of d k of None \<Rightarrow> map_of e' k | Some v \<Rightarrow> Some v)"
    using Cons.IH [OF _ e'(2)] Cons.prems(1) by simp
  have "map_of e' k = (if k' = k then Some v else map_of e k)"
  proof (cases "map_of tab k'")
    case None
    then show ?thesis using e'(1) kv by (auto simp: forward_step_def dict_simps)
  next
    case (Some items)
    then have "k \<notin> fst ` set items" "k' \<noteq> k" using assms(1,2) by auto
    then show ?thesis using e'(1) kv Some convert_option_frame by (auto simp: forward_step_def)
  qed
  moreover have "k' = k \<Longrightarrow> map_of d k = None"
    using Cons.prems(1) kv by (auto simp: map_of_eq_None_iff)
  ultimately show ?case using IH kv by (auto split: option.splits)
qed simp

lemma forward_args_foreign:
  assumes "wf_args kwargs options" "map_of (arg_mapping env) k = None"
    "list_all (\<lambda>(k', items). k \<notin> fst ` set items) (arg_mapping env)"
    and "forward_args env kwargs options = Inr r"
  shows "map_of r k = merged_opt kwargs options k"
proof -
  from get_temp_opts_wf [OF assms(1)] obtain t where t: "get_temp_opts kwargs options = Inr t"
    "distinct (map fst t)" "\<forall>k. map_of t k = merged_opt kwargs options k" by blast
  have "foldE (forward_step (arg_mapping env)) t [] = Inr r"
    using assms(4) by (simp add: forward_args_def t(1))
  from forward_foreign_from [OF assms(2) not_sent [OF assms(3)] t(2) this]
  have m: "map_of r k = (case map_of t k of None \<Rightarrow> map_of [] k | Some v \<Rightarrow> Some v)" .
  have "map_of t k = merged_opt kwargs options k" using t(3) by blast
  then show ?thesis unfolding m by (simp split: option.split)
qed

subsection \<open>Properties\<close>

text \<open>Every option of the table is sent under one name, and only \<open>specs\<close> is not its own.\<close>

lemma arg_mapping_sole: "map_of (arg_mapping env) k = Some [(k, f)] \<Longrightarrow> sole_source (arg_mapping env) k f"
  by (rule sole_sourceI) (auto simp: arg_mapping_def split: if_splits)

lemma not_an_option: "map_of (arg_mapping env) k = None \<Longrightarrow> k \<noteq> ''specs'' \<Longrightarrow>
    list_all (\<lambda>(k', items). k \<notin> fst ` set items) (arg_mapping env)"
  by (auto simp: arg_mapping_def split: if_splits)

text \<open>C14. \<open>forward_args\<close> succeeds exactly when each transform of the option table
  accepts the value that the merged dictionary (keyword arguments over the options
  block) gives it.  The result then holds every option of the table converted by its transform, among them
  the timeout in microseconds, the expiry as a timestamp and the parsed durability, leaves out what
  converts to \<open>None\<close>, and passes on every option that is not in the table unchanged (\<open>specs\<close> is the name
  under which the table sends \<open>spec\<close>).\<close>

theorem forward_args_correct:
  assumes "wf_args kwargs options"
  shows "((\<exists>r. forward_args env kwargs options = Inr r) \<longleftrightarrow>
       (\<forall>k v. merged_opt kwargs options k = Some v \<longrightarrow> accepted (arg_mapping env) k v)) \<and>
     (\<forall>r. forward_args env kwargs options = Inr r \<longrightarrow>
       map_of r ''timeout'' = converted (\<lambda>x. py_int (timedelta_as_microseconds x))
          (merged_opt kwargs options ''timeout'') None \<and>
       map_of r ''expiry'' = converted (\<lambda>x. py_int (timedelta_as_timestamp (time_now env) x))
          (merged_opt kwargs options ''expiry'') None \<and>
       map_of r ''durability'' = converted parse_durability (merged_opt kwargs options ''durability'') None \<and>
       (\<forall>k f. map_of (arg_mapping env) k = Some [(k, f)] \<longrightarrow>
          map_of r k = converted f (merged_opt kwargs options k) None) \<and>
       (\<forall>k. map_of (arg_mapping env) k = None \<and> k \<noteq> ''specs'' \<longrightarrow> map_of r k = merged_opt kwargs options k))"
proof (intro conjI allI impI; (elim conjE)?)
  fix r assume r: "forward_args env kwargs options = Inr r"
  note look = forward_args_lookup [OF assms _ r]
  show "map_of r ''timeout'' = converted (\<lambda>x. py_int (timedelta_as_microseconds x))
      (merged_opt kwargs options ''timeout'') None" by (rule look [OF sole_timeout])
  show "map_of r ''expiry'' = converted (\<lambda>x. py_int (timedelta_as_timestamp (time_now env) x))
      (merged_opt kwargs options ''expiry'') None" by (rule look [OF sole_expiry])
  show "map_of r ''durability'' = converted parse_durability (merged_opt kwargs options ''durability'') None"
    by (rule look [OF sole_durability])
  show "map_of r k = converted f (merged_opt kwargs options k) None"
    if "map_of (arg_mapping env) k = Some [(k, f)]" for k f
    by (rule look [OF arg_mapping_sole [OF that]])
  show "map_of r k = merged_opt kwargs options k"
    if "map_of (arg_mapping env) k = None" "k \<noteq> ''specs''" for k
    by (rule forward_args_foreign [OF assms that(1) not_an_option [OF that] r])
qed (rule forward_args_ok [OF assms])

theorem forward_args_correct_witness:
  "\<exists>r. forward_args \<lparr>time_now = 1700000000, str_of = \<lambda>_. ''''\<rparr>
      [(''timeout'', PTimedelta 2000000), (''adhoc'', PBool True)] [[(''timeout'', PTimedelta 5000000), (''cas'', PInt 7)]] = Inr r \<and>
     map_of r ''timeout'' = Some (PInt 2000000) \<and> map_of r ''cas'' = Some (PInt 7) \<and> map_of r ''adhoc'' = Some (PBool True) \<and>
   (\<nexists>r. forward_args \<lparr>time_now = 1700000000, str_of = \<lambda>_. ''''\<rparr> [(''durability'', ServerDurability (PInt 1))] [] = Inr r)"
proof -
  let ?env = "\<lparr>time_now = 1700000000, str_of = \<lambda>_. ''''\<rparr>"
  let ?k = "[(''timeout'', PTimedelta 2000000), (''adhoc'', PBool True)]"
  let ?o = "[[(''timeout'', PTimedelta 5000000), (''cas'', PInt 7)]]"
  have wf: "wf_args ?k ?o" by (simp add: wf_args_def)
  note C = forward_args_correct [OF wf, of ?env]
  have two: "td_micros 2000000 = 2000000" using td_micros_whole_seconds [of 2] by simp
  have "merged_opt ?k ?o k = Some v \<Longrightarrow> accepted (arg_mapping ?env) k v" for k v
    by (auto simp: merged_opt_def accepted_def arg_mapping_def py_simps py_int_def split: if_splits)
  with C obtain r where r: "forward_args ?env ?k ?o = Inr r" by blast
  have "map_of r ''timeout'' = Some (PInt 2000000)"
    using C r by (simp add: merged_opt_def converted_def py_simps py_int_def two)
  moreover have "map_of r ''cas'' = Some (PInt 7)" "map_of r ''adhoc'' = Some (PBool True)"
    using C r by (simp_all add: arg_mapping_def merged_opt_def)
  moreover have "wf_args [(''durability'', ServerDurability (PInt 1))] []" by (simp add: wf_args_def)
  from forward_args_correct [OF this, of ?env]
  have "\<nexists>r. forward_args ?env [(''durability'', ServerDurability (PInt 1))] [] = Inr r"
    by (auto simp: merged_opt_def accepted_def arg_mapping_def py_simps)
  ultimately show ?thesis using r by blast
qed

text \<open>A bounded integer is built from a value exactly when that is an integer (or
  an object holding one) within the class's bounds; the class \<open>UnsignedInt32\<close>, whose
  bounds are declared the wrong way round, accepts no value at all.\<close>

theorem ConstrainedInt_accepts:
  "(\<exists>c. ConstrainedInt cls v = Inr c) \<longleftrightarrow>
     cls \<noteq> UnsignedInt32 \<and>
     (\<exists>i. int_of (item_value v) = Some i \<and> cint_min cls \<le> i \<and> i \<le> cint_max cls)"
proof (cases "int_of (item_value v)")
  case None
  then show ?thesis by (simp add: ConstrainedInt_def verify_value_def)
next
  case (Some i)
  then show ?thesis
    by (cases cls) (auto simp: ConstrainedInt_def verify_value_def Let_def split: if_splits)
qed

end
