(* ===== verification/Py_Text.thy ===== *)
theory Py_Text
  imports Py_Base
begin

text \<open>
  Text and bytes of Python: a \<open>str\<close> is the list of its code points, \<open>bytes\<close> a list
  of octets, and \<open>encode('utf-8')\<close> and \<open>decode('utf-8')\<close> are the strict codec
  (surrogates do not encode; overlong forms, surrogates and values above
  \<open>0x10FFFF\<close> do not decode).  \<open>tval\<close> is the type of document contents; a
  \<open>TObject\<close> stands for an instance of any class outside the listed ones.
\<close>

type_synonym octets = "8 word list"
type_synonym ustr = "nat list"

subsection \<open>UTF-8\<close>

definition is_scalar :: "nat \<Rightarrow> bool" where
  "is_scalar c \<longleftrightarrow> c < 0xD800 \<or> 0xE000 \<le> c \<and> c < 0x110000"

definition utf8_char :: "nat \<Rightarrow> octets" where
  "utf8_char c =
     (if c < 0x80 then [word_of_nat c]
      else if c < 0x800 then [word_of_nat (0xC0 + c div 64), word_of_nat (0x80 + c mod 64)]
      else if c < 0x10000 then
        [word_of_nat (0xE0 + c div 4096), word_of_nat (0x80 + c div 64 mod 64),
         word_of_nat (0x80 + c mod 64)]
      else [word_of_nat (0xF0 + c div 262144), word_of_nat (0x80 + c div 4096 mod 64),
         word_of_nat (0x80 + c div 64 mod 64), word_of_nat (0x80 + c mod 64)])"

fun utf8_encode :: "ustr \<Rightarrow> octets option" where
  "utf8_encode [] = Some []"
| "utf8_encode (c # cs) =
     (if is_scalar c then map_option ((@) (utf8_char c)) (utf8_encode cs) else None)"

definition cont :: "8 word \<Rightarrow> nat option" where
  "cont b = (let n = unat b in if 0x80 \<le> n \<and> n < 0xC0 then Some (n - 0x80) else None)"

text \<open>The first character of a non-empty sequence and what follows it.\<close>

definition utf8_take :: "8 word \<Rightarrow> octets \<Rightarrow> (nat \<times> octets) option" where
  "utf8_take b bs =
     (let n = unat b in
      if n < 0x80 then Some (n, bs)
      else if 0xC2 \<le> n \<and> n < 0xE0 then
        (case bs of b1 # r \<Rightarrow> map_option (\<lambda>x. ((n - 0xC0) * 64 + x, r)) (cont b1) | _ \<Rightarrow> None)
      else if 0xE0 \<le> n \<and> n < 0xF0 then
        (case bs of b1 # b2 # r \<Rightarrow>
           (case (cont b1, cont b2) of (Some x, Some y) \<Rightarrow>
              (let c = (n - 0xE0) * 4096 + x * 64 + y
               in if 0x800 \<le> c \<and> is_scalar c then Some (c, r) else None)
            | _ \<Rightarrow> None)
         | _ \<Rightarrow> None)
      else if 0xF0 \<le> n \<and> n < 0xF5 then
        (case bs of b1 # b2 # b3 # r \<Rightarrow>
           (case (cont b1, cont b2, cont b3) of (Some x, Some y, Some z) \<Rightarrow>
              (let c = (n - 0xF0) * 262144 + x * 4096 + y * 64 + z
               in if 0x10000 \<le> c \<and> c < 0x110000 then Some (c, r) else None)
            | _ \<Rightarrow> None)
         | _ \<Rightarrow> None)
      else None)"

lemma utf8_take_length: "utf8_take b bs = Some (c, r) \<Longrightarrow> length r \<le> length bs"
  by (auto simp: utf8_take_def Let_def split: if_splits list.splits option.splits)

function utf8_decode :: "octets \<Rightarrow> ustr option" where
  "utf8_decode [] = Some []"
| "utf8_decode (b # bs) =
     (case utf8_take b bs of None \<Rightarrow> None
      | Some (c, r) \<Rightarrow> map_option ((#) c) (utf8_decode r))"
  by pat_completeness auto
termination
  by (relation "measure length") (auto dest: utf8_take_length)

lemma unat_octet [simp]: "n < 256 \<Longrightarrow> unat (word_of_nat n :: 8 word) = n"
  by (simp add: unat_of_nat take_bit_eq_mod)

lemma sixes2: "c div 4096 * 4096 + c div 64 mod 64 * 64 + c mod 64 = (c :: nat)"
proof -
  have "c div 4096 = c div 64 div 64" by (simp flip: div_mult2_eq)
  then show ?thesis
    using div_mult_mod_eq [of c 64] div_mult_mod_eq [of "c div 64" 64] by linarith
qed

lemma sixes3:
  "c div 262144 * 262144 + c div 4096 mod 64 * 4096 + c div 64 mod 64 * 64 + c mod 64 = (c :: nat)"
proof -
  have "c div 262144 = c div 4096 div 64" by (simp flip: div_mult2_eq)
  then show ?thesis using sixes2 [of c] div_mult_mod_eq [of "c div 4096" 64] by linarith
qed

lemma cont_octet [simp]: "x < 64 \<Longrightarrow> cont (word_of_nat (0x80 + x)) = Some x"
  by (simp add: cont_def del: of_nat_add)

lemma utf8_char_cons: "\<exists>b bs. utf8_char c = b # bs"
  by (simp add: utf8_char_def)

lemma utf8_take_char:
  assumes "is_scalar c" "utf8_char c = b # bs"
  shows "utf8_take b (bs @ r) = Some (c, r)"
proof -
  have lt: "c < 0x110000" using assms(1) by (auto simp: is_scalar_def)
  have mod: "x mod 64 < 64" for x :: nat by simp
  consider "c < 0x80" | "0x80 \<le> c" "c < 0x800" | "0x800 \<le> c" "c < 0x10000" | "0x10000 \<le> c"
    by linarith
  then show ?thesis
  proof cases
    case 1
    then show ?thesis using assms(2) by (auto simp: utf8_char_def utf8_take_def)
  next
    case 2
    then have b: "b = word_of_nat (0xC0 + c div 64)" "bs = [word_of_nat (0x80 + c mod 64)]"
      using assms(2) by (auto simp: utf8_char_def)
    have n: "2 \<le> c div 64" "c div 64 < 32" using 2 by linarith+
    have "unat b = 0xC0 + c div 64" using n b(1) by (simp del: of_nat_add)
    then show ?thesis using n by (simp add: utf8_take_def b(2) Let_def cont_octet [OF mod] del: of_nat_add)
  next
    case 3
    then have b: "b = word_of_nat (0xE0 + c div 4096)"
      "bs = [word_of_nat (0x80 + c div 64 mod 64), word_of_nat (0x80 + c mod 64)]"
      using assms(2) by (auto simp: utf8_char_def)
    have n: "c div 4096 < 16" using 3 by linarith
    have "unat b = 0xE0 + c div 4096" using n b(1) by (simp del: of_nat_add)
    then show ?thesis using n 3 assms(1) sixes2 [of c]
      by (simp add: utf8_take_def b(2) Let_def cont_octet [OF mod] del: of_nat_add)
  next
    case 4
    then have b: "b = word_of_nat (0xF0 + c div 262144)"
      "bs = [word_of_nat (0x80 + c div 4096 mod 64), word_of_nat (0x80 + c div 64 mod 64),
             word_of_nat (0x80 + c mod 64)]"
      using assms(2) by (auto simp: utf8_char_def)
    have n: "c div 262144 < 5" using lt by linarith
    have "unat b = 0xF0 + c div 262144" using n b(1) by (simp del: of_nat_add)
    then show ?thesis using n 4 lt sixes3 [of c]
      by (simp add: utf8_take_def b(2) Let_def cont_octet [OF mod] del: of_nat_add)
  qed
qed

lemma utf8_encode_some: "utf8_encode cs \<noteq> None \<longleftrightarrow> list_all is_scalar cs"
  by (induction cs) (auto split: if_splits)

lemma utf8_roundtrip: "utf8_encode cs = Some bs \<Longrightarrow> utf8_decode bs = Some cs"
proof (induction cs arbitrary: bs)
  case (Cons c cs)
  then obtain rs where rs: "is_scalar c" "utf8_encode cs = Some rs" "bs = utf8_char c @ rs"
    by (auto split: if_splits)
  obtain b us where u: "utf8_char c = b # us" using utf8_char_cons by blast
  show ?case using rs Cons.IH [OF rs(2)] utf8_take_char [OF rs(1) u, of rs] u by simp
qed simp

subsection \<open>Document contents\<close>

datatype pyfloat = Finite rat | NaN | PosInf | NegInf

datatype tval =
    TNone
  | TBool bool
  | TInt int
  | TFloat pyfloat
  | TStr ustr
  | TBytes octets
  | TBytearray octets
  | TList "tval list"
  | TTuple "tval list"
  | TDict "(tval \<times> tval) list"
  | TObject nat

text \<open>\<open>s.encode('utf-8')\<close> and \<open>b.decode('utf-8')\<close>.\<close>

definition str_encode :: "ustr \<Rightarrow> tval res" where
  "str_encode s = (case utf8_encode s of Some bs \<Rightarrow> Inr (TBytes bs) | None \<Rightarrow> Inl ValueError)"

definition decode_utf8 :: "tval \<Rightarrow> ustr res" where
  "decode_utf8 v =
     (case v of
        TBytes bs \<Rightarrow> (case utf8_decode bs of Some s \<Rightarrow> Inr s | None \<Rightarrow> Inl UnicodeDecodeError)
      | TBytearray bs \<Rightarrow> (case utf8_decode bs of Some s \<Rightarrow> Inr s | None \<Rightarrow> Inl UnicodeDecodeError)
      | _ \<Rightarrow> Inl AttributeError)"

end
