(* ===== verification/Json.thy ===== *)
theory Json
  imports Py_Text
begin

text \<open>
  The two calls of the standard library's \<open>json\<close> module that
  \<open>couchbase/serializer.py\<close> and \<open>couchbase/transcoder.py\<close> make,
  \<open>json.dumps(v, ensure_ascii=False)\<close> and \<open>json.loads(s)\<close>, on lists of code
  points.  \<open>float.__repr__\<close> and \<open>float(text)\<close> are fields of a \<open>py_floats\<close>.

  The scanner takes a bound on the depth of its recursion; \<open>parse_value_fuel\<close> shows
  that the bound of \<open>loads\<close> is never what stops it, and \<open>loads_dumps\<close> that it reads
  back what \<open>dumps\<close> wrote.
\<close>

record py_floats =
  float_repr :: "rat \<Rightarrow> ustr"
  float_parse :: "ustr \<Rightarrow> pyfloat"

subsection \<open>Writing\<close>

fun digits :: "nat \<Rightarrow> ustr" where
  "digits n = (if n < 10 then [48 + n] else digits (n div 10) @ [48 + n mod 10])"

declare digits.simps [simp del]

definition int_repr :: "int \<Rightarrow> ustr" where
  "int_repr i = (if i < 0 then 45 # digits (nat (- i)) else digits (nat i))"

definition hex_digit :: "nat \<Rightarrow> nat" where
  "hex_digit d = (if d < 10 then 48 + d else 87 + d)"

definition escape_char :: "nat \<Rightarrow> ustr" where
  "escape_char c =
     (if c = 34 then [92, 34] else if c = 92 then [92, 92]
      else if c = 10 then [92, 110] else if c = 13 then [92, 114]
      else if c = 9 then [92, 116] else if c = 12 then [92, 102]
      else if c = 8 then [92, 98]
      else if c < 32 then [92, 117, 48, 48, hex_digit (c div 16), hex_digit (c mod 16)]
      else [c])"

definition json_string :: "ustr \<Rightarrow> ustr" where
  "json_string s = 34 # concat (map escape_char s) @ [34]"

definition null_text :: ustr where "null_text = [110, 117, 108, 108]"
definition true_text :: ustr where "true_text = [116, 114, 117, 101]"
definition false_text :: ustr where "false_text = [102, 97, 108, 115, 101]"
definition nan_text :: ustr where "nan_text = [78, 97, 78]"
definition inf_text :: ustr where "inf_text = [73, 110, 102, 105, 110, 105, 116, 121]"

lemmas literal_defs = null_text_def true_text_def false_text_def nan_text_def inf_text_def

fun float_text :: "py_floats \<Rightarrow> pyfloat \<Rightarrow> ustr" where
  "float_text fs (Finite q) = float_repr fs q"
| "float_text fs NaN = nan_text"
| "float_text fs PosInf = inf_text"
| "float_text fs NegInf = 45 # inf_text"

fun key_text :: "py_floats \<Rightarrow> tval \<Rightarrow> ustr res" where
  "key_text fs (TStr s) = Inr s"
| "key_text fs TNone = Inr null_text"
| "key_text fs (TBool b) = Inr (if b then true_text else false_text)"
| "key_text fs (TInt i) = Inr (int_repr i)"
| "key_text fs (TFloat x) = Inr (float_text fs x)"
| "key_text fs _ = Inl TypeError"

fun join :: "ustr \<Rightarrow> ustr list \<Rightarrow> ustr" where
  "join sep [] = []"
| "join sep [t] = t"
| "join sep (t # ts) = t @ sep @ join sep ts"

lemma size_dict_value: "kv \<in> set d \<Longrightarrow> size (snd kv) < size (TDict d)"
proof (induction d)
  case (Cons a d)
  then show ?case by (cases a) auto
qed simp

lemma size_list_elem: "x \<in> set xs \<Longrightarrow> size (x :: tval) < Suc (size_list size xs)"
  by (induction xs) auto

function dumps :: "py_floats \<Rightarrow> tval \<Rightarrow> ustr res" where
  "dumps fs TNone = Inr null_text"
| "dumps fs (TBool b) = Inr (if b then true_text else false_text)"
| "dumps fs (TInt i) = Inr (int_repr i)"
| "dumps fs (TFloat x) = Inr (float_text fs x)"
| "dumps fs (TStr s) = Inr (json_string s)"
| "dumps fs (TList xs) =
     bindE (mapE (dumps fs) xs) (\<lambda>ts. Inr (91 # join [44, 32] ts @ [93]))"
| "dumps fs (TTuple xs) =
     bindE (mapE (dumps fs) xs) (\<lambda>ts. Inr (91 # join [44, 32] ts @ [93]))"
| "dumps fs (TDict d) =
     bindE (mapE (\<lambda>kv. bindE (key_text fs (fst kv)) (\<lambda>k. bindE (dumps fs (snd kv)) (\<lambda>t.
         Inr (json_string k @ [58, 32] @ t)))) d)
       (\<lambda>ts. Inr (123 # join [44, 32] ts @ [125]))"
| "dumps fs (TBytes b) = Inl TypeError"
| "dumps fs (TBytearray b) = Inl TypeError"
| "dumps fs (TObject n) = Inl TypeError"
  by pat_completeness auto

termination
  by (relation "measure (size \<circ> snd)") (auto dest: size_list_elem size_dict_value)

subsection \<open>Reading\<close>

definition is_ws :: "nat \<Rightarrow> bool" where
  "is_ws c \<longleftrightarrow> c = 32 \<or> c = 9 \<or> c = 10 \<or> c = 13"

definition skip_ws :: "ustr \<Rightarrow> ustr" where
  "skip_ws s = dropWhile is_ws s"

definition is_digit :: "nat \<Rightarrow> bool" where
  "is_digit c \<longleftrightarrow> 48 \<le> c \<and> c \<le> 57"

definition hex_value :: "nat \<Rightarrow> nat option" where
  "hex_value c =
     (if 48 \<le> c \<and> c \<le> 57 then Some (c - 48)
      else if 97 \<le> c \<and> c \<le> 102 then Some (c - 87)
      else if 65 \<le> c \<and> c \<le> 70 then Some (c - 55) else None)"

definition hex4 :: "ustr \<Rightarrow> (nat \<times> ustr) option" where
  "hex4 s = (case s of a # b # c # d # r \<Rightarrow>
       (case (hex_value a, hex_value b, hex_value c, hex_value d) of
          (Some w, Some x, Some y, Some z) \<Rightarrow> Some (w * 4096 + x * 256 + y * 16 + z, r)
        | _ \<Rightarrow> None)
     | _ \<Rightarrow> None)"

definition simple_escape :: "nat \<Rightarrow> nat option" where
  "simple_escape e =
     (if e = 34 \<or> e = 92 \<or> e = 47 then Some e
      else if e = 98 then Some 8 else if e = 102 then Some 12 else if e = 110 then Some 10
      else if e = 114 then Some 13 else if e = 116 then Some 9 else None)"

text \<open>The second half of a surrogate pair, when one follows.\<close>

definition low_surrogate :: "ustr \<Rightarrow> (nat \<times> ustr) option" where
  "low_surrogate s = (case s of a # b # r \<Rightarrow>
       (if a = 92 \<and> b = 117 then
          (case hex4 r of Some (v, r') \<Rightarrow> if 0xDC00 \<le> v \<and> v < 0xE000 then Some (v, r') else None
           | None \<Rightarrow> None)
        else None)
     | _ \<Rightarrow> None)"

definition scan_escape :: "ustr \<Rightarrow> (nat \<times> ustr) option" where
  "scan_escape s = (case s of [] \<Rightarrow> None | e # r \<Rightarrow>
     (if e = 117 then
        (case hex4 r of None \<Rightarrow> None
         | Some (u, r') \<Rightarrow>
             (if 0xD800 \<le> u \<and> u < 0xDC00 then
                (case low_surrogate r' of
                   Some (v, r'') \<Rightarrow> Some (0x10000 + (u - 0xD800) * 1024 + (v - 0xDC00), r'')
                 | None \<Rightarrow> Some (u, r'))
              else Some (u, r')))
      else map_option (\<lambda>c. (c, r)) (simple_escape e)))"

lemma hex4_length: "hex4 s = Some (u, r) \<Longrightarrow> length r < length s"
  by (auto simp: hex4_def split: list.splits option.splits)

lemma low_surrogate_length: "low_surrogate s = Some (u, r) \<Longrightarrow> length r < length s"
  by (auto simp: low_surrogate_def split: list.splits option.splits if_splits dest!: hex4_length)

lemma scan_escape_length: "scan_escape s = Some (u, r) \<Longrightarrow> length r < length s"
  by (auto simp: scan_escape_def split: list.splits option.splits if_splits
      dest!: hex4_length low_surrogate_length)

function scan_string :: "ustr \<Rightarrow> (ustr \<times> ustr) option" where
  "scan_string [] = None"
| "scan_string (c # r) =
     (if c = 34 then Some ([], r)
      else if c = 92 then
        (case scan_escape r of None \<Rightarrow> None
         | Some (x, r') \<Rightarrow> map_option (apfst ((#) x)) (scan_string r'))
      else if c < 32 then None
      else map_option (apfst ((#) c)) (scan_string r))"
  by pat_completeness auto
termination
  by (relation "measure length") (auto dest: scan_escape_length)

definition scan_int :: "ustr \<Rightarrow> (ustr \<times> ustr) option" where
  "scan_int s = (case s of [] \<Rightarrow> None | c # r \<Rightarrow>
     (if c = 48 then Some ([48], r)
      else if is_digit c then Some (takeWhile is_digit s, dropWhile is_digit s) else None))"

definition scan_sign :: "ustr \<Rightarrow> ustr \<times> ustr" where
  "scan_sign s = (case s of c # r \<Rightarrow> if c = 45 then ([45], r) else ([], s) | [] \<Rightarrow> ([], s))"

definition scan_frac :: "ustr \<Rightarrow> ustr \<times> ustr" where
  "scan_frac s = (case s of c # r \<Rightarrow>
       if c = 46 \<and> takeWhile is_digit r \<noteq> [] then (46 # takeWhile is_digit r, dropWhile is_digit r)
       else ([], s)
     | [] \<Rightarrow> ([], s))"

definition scan_exp :: "ustr \<Rightarrow> ustr \<times> ustr" where
  "scan_exp s = (case s of c # r \<Rightarrow>
       (let (sg, ds) = (case r of d # r' \<Rightarrow> if d = 43 \<or> d = 45 then ([d], r') else ([], r) | [] \<Rightarrow> ([], r))
        in if (c = 101 \<or> c = 69) \<and> takeWhile is_digit ds \<noteq> []
           then (c # sg @ takeWhile is_digit ds, dropWhile is_digit ds) else ([], s))
     | [] \<Rightarrow> ([], s))"

definition digits_value :: "ustr \<Rightarrow> int" where
  "digits_value ds = foldl (\<lambda>a d. a * 10 + (int d - 48)) 0 ds"

definition scan_number :: "py_floats \<Rightarrow> ustr \<Rightarrow> (tval \<times> ustr) option" where
  "scan_number fs s =
     (let (sg, s1) = scan_sign s in
      case scan_int s1 of None \<Rightarrow> None
      | Some (ip, s2) \<Rightarrow>
          (let (fr, s3) = scan_frac s2; (ex, s4) = scan_exp s3
           in Some (if fr = [] \<and> ex = []
                    then TInt (if sg = [] then digits_value ip else - digits_value ip)
                    else TFloat (float_parse fs (sg @ ip @ fr @ ex)), s4)))"

definition literal :: "ustr \<Rightarrow> tval \<Rightarrow> ustr \<Rightarrow> (tval \<times> ustr) option" where
  "literal t v s = (if take (length t) s = t then Some (v, drop (length t) s) else None)"

text \<open>What is left when no bracket or quote opens the value.\<close>

definition scan_atom :: "py_floats \<Rightarrow> ustr \<Rightarrow> (tval \<times> ustr) option" where
  "scan_atom fs s =
     (case literal null_text TNone s of Some x \<Rightarrow> Some x | None \<Rightarrow>
      (case literal true_text (TBool True) s of Some x \<Rightarrow> Some x | None \<Rightarrow>
       (case literal false_text (TBool False) s of Some x \<Rightarrow> Some x | None \<Rightarrow>
        (case literal nan_text (TFloat NaN) s of Some x \<Rightarrow> Some x | None \<Rightarrow>
         (case literal inf_text (TFloat PosInf) s of Some x \<Rightarrow> Some x | None \<Rightarrow>
          (case literal (45 # inf_text) (TFloat NegInf) s of Some x \<Rightarrow> Some x | None \<Rightarrow>
             scan_number fs s))))))"

fun parse_value :: "py_floats \<Rightarrow> nat \<Rightarrow> ustr \<Rightarrow> (tval \<times> ustr) option"
  and parse_elems :: "py_floats \<Rightarrow> nat \<Rightarrow> ustr \<Rightarrow> (tval list \<times> ustr) option"
  and parse_members ::
    "py_floats \<Rightarrow> nat \<Rightarrow> (tval \<times> tval) list \<Rightarrow> ustr \<Rightarrow> ((tval \<times> tval) list \<times> ustr) option" where
  "parse_value fs 0 s = None"
| "parse_value fs (Suc n) s = (case s of [] \<Rightarrow> None | c # r \<Rightarrow>
     (if c = 34 then map_option (apfst TStr) (scan_string r)
      else if c = 123 then (case skip_ws r of [] \<Rightarrow> None | d # r' \<Rightarrow>
        (if d = 125 then Some (TDict [], r')
         else map_option (apfst TDict) (parse_members fs n [] (d # r'))))
      else if c = 91 then (case skip_ws r of [] \<Rightarrow> None | d # r' \<Rightarrow>
        (if d = 93 then Some (TList [], r')
         else map_option (apfst TList) (parse_elems fs n (d # r'))))
      else scan_atom fs s))"
| "parse_elems fs 0 s = None"
| "parse_elems fs (Suc n) s = (case parse_value fs n s of None \<Rightarrow> None | Some (v, r) \<Rightarrow>
     (case skip_ws r of [] \<Rightarrow> None | c # r' \<Rightarrow>
        (if c = 93 then Some ([v], r')
         else if c = 44 then map_option (apfst ((#) v)) (parse_elems fs n (skip_ws r'))
         else None)))"
| "parse_members fs 0 d s = None"
| "parse_members fs (Suc n) d s = (case s of [] \<Rightarrow> None | q # r \<Rightarrow>
     (if q \<noteq> 34 then None else case scan_string r of None \<Rightarrow> None | Some (k, r1) \<Rightarrow>
       (case skip_ws r1 of [] \<Rightarrow> None | c # r2 \<Rightarrow>
         (if c \<noteq> 58 then None else case parse_value fs n (skip_ws r2) of None \<Rightarrow> None
          | Some (v, r3) \<Rightarrow> (case skip_ws r3 of [] \<Rightarrow> None | e # r4 \<Rightarrow>
             (if e = 125 then Some (AList.update (TStr k) v d, r4)
              else if e = 44 then parse_members fs n (AList.update (TStr k) v d) (skip_ws r4)
              else None))))))"

definition loads :: "py_floats \<Rightarrow> ustr \<Rightarrow> tval res" where
  "loads fs s =
     (if take 1 s = [0xFEFF] then Inl JSONDecodeError
      else case parse_value fs (2 * length s + 2) (skip_ws s) of None \<Rightarrow> Inl JSONDecodeError
      | Some (v, r) \<Rightarrow> if skip_ws r = [] then Inr v else Inl JSONDecodeError)"


subsection \<open>The bound on the recursion is never reached\<close>

lemma skip_ws_length: "length (skip_ws s) \<le> length s"
  by (simp add: skip_ws_def length_dropWhile_le)

lemma skip_ws_Cons_length: "skip_ws s = c # r \<Longrightarrow> length r < length s"
  using skip_ws_length [of s] by simp

lemma scan_string_length: "scan_string s = Some (t, r) \<Longrightarrow> length r < length s"
proof (induction s arbitrary: t r rule: scan_string.induct)
  case (2 c s)
  then show ?case
    by (fastforce split: if_splits option.splits dest!: scan_escape_length)
qed simp

lemma scan_int_length: "scan_int s = Some (t, r) \<Longrightarrow> length r < length s"
proof (cases s)
  case (Cons c s')
  then show "scan_int s = Some (t, r) \<Longrightarrow> ?thesis"
    using length_dropWhile_le [of is_digit s'] by (auto simp: scan_int_def split: if_splits)
qed (simp add: scan_int_def)

lemma scan_frac_length: "scan_frac s = (t, r) \<Longrightarrow> length r \<le> length s"
proof (cases s)
  case (Cons c s')
  then show "scan_frac s = (t, r) \<Longrightarrow> ?thesis"
    using length_dropWhile_le [of is_digit s'] by (auto simp: scan_frac_def split: if_splits)
qed (simp add: scan_frac_def)

lemma scan_exp_length: "scan_exp s = (t, r) \<Longrightarrow> length r \<le> length s"
proof (cases s)
  case (Cons c s')
  then show "scan_exp s = (t, r) \<Longrightarrow> ?thesis"
    using length_dropWhile_le [of is_digit s'] length_dropWhile_le [of is_digit "tl s'"]
    by (auto simp: scan_exp_def Let_def split: if_splits list.splits)
qed (simp add: scan_exp_def)

lemma scan_sign_length: "scan_sign s = (t, r) \<Longrightarrow> length r \<le> length s"
  by (auto simp: scan_sign_def split: list.splits if_splits)

lemma scan_number_length: "scan_number fs s = Some (v, r) \<Longrightarrow> length r < length s"
proof -
  assume a: "scan_number fs s = Some (v, r)"
  obtain sg s1 where 1: "scan_sign s = (sg, s1)" by fastforce
  with a obtain ip s2 where 2: "scan_int s1 = Some (ip, s2)"
    by (fastforce simp: scan_number_def Let_def split: option.splits)
  obtain fr s3 where 3: "scan_frac s2 = (fr, s3)" by fastforce
  obtain ex s4 where 4: "scan_exp s3 = (ex, s4)" by fastforce
  have "r = s4" using a 1 2 3 4 by (simp add: scan_number_def)
  then show ?thesis
    using scan_sign_length [OF 1] scan_int_length [OF 2] scan_frac_length [OF 3] scan_exp_length [OF 4]
    by simp
qed

lemma literal_length: "literal t v s = Some (w, r) \<Longrightarrow> t \<noteq> [] \<Longrightarrow> length r < length s"
  by (cases s) (auto simp: literal_def split: if_splits)

lemma scan_atom_length: "scan_atom fs s = Some (v, r) \<Longrightarrow> length r < length s"
  unfolding scan_atom_def
  by (auto split: option.splits dest!: literal_length scan_number_length simp: literal_defs)

lemma parse_length:
  "parse_value fs n s = Some (v, r) \<Longrightarrow> length r < length s"
  "parse_elems fs n s = Some (vs, r) \<Longrightarrow> length r < length s"
  "parse_members fs n d s = Some (e, r) \<Longrightarrow> length r < length s"
proof (induction fs n s and fs n s and fs n d s arbitrary: v r and vs r and e r
    rule: parse_value_parse_elems_parse_members.induct)
  case (2 fs n s)
  then show ?case
    by (fastforce split: list.splits if_splits option.splits
        dest!: scan_string_length scan_atom_length skip_ws_Cons_length)
next
  case (4 fs n s)
  from "4.prems" obtain v1 r1 where v: "parse_value fs n s = Some (v1, r1)"
    by (auto split: option.splits)
  with "4.prems" obtain c r2 where c: "skip_ws r1 = c # r2" by (auto split: list.splits)
  show ?case
    using "4.IH"(1) [OF v] skip_ws_Cons_length [OF c] skip_ws_length [of r2] "4.prems" v c
      "4.IH"(2) [OF v refl c]
    by (fastforce split: if_splits)
next
  case (6 fs n d s)
  from "6.prems" obtain s' where s: "s = 34 # s'" by (auto split: list.splits if_splits)
  with "6.prems" obtain k r1 where k: "scan_string s' = Some (k, r1)" by (auto split: option.splits)
  with "6.prems" s obtain r2 where c: "skip_ws r1 = 58 # r2" by (auto split: list.splits if_splits)
  with "6.prems" s k obtain v r3 where v: "parse_value fs n (skip_ws r2) = Some (v, r3)"
    by (auto split: option.splits)
  with "6.prems" s k c obtain b r4 where b: "skip_ws r3 = b # r4" by (auto split: list.splits)
  have "length r4 < length s"
    using "6.IH"(1) [OF s _ k refl c _ v] scan_string_length [OF k] skip_ws_Cons_length [OF c]
      skip_ws_length [of r2] skip_ws_Cons_length [OF b] by (simp add: s)
  then show ?case
    using "6.prems" "6.IH"(2) [OF s _ k refl c _ v refl b] skip_ws_length [of r4] s k c v b
    by (fastforce split: if_splits)
qed simp_all


lemma parse_fuel:
  "2 * length s + 1 \<le> n \<Longrightarrow> parse_value fs (Suc n) s = parse_value fs n s"
  "2 * length s + 2 \<le> n \<Longrightarrow> parse_elems fs (Suc n) s = parse_elems fs n s"
  "2 * length s + 2 \<le> n \<Longrightarrow> parse_members fs (Suc n) d s = parse_members fs n d s"
proof (induction n arbitrary: s d)
  case (Suc n)
  {
    case 1
    have sub: "parse_elems fs (Suc n) (x # r') = parse_elems fs n (x # r')"
      "parse_members fs (Suc n) [] (x # r') = parse_members fs n [] (x # r')"
      if "s = c # r" "skip_ws r = x # r'" for c r x r'
      using that 1 skip_ws_length [of r] Suc.IH(2) [of "x # r'"] Suc.IH(3) [of "x # r'" "[]"] by simp_all
    show ?case
    proof (cases s)
      case (Cons c r)
      then show ?thesis
        unfolding parse_value.simps(2) [of fs "Suc n"] parse_value.simps(2) [of fs n] Cons
        using sub [OF Cons] by (cases "skip_ws r") simp_all
    qed simp
  next
    case 2
    have v: "parse_value fs (Suc n) s = parse_value fs n s" using Suc.IH(1) [of s] 2 by simp
    have rest: "parse_elems fs (Suc n) (skip_ws r') = parse_elems fs n (skip_ws r')"
      if p: "parse_value fs n s = Some (x, r)" and w: "skip_ws r = c # r'" for x r c r'
      using parse_length(1) [OF p] skip_ws_Cons_length [OF w] skip_ws_length [of r'] 2
        Suc.IH(2) [of "skip_ws r'"] by simp
    show ?case
      unfolding parse_elems.simps(2) [of fs "Suc n"] parse_elems.simps(2) [of fs n] v
      using rest by (auto split: option.split list.split)
  next
    case 3
    have v: "parse_value fs (Suc n) (skip_ws r2) = parse_value fs n (skip_ws r2)"
      if "s = q # s'" "scan_string s' = Some (k, r1)" "skip_ws r1 = c # r2" for q s' k r1 c r2
      using that(1) scan_string_length [OF that(2)] skip_ws_Cons_length [OF that(3)]
        skip_ws_length [of r2] 3 Suc.IH(1) [of "skip_ws r2"] by simp
    have rest: "parse_members fs (Suc n) e (skip_ws r4) = parse_members fs n e (skip_ws r4)"
      if "s = q # s'" "scan_string s' = Some (k, r1)" "skip_ws r1 = c # r2"
        "parse_value fs n (skip_ws r2) = Some (x, r3)" "skip_ws r3 = b # r4"
      for q s' k r1 c r2 x r3 b r4 e
      using that(1) scan_string_length [OF that(2)] skip_ws_Cons_length [OF that(3)]
        skip_ws_length [of r2] parse_length(1) [OF that(4)] skip_ws_Cons_length [OF that(5)]
        skip_ws_length [of r4] 3 Suc.IH(3) [of "skip_ws r4" e] by simp
    show ?case
      unfolding parse_members.simps(2) [of fs "Suc n"] parse_members.simps(2) [of fs n]
      using v rest by (auto split: option.split list.split)
  }
qed simp_all

lemma parse_value_fuel:
  "2 * length s + 1 \<le> n \<Longrightarrow> parse_value fs n s = parse_value fs (2 * length s + 1) s"
proof (induction n)
  case (Suc n)
  show ?case
  proof (cases "2 * length s + 1 \<le> n")
    case True
    then show ?thesis using Suc.IH parse_fuel(1) [OF True] by simp
  next
    case False
    then have "Suc n = 2 * length s + 1" using Suc.prems by simp
    then show ?thesis by (simp only:)
  qed
qed simp


subsection \<open>Reading back what was written\<close>

definition stop :: "ustr \<Rightarrow> bool" where
  "stop r \<longleftrightarrow> r = [] \<or> hd r = 44 \<or> hd r = 93 \<or> hd r = 125"

lemma hex_value_digit: "d < 16 \<Longrightarrow> hex_value (hex_digit d) = Some d"
  by (simp add: hex_value_def hex_digit_def)

lemma scan_string_escape: "scan_string (escape_char c @ r) = map_option (apfst ((#) c)) (scan_string r)"
proof -
  consider "c = 34 \<or> c = 92 \<or> c = 10 \<or> c = 13 \<or> c = 9 \<or> c = 12 \<or> c = 8"
    | "\<not> (c = 34 \<or> c = 92 \<or> c = 10 \<or> c = 13 \<or> c = 9 \<or> c = 12 \<or> c = 8)" "c < 32"
    | "c \<noteq> 34" "c \<noteq> 92" "32 \<le> c" by linarith
  then show ?thesis
  proof cases
    case 1
    then show ?thesis
      by (elim disjE) (simp_all add: escape_char_def scan_escape_def simple_escape_def)
  next
    case 2
    define a b where ab: "a = c div 16" "b = c mod 16"
    have "a < 16" "b < 16" "a * 16 + b = c" "c < 0xD800" using 2(2) by (simp_all add: ab)
    moreover have "escape_char c = [92, 117, 48, 48, hex_digit a, hex_digit b]"
      using 2 by (simp add: escape_char_def ab)
    moreover have "hex_value 48 = Some 0" by (simp add: hex_value_def)
    ultimately have "scan_escape (tl (escape_char c) @ r) = Some (c, r)"
      by (simp add: scan_escape_def hex4_def hex_value_digit)
    then show ?thesis using \<open>escape_char c = _\<close> by simp
  next
    case 3
    then show ?thesis by (simp add: escape_char_def)
  qed
qed

lemma scan_json_string: "scan_string (tl (json_string s) @ r) = Some (s, r)"
proof -
  have "scan_string (concat (map escape_char s) @ 34 # r) = Some (s, r)"
    by (induction s) (simp_all add: scan_string_escape)
  then show ?thesis by (simp add: json_string_def)
qed

lemma takeWhile_stop:
  "stop r \<Longrightarrow> takeWhile is_digit (s @ r) = takeWhile is_digit s"
  "stop r \<Longrightarrow> dropWhile is_digit (s @ r) = dropWhile is_digit s @ r"
proof -
  have 1: "takeWhile is_digit r = [] \<and> dropWhile is_digit r = r" if "stop r"
    using that by (cases r) (auto simp: stop_def is_digit_def)
  show "stop r \<Longrightarrow> takeWhile is_digit (s @ r) = takeWhile is_digit s"
    using 1 by (induction s) auto
  show "stop r \<Longrightarrow> dropWhile is_digit (s @ r) = dropWhile is_digit s @ r"
    using 1 by (induction s) auto
qed

lemma scan_int_append: "scan_int s = Some (t, u) \<Longrightarrow> stop r \<Longrightarrow> scan_int (s @ r) = Some (t, u @ r)"
  using takeWhile_stop [of r s] by (cases s) (auto simp: scan_int_def split: if_splits)

lemma scan_frac_append: "stop r \<Longrightarrow> scan_frac (s @ r) = apsnd (\<lambda>u. u @ r) (scan_frac s)"
proof (cases s)
  case Nil
  then show "stop r \<Longrightarrow> ?thesis" by (cases r) (auto simp: scan_frac_def stop_def)
next
  case (Cons c s')
  then show "stop r \<Longrightarrow> ?thesis" using takeWhile_stop [of r s'] by (auto simp: scan_frac_def)
qed

lemma scan_exp_append: "stop r \<Longrightarrow> scan_exp (s @ r) = apsnd (\<lambda>u. u @ r) (scan_exp s)"
proof (cases s)
  case Nil
  then show "stop r \<Longrightarrow> ?thesis" by (cases r) (auto simp: scan_exp_def stop_def Let_def split: list.splits)
next
  case (Cons c s')
  show "stop r \<Longrightarrow> ?thesis"
  proof (cases s')
    case Nil
    then show "stop r \<Longrightarrow> ?thesis" using Cons
      by (cases r) (auto simp: scan_exp_def stop_def Let_def is_digit_def)
  next
    case (Cons d s2)
    then show "stop r \<Longrightarrow> ?thesis"
      using \<open>s = c # s'\<close> takeWhile_stop [of r s'] takeWhile_stop [of r s2]
      by (auto simp: scan_exp_def Let_def)
  qed
qed

lemma scan_number_append:
  assumes "scan_number fs s = Some (v, u)" "stop r"
  shows "scan_number fs (s @ r) = Some (v, u @ r)"
proof -
  obtain sg s1 where 1: "scan_sign s = (sg, s1)" by fastforce
  with assms(1) obtain ip s2 where 2: "scan_int s1 = Some (ip, s2)"
    by (fastforce simp: scan_number_def Let_def split: option.splits)
  have "s \<noteq> []" using 1 2 by (auto simp: scan_sign_def scan_int_def)
  then have 3: "scan_sign (s @ r) = (sg, s1 @ r)"
    using 1 by (cases s) (auto simp: scan_sign_def split: if_splits)
  obtain fr s3 where 4: "scan_frac s2 = (fr, s3)" by fastforce
  obtain ex s4 where 5: "scan_exp s3 = (ex, s4)" by fastforce
  show ?thesis
    using assms(1) 1 2 3 4 5 scan_int_append [OF 2 assms(2)] scan_frac_append [OF assms(2), of s2]
      scan_exp_append [OF assms(2), of s3]
    by (simp add: scan_number_def)
qed

lemma digits_digit: "d \<in> set (digits n) \<Longrightarrow> is_digit d"
proof (induction n rule: digits.induct)
  case (1 n)
  show ?case
  proof (cases "n < 10")
    case True
    then show ?thesis using "1.prems" by (subst (asm) digits.simps) (simp add: is_digit_def)
  next
    case False
    have "n mod 10 \<le> 9" using mod_less_divisor [of 10 n] by linarith
    then show ?thesis using "1.prems" "1.IH" False
      by (subst (asm) digits.simps) (auto simp: is_digit_def)
  qed
qed

lemma digits_head: "digits n = [48] \<and> n = 0 \<or> (\<exists>c ds. digits n = c # ds \<and> 49 \<le> c \<and> c \<le> 57)"
proof (induction n rule: digits.induct)
  case (1 n)
  show ?case
  proof (cases "n < 10")
    case True
    then show ?thesis by (simp add: digits.simps [of n]) linarith
  next
    case False
    then have "n div 10 \<noteq> 0" by simp
    with "1.IH" False obtain c ds where "digits (n div 10) = c # ds" "49 \<le> c" "c \<le> 57" by auto
    with False show ?thesis by (simp add: digits.simps [of n])
  qed
qed

lemma digits_value: "digits_value (digits n) = int n"
proof (induction n rule: digits.induct)
  case (1 n)
  show ?case
  proof (cases "n < 10")
    case True
    then show ?thesis by (simp add: digits.simps [of n] digits_value_def)
  next
    case False
    then have "digits_value (digits n) = int (n div 10) * 10 + int (n mod 10)"
      using "1.IH" by (simp add: digits.simps [of n] digits_value_def)
    then show ?thesis by presburger
  qed
qed

lemma scan_int_digits: "scan_int (digits n) = Some (digits n, [])"
proof -
  have "takeWhile is_digit (digits n) = digits n" "dropWhile is_digit (digits n) = []"
    using digits_digit by (simp_all add: takeWhile_eq_all_conv dropWhile_eq_Nil_conv)
  then show ?thesis using digits_head [of n] by (auto simp: scan_int_def is_digit_def)
qed

lemma scan_int_repr: "scan_number fs (int_repr i) = Some (TInt i, [])"
proof (cases "i < 0")
  case True
  then show ?thesis
    by (simp add: int_repr_def scan_number_def scan_sign_def scan_int_digits scan_frac_def
        scan_exp_def digits_value)
next
  case False
  have "scan_sign (digits (nat i)) = ([], digits (nat i))"
    using digits_head [of "nat i"] by (auto simp: scan_sign_def)
  then show ?thesis using False
    by (simp add: int_repr_def scan_number_def scan_int_digits scan_frac_def scan_exp_def digits_value)
qed

lemma int_repr_inj: "int_repr i = int_repr j \<Longrightarrow> i = j"
proof -
  fix fs :: py_floats
  assume "int_repr i = int_repr j"
  then have "Some (TInt i, [] :: ustr) = Some (TInt j, [])"
    using scan_int_repr [of fs i] scan_int_repr [of fs j] by (simp only: )
  then show "i = j" by simp
qed

lemma scan_number_head:
  "scan_number fs (c # s) = Some x \<Longrightarrow> is_digit c \<or> c = 45 \<and> (\<exists>d s'. s = d # s' \<and> is_digit d)"
  by (auto simp: scan_number_def scan_sign_def scan_int_def Let_def is_digit_def
      split: if_splits option.splits list.splits)

lemma scan_atom_number:
  assumes "scan_number fs s = Some x"
  shows "scan_atom fs s = Some x"
proof (cases s)
  case Nil
  then show ?thesis using assms by (simp add: scan_number_def scan_sign_def scan_int_def)
next
  case (Cons c s')
  then have "is_digit c \<or> c = 45 \<and> (\<exists>d u. s' = d # u \<and> is_digit d)"
    using scan_number_head assms by blast
  then have "literal null_text v s = None" "literal true_text v s = None"
    "literal false_text v s = None" "literal nan_text v s = None" "literal inf_text v s = None"
    "literal (45 # inf_text) v s = None" for v
    using Cons by (auto simp: literal_def literal_defs is_digit_def)
  then show ?thesis using assms by (simp add: scan_atom_def)
qed


text \<open>
  The values that survive the trip: no tuple (it is read back as a list), only string
  keys, and floats whose text reads back as the same float.
\<close>

function plain :: "py_floats \<Rightarrow> tval \<Rightarrow> bool" where
  "plain fs TNone = True"
| "plain fs (TBool b) = True"
| "plain fs (TInt i) = True"
| "plain fs (TFloat x) = (case x of
     Finite q \<Rightarrow> scan_number fs (float_repr fs q) = Some (TFloat (Finite q), []) | _ \<Rightarrow> True)"
| "plain fs (TStr s) = True"
| "plain fs (TList xs) = list_all (plain fs) xs"
| "plain fs (TTuple xs) = False"
| "plain fs (TDict d) = (distinct (map fst d) \<and>
     list_all (\<lambda>kv. (case fst kv of TStr _ \<Rightarrow> True | _ \<Rightarrow> False) \<and> plain fs (snd kv)) d)"
| "plain fs (TBytes b) = False"
| "plain fs (TBytearray b) = False"
| "plain fs (TObject n) = False"
  by pat_completeness auto
termination
  by (relation "measure (size \<circ> snd)") (auto dest: size_list_elem size_dict_value)

lemma scan_number_nonempty: "scan_number fs s = Some x \<Longrightarrow> s \<noteq> []"
  by (auto simp: scan_number_def scan_sign_def scan_int_def)

lemma dumps_head:
  assumes "plain fs v" "dumps fs v = Inr t"
  shows "t \<noteq> [] \<and> \<not> is_ws (hd t) \<and> hd t \<noteq> 93 \<and> hd t \<noteq> 125 \<and> hd t \<noteq> 0xFEFF"
proof -
  have num: ?thesis if n: "scan_number fs t = Some x" for x
  proof -
    obtain c s where t: "t = c # s" using scan_number_nonempty [OF n] by (cases t) auto
    with n have "is_digit c \<or> c = 45" using scan_number_head by blast
    then show ?thesis using t by (auto simp: is_digit_def is_ws_def)
  qed
  show ?thesis
  proof (cases v)
    case (TInt i)
    then show ?thesis using num scan_int_repr assms(2) by auto
  next
    case (TFloat x)
    then show ?thesis
      using num assms by (cases x) (auto simp: literal_defs is_ws_def)
  qed (use assms in \<open>auto simp: literal_defs is_ws_def json_string_def bindE_eq_Inr split: if_splits\<close>)
qed

lemma skip_ws_head: "t \<noteq> [] \<Longrightarrow> \<not> is_ws (hd t) \<Longrightarrow> skip_ws (t @ r) = t @ r"
  by (cases t) (simp_all add: skip_ws_def)

definition reads_back :: "py_floats \<Rightarrow> tval \<Rightarrow> bool" where
  "reads_back fs v \<longleftrightarrow> (\<forall>t n r. dumps fs v = Inr t \<longrightarrow> length t \<le> n \<longrightarrow> stop r \<longrightarrow>
     parse_value fs (Suc n) (t @ r) = Some (v, r))"

lemma skip_ws_stop: "skip_ws (93 # r) = 93 # r" "skip_ws (125 # r) = 125 # r" "skip_ws (44 # r) = 44 # r"
  "skip_ws (58 # r) = 58 # r" "skip_ws (32 # r) = skip_ws r"
  by (simp_all add: skip_ws_def is_ws_def)

lemma stop_simps: "stop (93 # r)" "stop (125 # r)" "stop (44 # r)" "stop []"
  by (simp_all add: stop_def)

lemma parse_elems_join:
  assumes "mapE (dumps fs) xs = Inr ts" "xs \<noteq> []" "list_all (plain fs) xs"
    "\<forall>x \<in> set xs. reads_back fs x" "length (join [44, 32] ts) < m"
  shows "parse_elems fs (Suc m) (join [44, 32] ts @ 93 # r) = Some (xs, r)"
  using assms
proof (induction xs arbitrary: ts m)
  case (Cons x xs)
  from Cons.prems(1) obtain t us where t: "dumps fs x = Inr t" "mapE (dumps fs) xs = Inr us" "ts = t # us"
    by (auto simp: bindE_eq_Inr)
  from Cons.prems(5) obtain m' where m: "m = Suc m'" by (cases m) auto
  have x: "parse_value fs (Suc m') (t @ r') = Some (x, r')" if "stop r'" "length t \<le> m'" for r'
    using Cons.prems(4) that t(1) by (simp add: reads_back_def)
  show ?case
  proof (cases xs)
    case Nil
    then have ts: "ts = [t]" using t by simp
    then have "length t \<le> m'" using Cons.prems(5) m by simp
    then show ?thesis using x [of "93 # r"] ts m Nil by (simp add: skip_ws_stop stop_simps)
  next
    case (Cons y ys)
    then obtain u us' where us: "us = u # us'" "dumps fs y = Inr u"
      using t(2) by (auto simp: bindE_eq_Inr)
    have j: "join [44, 32] ts = t @ [44, 32] @ join [44, 32] us" using t(3) us by simp
    have len: "length t \<le> m'" "length (join [44, 32] us) < m'" using Cons.prems(5) j m by simp_all
    have IH: "parse_elems fs (Suc m') (join [44, 32] us @ 93 # r) = Some (xs, r)"
      using Cons.IH [OF t(2), of m'] Cons.prems Cons len(2) by simp
    have "plain fs y" using Cons.prems(3) Cons by simp
    then have "u \<noteq> []" "\<not> is_ws (hd u)" using dumps_head us(2) by blast+
    then have "skip_ws (join [44, 32] us @ 93 # r) = join [44, 32] us @ 93 # r"
      using us(1) by (cases us') (auto simp: skip_ws_def split: list.splits intro!: dropWhile_eq_self_iff [THEN iffD2])
    then show ?thesis using x [of "44 # 32 # join [44, 32] us @ 93 # r"] IH j m len(1)
      by (simp add: skip_ws_stop stop_simps)
  qed
qed simp


lemma update_fresh: "k \<notin> fst ` set d \<Longrightarrow> AList.update k v d = d @ [(k, v)]"
  by (induction d) auto

definition member_text :: "py_floats \<Rightarrow> tval \<times> tval \<Rightarrow> ustr res" where
  "member_text fs kv = bindE (key_text fs (fst kv)) (\<lambda>k. bindE (dumps fs (snd kv)) (\<lambda>t.
     Inr (json_string k @ [58, 32] @ t)))"

lemma member_text_str:
  "member_text fs (TStr k, v) = bindE (dumps fs v) (\<lambda>t. Inr (json_string k @ [58, 32] @ t))"
  by (simp add: member_text_def)

lemma parse_member:
  assumes "reads_back fs v" "plain fs v" "dumps fs v = Inr t" "stop r" "length t \<le> n"
  shows "parse_members fs (Suc (Suc n)) acc (json_string k @ [58, 32] @ t @ r) =
    (case skip_ws r of [] \<Rightarrow> None | e # r4 \<Rightarrow>
       (if e = 125 then Some (AList.update (TStr k) v acc, r4)
        else if e = 44 then parse_members fs (Suc n) (AList.update (TStr k) v acc) (skip_ws r4)
        else None))"
proof -
  obtain q where q: "json_string k = 34 # q" "q = tl (json_string k)"
    by (simp add: json_string_def)
  have "scan_string (q @ 58 # 32 # t @ r) = Some (k, 58 # 32 # t @ r)"
    using scan_json_string q(2) by simp
  moreover have "skip_ws (t @ r) = t @ r"
    using dumps_head [OF assms(2,3)] by (simp add: skip_ws_head)
  moreover have "parse_value fs (Suc n) (t @ r) = Some (v, r)"
    using assms(1,3-5) by (simp add: reads_back_def)
  ultimately show ?thesis
    by (simp add: q(1) skip_ws_stop parse_members.simps(2) [of fs "Suc n"]
        del: parse_value.simps parse_members.simps)
qed

lemma parse_members_join:
  assumes "mapE (member_text fs) d = Inr ts" "d \<noteq> []"
    "list_all (\<lambda>kv. (case fst kv of TStr _ \<Rightarrow> True | _ \<Rightarrow> False) \<and> plain fs (snd kv)) d"
    "\<forall>kv \<in> set d. reads_back fs (snd kv)" "length (join [44, 32] ts) < m"
    "distinct (map fst (acc @ d))"
  shows "parse_members fs (Suc m) acc (join [44, 32] ts @ 125 # r) = Some (acc @ d, r)"
  using assms
proof (induction d arbitrary: ts m acc)
  case (Cons kv d)
  from Cons.prems(3) obtain k v where kv: "kv = (TStr k, v)" "plain fs v"
    by (cases kv; cases "fst kv") auto
  from Cons.prems(1) kv obtain t us where t: "dumps fs v = Inr t" "mapE (member_text fs) d = Inr us"
    "ts = (json_string k @ [58, 32] @ t) # us"
    by (auto simp: bindE_eq_Inr member_text_str)
  have long: "length t < length (join [44, 32] ts)"
    using t(3) by (cases us) simp_all
  with Cons.prems(5) obtain m' where m: "m = Suc m'" "length t \<le> m'" by (cases m) auto
  have upd: "AList.update (TStr k) v acc = acc @ [kv]"
    using update_fresh [of "TStr k" acc v] Cons.prems(6) kv(1) by (auto simp: image_iff)
  have rb: "reads_back fs v" using Cons.prems(4) kv by simp
  show ?case
  proof (cases d)
    case Nil
    then have ts: "ts = [json_string k @ [58, 32] @ t]" using t by simp
    show ?thesis
      using parse_member [OF rb kv(2) t(1) _ m(2), of "125 # r" acc k] ts m(1) Nil upd
      by (simp add: skip_ws_stop stop_simps)
  next
    case (Cons y ys)
    then obtain u us' where us: "us = (34 # u) # us'"
      using t(2) by (auto simp: bindE_eq_Inr member_text_def json_string_def)
    have j: "join [44, 32] ts = json_string k @ [58, 32] @ t @ [44, 32] @ join [44, 32] us"
      using t(3) us by simp
    have len: "length (join [44, 32] us) < m'" using Cons.prems(5) j m(1) by simp
    have IH: "parse_members fs (Suc m') (acc @ [kv]) (join [44, 32] us @ 125 # r) = Some ((acc @ [kv]) @ d, r)"
      by (rule Cons.IH [OF t(2) _ _ _ len]) (use Cons.prems Cons in auto)
    have "skip_ws (join [44, 32] us @ 125 # r) = join [44, 32] us @ 125 # r"
      using us by (cases us') (simp_all add: skip_ws_def is_ws_def)
    then show ?thesis
      using parse_member [OF rb kv(2) t(1) _ m(2), of "44 # 32 # join [44, 32] us @ 125 # r" acc k]
        IH j m(1) upd by (simp add: skip_ws_stop stop_simps)
  qed
qed simp


lemma mapE_ok: "(\<And>x. x \<in> set xs \<Longrightarrow> \<exists>y. f x = Inr y) \<Longrightarrow> \<exists>ys. mapE f xs = Inr ys"
  by (induction xs) fastforce+

lemma dumps_dict: "dumps fs (TDict d) = bindE (mapE (member_text fs) d) (\<lambda>ts.
    Inr (123 # join [44, 32] ts @ [125]))"
  by (simp add: member_text_def [abs_def])

lemma plain_dumps: "plain fs v \<Longrightarrow> \<exists>t. dumps fs v = Inr t"
proof (induction v)
  case (TList xs)
  then have "\<exists>ts. mapE (dumps fs) xs = Inr ts" by (intro mapE_ok) (auto simp: list_all_iff)
  then show ?case by auto
next
  case (TDict d)
  have "\<exists>t. member_text fs kv = Inr t" if kv: "kv \<in> set d" for kv
  proof -
    obtain k v where e: "kv = (TStr k, v)" "plain fs v"
      using TDict.prems kv by (cases kv; cases "fst kv") (auto simp: list_all_iff)
    then obtain t where "dumps fs v = Inr t" using TDict.IH kv by (metis snds.intros snd_conv)
    then show ?thesis using e by (simp add: member_text_str)
  qed
  then have "\<exists>ts. mapE (member_text fs) d = Inr ts" by (intro mapE_ok)
  then show ?case unfolding dumps_dict by auto
qed auto

lemma plain_reads_back: "plain fs v \<Longrightarrow> reads_back fs v"
proof (induction v)
  case (TInt i)
  show ?case unfolding reads_back_def
  proof (intro allI impI)
    fix t n r assume t: "dumps fs (TInt i) = Inr t" "stop r"
    then have s: "scan_number fs (t @ r) = Some (TInt i, r)"
      using scan_number_append [OF scan_int_repr t(2), of fs i] by simp
    then have "scan_atom fs (t @ r) = Some (TInt i, r)" by (rule scan_atom_number)
    moreover obtain c u where "t @ r = c # u" "is_digit c \<or> c = 45"
      using scan_number_nonempty [OF s] scan_number_head [of fs] s by (cases "t @ r") auto
    ultimately show "parse_value fs (Suc n) (t @ r) = Some (TInt i, r)"
      by (auto simp: is_digit_def)
  qed
next
  case (TFloat x)
  show ?case unfolding reads_back_def
  proof (intro allI impI)
    fix t n r assume t: "dumps fs (TFloat x) = Inr t" "stop r"
    show "parse_value fs (Suc n) (t @ r) = Some (TFloat x, r)"
    proof (cases x)
      case (Finite q)
      then have s: "scan_number fs (t @ r) = Some (TFloat x, r)"
        using scan_number_append [of fs "float_repr fs q" _ "[]" r] t TFloat.prems by simp
      then have "scan_atom fs (t @ r) = Some (TFloat x, r)" by (rule scan_atom_number)
      moreover obtain c u where "t @ r = c # u" "is_digit c \<or> c = 45"
        using scan_number_nonempty [OF s] scan_number_head [of fs] s by (cases "t @ r") auto
      ultimately show ?thesis by (auto simp: is_digit_def)
    qed (use t in \<open>auto simp: scan_atom_def literal_def literal_defs\<close>)
  qed
next
  case (TStr s)
  then show ?case using scan_json_string [of s]
    by (auto simp: reads_back_def json_string_def)
next
  case (TList xs)
  show ?case unfolding reads_back_def
  proof (intro allI impI)
    fix t n r assume a: "dumps fs (TList xs) = Inr t" "length t \<le> n" "stop r"
    then obtain ts where ts: "mapE (dumps fs) xs = Inr ts" "t = 91 # join [44, 32] ts @ [93]"
      by (auto simp: bindE_eq_Inr)
    show "parse_value fs (Suc n) (t @ r) = Some (TList xs, r)"
    proof (cases xs)
      case Nil
      then show ?thesis using ts by (simp add: skip_ws_stop)
    next
      case (Cons x xs')
      then obtain u us where us: "ts = u # us" "dumps fs x = Inr u"
        using ts(1) by (auto simp: bindE_eq_Inr)
      have "plain fs x" using TList.prems Cons by simp
      then obtain c u' where c: "u = c # u'" "\<not> is_ws c" "c \<noteq> 93"
        using dumps_head us(2) by (cases u) fastforce+
      then obtain w where w: "join [44, 32] ts @ 93 # r = c # w" using us by (cases us) auto
      obtain m where m: "n = Suc m" "length (join [44, 32] ts) < m"
        using a(2) ts(2) by (cases n) auto
      have "parse_elems fs n (c # w) = Some (xs, r)"
        using parse_elems_join [OF ts(1) _ _ _ m(2), of r] TList Cons
        by (auto simp: m(1) list_all_iff simp flip: w simp del: parse_elems.simps)
      moreover have "skip_ws (c # w) = c # w" using c by (simp add: skip_ws_def)
      ultimately show ?thesis using ts(2) w c(3) by (simp del: parse_elems.simps)
    qed
  qed
next
  case (TDict d)
  show ?case unfolding reads_back_def
  proof (intro allI impI)
    fix t n r assume a: "dumps fs (TDict d) = Inr t" "length t \<le> n" "stop r"
    then obtain ts where ts: "mapE (member_text fs) d = Inr ts" "t = 123 # join [44, 32] ts @ [125]"
      unfolding dumps_dict by (auto simp: bindE_eq_Inr)
    show "parse_value fs (Suc n) (t @ r) = Some (TDict d, r)"
    proof (cases d)
      case Nil
      then show ?thesis using ts by (simp add: skip_ws_stop)
    next
      case (Cons kv d')
      have p: "list_all (\<lambda>kv. (case fst kv of TStr _ \<Rightarrow> True | _ \<Rightarrow> False) \<and> plain fs (snd kv)) d"
        "distinct (map fst d)" using TDict.prems by simp_all
      then obtain u us where us: "ts = (34 # u) # us"
        using ts(1) Cons by (auto simp: bindE_eq_Inr member_text_def json_string_def)
      then obtain w where w: "join [44, 32] ts @ 125 # r = 34 # w" by (cases us) auto
      obtain m where m: "n = Suc m" "length (join [44, 32] ts) < m"
        using a(2) ts(2) by (cases n) auto
      have rb: "\<forall>kv \<in> set d. reads_back fs (snd kv)"
      proof
        fix kv assume kv: "kv \<in> set d"
        then have "plain fs (snd kv)" using p(1) by (auto simp: list_all_iff)
        moreover have "snd kv \<in> Basic_BNFs.snds kv" by (simp add: snds.simps)
        ultimately show "reads_back fs (snd kv)" using TDict.IH(2) kv by blast
      qed
      have "parse_members fs n [] (34 # w) = Some (d, r)"
        using parse_members_join [OF ts(1) _ p(1) rb m(2), of "[]" r] p(2) Cons
        by (simp add: m(1) flip: w del: parse_members.simps)
      moreover have "skip_ws (34 # w) = 34 # w" by (simp add: skip_ws_def is_ws_def)
      ultimately show ?thesis using ts(2) w by (simp del: parse_members.simps)
    qed
  qed
qed (auto simp: reads_back_def scan_atom_def literal_def literal_defs)

lemma loads_dumps:
  assumes "plain fs v"
  shows "\<exists>t. dumps fs v = Inr t \<and> loads fs t = Inr v"
proof -
  obtain t where t: "dumps fs v = Inr t" using plain_dumps [OF assms] by blast
  have h: "t \<noteq> []" "\<not> is_ws (hd t)" "hd t \<noteq> 0xFEFF" using dumps_head [OF assms t] by simp_all
  have "parse_value fs (Suc (2 * length t + 1)) (t @ []) = Some (v, [])"
    using plain_reads_back [OF assms, unfolded reads_back_def, rule_format, OF t _ stop_simps(4)] by simp
  moreover have "skip_ws t = t" using skip_ws_head [OF h(1,2), of "[]"] by simp
  moreover have "take 1 t \<noteq> [0xFEFF]" using h by (cases t) simp_all
  ultimately have "loads fs t = Inr v" by (simp add: loads_def skip_ws_def)
  with t show ?thesis by blast
qed

end
