(* ===== verification/Transcoding.thy ===== *)
theory Transcoding
  imports Json
begin

unbundle bit_operations_syntax

text \<open>
  \<open>couchbase/transcoder.py\<close> and \<open>couchbase/serializer.py\<close>: how a document's value
  becomes the bytes and the flags that are stored, and back.  The format constants
  are those the extension module defines (\<open>src/client.hxx\<close>).  A serializer is a
  record of its two methods; \<open>pickle\<close> is a record of its two functions.

  The locale \<open>transcoder\<close> is the contract of the abstract class \<open>Transcoder\<close>: what
  was encoded decodes to the value, up to the normal form of the transcoder.
\<close>

locale transcoder =
  fixes encode :: "tval \<Rightarrow> (tval \<times> int) res"
    and decode :: "tval \<Rightarrow> int option \<Rightarrow> tval res"
    and stores :: "tval \<Rightarrow> bool"
    and norm :: "tval \<Rightarrow> tval"
  assumes stored: "stores v \<Longrightarrow>
      \<exists>b f. encode v = Inr (TBytes b, f) \<and> decode (TBytes b) (Some f) = Inr (norm v)"
begin

lemma write_read: "stores v \<Longrightarrow> bindE (encode v) (\<lambda>(b, f). decode b (Some f)) = Inr (norm v)"
  using stored [of v] by auto

lemma encode_separates: "stores v \<Longrightarrow> stores w \<Longrightarrow> encode v = encode w \<Longrightarrow> norm v = norm w"
  using stored [of v] stored [of w] by auto

lemma write_read_all:
  "list_all stores vs \<Longrightarrow>
     mapE (\<lambda>v. bindE (encode v) (\<lambda>(b, f). decode b (Some f))) vs = Inr (map norm vs)"
  by (rule mapE_Inr) (simp add: list_all_iff write_read)

end

subsection \<open>Formats\<close>

definition FMT_LEGACY_MASK :: int where "FMT_LEGACY_MASK = 0x07"
definition FMT_COMMON_MASK :: int where "FMT_COMMON_MASK = 0xFF000000"
definition FMT_JSON :: int where "FMT_JSON = 0x02000000"
definition FMT_PICKLE :: int where "FMT_PICKLE = 0x01000001"
definition FMT_BYTES :: int where "FMT_BYTES = 0x03000002"
definition FMT_UTF8 :: int where "FMT_UTF8 = 0x04000004"

lemmas FMT_defs = FMT_LEGACY_MASK_def FMT_COMMON_MASK_def FMT_JSON_def FMT_PICKLE_def
  FMT_BYTES_def FMT_UTF8_def

definition UNIFIED_FORMATS :: "int list" where
  "UNIFIED_FORMATS = [FMT_JSON, FMT_BYTES, FMT_UTF8, FMT_PICKLE]"

definition COMMON2UNIFIED :: "(int \<times> int) list" where
  "COMMON2UNIFIED = fold (\<lambda>fl. AList.update (fl AND FMT_COMMON_MASK) fl) UNIFIED_FORMATS []"

definition LEGACY2UNIFIED :: "(int \<times> int) list" where
  "LEGACY2UNIFIED = fold (\<lambda>fl. AList.update (fl AND FMT_LEGACY_MASK) fl) UNIFIED_FORMATS []"

definition get_decode_format :: "int option \<Rightarrow> int option" where
  "get_decode_format flags =
     (case flags of None \<Rightarrow> None
      | Some fl \<Rightarrow>
          (let c_flags = fl AND FMT_COMMON_MASK; l_flags = fl AND FMT_LEGACY_MASK
           in if c_flags \<noteq> 0 then map_of COMMON2UNIFIED c_flags
              else map_of LEGACY2UNIFIED l_flags))"

lemma COMMON2UNIFIED_eq:
  "COMMON2UNIFIED = [(0x02000000, FMT_JSON), (0x03000000, FMT_BYTES), (0x04000000, FMT_UTF8),
     (0x01000000, FMT_PICKLE)]"
  by (simp add: COMMON2UNIFIED_def UNIFIED_FORMATS_def FMT_defs)

lemma LEGACY2UNIFIED_eq:
  "LEGACY2UNIFIED = [(0, FMT_JSON), (2, FMT_BYTES), (4, FMT_UTF8), (1, FMT_PICKLE)]"
  by (simp add: LEGACY2UNIFIED_def UNIFIED_FORMATS_def FMT_defs)

lemma and_common: "fl AND FMT_COMMON_MASK = fl div 2 ^ 24 mod 2 ^ 8 * 2 ^ 24"
proof -
  have m: "FMT_COMMON_MASK = push_bit 24 (mask 8)"
    by (simp add: FMT_COMMON_MASK_def mask_eq_exp_minus_1 push_bit_eq_mult)
  have "fl AND push_bit 24 (mask 8) = push_bit 24 (take_bit 8 (drop_bit 24 fl))"
    by (rule bit_eqI) (auto simp: bit_and_iff bit_push_bit_iff bit_take_bit_iff bit_drop_bit_eq bit_mask_iff)
  then show ?thesis unfolding m by (simp add: push_bit_eq_mult take_bit_eq_mod drop_bit_eq_div)
qed

lemma and_legacy: "fl AND FMT_LEGACY_MASK = fl mod 8"
proof -
  have m: "FMT_LEGACY_MASK = mask 3" by (simp add: FMT_LEGACY_MASK_def mask_eq_exp_minus_1)
  show ?thesis unfolding m take_bit_eq_mask [symmetric] take_bit_eq_mod by simp
qed

lemma decode_format_simps [simp]:
  "get_decode_format None = None"
  "get_decode_format (Some FMT_JSON) = Some FMT_JSON"
  "get_decode_format (Some FMT_PICKLE) = Some FMT_PICKLE"
  "get_decode_format (Some FMT_BYTES) = Some FMT_BYTES"
  "get_decode_format (Some FMT_UTF8) = Some FMT_UTF8"
  by (simp_all add: get_decode_format_def COMMON2UNIFIED_eq FMT_defs)

lemma FMT_distinct [simp]:
  "FMT_JSON \<noteq> FMT_BYTES" "FMT_JSON \<noteq> FMT_UTF8" "FMT_JSON \<noteq> FMT_PICKLE"
  "FMT_BYTES \<noteq> FMT_JSON" "FMT_BYTES \<noteq> FMT_UTF8" "FMT_BYTES \<noteq> FMT_PICKLE"
  "FMT_UTF8 \<noteq> FMT_JSON" "FMT_UTF8 \<noteq> FMT_BYTES" "FMT_UTF8 \<noteq> FMT_PICKLE"
  "FMT_PICKLE \<noteq> FMT_JSON" "FMT_PICKLE \<noteq> FMT_BYTES" "FMT_PICKLE \<noteq> FMT_UTF8"
  "FMT_JSON \<noteq> 0" "FMT_BYTES \<noteq> 0" "FMT_UTF8 \<noteq> 0" "FMT_PICKLE \<noteq> 0"
  by (simp_all add: FMT_defs)

subsection \<open>Serializers\<close>

record serializer =
  serialize :: "tval \<Rightarrow> tval res"
  deserialize :: "tval \<Rightarrow> tval res"

definition DefaultJsonSerializer_serialize :: "py_floats \<Rightarrow> tval \<Rightarrow> tval res" where
  "DefaultJsonSerializer_serialize fs value = bindE (dumps fs value) str_encode"

definition DefaultJsonSerializer_deserialize :: "py_floats \<Rightarrow> tval \<Rightarrow> tval res" where
  "DefaultJsonSerializer_deserialize fs value = bindE (decode_utf8 value) (loads fs)"

definition DefaultJsonSerializer :: "py_floats \<Rightarrow> serializer" where
  "DefaultJsonSerializer fs =
     \<lparr>serialize = DefaultJsonSerializer_serialize fs, deserialize = DefaultJsonSerializer_deserialize fs\<rparr>"

record pickler =
  pickle_dumps :: "tval \<Rightarrow> octets res"
  pickle_loads :: "tval \<Rightarrow> tval res"

definition json_type :: "tval \<Rightarrow> bool" where
  "json_type value = (case value of TList _ \<Rightarrow> True | TTuple _ \<Rightarrow> True | TDict _ \<Rightarrow> True
     | TBool _ \<Rightarrow> True | TInt _ \<Rightarrow> True | TFloat _ \<Rightarrow> True | TNone \<Rightarrow> True | _ \<Rightarrow> False)"

definition is_text :: "tval \<Rightarrow> bool" where
  "is_text value = (case value of TStr _ \<Rightarrow> True | _ \<Rightarrow> False)"

definition is_binary :: "tval \<Rightarrow> bool" where
  "is_binary value = (case value of TBytes _ \<Rightarrow> True | TBytearray _ \<Rightarrow> True | _ \<Rightarrow> False)"

fun to_bytes :: "tval \<Rightarrow> tval" where
  "to_bytes (TBytearray b) = TBytes b"
| "to_bytes v = v"

definition encode_text :: "tval \<Rightarrow> tval res" where
  "encode_text v = (case v of TStr s \<Rightarrow> str_encode s | _ \<Rightarrow> Inl AttributeError)"

definition decode_text :: "tval \<Rightarrow> tval res" where
  "decode_text v = bindE (decode_utf8 v) (\<lambda>s. Inr (TStr s))"

subsection \<open>JSONTranscoder\<close>

definition JSONTranscoder_encode_value :: "serializer \<Rightarrow> tval \<Rightarrow> (tval \<times> int) res" where
  "JSONTranscoder_encode_value serial value =
     bindE (if is_text value then Inr FMT_JSON
            else if is_binary value then Inl ValueFormatException
            else if json_type value then Inr FMT_JSON
            else Inl ValueFormatException) (\<lambda>format.
       if format \<noteq> FMT_JSON then Inl ValueFormatException
       else bindE (serialize serial value) (\<lambda>b. Inr (b, FMT_JSON)))"

definition JSONTranscoder_decode_value :: "serializer \<Rightarrow> tval \<Rightarrow> int option \<Rightarrow> tval res" where
  "JSONTranscoder_decode_value serial value flags =
     (let format = get_decode_format flags
      in if format \<in> {Some FMT_JSON, Some 0, None}
         then (case deserialize serial value of Inr v \<Rightarrow> Inr v | Inl e \<Rightarrow> Inr value)
         else if format = Some FMT_BYTES then Inl ValueFormatException
         else if format = Some FMT_UTF8 then Inl ValueFormatException
         else Inl ValueFormatException)"

subsection \<open>The raw transcoders\<close>

definition RawJSONTranscoder_encode_value :: "tval \<Rightarrow> (tval \<times> int) res" where
  "RawJSONTranscoder_encode_value value =
     (if is_text value then bindE (encode_text value) (\<lambda>b. Inr (b, FMT_JSON))
      else if is_binary value then Inr (to_bytes value, FMT_JSON)
      else Inl ValueFormatException)"

definition RawJSONTranscoder_decode_value :: "tval \<Rightarrow> int option \<Rightarrow> tval res" where
  "RawJSONTranscoder_decode_value value flags =
     (let format = get_decode_format flags
      in if format = Some FMT_BYTES then Inl ValueFormatException
         else if format = Some FMT_UTF8 then Inl ValueFormatException
         else if format = Some FMT_JSON
         then (if is_text value then decode_text value else Inr (to_bytes value))
         else Inl ValueFormatException)"

definition RawStringTranscoder_encode_value :: "tval \<Rightarrow> (tval \<times> int) res" where
  "RawStringTranscoder_encode_value value =
     (if is_text value then bindE (encode_text value) (\<lambda>b. Inr (b, FMT_UTF8))
      else Inl ValueFormatException)"

definition RawStringTranscoder_decode_value :: "tval \<Rightarrow> int option \<Rightarrow> tval res" where
  "RawStringTranscoder_decode_value value flags =
     (let format = get_decode_format flags
      in if format = Some FMT_BYTES then Inl ValueFormatException
         else if format = Some FMT_UTF8 then decode_text value
         else if format = Some FMT_JSON then Inl ValueFormatException
         else Inl ValueFormatException)"

definition RawBinaryTranscoder_encode_value :: "tval \<Rightarrow> (tval \<times> int) res" where
  "RawBinaryTranscoder_encode_value value =
     (if is_binary value then Inr (to_bytes value, FMT_BYTES) else Inl ValueFormatException)"

definition RawBinaryTranscoder_decode_value :: "tval \<Rightarrow> int option \<Rightarrow> tval res" where
  "RawBinaryTranscoder_decode_value value flags =
     (let format = get_decode_format flags
      in if format = Some FMT_BYTES then Inr (to_bytes value)
         else if format = Some FMT_UTF8 then Inl ValueFormatException
         else if format = Some FMT_JSON then Inl ValueFormatException
         else Inl ValueFormatException)"

subsection \<open>LegacyTranscoder\<close>

definition LegacyTranscoder_encode_value ::
  "py_floats \<Rightarrow> pickler \<Rightarrow> tval \<Rightarrow> (tval \<times> int) res" where
  "LegacyTranscoder_encode_value fs pk value =
     (let format = (if is_text value then FMT_UTF8 else if is_binary value then FMT_BYTES
                    else if json_type value then FMT_JSON else FMT_PICKLE)
      in if format = FMT_BYTES
         then (if is_binary value then Inr (to_bytes value, format) else Inl ValueFormatException)
         else if format = FMT_UTF8 then bindE (encode_text value) (\<lambda>b. Inr (b, format))
         else if format = FMT_PICKLE
         then bindE (pickle_dumps pk value) (\<lambda>b. Inr (TBytes b, FMT_PICKLE))
         else bindE (dumps fs value) (\<lambda>t. bindE (str_encode t) (\<lambda>b. Inr (b, FMT_JSON))))"

definition LegacyTranscoder_decode_value ::
  "py_floats \<Rightarrow> pickler \<Rightarrow> tval \<Rightarrow> int option \<Rightarrow> tval res" where
  "LegacyTranscoder_decode_value fs pk value flags =
     (let format = get_decode_format flags
      in if format \<in> {Some FMT_JSON, Some 0, None}
         then (case bindE (decode_utf8 value) (loads fs) of Inr v \<Rightarrow> Inr v | Inl e \<Rightarrow> Inr value)
         else if format = Some FMT_BYTES then Inr value
         else if format = Some FMT_UTF8 then decode_text value
         else if format = Some FMT_PICKLE then pickle_loads pk value
         else Inr value)"


subsection \<open>Which values a transcoder stores\<close>

text \<open>
  A value has a JSON document when it is plain and its text encodes, that is, when no
  string in it holds a lone surrogate.
\<close>

definition json_storable :: "py_floats \<Rightarrow> tval \<Rightarrow> bool" where
  "json_storable fs v \<longleftrightarrow> \<not> is_text v \<and> plain fs v \<and>
     (case dumps fs v of Inr t \<Rightarrow> utf8_encode t \<noteq> None | Inl _ \<Rightarrow> False)"

definition text_storable :: "tval \<Rightarrow> bool" where
  "text_storable v = (case v of TStr s \<Rightarrow> utf8_encode s \<noteq> None | _ \<Rightarrow> False)"

lemma decode_utf8_bytes: "utf8_encode s = Some b \<Longrightarrow> decode_utf8 (TBytes b) = Inr s"
  by (simp add: decode_utf8_def utf8_roundtrip)

lemma storable_json_types: "json_storable fs v \<Longrightarrow> json_type v \<and> \<not> is_binary v"
  by (cases v) (auto simp: json_storable_def is_text_def is_binary_def json_type_def)

lemma json_document:
  assumes "plain fs v" "dumps fs v = Inr t" "utf8_encode t \<noteq> None"
  obtains b where "DefaultJsonSerializer_serialize fs v = Inr (TBytes b)"
    "DefaultJsonSerializer_deserialize fs (TBytes b) = Inr v"
proof -
  from assms obtain b where b: "utf8_encode t = Some b" by blast
  have "loads fs t = Inr v" using loads_dumps [OF assms(1)] assms(2) by auto
  then show ?thesis
    using that [of b] b assms(2)
    by (simp add: DefaultJsonSerializer_serialize_def DefaultJsonSerializer_deserialize_def
        str_encode_def decode_utf8_bytes)
qed

definition json_stores :: "py_floats \<Rightarrow> tval \<Rightarrow> bool" where
  "json_stores fs v \<longleftrightarrow> plain fs v \<and>
     (case dumps fs v of Inr t \<Rightarrow> utf8_encode t \<noteq> None | Inl _ \<Rightarrow> False)"

definition legacy_stores :: "py_floats \<Rightarrow> pickler \<Rightarrow> tval \<Rightarrow> bool" where
  "legacy_stores fs pk v \<longleftrightarrow> json_storable fs v \<or> text_storable v \<or> is_binary v \<or>
     (\<exists>n b. v = TObject n \<and> pickle_dumps pk v = Inr b \<and> pickle_loads pk (TBytes b) = Inr v)"

interpretation json: transcoder
  "JSONTranscoder_encode_value (DefaultJsonSerializer fs)"
  "JSONTranscoder_decode_value (DefaultJsonSerializer fs)" "json_stores fs" "\<lambda>v. v"
proof
  fix v assume "json_stores fs v"
  then obtain t where t: "plain fs v" "dumps fs v = Inr t" "utf8_encode t \<noteq> None"
    by (auto simp: json_stores_def split: sum.splits)
  from json_document [OF this] obtain b where
    b: "DefaultJsonSerializer_serialize fs v = Inr (TBytes b)"
      "DefaultJsonSerializer_deserialize fs (TBytes b) = Inr v" .
  have "is_text v \<or> json_type v" "\<not> is_binary v"
    using t(1) by (cases v; simp add: is_text_def json_type_def is_binary_def)+
  then show "\<exists>b f. JSONTranscoder_encode_value (DefaultJsonSerializer fs) v = Inr (TBytes b, f) \<and>
      JSONTranscoder_decode_value (DefaultJsonSerializer fs) (TBytes b) (Some f) = Inr v"
    using b by (auto simp: JSONTranscoder_encode_value_def JSONTranscoder_decode_value_def
        DefaultJsonSerializer_def)
qed

interpretation raw_string: transcoder
  RawStringTranscoder_encode_value RawStringTranscoder_decode_value text_storable "\<lambda>v. v"
proof
  fix v assume "text_storable v"
  then obtain s b where "v = TStr s" "utf8_encode s = Some b"
    by (cases v) (auto simp: text_storable_def)
  then show "\<exists>b f. RawStringTranscoder_encode_value v = Inr (TBytes b, f) \<and>
      RawStringTranscoder_decode_value (TBytes b) (Some f) = Inr v"
    by (simp add: RawStringTranscoder_encode_value_def RawStringTranscoder_decode_value_def
        is_text_def encode_text_def str_encode_def decode_text_def decode_utf8_bytes)
qed

interpretation raw_binary: transcoder
  RawBinaryTranscoder_encode_value RawBinaryTranscoder_decode_value is_binary to_bytes
proof
  fix v assume "is_binary v"
  then obtain b where "to_bytes v = TBytes b" by (cases v) (auto simp: is_binary_def)
  with \<open>is_binary v\<close> show "\<exists>b f. RawBinaryTranscoder_encode_value v = Inr (TBytes b, f) \<and>
      RawBinaryTranscoder_decode_value (TBytes b) (Some f) = Inr (to_bytes v)"
    by (simp add: RawBinaryTranscoder_encode_value_def RawBinaryTranscoder_decode_value_def)
qed

text \<open>The raw JSON transcoder gives a string back as its bytes.\<close>

definition json_bytes :: "tval \<Rightarrow> tval" where
  "json_bytes v = (case v of TStr s \<Rightarrow> (case utf8_encode s of Some b \<Rightarrow> TBytes b | None \<Rightarrow> v)
     | _ \<Rightarrow> to_bytes v)"

interpretation raw_json: transcoder
  RawJSONTranscoder_encode_value RawJSONTranscoder_decode_value
  "\<lambda>v. text_storable v \<or> is_binary v" json_bytes
proof
  fix v assume "text_storable v \<or> is_binary v"
  then consider s b where "v = TStr s" "utf8_encode s = Some b"
    | b where "is_binary v" "\<not> is_text v" "to_bytes v = TBytes b" "json_bytes v = TBytes b"
    by (cases v) (auto simp: text_storable_def is_binary_def is_text_def json_bytes_def)
  then show "\<exists>b f. RawJSONTranscoder_encode_value v = Inr (TBytes b, f) \<and>
      RawJSONTranscoder_decode_value (TBytes b) (Some f) = Inr (json_bytes v)"
    by cases (simp_all add: RawJSONTranscoder_encode_value_def RawJSONTranscoder_decode_value_def
        is_text_def encode_text_def str_encode_def json_bytes_def)
qed

interpretation legacy: transcoder
  "LegacyTranscoder_encode_value fs pk" "LegacyTranscoder_decode_value fs pk"
  "legacy_stores fs pk" to_bytes
proof
  fix v assume "legacy_stores fs pk v"
  then consider (json) t where "\<not> is_text v" "\<not> is_binary v" "json_type v" "plain fs v"
        "dumps fs v = Inr t" "utf8_encode t \<noteq> None"
    | (str) s b where "v = TStr s" "utf8_encode s = Some b"
    | (bin) b where "is_binary v" "\<not> is_text v" "to_bytes v = TBytes b"
    | (obj) n b where "v = TObject n" "pickle_dumps pk v = Inr b" "pickle_loads pk (TBytes b) = Inr v"
    using storable_json_types [of fs v]
    by (cases v) (auto simp: legacy_stores_def text_storable_def is_binary_def is_text_def
        json_storable_def split: sum.splits)
  then show "\<exists>b f. LegacyTranscoder_encode_value fs pk v = Inr (TBytes b, f) \<and>
      LegacyTranscoder_decode_value fs pk (TBytes b) (Some f) = Inr (to_bytes v)"
  proof cases
    case json
    then obtain b where "utf8_encode t = Some b" by blast
    moreover have "loads fs t = Inr v" using loads_dumps [OF json(4)] json(5) by auto
    moreover have "to_bytes v = v" using json(2) by (cases v) (auto simp: is_binary_def)
    ultimately show ?thesis using json
      by (simp add: LegacyTranscoder_encode_value_def LegacyTranscoder_decode_value_def
          str_encode_def decode_utf8_bytes)
  next
    case str
    then show ?thesis
      by (simp add: LegacyTranscoder_encode_value_def LegacyTranscoder_decode_value_def is_text_def
          encode_text_def str_encode_def decode_text_def decode_utf8_bytes)
  next
    case bin
    then show ?thesis
      by (simp add: LegacyTranscoder_encode_value_def LegacyTranscoder_decode_value_def)
  next
    case obj
    then show ?thesis
      by (simp add: LegacyTranscoder_encode_value_def LegacyTranscoder_decode_value_def is_text_def
          is_binary_def json_type_def)
  qed
qed


subsection \<open>Properties\<close>

text \<open>C29. The default transcoder returns what it stored: a value of JSON types with
  string keys, whose floats print and read back and whose text has no lone surrogate,
  is encoded to bytes with the JSON format, and decoding these bytes with these flags
  gives the same value.\<close>

theorem JSONTranscoder_roundtrip:
  assumes "plain fs v" "dumps fs v = Inr t" "list_all is_scalar t"
  shows "\<exists>b. JSONTranscoder_encode_value (DefaultJsonSerializer fs) v = Inr (TBytes b, FMT_JSON) \<and>
    JSONTranscoder_decode_value (DefaultJsonSerializer fs) (TBytes b) (Some FMT_JSON) = Inr v"
proof -
  have "utf8_encode t \<noteq> None" using assms(3) utf8_encode_some by blast
  then have "json_stores fs v" using assms by (simp add: json_stores_def)
  from json.stored [OF this] obtain b f where
    b: "JSONTranscoder_encode_value (DefaultJsonSerializer fs) v = Inr (TBytes b, f)"
      "JSONTranscoder_decode_value (DefaultJsonSerializer fs) (TBytes b) (Some f) = Inr v" by blast
  moreover have "f = FMT_JSON"
    using b(1) by (auto simp: JSONTranscoder_encode_value_def bindE_eq_Inr split: if_splits)
  ultimately show ?thesis by blast
qed

theorem JSONTranscoder_roundtrip_witness:
  "\<exists>b. JSONTranscoder_encode_value
      (DefaultJsonSerializer \<lparr>float_repr = \<lambda>_. [], float_parse = \<lambda>_. NaN\<rparr>)
      (TDict [(TStr [97, 34], TList [TInt (-12), TNone, TBool True]), (TStr [233], TStr [10, 0x1F600])])
      = Inr (TBytes b, FMT_JSON) \<and>
    JSONTranscoder_decode_value
      (DefaultJsonSerializer \<lparr>float_repr = \<lambda>_. [], float_parse = \<lambda>_. NaN\<rparr>) (TBytes b) (Some FMT_JSON)
      = Inr (TDict [(TStr [97, 34], TList [TInt (-12), TNone, TBool True]), (TStr [233], TStr [10, 0x1F600])])"
  by (rule JSONTranscoder_roundtrip)
    (simp_all add: json_string_def escape_char_def int_repr_def digits.simps literal_defs,
      simp add: is_scalar_def)

text \<open>C30. The legacy transcoder returns what it stored, whatever kind the value has:
  JSON values and strings are the same, a \<open>bytearray\<close> comes back as \<open>bytes\<close>, and an
  object of another class is returned as pickling it and back gives it.\<close>

theorem LegacyTranscoder_roundtrip:
  assumes "legacy_stores fs pk v"
  shows "bindE (LegacyTranscoder_encode_value fs pk v)
      (\<lambda>(b, flags). LegacyTranscoder_decode_value fs pk b (Some flags)) = Inr (to_bytes v)"
  using assms by (rule legacy.write_read)

theorem LegacyTranscoder_roundtrip_witness:
  "bindE (LegacyTranscoder_encode_value \<lparr>float_repr = \<lambda>_. [], float_parse = \<lambda>_. NaN\<rparr>
        \<lparr>pickle_dumps = \<lambda>v. Inr [128], pickle_loads = \<lambda>b. Inr (TObject 3)\<rparr> (TObject 3))
      (\<lambda>(b, flags). LegacyTranscoder_decode_value \<lparr>float_repr = \<lambda>_. [], float_parse = \<lambda>_. NaN\<rparr>
        \<lparr>pickle_dumps = \<lambda>v. Inr [128], pickle_loads = \<lambda>b. Inr (TObject 3)\<rparr> b (Some flags))
     = Inr (TObject 3)"
  using LegacyTranscoder_roundtrip [of "\<lparr>float_repr = \<lambda>_. [], float_parse = \<lambda>_. NaN\<rparr>"
      "\<lparr>pickle_dumps = \<lambda>v. Inr [128], pickle_loads = \<lambda>b. Inr (TObject 3)\<rparr>" "TObject 3"]
  by (simp add: legacy_stores_def)

text \<open>C31. A document is never taken for one of another kind: what the string or the
  binary transcoder stored is refused by the two JSON transcoders, what either JSON
  transcoder stored is refused by the string and the binary transcoder, and these two
  refuse each other's documents.\<close>

theorem transcoders_refuse_foreign_documents:
  "(RawStringTranscoder_encode_value v = Inr (b, f) \<longrightarrow>
      JSONTranscoder_decode_value sr b (Some f) = Inl ValueFormatException \<and>
      RawJSONTranscoder_decode_value b (Some f) = Inl ValueFormatException \<and>
      RawBinaryTranscoder_decode_value b (Some f) = Inl ValueFormatException) \<and>
   (RawBinaryTranscoder_encode_value v = Inr (b, f) \<longrightarrow>
      JSONTranscoder_decode_value sr b (Some f) = Inl ValueFormatException \<and>
      RawJSONTranscoder_decode_value b (Some f) = Inl ValueFormatException \<and>
      RawStringTranscoder_decode_value b (Some f) = Inl ValueFormatException) \<and>
   (JSONTranscoder_encode_value sr v = Inr (b, f) \<or> RawJSONTranscoder_encode_value v = Inr (b, f) \<longrightarrow>
      RawStringTranscoder_decode_value b (Some f) = Inl ValueFormatException \<and>
      RawBinaryTranscoder_decode_value b (Some f) = Inl ValueFormatException)"
proof (intro conjI impI)
  show "JSONTranscoder_decode_value sr b (Some f) = Inl ValueFormatException"
    "RawJSONTranscoder_decode_value b (Some f) = Inl ValueFormatException"
    "RawBinaryTranscoder_decode_value b (Some f) = Inl ValueFormatException"
    if "RawStringTranscoder_encode_value v = Inr (b, f)"
  proof -
    from that have "f = FMT_UTF8"
      by (auto simp: RawStringTranscoder_encode_value_def bindE_eq_Inr split: if_splits)
    then show "JSONTranscoder_decode_value sr b (Some f) = Inl ValueFormatException"
      "RawJSONTranscoder_decode_value b (Some f) = Inl ValueFormatException"
      "RawBinaryTranscoder_decode_value b (Some f) = Inl ValueFormatException"
      by (simp_all add: JSONTranscoder_decode_value_def RawJSONTranscoder_decode_value_def
          RawBinaryTranscoder_decode_value_def)
  qed
  show "JSONTranscoder_decode_value sr b (Some f) = Inl ValueFormatException"
    "RawJSONTranscoder_decode_value b (Some f) = Inl ValueFormatException"
    "RawStringTranscoder_decode_value b (Some f) = Inl ValueFormatException"
    if "RawBinaryTranscoder_encode_value v = Inr (b, f)"
  proof -
    from that have "f = FMT_BYTES"
      by (auto simp: RawBinaryTranscoder_encode_value_def split: if_splits)
    then show "JSONTranscoder_decode_value sr b (Some f) = Inl ValueFormatException"
      "RawJSONTranscoder_decode_value b (Some f) = Inl ValueFormatException"
      "RawStringTranscoder_decode_value b (Some f) = Inl ValueFormatException"
      by (simp_all add: JSONTranscoder_decode_value_def RawJSONTranscoder_decode_value_def
          RawStringTranscoder_decode_value_def)
  qed
  show "RawStringTranscoder_decode_value b (Some f) = Inl ValueFormatException"
    "RawBinaryTranscoder_decode_value b (Some f) = Inl ValueFormatException"
    if "JSONTranscoder_encode_value sr v = Inr (b, f) \<or> RawJSONTranscoder_encode_value v = Inr (b, f)"
  proof -
    from that have "f = FMT_JSON"
      by (auto simp: JSONTranscoder_encode_value_def RawJSONTranscoder_encode_value_def bindE_eq_Inr
          split: if_splits)
    then show "RawStringTranscoder_decode_value b (Some f) = Inl ValueFormatException"
      "RawBinaryTranscoder_decode_value b (Some f) = Inl ValueFormatException"
      by (simp_all add: RawStringTranscoder_decode_value_def RawBinaryTranscoder_decode_value_def)
  qed
qed

theorem transcoders_refuse_foreign_documents_witness:
  "RawStringTranscoder_encode_value (TStr [97]) = Inr (TBytes [97], FMT_UTF8) \<and>
   RawBinaryTranscoder_decode_value (TBytes [97]) (Some FMT_UTF8) = Inl ValueFormatException"
proof -
  have e: "RawStringTranscoder_encode_value (TStr [97]) = Inr (TBytes [97], FMT_UTF8)"
    by (simp add: RawStringTranscoder_encode_value_def is_text_def encode_text_def str_encode_def
        is_scalar_def utf8_char_def)
  then show ?thesis
    using transcoders_refuse_foreign_documents [of "TStr [97]" "TBytes [97]" FMT_UTF8] by blast
qed

text \<open>The format of a document is read off its flags: the common format byte
  (bits 24 to 31) decides alone when it is not zero, and otherwise the lowest three
  bits, as older SDKs wrote them; the flags' other bits never matter.\<close>

theorem get_decode_format_spec:
  "get_decode_format (Some fl) =
     (let c = fl div 2 ^ 24 mod 2 ^ 8; l = fl mod 8 in
      if c \<noteq> 0 then map_of [(1, FMT_PICKLE), (2, FMT_JSON), (3, FMT_BYTES), (4, FMT_UTF8)] c
      else map_of [(0, FMT_JSON), (1, FMT_PICKLE), (2, FMT_BYTES), (4, FMT_UTF8)] l)"
  by (auto simp: get_decode_format_def and_common and_legacy COMMON2UNIFIED_eq LEGACY2UNIFIED_eq
      Let_def)

end
