(* ===== verification/Subdoc.thy ===== *)
theory Subdoc
  imports Options
begin

text \<open>
  \<open>couchbase/subdocument.py\<close>: the specs of subdocument lookups and mutations and the
  parsing of a lookup's or mutation's content, as the \<open>content_as\<close> and \<open>exists\<close> of
  \<open>LookupInResult\<close> and \<open>MutateInResult\<close> (\<open>couchbase/result.py\<close>) use it.

  A \<open>Spec\<close> is the tuple of its fields; a \<open>MutationMacro\<close> is an instance holding its
  text.  The content of a result is the list of dictionaries the core returned, one
  per spec.
\<close>

subsection \<open>Operations and macros\<close>

datatype SubDocOp = GET_DOC | SET_DOC | REMOVE_DOC | GET | EXISTS | DICT_ADD | DICT_UPSERT
  | REMOVE | REPLACE | ARRAY_PUSH_LAST | ARRAY_PUSH_FIRST | ARRAY_INSERT | ARRAY_ADD_UNIQUE
  | COUNTER | GET_COUNT | REPLACE_BODY_WITH_XATTR

fun SubDocOp_value :: "SubDocOp \<Rightarrow> int" where
  "SubDocOp_value GET_DOC = 0"
| "SubDocOp_value SET_DOC = 1"
| "SubDocOp_value REMOVE_DOC = 4"
| "SubDocOp_value GET = 197"
| "SubDocOp_value EXISTS = 198"
| "SubDocOp_value DICT_ADD = 199"
| "SubDocOp_value DICT_UPSERT = 200"
| "SubDocOp_value REMOVE = 201"
| "SubDocOp_value REPLACE = 202"
| "SubDocOp_value ARRAY_PUSH_LAST = 203"
| "SubDocOp_value ARRAY_PUSH_FIRST = 204"
| "SubDocOp_value ARRAY_INSERT = 205"
| "SubDocOp_value ARRAY_ADD_UNIQUE = 206"
| "SubDocOp_value COUNTER = 207"
| "SubDocOp_value GET_COUNT = 210"
| "SubDocOp_value REPLACE_BODY_WITH_XATTR = 211"

lemma SubDocOp_value_inj: "SubDocOp_value a = SubDocOp_value b \<longleftrightarrow> a = b"
  by (cases a; cases b) simp_all

datatype SubDocStatus = PathNotFound | PathMismatch | PathInvalid | PathTooBig | TooDeep
  | ValueCannotInsert | DocNotJson | NumRangeError | DeltaInvalid | PathExists | ValueTooDeep

fun SubDocStatus_value :: "SubDocStatus \<Rightarrow> int" where
  "SubDocStatus_value PathNotFound = 192"
| "SubDocStatus_value PathMismatch = 193"
| "SubDocStatus_value PathInvalid = 194"
| "SubDocStatus_value PathTooBig = 195"
| "SubDocStatus_value TooDeep = 196"
| "SubDocStatus_value ValueCannotInsert = 197"
| "SubDocStatus_value DocNotJson = 198"
| "SubDocStatus_value NumRangeError = 199"
| "SubDocStatus_value DeltaInvalid = 200"
| "SubDocStatus_value PathExists = 201"
| "SubDocStatus_value ValueTooDeep = 202"

definition LookupInMacro_expiry_time :: string where
  "LookupInMacro_expiry_time = ''$document.exptime''"

definition MutationMacro :: "string \<Rightarrow> pyval" where
  "MutationMacro value = PInst ''MutationMacro'' [(''_value'', PStr value)]"

definition is_macro :: "pyval \<Rightarrow> bool" where
  "is_macro v = is_instance_of v ''MutationMacro''"

definition macro_value :: "pyval \<Rightarrow> pyval" where
  "macro_value v = attr v ''_value''"

definition MutationMacro_cas :: pyval where
  "MutationMacro_cas = MutationMacro ''${Mutation.CAS}''"

definition MutationMacro_seq_no :: pyval where
  "MutationMacro_seq_no = MutationMacro ''${Mutation.seqno}''"

definition MutationMacro_value_crc32c :: pyval where
  "MutationMacro_value_crc32c = MutationMacro ''${Mutation.value_crc32c}''"

subsection \<open>Specs\<close>

datatype spec =
    LookupSpec SubDocOp string bool
  | RemoveSpec SubDocOp string bool bool bool
  | MutateSpec SubDocOp string bool bool bool pyval

text \<open>The operation code, and the fields \<open>xattr\<close> and \<open>expand_macros\<close> of a spec.\<close>

fun spec_op :: "spec \<Rightarrow> SubDocOp" where
  "spec_op (LookupSpec op _ _) = op"
| "spec_op (RemoveSpec op _ _ _ _) = op"
| "spec_op (MutateSpec op _ _ _ _ _) = op"

fun spec_xattr :: "spec \<Rightarrow> bool" where
  "spec_xattr (LookupSpec _ _ x) = x"
| "spec_xattr (RemoveSpec _ _ _ x _) = x"
| "spec_xattr (MutateSpec _ _ _ x _ _) = x"

fun spec_expand :: "spec \<Rightarrow> bool" where
  "spec_expand (MutateSpec _ _ _ _ e _) = e"
| "spec_expand (RemoveSpec _ _ _ _ e) = e"
| "spec_expand (LookupSpec _ _ _) = False"

fun spec_value :: "spec \<Rightarrow> pyval option" where
  "spec_value (MutateSpec _ _ _ _ _ v) = Some v"
| "spec_value _ = None"

definition SD_exists :: "string \<Rightarrow> bool \<Rightarrow> spec" where
  "SD_exists path xattr = LookupSpec EXISTS path xattr"

definition SD_get :: "string \<Rightarrow> bool \<Rightarrow> spec" where
  "SD_get path xattr = LookupSpec GET path xattr"

definition SD_count :: "string \<Rightarrow> bool \<Rightarrow> spec" where
  "SD_count path xattr = LookupSpec GET_COUNT path xattr"

definition SD_insert :: "string \<Rightarrow> pyval \<Rightarrow> bool \<Rightarrow> bool \<Rightarrow> bool \<Rightarrow> spec" where
  "SD_insert path value create_parents xattr expand_macros =
     (if is_macro value
      then MutateSpec DICT_ADD path create_parents True True (macro_value value)
      else MutateSpec DICT_ADD path create_parents xattr expand_macros value)"

definition SD_upsert :: "string \<Rightarrow> pyval \<Rightarrow> bool \<Rightarrow> bool \<Rightarrow> spec" where
  "SD_upsert path value create_parents xattr =
     (if is_macro value
      then MutateSpec DICT_UPSERT path create_parents True True (macro_value value)
      else MutateSpec DICT_UPSERT path create_parents xattr False value)"

definition SD_replace :: "string \<Rightarrow> pyval \<Rightarrow> bool \<Rightarrow> spec" where
  "SD_replace path value xattr =
     (let (v, x, e) = (if is_macro value then (macro_value value, True, True) else (value, xattr, False))
      in if path = '''' then MutateSpec SET_DOC '''' False x e v
         else MutateSpec REPLACE path False x e v)"

definition SD_remove :: "string \<Rightarrow> bool \<Rightarrow> spec" where
  "SD_remove path xattr =
     (if path = '''' then RemoveSpec REMOVE_DOC '''' False xattr False
      else RemoveSpec REMOVE path False xattr False)"

definition ArrayValues :: "pyval list \<Rightarrow> pyval" where
  "ArrayValues values = PTuple values"

definition array_spec :: "SubDocOp \<Rightarrow> string \<Rightarrow> pyval list \<Rightarrow> bool \<Rightarrow> bool \<Rightarrow> spec" where
  "array_spec op path values create_parents xattr =
     (if list_ex is_macro values
      then MutateSpec op path create_parents True True
             (ArrayValues (map (\<lambda>v. if is_macro v then macro_value v else v) values))
      else MutateSpec op path create_parents xattr False (ArrayValues values))"

definition SD_array_append :: "string \<Rightarrow> pyval list \<Rightarrow> bool \<Rightarrow> bool \<Rightarrow> spec" where
  "SD_array_append = array_spec ARRAY_PUSH_LAST"

definition SD_array_prepend :: "string \<Rightarrow> pyval list \<Rightarrow> bool \<Rightarrow> bool \<Rightarrow> spec" where
  "SD_array_prepend = array_spec ARRAY_PUSH_FIRST"

definition SD_array_insert :: "string \<Rightarrow> pyval list \<Rightarrow> bool \<Rightarrow> bool \<Rightarrow> spec" where
  "SD_array_insert = array_spec ARRAY_INSERT"

definition SD_array_addunique :: "string \<Rightarrow> pyval \<Rightarrow> bool \<Rightarrow> bool \<Rightarrow> spec" where
  "SD_array_addunique path value create_parents xattr =
     (if is_macro value
      then MutateSpec ARRAY_ADD_UNIQUE path create_parents True True (macro_value value)
      else MutateSpec ARRAY_ADD_UNIQUE path create_parents xattr False value)"

definition SD_increment :: "string \<Rightarrow> pyval \<Rightarrow> bool \<Rightarrow> bool \<Rightarrow> spec res" where
  "SD_increment path delta xattr create_parents =
     (case int_of delta of
        None \<Rightarrow> Inl InvalidArgumentException
      | Some i \<Rightarrow> if i \<le> 0 then Inl InvalidArgumentException
                  else Inr (MutateSpec COUNTER path create_parents xattr False delta))"

definition SD_decrement :: "string \<Rightarrow> pyval \<Rightarrow> bool \<Rightarrow> bool \<Rightarrow> spec res" where
  "SD_decrement path delta xattr create_parents =
     (case int_of delta of
        None \<Rightarrow> Inl InvalidArgumentException
      | Some i \<Rightarrow> if i \<le> 0 then Inl InvalidArgumentException
                  else Inr (MutateSpec COUNTER path create_parents xattr False (PInt (-1 * i))))"

definition py_abs :: "pyval \<Rightarrow> pyval" where
  "py_abs v = (case int_of v of Some i \<Rightarrow> PInt \<bar>i\<bar>
     | None \<Rightarrow> (case num_of v of Some q \<Rightarrow> PFloat \<bar>q\<bar> | None \<Rightarrow> v))"

definition SD_counter :: "string \<Rightarrow> pyval \<Rightarrow> bool \<Rightarrow> bool \<Rightarrow> spec res" where
  "SD_counter path delta xattr create_parents =
     (case num_of delta of
        None \<Rightarrow> Inl TypeError
      | Some q \<Rightarrow> if q \<ge> 0 then SD_increment path delta xattr create_parents
                  else SD_decrement path (py_abs delta) xattr create_parents)"

definition SD_get_full :: spec where
  "SD_get_full = LookupSpec GET_DOC '''' False"

definition SD_with_expiry :: spec where
  "SD_with_expiry = LookupSpec GET LookupInMacro_expiry_time True"

subsection \<open>Content of a result\<close>

type_synonym content = "pydict list"

definition parse_subdocument_status :: "pyval \<Rightarrow> exc" where
  "parse_subdocument_status status =
     (if py_eq status (PInt (SubDocStatus_value PathNotFound)) then PathNotFoundException
      else if py_eq status (PInt (SubDocStatus_value PathMismatch)) then PathMismatchException
      else if py_eq status (PInt (SubDocStatus_value PathInvalid)) then PathInvalidException
      else if py_eq status (PInt (SubDocStatus_value PathTooBig)) then PathTooBigException
      else if py_eq status (PInt (SubDocStatus_value TooDeep)) then PathTooDeepException
      else if py_eq status (PInt (SubDocStatus_value ValueCannotInsert))
      then SubdocCantInsertValueException
      else if py_eq status (PInt (SubDocStatus_value DocNotJson)) then DocumentNotJsonException
      else if py_eq status (PInt (SubDocStatus_value NumRangeError)) then NumberTooBigException
      else if py_eq status (PInt (SubDocStatus_value DeltaInvalid)) then DeltaInvalidException
      else if py_eq status (PInt (SubDocStatus_value PathExists)) then PathExistsException
      else if py_eq status (PInt (SubDocStatus_value ValueTooDeep)) then ValueTooDeepException
      else CouchbaseException)"

definition bad_index :: "content \<Rightarrow> int \<Rightarrow> bool" where
  "bad_index content index \<longleftrightarrow> index > int (length content) - 1 \<or> index < 0"

definition parse_subdocument_exists :: "content \<Rightarrow> int \<Rightarrow> bool res" where
  "parse_subdocument_exists content index =
     (if bad_index content index then Inl InvalidIndexException
      else let entry = content ! nat index; status = dget entry ''status'' PNone in
        if status = PNone then Inl DocumentNotFoundException
        else if py_eq status (PInt 0) then Inr True
        else if py_eq status (PInt (SubDocStatus_value PathNotFound)) then Inr False
        else Inl (parse_subdocument_status status))"

definition parse_subdocument_content_as :: "content \<Rightarrow> int \<Rightarrow> pyval res" where
  "parse_subdocument_content_as content index =
     (if bad_index content index then Inl InvalidIndexException
      else let entry = content ! nat index; status = dget entry ''status'' PNone in
        if status = PNone then Inl DocumentNotFoundException
        else if py_eq (dget entry ''opcode'' PNone) (PInt (SubDocOp_value EXISTS))
        then bindE (parse_subdocument_exists content index) (\<lambda>b. Inr (PBool b))
        else if py_eq status (PInt 0) then Inr (dget entry ''value'' PNone)
        else Inl (parse_subdocument_status status))"

text \<open>\<open>content_as[type](index)\<close> and \<open>exists(index)\<close> of the results.\<close>

definition ContentSubdocProxy_getitem ::
  "content \<Rightarrow> (pyval \<Rightarrow> pyval res) \<Rightarrow> int \<Rightarrow> pyval res" where
  "ContentSubdocProxy_getitem content type_fn index =
     bindE (parse_subdocument_content_as content index) type_fn"

definition LookupInResult_exists :: "content \<Rightarrow> int \<Rightarrow> bool res" where
  "LookupInResult_exists value index = parse_subdocument_exists value index"

subsection \<open>The CAS macro\<close>

definition hexdigit_value :: "char \<Rightarrow> nat option" where
  "hexdigit_value c =
     (let n = of_char c :: nat in
      if 48 \<le> n \<and> n \<le> 57 then Some (n - 48)
      else if 97 \<le> n \<and> n \<le> 102 then Some (n - 87)
      else if 65 \<le> n \<and> n \<le> 70 then Some (n - 55) else None)"

definition hex_space :: "char \<Rightarrow> bool" where
  "hex_space c = (let n = of_char c :: nat in 9 \<le> n \<and> n \<le> 13 \<or> n = 32)"

fun fromhex :: "string \<Rightarrow> nat list option" where
  "fromhex [] = Some []"
| "fromhex [c] = (if hex_space c then Some [] else None)"
| "fromhex (c # d # s) =
     (if hex_space c then fromhex (d # s)
      else case (hexdigit_value c, hexdigit_value d) of
        (Some x, Some y) \<Rightarrow> map_option ((#) (16 * x + y)) (fromhex s)
      | _ \<Rightarrow> None)"

text \<open>\<open>int(b.hex(), base=16)\<close>; the empty string is no number.\<close>

definition int_of_bytes :: "nat list \<Rightarrow> nat res" where
  "int_of_bytes bs = (if bs = [] then Inl ValueError else Inr (foldl (\<lambda>a b. a * 256 + b) 0 bs))"

definition convert_macro_cas_to_cas :: "string \<Rightarrow> nat res" where
  "convert_macro_cas_to_cas cas =
     (case fromhex (if take 2 cas = ''0x'' then drop 2 cas else cas) of
        None \<Rightarrow> Inl ValueError
      | Some bs \<Rightarrow> int_of_bytes (rev bs))"


subsection \<open>The bytes of a CAS macro\<close>

text \<open>
  What the server stores for \<open>${Mutation.CAS}\<close>: \<open>0x\<close> and the hexadecimal digits of
  the CAS, least significant byte first.
\<close>

fun le_bytes :: "nat \<Rightarrow> nat \<Rightarrow> nat list" where
  "le_bytes 0 n = []"
| "le_bytes (Suc k) n = n mod 256 # le_bytes k (n div 256)"

definition hexdigit :: "nat \<Rightarrow> char" where
  "hexdigit d = (if d < 10 then char_of (48 + d) else char_of (87 + d))"

definition cas_macro_text :: "nat \<Rightarrow> string" where
  "cas_macro_text n = ''0x'' @ concat (map (\<lambda>b. [hexdigit (b div 16), hexdigit (b mod 16)]) (le_bytes 8 n))"

lemma hexdigit_value [simp]: "d < 16 \<Longrightarrow> hexdigit_value (hexdigit d) = Some d"
  by (auto simp: hexdigit_value_def hexdigit_def Let_def)

lemma hexdigit_no_space [simp]: "d < 16 \<Longrightarrow> \<not> hex_space (hexdigit d)"
  by (auto simp: hexdigit_def hex_space_def Let_def)

lemma fromhex_bytes:
  "list_all (\<lambda>b. b < 256) bs \<Longrightarrow>
     fromhex (concat (map (\<lambda>b. [hexdigit (b div 16), hexdigit (b mod 16)]) bs)) = Some bs"
  by (induction bs) auto

lemma le_bytes_Nil: "le_bytes k n = [] \<longleftrightarrow> k = 0"
  by (cases k) simp_all

lemma le_bytes_small: "list_all (\<lambda>b. b < 256) (le_bytes k n)"
  by (induction k arbitrary: n) auto

lemma le_bytes_value: "foldr (\<lambda>b a. a * 256 + b) (le_bytes k n) 0 = n mod 256 ^ k"
proof (induction k arbitrary: n)
  case (Suc k)
  have "n div 256 mod 256 ^ k * 256 + n mod 256 = n mod (256 * 256 ^ k)"
    by (simp add: mod_mult2_eq)
  then show ?case using Suc by simp
qed simp

subsection \<open>Properties\<close>

text \<open>The entry of a lookup's content is read as the core reported it: an index
  out of range is refused and an entry without a status means the document was not
  found; an \<open>exists\<close> gives true on success and false on a missing path; otherwise
  success gives the value, and every other status raises the one exception class of
  that status (\<open>CouchbaseException\<close> for an unknown one), never a silent \<open>None\<close>.\<close>

lemma parse_subdocument_content_as_spec:
  fixes content :: content
  assumes "0 \<le> index" "index < int (length content)"
    and "dget (content ! nat index) ''status'' PNone = PInt s"
    and "dget (content ! nat index) ''opcode'' PNone = PInt (SubDocOp_value op)"
  shows "parse_subdocument_content_as content index =
    (if s = 0 then Inr (if op = EXISTS then PBool True else dget (content ! nat index) ''value'' PNone)
     else if op = EXISTS \<and> s = SubDocStatus_value PathNotFound then Inr (PBool False)
     else Inl (case map_of
        [(192, PathNotFoundException), (193, PathMismatchException), (194, PathInvalidException),
         (195, PathTooBigException), (196, PathTooDeepException), (197, SubdocCantInsertValueException),
         (198, DocumentNotJsonException), (199, NumberTooBigException), (200, DeltaInvalidException),
         (201, PathExistsException), (202, ValueTooDeepException)] s
       of Some e \<Rightarrow> e | None \<Rightarrow> CouchbaseException))"
proof -
  have ok: "\<not> bad_index content index" using assms(1,2) by (simp add: bad_index_def)
  have exc: "parse_subdocument_status (PInt s) = (case map_of
        [(192, PathNotFoundException), (193, PathMismatchException), (194, PathInvalidException),
         (195, PathTooBigException), (196, PathTooDeepException), (197, SubdocCantInsertValueException),
         (198, DocumentNotJsonException), (199, NumberTooBigException), (200, DeltaInvalidException),
         (201, PathExistsException), (202, ValueTooDeepException)] s
       of Some e \<Rightarrow> e | None \<Rightarrow> CouchbaseException)"
    by (auto simp: parse_subdocument_status_def)
  have ex: "SubDocOp_value op = 198 \<longleftrightarrow> op = EXISTS"
    using SubDocOp_value_inj [of op EXISTS] by simp
  show ?thesis
    using ok assms(3,4) ex exc
    by (simp add: parse_subdocument_content_as_def parse_subdocument_exists_def Let_def)
qed

theorem parse_subdocument_content_as_witness:
  "parse_subdocument_content_as
     [[(''opcode'', PInt 197), (''status'', PInt 192), (''path'', PStr ''a'')],
      [(''opcode'', PInt 198), (''status'', PInt 192)]] 1 = Inr (PBool False) \<and>
   parse_subdocument_content_as
     [[(''opcode'', PInt 197), (''status'', PInt 192), (''path'', PStr ''a'')],
      [(''opcode'', PInt 198), (''status'', PInt 192)]] 0 = Inl PathNotFoundException"
proof -
  let ?c = "[[(''opcode'', PInt 197), (''status'', PInt 192), (''path'', PStr ''a'')],
      [(''opcode'', PInt 198), (''status'', PInt 192)]]"
  have 0: "dget (?c ! 0) ''status'' PNone = PInt 192" "dget (?c ! 0) ''opcode'' PNone = PInt 197"
    by simp_all
  have 1: "dget (?c ! 1) ''status'' PNone = PInt 192" "dget (?c ! 1) ''opcode'' PNone = PInt 198"
    by simp_all
  have "parse_subdocument_content_as ?c 1 = Inr (PBool False)"
    by (subst parse_subdocument_content_as_spec [where s = 192 and op = EXISTS]) (use 1 in simp_all)
  moreover have "parse_subdocument_content_as ?c 0 = Inl PathNotFoundException"
    by (subst parse_subdocument_content_as_spec [where s = 192 and op = GET]) (use 0 in simp_all)
  ultimately show ?thesis ..
qed

text \<open>A counter spec adds what it was asked to add: for every integer other than
  zero, \<open>counter\<close> makes a spec whose value is that integer; zero, which the
  documentation of \<open>increment\<close> and \<open>decrement\<close> allows, is refused.\<close>

theorem SD_counter_spec:
  "SD_counter path (PInt d) xattr create_parents =
     (if d = 0 then Inl InvalidArgumentException
      else Inr (MutateSpec COUNTER path create_parents xattr False (PInt d)))"
  by (auto simp: SD_counter_def SD_increment_def SD_decrement_def py_abs_def)

text \<open>A spec that writes a macro always addresses the extended attributes and asks
  for the macro's expansion, and carries the macro's text; a value that is no macro
  is written as it is, expanded only where the caller asked for it.\<close>

theorem macro_specs_expand:
  "(\<forall>s \<in> {SD_upsert path v cp x, SD_insert path v cp x False, SD_replace path v x,
          SD_array_addunique path v cp x}.
      if is_macro v then spec_xattr s \<and> spec_expand s \<and> spec_value s = Some (macro_value v)
      else spec_xattr s = x \<and> \<not> spec_expand s \<and> spec_value s = Some v) \<and>
   (\<forall>s \<in> {SD_array_append path vs cp x, SD_array_prepend path vs cp x, SD_array_insert path vs cp x}.
      spec_expand s = list_ex is_macro vs \<and> spec_xattr s = (x \<or> list_ex is_macro vs) \<and>
      spec_value s = Some (PTuple (map (\<lambda>v. if is_macro v then macro_value v else v) vs)))"
proof -
  have id: "\<not> list_ex is_macro vs \<Longrightarrow> map (\<lambda>v. if is_macro v then macro_value v else v) vs = vs"
    by (induction vs) auto
  show ?thesis
    using id by (auto simp: SD_upsert_def SD_insert_def SD_replace_def SD_array_addunique_def
        SD_array_append_def SD_array_prepend_def SD_array_insert_def array_spec_def ArrayValues_def)
qed

theorem macro_specs_expand_witness:
  "spec_expand (SD_upsert ''a'' MutationMacro_cas False False) \<and>
   spec_value (SD_upsert ''a'' MutationMacro_cas False False) = Some (PStr ''${Mutation.CAS}'')"
proof -
  have "is_macro MutationMacro_cas" "macro_value MutationMacro_cas = PStr ''${Mutation.CAS}''"
    by (simp_all add: is_macro_def macro_value_def MutationMacro_cas_def MutationMacro_def)
  then show ?thesis
    using macro_specs_expand [of "''a''" MutationMacro_cas False False "[]"] by simp
qed

text \<open>The CAS that a macro stored in the document, written by the server with its
  bytes reversed, is read back as the CAS, for every 64-bit value.\<close>

theorem convert_macro_cas_roundtrip:
  assumes "n < 2 ^ 64"
  shows "convert_macro_cas_to_cas (cas_macro_text n) = Inr n"
proof -
  have "fromhex (drop 2 (cas_macro_text n)) = Some (le_bytes 8 n)"
    using fromhex_bytes [OF le_bytes_small] by (simp add: cas_macro_text_def)
  moreover have "take 2 (cas_macro_text n) = ''0x''" by (simp add: cas_macro_text_def)
  moreover have "foldl (\<lambda>a b. a * 256 + b) 0 (rev (le_bytes 8 n)) = n"
    using le_bytes_value [of 8 n] assms by (simp add: foldl_conv_foldr)
  moreover have "le_bytes 8 n \<noteq> []" by (simp add: le_bytes_Nil)
  ultimately show ?thesis by (simp add: convert_macro_cas_to_cas_def int_of_bytes_def)
qed

theorem convert_macro_cas_roundtrip_witness:
  "convert_macro_cas_to_cas (cas_macro_text 0x155D2B8F0A0000) = Inr 0x155D2B8F0A0000"
  by (rule convert_macro_cas_roundtrip) simp

end
