(* ===== verification/Errors.thy ===== *)
theory Errors
  imports Json
begin

text \<open>
  \<open>couchbase/exceptions.py\<close>: the error contexts, the tables from error codes to
  exception classes and \<open>ErrorMapper\<close>, which chooses the class of the exception that
  is raised for an error of the core.  An exception class is its name.  Texts are
  lists of code points, the dictionaries of a context hold \<open>tval\<close>s.

  A pattern of a mapping is the list of its items; \<open>re_match\<close> is \<open>pattern.match\<close> for
  the regular expressions that the module uses (literal characters, character
  classes and \<open>.*\<close>).  \<open>str()\<close> of a float or a container is the argument \<open>str_other\<close>.
\<close>

subsection \<open>Error contexts\<close>

type_synonym kwargs = "(string \<times> tval) list"

record error_context =
  context_class :: string
  ctx_base :: kwargs

definition HTTP_EC_KEYS :: "string list" where
  "HTTP_EC_KEYS = [''client_context_id'', ''method'', ''path'', ''http_status'', ''http_body'']"

definition KV_EC_KEYS :: "string list" where
  "KV_EC_KEYS = [''key'', ''bucket_name'', ''scope_name'', ''collection_name'', ''opaque'',
     ''status_code'', ''error_map_info'', ''extended_error_info'', ''retry_attempts'', ''retry_reasons'']"

definition context_view :: "string list \<Rightarrow> kwargs \<Rightarrow> kwargs" where
  "context_view keys kw = filter (\<lambda>(k, v). k \<in> set keys) kw"

definition kget :: "kwargs \<Rightarrow> string \<Rightarrow> tval" where
  "kget kw k = (case map_of kw k of Some v \<Rightarrow> v | None \<Rightarrow> TNone)"

definition HTTP_classes :: "string list" where
  "HTTP_classes = [''HTTPErrorContext'', ''AnalyticsErrorContext'', ''QueryErrorContext'',
     ''SearchErrorContext'', ''ViewErrorContext'']"

definition KV_classes :: "string list" where
  "KV_classes = [''KeyValueErrorContext'', ''SubdocumentErrorContext'']"

definition context_classes :: "string list" where
  "context_classes = [''ErrorContext'', ''ManagementErrorContext'', ''TransactionsErrorContext'']
     @ HTTP_classes @ KV_classes"

text \<open>\<open>from_dict\<close> looks the class up by its name in the module.\<close>

definition ustr_of :: "string \<Rightarrow> ustr" where
  "ustr_of s = map of_char s"

definition ErrorContext_from_dict :: "kwargs \<Rightarrow> error_context res" where
  "ErrorContext_from_dict kw =
     (case map_of kw ''context_type'' of
        None \<Rightarrow> Inr \<lparr>context_class = ''ErrorContext'', ctx_base = kw\<rparr>
      | Some t \<Rightarrow> (case find (\<lambda>c. TStr (ustr_of c) = t) context_classes of
            Some c \<Rightarrow> Inr \<lparr>context_class = c, ctx_base = kw\<rparr>
          | None \<Rightarrow> (case t of TStr _ \<Rightarrow> Inl AttributeError | _ \<Rightarrow> Inl TypeError)))"

definition response_body :: "error_context \<Rightarrow> tval" where
  "response_body ctx = kget (context_view HTTP_EC_KEYS (ctx_base ctx)) ''http_body''"

definition retry_reasons :: "error_context \<Rightarrow> tval" where
  "retry_reasons ctx =
     (if context_class ctx = ''TransactionsErrorContext'' then TNone
      else kget (ctx_base ctx) ''retry_reasons'')"

subsection \<open>Tables\<close>

definition CLIENT_ERROR_MAP :: "(int \<times> string) list" where
  "CLIENT_ERROR_MAP =
     [(2, ''RequestCanceledException''), (3, ''InvalidArgumentException''),
      (9, ''CasMismatchException''), (13, ''AmbiguousTimeoutException''),
      (14, ''UnAmbiguousTimeoutException''), (101, ''DocumentNotFoundException''),
      (103, ''DocumentLockedException''), (105, ''DocumentExistsException''),
      (113, ''PathNotFoundException''), (114, ''PathMismatchException''),
      (119, ''InvalidValueException''), (123, ''PathExistsException'')]"

definition PYCBC_ERROR_MAP :: "(int \<times> string) list" where
  "PYCBC_ERROR_MAP =
     [(2, ''RequestCanceledException''), (3, ''InvalidArgumentException''),
      (4, ''ServiceUnavailableException''), (5, ''InternalServerFailureException''),
      (6, ''AuthenticationException''), (7, ''TemporaryFailException''),
      (8, ''ParsingFailedException''), (9, ''CasMismatchException''),
      (10, ''BucketNotFoundException''), (11, ''CollectionNotFoundException''),
      (12, ''UnsupportedOperation''), (13, ''AmbiguousTimeoutException''),
      (14, ''UnAmbiguousTimeoutException''), (15, ''FeatureUnavailableException''),
      (16, ''ScopeNotFoundException''), (17, ''QueryIndexNotFoundException''),
      (18, ''QueryIndexAlreadyExistsException''), (21, ''RateLimitedException''),
      (22, ''QuotaLimitedException''), (101, ''DocumentNotFoundException''),
      (102, ''DocumentUnretrievableException''), (103, ''DocumentLockedException''),
      (105, ''DocumentExistsException''), (107, ''DurabilityInvalidLevelException''),
      (108, ''DurabilityImpossibleException''), (109, ''DurabilitySyncWriteAmbiguousException''),
      (110, ''DurabilitySyncWriteInProgressException''), (113, ''PathNotFoundException''),
      (114, ''PathMismatchException''), (115, ''PathInvalidException''),
      (116, ''PathTooBigException''), (117, ''PathTooDeepException''),
      (118, ''ValueTooDeepException''), (119, ''InvalidValueException''),
      (120, ''DocumentNotJsonException''), (121, ''NumberTooBigException''),
      (122, ''DeltaInvalidException''), (123, ''PathExistsException''),
      (131, ''DocumentNotLockedException''), (133, ''MutationTokenOutdatedException''),
      (134, ''RangeScanCompletedException''), (303, ''DatasetNotFoundException''),
      (304, ''DataverseNotFoundException''), (305, ''DatasetAlreadyExistsException''),
      (306, ''DataverseAlreadyExistsException''), (502, ''DesignDocumentNotFoundException''),
      (5000, ''InternalSDKException''), (5001, ''HTTPException''),
      (5002, ''UnsuccessfulOperationException'')]"

definition pycbc_class :: "int \<Rightarrow> string" where
  "pycbc_class code = (case map_of PYCBC_ERROR_MAP code of Some c \<Rightarrow> c | None \<Rightarrow> ''CouchbaseException'')"

definition uspace :: "nat \<Rightarrow> bool" where
  "uspace c \<longleftrightarrow> 9 \<le> c \<and> c \<le> 13 \<or> 28 \<le> c \<and> c \<le> 32 \<or> c = 0x85 \<or> c = 0xA0 \<or> c = 0x1680
     \<or> 0x2000 \<le> c \<and> c \<le> 0x200A \<or> c = 0x2028 \<or> c = 0x2029 \<or> c = 0x202F \<or> c = 0x205F \<or> c = 0x3000"

datatype re_item = RChar nat | RClass "nat list" | RStar | RSpaces

text \<open>
  \<open>RStar\<close> is \<open>.*\<close>, where \<open>.\<close> stands for any character but the line feed, and \<open>RSpaces\<close> is \<open>\s+\<close>.
\<close>

fun re_match :: "re_item list \<Rightarrow> ustr \<Rightarrow> bool" where
  "re_match [] s = True"
| "re_match (RChar c # p) [] = False"
| "re_match (RChar c # p) (x # s) = (x = c \<and> re_match p s)"
| "re_match (RClass cs # p) [] = False"
| "re_match (RClass cs # p) (x # s) = (x \<in> set cs \<and> re_match p s)"
| "re_match (RStar # p) [] = re_match p []"
| "re_match (RStar # p) (x # s) = (re_match p (x # s) \<or> x \<noteq> 10 \<and> re_match (RStar # p) s)"
| "re_match (RSpaces # p) [] = False"
| "re_match (RSpaces # p) (x # s) = (uspace x \<and> (re_match p s \<or> re_match (RSpaces # p) s))"

definition lit :: "string \<Rightarrow> re_item list" where
  "lit s = map (\<lambda>c. RChar (of_char c)) s"

type_synonym err_mapping = "(re_item list \<times> string) list"

definition KV_ERROR_CONTEXT_MAPPING :: err_mapping where
  "KV_ERROR_CONTEXT_MAPPING =
     [(lit ''key_value_locked'', ''DocumentLockedException''),
      (lit ''key_value_temporary_failure'', ''TemporaryFailException'')]"

definition QUERY_ERROR_MAPPING :: err_mapping where
  "QUERY_ERROR_MAPPING =
     [([RStar] @ lit ''Keyspace not found'' @ [RStar], ''KeyspaceNotFoundException''),
      ([RStar] @ lit ''Scope not found'' @ [RStar], ''ScopeNotFoundException''),
      ([RStar] @ lit ''No index available'' @ [RStar], ''QueryIndexNotFoundException''),
      ([RStar, RClass [105, 73]] @ lit ''ndex'' @ [RStar] @ lit ''not found'' @ [RStar],
         ''QueryIndexNotFoundException''),
      ([RStar, RClass [105, 73]] @ lit ''ndex'' @ [RStar] @ lit ''already exists'' @ [RStar],
         ''QueryIndexAlreadyExistsException'')]"

subsection \<open>ErrorMapper\<close>

text \<open>A pattern raises on anything but a text, and the loop goes on.\<close>

definition process_mapping :: "err_mapping \<Rightarrow> tval \<Rightarrow> string option" where
  "process_mapping compiled_map err_content =
     (case err_content of
        TStr s \<Rightarrow> map_option snd (find (\<lambda>(pattern, c). re_match pattern s) compiled_map)
      | _ \<Rightarrow> None)"

definition utruthy :: "tval \<Rightarrow> bool" where
  "utruthy v = (case v of TNone \<Rightarrow> False | TBool b \<Rightarrow> b | TInt i \<Rightarrow> i \<noteq> 0
     | TFloat x \<Rightarrow> x \<noteq> Finite 0 | TStr s \<Rightarrow> s \<noteq> [] | TBytes b \<Rightarrow> b \<noteq> [] | TBytearray b \<Rightarrow> b \<noteq> []
     | TList xs \<Rightarrow> xs \<noteq> [] | TTuple xs \<Rightarrow> xs \<noteq> [] | TDict d \<Rightarrow> d \<noteq> [] | TObject _ \<Rightarrow> True)"

definition is_null_or_empty_text :: "tval \<Rightarrow> bool res" where
  "is_null_or_empty_text v =
     (if \<not> utruthy v then Inr True
      else case v of TStr s \<Rightarrow> Inr (list_all uspace s)
      | TBytes b \<Rightarrow> Inr (list_all (\<lambda>c. 9 \<le> c \<and> c \<le> 13 \<or> c = 32) b)
      | TBytearray b \<Rightarrow> Inr (list_all (\<lambda>c. 9 \<le> c \<and> c \<le> 13 \<or> c = 32) b)
      | _ \<Rightarrow> Inl AttributeError)"

definition dict_get :: "tval \<Rightarrow> string \<Rightarrow> tval res" where
  "dict_get v k = (case v of
       TDict d \<Rightarrow> Inr (case map_of d (TStr (ustr_of k)) of Some w \<Rightarrow> w | None \<Rightarrow> TNone)
     | _ \<Rightarrow> Inl AttributeError)"

fun py_str :: "(tval \<Rightarrow> ustr) \<Rightarrow> tval \<Rightarrow> ustr" where
  "py_str str_other TNone = ustr_of ''None''"
| "py_str str_other (TBool b) = ustr_of (if b then ''True'' else ''False'')"
| "py_str str_other (TInt i) = int_repr i"
| "py_str str_other (TStr s) = s"
| "py_str str_other v = str_other v"

fun match_errors :: "(tval \<Rightarrow> ustr) \<Rightarrow> err_mapping \<Rightarrow> tval list \<Rightarrow> string option res" where
  "match_errors so m [] = Inr None"
| "match_errors so m (err # errs) =
     bindE (dict_get err ''code'') (\<lambda>c. bindE (dict_get err ''msg'') (\<lambda>msg.
       case process_mapping m (TStr (py_str so c @ [32] @ py_str so msg)) of
         Some e \<Rightarrow> Inr (Some e)
       | None \<Rightarrow> match_errors so m errs))"

definition parse_http_response_body ::
  "py_floats \<Rightarrow> (tval \<Rightarrow> ustr) \<Rightarrow> err_mapping \<Rightarrow> tval \<Rightarrow> string option res" where
  "parse_http_response_body fs so m body =
     bindE (case body of TStr s \<Rightarrow> (case loads fs s of Inr v \<Rightarrow> Inr (Some v) | Inl e \<Rightarrow> Inr None)
            | _ \<Rightarrow> Inl TypeError) (\<lambda>loaded.
       case loaded of
         None \<Rightarrow> Inr None
       | Some (TStr s) \<Rightarrow> Inr (process_mapping m (TStr s))
       | Some (TDict d) \<Rightarrow>
           bindE (dict_get (TDict d) ''errors'') (\<lambda>errors.
             if errors \<noteq> TNone then
               (case errors of
                  TList errs \<Rightarrow> match_errors so m errs
                | _ \<Rightarrow> bindE (dict_get errors ''name'') (\<lambda>err_text.
                    if err_text \<noteq> TNone then Inr (process_mapping m err_text) else Inr None))
             else bindE (dict_get (TDict d) ''name'') (\<lambda>name.
               if name \<noteq> TNone then Inr (process_mapping m name) else Inr None))
       | Some _ \<Rightarrow> Inr None)"

definition first_some :: "'a option \<Rightarrow> 'a option res \<Rightarrow> 'a option res" where
  "first_some a b = (case a of Some x \<Rightarrow> Inr (Some x) | None \<Rightarrow> b)"

definition parse_http_context ::
  "py_floats \<Rightarrow> (tval \<Rightarrow> ustr) \<Rightarrow> error_context \<Rightarrow> err_mapping option \<Rightarrow> kwargs option
     \<Rightarrow> string option res" where
  "parse_http_context fs so ctx mapping err_info =
     (let compiled_map = (case mapping of Some m \<Rightarrow> m | None \<Rightarrow> []);
          exc_msg = (case err_info of Some info \<Rightarrow> kget info ''error_message'' | None \<Rightarrow> TNone);
          body = response_body ctx
      in bindE (is_null_or_empty_text exc_msg) (\<lambda>no_msg.
         first_some (if no_msg then None else process_mapping compiled_map exc_msg)
          (bindE (is_null_or_empty_text body) (\<lambda>no_body.
             if no_body then Inr None
             else first_some (process_mapping compiled_map body)
               (parse_http_response_body fs so compiled_map body)))))"

fun match_reasons :: "err_mapping \<Rightarrow> tval list \<Rightarrow> string option" where
  "match_reasons m [] = None"
| "match_reasons m (rr # rrs) =
     (case process_mapping m rr of Some c \<Rightarrow> Some c | None \<Rightarrow> match_reasons m rrs)"

text \<open>The set of the retry reasons is the list of its elements in the order of iteration.\<close>

definition parse_kv_context :: "error_context \<Rightarrow> err_mapping \<Rightarrow> tval \<Rightarrow> string option res" where
  "parse_kv_context ctx m err_content =
     bindE (is_null_or_empty_text err_content) (\<lambda>no_text.
       first_some (if no_text then None else process_mapping m err_content)
         (case retry_reasons ctx of
            TNone \<Rightarrow> Inr None
          | TList rrs \<Rightarrow> Inr (match_reasons m rrs)
          | TTuple rrs \<Rightarrow> Inr (match_reasons m rrs)
          | _ \<Rightarrow> Inl TypeError))"

text \<open>
  An error of the core: its code, its information and, when it has one, its context.
  \<open>build_exception\<close> is the class of the exception that is built.
\<close>

record base_exc =
  err :: int
  error_info :: "kwargs option"
  error_ctx :: "kwargs option"

definition build_exception ::
  "py_floats \<Rightarrow> (tval \<Rightarrow> ustr) \<Rightarrow> base_exc \<Rightarrow> err_mapping option \<Rightarrow> string res" where
  "build_exception fs so base mapping =
     (case error_ctx base of
        None \<Rightarrow> Inr (pycbc_class (err base))
      | Some kw \<Rightarrow>
          bindE (ErrorContext_from_dict kw) (\<lambda>ctx.
            bindE (if context_class ctx \<in> set HTTP_classes
                   then parse_http_context fs so ctx mapping (error_info base)
                   else Inr None) (\<lambda>c1.
            bindE (if context_class ctx \<in> set KV_classes
                   then parse_kv_context ctx
                     (case mapping of None \<Rightarrow> KV_ERROR_CONTEXT_MAPPING | Some m \<Rightarrow> m) TNone
                   else Inr c1) (\<lambda>c2.
            bindE (if context_class ctx = ''QueryErrorContext''
                   then parse_http_context fs so ctx
                     (Some (case mapping of None \<Rightarrow> QUERY_ERROR_MAPPING | Some m \<Rightarrow> m)) None
                   else Inr c2) (\<lambda>c3.
            Inr (case c3 of Some c \<Rightarrow> c | None \<Rightarrow> pycbc_class (err base)))))))"


subsection \<open>What the patterns match\<close>

lemma re_match_lit: "re_match (lit p @ q) s \<longleftrightarrow> (\<exists>r. s = ustr_of p @ r \<and> re_match q r)"
proof (induction p arbitrary: s)
  case (Cons c p)
  then show ?case by (cases s) (auto simp: lit_def ustr_of_def)
qed (simp add: lit_def ustr_of_def)

lemma re_match_star:
  "re_match (RStar # q) s \<longleftrightarrow> (\<exists>a b. s = a @ b \<and> 10 \<notin> set a \<and> re_match q b)"
proof (induction s)
  case (Cons x s)
  have "(\<exists>a b. x # s = a @ b \<and> 10 \<notin> set a \<and> re_match q b) \<longleftrightarrow>
      re_match q (x # s) \<or> x \<noteq> 10 \<and> (\<exists>a b. s = a @ b \<and> 10 \<notin> set a \<and> re_match q b)" (is "?L = ?R")
  proof
    assume ?L
    then obtain a b where "x # s = a @ b" "10 \<notin> set a" "re_match q b" by blast
    then show ?R by (cases a) auto
  next
    assume ?R
    then consider "re_match q (x # s)" | a b where "x \<noteq> 10" "s = a @ b" "10 \<notin> set a" "re_match q b"
      by blast
    then show ?L
    proof cases
      case 1
      then show ?thesis by (intro exI [of _ "[]"] exI [of _ "x # s"]) simp
    next
      case 2
      then show ?thesis by (intro exI [of _ "x # a"] exI [of _ b]) simp
    qed
  qed
  then show ?case using Cons by simp
qed simp

lemma match_reasons_Some:
  "match_reasons m rrs = Some c \<Longrightarrow> \<exists>r \<in> set rrs. process_mapping m r = Some c"
  by (induction rrs) (auto split: option.splits)

lemma match_reasons_None: "match_reasons m rrs = None \<longleftrightarrow> (\<forall>r \<in> set rrs. process_mapping m r = None)"
  by (induction rrs) (auto split: option.splits)

definition starts :: "string \<Rightarrow> ustr \<Rightarrow> bool" where
  "starts p s \<longleftrightarrow> take (length p) s = ustr_of p"

lemma starts_lit: "re_match (lit p) s = starts p s"
proof -
  have "(\<exists>r. s = ustr_of p @ r) \<longleftrightarrow> take (length p) s = ustr_of p"
    by (metis append_eq_conv_conj append_take_drop_id length_map ustr_of_def)
  then show ?thesis using re_match_lit [of p "[]" s] by (simp add: starts_def)
qed

lemma kv_mapping:
  "process_mapping KV_ERROR_CONTEXT_MAPPING (TStr s) =
     (if starts ''key_value_locked'' s then Some ''DocumentLockedException''
      else if starts ''key_value_temporary_failure'' s then Some ''TemporaryFailException''
      else None)"
  by (simp add: process_mapping_def KV_ERROR_CONTEXT_MAPPING_def starts_lit)

lemma client_map_agrees:
  "list_all (\<lambda>(code, c). map_of PYCBC_ERROR_MAP code = Some c) CLIENT_ERROR_MAP"
  by (simp add: CLIENT_ERROR_MAP_def PYCBC_ERROR_MAP_def)

lemma http_not_kv: "c \<in> set KV_classes \<Longrightarrow> c \<notin> set HTTP_classes \<and> c \<noteq> ''QueryErrorContext''"
  by (auto simp: KV_classes_def HTTP_classes_def)

subsection \<open>Properties\<close>

text \<open>C28. The class of the exception for a key-value error depends on the reasons of
  its retries as a set: a document that was locked raises \<open>DocumentLockedException\<close>
  and a temporary failure \<open>TemporaryFailException\<close>, wherever the reason stands, as
  long as not both occurred; without either the error code decides, and a code that
  no table knows raises the base class.\<close>

theorem build_exception_kv:
  assumes "error_ctx base = Some kw"
    and "map_of kw ''context_type'' = Some (TStr (ustr_of ''KeyValueErrorContext''))"
    and "map_of kw ''retry_reasons'' = Some (TList (map TStr rs))"
    and "\<not> (list_ex (starts ''key_value_locked'') rs \<and> list_ex (starts ''key_value_temporary_failure'') rs)"
  shows "build_exception fs so base None = Inr
    (if list_ex (starts ''key_value_locked'') rs then ''DocumentLockedException''
     else if list_ex (starts ''key_value_temporary_failure'') rs then ''TemporaryFailException''
     else case map_of PYCBC_ERROR_MAP (err base) of Some c \<Rightarrow> c | None \<Rightarrow> ''CouchbaseException'')"
proof -
  let ?c = "''KeyValueErrorContext''"
  have ctx: "ErrorContext_from_dict kw = Inr \<lparr>context_class = ?c, ctx_base = kw\<rparr>"
    using assms(2)
    by (simp add: ErrorContext_from_dict_def context_classes_def HTTP_classes_def KV_classes_def ustr_of_def)
  have kv: "?c \<in> set KV_classes" by (simp add: KV_classes_def)
  have rr: "retry_reasons \<lparr>context_class = ?c, ctx_base = kw\<rparr> = TList (map TStr rs)"
    using assms(3) by (simp add: retry_reasons_def kget_def)
  define res where "res = match_reasons KV_ERROR_CONTEXT_MAPPING (map TStr rs)"
  have parse: "parse_kv_context \<lparr>context_class = ?c, ctx_base = kw\<rparr> KV_ERROR_CONTEXT_MAPPING TNone = Inr res"
    by (simp add: parse_kv_context_def is_null_or_empty_text_def utruthy_def first_some_def rr res_def)
  have res: "res = (if list_ex (starts ''key_value_locked'') rs then Some ''DocumentLockedException''
     else if list_ex (starts ''key_value_temporary_failure'') rs then Some ''TemporaryFailException'' else None)"
  proof (cases res)
    case None
    then show ?thesis
      unfolding res_def by (auto simp: match_reasons_None kv_mapping list_ex_iff split: if_splits)
  next
    case (Some c)
    then obtain r where "r \<in> set rs" "process_mapping KV_ERROR_CONTEXT_MAPPING (TStr r) = Some c"
      unfolding res_def using match_reasons_Some by fastforce
    then show ?thesis using Some assms(4) by (auto simp: kv_mapping list_ex_iff split: if_splits)
  qed
  show ?thesis
    using assms(1) ctx http_not_kv [OF kv] kv parse res
    by (simp add: build_exception_def pycbc_class_def)
qed

theorem build_exception_kv_witness:
  "build_exception \<lparr>float_repr = \<lambda>_. [], float_parse = \<lambda>_. NaN\<rparr> (\<lambda>_. [])
     \<lparr>err = 14, error_info = None, error_ctx = Some
      [(''context_type'', TStr (ustr_of ''KeyValueErrorContext'')),
       (''retry_reasons'', TList [TStr (ustr_of ''key_value_locked'')])]\<rparr> None
   = Inr ''DocumentLockedException''"
proof -
  let ?kw = "[(''context_type'', TStr (ustr_of ''KeyValueErrorContext'')),
       (''retry_reasons'', TList [TStr (ustr_of ''key_value_locked'')])]"
  let ?base = "\<lparr>err = 14, error_info = None, error_ctx = Some ?kw\<rparr>"
  have 1: "map_of ?kw ''context_type'' = Some (TStr (ustr_of ''KeyValueErrorContext''))"
    "map_of ?kw ''retry_reasons'' = Some (TList (map TStr [ustr_of ''key_value_locked'']))" by simp_all
  have 2: "starts ''key_value_locked'' (ustr_of ''key_value_locked'')"
    "\<not> starts ''key_value_temporary_failure'' (ustr_of ''key_value_locked'')"
    by (simp_all add: starts_def ustr_of_def)
  show ?thesis
    using build_exception_kv [of ?base, OF _ 1] 2 by simp
qed

text \<open>Without a context the code alone gives the class, as the table of client
  errors says for every code it lists.\<close>

theorem build_exception_code:
  assumes "error_ctx base = None" "map_of CLIENT_ERROR_MAP (err base) = Some c"
  shows "build_exception fs so base mapping = Inr c"
proof -
  have "map_of PYCBC_ERROR_MAP (err base) = Some c"
    using client_map_agrees map_of_SomeD [OF assms(2)] by (auto simp: list_all_iff)
  then show ?thesis using assms(1) by (simp add: build_exception_def pycbc_class_def)
qed

theorem build_exception_code_witness:
  "build_exception \<lparr>float_repr = \<lambda>_. [], float_parse = \<lambda>_. NaN\<rparr> (\<lambda>_. [])
     \<lparr>err = 105, error_info = None, error_ctx = None\<rparr> None = Inr ''DocumentExistsException''"
  by (rule build_exception_code) (simp_all add: CLIENT_ERROR_MAP_def)

end
