(* ===== verification/Wrappers.thy ===== *)
theory Wrappers
  imports Errors Transcoding
begin

text \<open>
  \<open>couchbase/logic/wrappers.py\<close>: the decorators around the calls of the core.  A
  decorated function either raises or returns a value, an error object of the core or
  \<open>None\<close>.  \<open>datastructure_op\<close> and the code that it decorates run in a state: an action
  takes the world and returns its outcome and the new world.

  The locale \<open>error_boundary\<close> is the contract of the decorators \<open>block\<close> and
  \<open>block_and_decode\<close>: whatever the decorated function raises, the caller sees an
  exception of the SDK.
\<close>

subsection \<open>Actions\<close>

type_synonym ('w, 'a) action = "'w \<Rightarrow> 'a res \<times> 'w"

definition returnA :: "'a \<Rightarrow> ('w, 'a) action" where
  "returnA x w = (Inr x, w)"

definition raiseA :: "exc \<Rightarrow> ('w, 'a) action" where
  "raiseA e w = (Inl e, w)"

definition bindA :: "('w, 'a) action \<Rightarrow> ('a \<Rightarrow> ('w, 'b) action) \<Rightarrow> ('w, 'b) action" where
  "bindA m f w = (case m w of (Inl e, w') \<Rightarrow> (Inl e, w') | (Inr x, w') \<Rightarrow> f x w')"

text \<open>\<open>try: m except e: h\<close>, for one class of exceptions.\<close>

definition catchA :: "('w, 'a) action \<Rightarrow> exc \<Rightarrow> ('w, 'a) action \<Rightarrow> ('w, 'a) action" where
  "catchA m e h w = (case m w of (Inl e', w') \<Rightarrow> if e' = e then h w' else (Inl e', w') | r \<Rightarrow> r)"

lemma action_simps [py_simps]:
  "returnA x w = (Inr x, w)"
  "raiseA e w = (Inl e, w)"
  "m w = (Inl e, w') \<Longrightarrow> bindA m f w = (Inl e, w')"
  "m w = (Inr x, w') \<Longrightarrow> bindA m f w = f x w'"
  "m w = (Inr x, w') \<Longrightarrow> catchA m e h w = (Inr x, w')"
  "m w = (Inl e', w') \<Longrightarrow> catchA m e h w = (if e' = e then h w' else (Inl e', w'))"
  by (simp_all add: returnA_def raiseA_def bindA_def catchA_def)

subsection \<open>Results of the core\<close>

text \<open>
  \<open>decode_value\<close> of a subdocument result goes through its fields; the value of a
  field is decoded as JSON and left out when it is empty.
\<close>

type_synonym decoder = "tval \<Rightarrow> int option \<Rightarrow> tval res"

definition decode_field :: "decoder \<Rightarrow> kwargs \<Rightarrow> kwargs res" where
  "decode_field decode f =
     (case map_of f ''value'' of
        None \<Rightarrow> Inr f
      | Some old \<Rightarrow>
          (let tmp = AList.delete ''value'' f
           in if utruthy old
              then bindE (decode old (Some FMT_JSON)) (\<lambda>v. Inr (AList.update ''value'' v tmp))
              else Inr tmp))"

datatype raw_value = Document tval | Fields "kwargs list"

definition decode_value :: "decoder \<Rightarrow> raw_value \<Rightarrow> int option \<Rightarrow> raw_value res" where
  "decode_value decode value flags =
     (case value of
        Document v \<Rightarrow> bindE (decode v flags) (\<lambda>w. Inr (Document w))
      | Fields fs \<Rightarrow> bindE (mapE (decode_field decode) fs) (\<lambda>gs. Inr (Fields gs)))"

record core_result =
  raw_value :: raw_value
  raw_flags :: "int option"
  raw_rest :: kwargs

datatype 'a core_return = CoreNone | CoreError base_exc | CoreValue 'a

datatype return_cls = NoReturn | AsIs | WrapIn

text \<open>
  The class whose name a table gives, as an exception; \<open>SDKException\<close> holds the name of
  a class that the development does not single out.
\<close>

definition SDK_classes :: "(string \<times> exc) list" where
  "SDK_classes =
     [(''CouchbaseException'', CouchbaseException),
      (''InvalidArgumentException'', InvalidArgumentException),
      (''ServiceUnavailableException'', ServiceUnavailableException),
      (''CasMismatchException'', CasMismatchException),
      (''AmbiguousTimeoutException'', AmbiguousTimeoutException),
      (''UnAmbiguousTimeoutException'', UnAmbiguousTimeoutException),
      (''DocumentNotFoundException'', DocumentNotFoundException),
      (''DocumentExistsException'', DocumentExistsException),
      (''DocumentLockedException'', DocumentLockedException),
      (''TemporaryFailException'', TemporaryFailException),
      (''PathNotFoundException'', PathNotFoundException),
      (''PathExistsException'', PathExistsException),
      (''PathMismatchException'', PathMismatchException),
      (''RangeScanCompletedException'', RangeScanCompletedException),
      (''InternalSDKException'', InternalSDKException)]"

definition exc_of_class :: "string \<Rightarrow> exc" where
  "exc_of_class c = (case map_of SDK_classes c of Some e \<Rightarrow> e | None \<Rightarrow> SDKException c)"

text \<open>
  The handlers of \<open>block\<close> and \<open>block_and_decode\<close>: an exception of the SDK is raised
  again, any other becomes the class of the internal error.
\<close>

definition internal_error :: exc where
  "internal_error = exc_of_class (pycbc_class 5000)"

definition boundary :: "'a res \<Rightarrow> 'a res" where
  "boundary r = (case r of Inr x \<Rightarrow> Inr x
     | Inl e \<Rightarrow> if is_couchbase_exc e then Inl e else Inl internal_error)"

locale error_boundary =
  fixes wrapper :: "'f \<Rightarrow> 'b res"
  assumes sdk_errors: "wrapper f = Inl e \<Longrightarrow> is_couchbase_exc e"
begin

lemma no_builtin: "wrapper f \<noteq> Inl TypeError \<and> wrapper f \<noteq> Inl ValueError \<and> wrapper f \<noteq> Inl KeyError
    \<and> wrapper f \<noteq> Inl AttributeError"
  using sdk_errors [of f] by (auto simp: is_couchbase_exc_def)

lemma mapE_sdk: "mapE wrapper fs = Inl e \<Longrightarrow> is_couchbase_exc e"
proof (induction fs)
  case (Cons f fs)
  then show ?case using sdk_errors [of f] by (auto simp: bindE_eq_Inl)
qed simp

end

definition block ::
  "py_floats \<Rightarrow> (tval \<Rightarrow> ustr) \<Rightarrow> return_cls \<Rightarrow> ('a core_return) res \<Rightarrow> 'a option res" where
  "block fs so return_cls ret =
     boundary (bindE ret (\<lambda>r. case r of
        CoreError base \<Rightarrow> bindE (build_exception fs so base None) (\<lambda>c. Inl (exc_of_class c))
      | CoreNone \<Rightarrow> (case return_cls of
           NoReturn \<Rightarrow> Inr None | AsIs \<Rightarrow> Inr None | WrapIn \<Rightarrow> Inl InternalSDKException)
      | CoreValue v \<Rightarrow> (case return_cls of
           NoReturn \<Rightarrow> Inr None | AsIs \<Rightarrow> Inr (Some v) | WrapIn \<Rightarrow> Inr (Some v))))"

definition block_and_decode ::
  "py_floats \<Rightarrow> (tval \<Rightarrow> ustr) \<Rightarrow> decoder \<Rightarrow> return_cls \<Rightarrow> (core_result core_return) res
     \<Rightarrow> core_result option res" where
  "block_and_decode fs so decode return_cls ret =
     boundary (bindE ret (\<lambda>r. case r of
        CoreError base \<Rightarrow> bindE (build_exception fs so base None) (\<lambda>c. Inl (exc_of_class c))
      | CoreNone \<Rightarrow> Inl AttributeError
      | CoreValue v \<Rightarrow>
          bindE (decode_value decode (raw_value v) (raw_flags v)) (\<lambda>value.
            (case return_cls of NoReturn \<Rightarrow> Inr None | _ \<Rightarrow> Inr (Some (v\<lparr>raw_value := value\<rparr>))))))"

text \<open>
  The generator of \<open>decode_replicas\<close>: the results that the queue delivers, in order,
  up to the closing \<open>None\<close>; a queue that ends before it was a timeout.  The value is
  the list of what was yielded and, where the generator raised, the exception.
\<close>

fun decode_replicas ::
  "py_floats \<Rightarrow> (tval \<Rightarrow> ustr) \<Rightarrow> decoder \<Rightarrow> (core_result core_return) list
     \<Rightarrow> core_result list \<times> exc option" where
  "decode_replicas fs so decode [] = ([], Some UnAmbiguousTimeoutException)"
| "decode_replicas fs so decode (CoreError base # q) =
     ([], Some (case build_exception fs so base None of Inr c \<Rightarrow> exc_of_class c | Inl e \<Rightarrow> e))"
| "decode_replicas fs so decode (CoreNone # q) = ([], None)"
| "decode_replicas fs so decode (CoreValue res # q) =
     (case decode_value decode (raw_value res) (raw_flags res) of
        Inl e \<Rightarrow> ([], Some e)
      | Inr value \<Rightarrow>
          (let (rest, e) = decode_replicas fs so decode q in (res\<lparr>raw_value := value\<rparr> # rest, e)))"

subsection \<open>Data structure operations\<close>

text \<open>
  \<open>datastructure_op(create_type)\<close>: when the document is missing it is created with
  the empty value of the type, and the operation runs once more; a document that
  another client created in between is as good.
\<close>

definition datastructure_op ::
  "('w, unit) action option \<Rightarrow> ('w, 'a) action \<Rightarrow> ('w, 'a) action" where
  "datastructure_op create fn =
     catchA fn DocumentNotFoundException
       (case create of
          Some insert_empty \<Rightarrow>
            bindA (catchA insert_empty DocumentExistsException (returnA ())) (\<lambda>_. fn)
        | None \<Rightarrow> raiseA DocumentNotFoundException)"

subsection \<open>Lemmas\<close>

lemma exc_of_class_sdk: "is_couchbase_exc (exc_of_class c)"
proof -
  have all: "list_all (\<lambda>(c, e). is_couchbase_exc e) SDK_classes"
    by (simp add: SDK_classes_def is_couchbase_exc_def)
  show ?thesis
  proof (cases "map_of SDK_classes c")
    case (Some e)
    then have "is_couchbase_exc e" using all map_of_SomeD by (fastforce simp: list_all_iff)
    with Some show ?thesis by (simp add: exc_of_class_def)
  qed (simp add: exc_of_class_def is_couchbase_exc_def)
qed

lemma boundary_sdk: "boundary r = Inl e \<Longrightarrow> is_couchbase_exc e"
  by (auto simp: boundary_def internal_error_def exc_of_class_sdk split: sum.splits if_splits)

interpretation block: error_boundary "block fs so rc"
  by unfold_locales (simp add: block_def boundary_sdk)

interpretation block_and_decode: error_boundary "block_and_decode fs so decode rc"
  by unfold_locales (simp add: block_and_decode_def boundary_sdk)

lemma internal_error_eq: "internal_error = InternalSDKException"
  by (simp add: internal_error_def exc_of_class_def SDK_classes_def pycbc_class_def PYCBC_ERROR_MAP_def)


lemma decode_field_frame:
  assumes "decode_field decode f = Inr g" "k \<noteq> ''value''"
  shows "map_of g k = map_of f k"
proof (cases "map_of f ''value''")
  case None
  then show ?thesis using assms(1) by (simp add: decode_field_def)
next
  case (Some old)
  then have "g = AList.delete ''value'' f \<or> (\<exists>v. g = AList.update ''value'' v (AList.delete ''value'' f))"
    using assms(1) by (cases "utruthy old") (auto simp: decode_field_def bindE_eq_Inr)
  then show ?thesis using assms(2) by (auto simp: update_conv' delete_conv')
qed

lemma decode_field_value:
  assumes "decode_field decode f = Inr g"
  shows "map_of g ''value'' = (case map_of f ''value'' of None \<Rightarrow> None
     | Some old \<Rightarrow> if utruthy old then Some (projr (decode old (Some FMT_JSON))) else None)"
proof (cases "map_of f ''value''")
  case None
  then show ?thesis using assms by (simp add: decode_field_def)
next
  case (Some old)
  then show ?thesis using assms
    by (cases "utruthy old") (auto simp: decode_field_def bindE_eq_Inr update_conv' delete_conv')
qed

lemma json_decode_ok: "\<exists>w. JSONTranscoder_decode_value sr v (Some FMT_JSON) = Inr w"
  by (cases "deserialize sr v") (simp_all add: JSONTranscoder_decode_value_def)

lemma json_field_ok: "\<exists>g. decode_field (JSONTranscoder_decode_value sr) f = Inr g"
proof (cases "map_of f ''value''")
  case None
  then show ?thesis by (simp add: decode_field_def)
next
  case (Some old)
  obtain w where "JSONTranscoder_decode_value sr old (Some FMT_JSON) = Inr w"
    using json_decode_ok by blast
  with Some show ?thesis by (cases "utruthy old") (simp_all add: decode_field_def)
qed

lemma mapE_nth: "mapE f xs = Inr ys \<Longrightarrow> i < length xs \<Longrightarrow> f (xs ! i) = Inr (ys ! i)"
proof (induction xs arbitrary: ys i)
  case (Cons x xs)
  then show ?case by (cases i) (auto simp: bindE_eq_Inr)
qed simp

subsection \<open>Properties\<close>

text \<open>A decoded subdocument result keeps its shape: with the default transcoder
  decoding never fails, the fields keep their number and order and everything but
  their value (so a status still belongs to the path that was asked for), and the
  value of a field is the JSON decoding of its bytes, left out when they are empty.\<close>

lemma decode_value_subdoc:
  "\<exists>gs. decode_value (JSONTranscoder_decode_value sr) (Fields fs) flags = Inr (Fields gs) \<and>
     length gs = length fs \<and>
     (\<forall>i < length fs. (\<forall>k. k \<noteq> ''value'' \<longrightarrow> map_of (gs ! i) k = map_of (fs ! i) k) \<and>
        map_of (gs ! i) ''value'' = (case map_of (fs ! i) ''value'' of None \<Rightarrow> None
          | Some old \<Rightarrow> if utruthy old
              then Some (projr (JSONTranscoder_decode_value sr old (Some FMT_JSON))) else None))"
proof -
  have "\<exists>gs. mapE (decode_field (JSONTranscoder_decode_value sr)) fs = Inr gs"
    by (rule mapE_ok) (rule json_field_ok)
  then obtain gs where gs: "mapE (decode_field (JSONTranscoder_decode_value sr)) fs = Inr gs" ..
  note nth = mapE_nth [OF gs]
  show ?thesis
    using gs mapE_length [OF gs] decode_field_frame [OF nth] decode_field_value [OF nth]
    by (intro exI [of _ gs]) (simp add: decode_value_def)
qed

theorem decode_value_subdoc_witness:
  "\<exists>gs. decode_value (JSONTranscoder_decode_value (DefaultJsonSerializer
        \<lparr>float_repr = \<lambda>_. [], float_parse = \<lambda>_. NaN\<rparr>))
      (Fields [[(''status'', TInt 0), (''value'', TBytes [49])], [(''status'', TInt 192)]]) None
     = Inr (Fields gs) \<and> map_of (gs ! 1) ''status'' = Some (TInt 192)"
proof -
  obtain gs where "decode_value (JSONTranscoder_decode_value (DefaultJsonSerializer
        \<lparr>float_repr = \<lambda>_. [], float_parse = \<lambda>_. NaN\<rparr>))
      (Fields [[(''status'', TInt 0), (''value'', TBytes [49])], [(''status'', TInt 192)]]) None
     = Inr (Fields gs)"
    "\<forall>i < 2. \<forall>k. k \<noteq> ''value'' \<longrightarrow> map_of (gs ! i) k =
       map_of ([[(''status'', TInt 0), (''value'', TBytes [49])], [(''status'', TInt 192)]] ! i) k"
    using decode_value_subdoc [of "DefaultJsonSerializer \<lparr>float_repr = \<lambda>_. [], float_parse = \<lambda>_. NaN\<rparr>"
        "[[(''status'', TInt 0), (''value'', TBytes [49])], [(''status'', TInt 192)]]" None]
    by auto
  then show ?thesis by (intro exI [of _ gs]) simp
qed

text \<open>Whatever the wrapped call raises or the core reports, an operation behind
  \<open>block\<close> or \<open>block_and_decode\<close> raises only exceptions of the SDK; the generator behind
  \<open>get_all_replicas\<close> is outside of that boundary, and a document that is no UTF-8 text
  makes it raise the built-in exception of the string transcoder.\<close>

theorem wrapped_errors_are_sdk_errors:
  "(block fs so rc ret = Inl e \<longrightarrow> is_couchbase_exc e) \<and>
   (block_and_decode fs so decode rc ret' = Inl e \<longrightarrow> is_couchbase_exc e) \<and>
   decode_replicas fs so RawStringTranscoder_decode_value
     [CoreValue \<lparr>raw_value = Document (TBytes [255]), raw_flags = Some FMT_UTF8, raw_rest = []\<rparr>]
     = ([], Some UnicodeDecodeError) \<and>
   block_and_decode fs so RawStringTranscoder_decode_value rc
     (Inr (CoreValue \<lparr>raw_value = Document (TBytes [255]), raw_flags = Some FMT_UTF8, raw_rest = []\<rparr>))
     = Inl InternalSDKException"
proof -
  have d: "RawStringTranscoder_decode_value (TBytes [255]) (Some FMT_UTF8) = Inl UnicodeDecodeError"
    by (simp add: RawStringTranscoder_decode_value_def decode_text_def decode_utf8_def utf8_take_def)
  have b: "boundary (Inl UnicodeDecodeError) = Inl InternalSDKException"
    by (simp add: boundary_def is_couchbase_exc_def internal_error_eq)
  show ?thesis
  proof (intro conjI impI)
    show "block fs so rc ret = Inl e \<Longrightarrow> is_couchbase_exc e" by (rule block.sdk_errors)
    show "block_and_decode fs so decode rc ret' = Inl e \<Longrightarrow> is_couchbase_exc e"
      by (rule block_and_decode.sdk_errors)
  qed (simp_all add: decode_value_def block_and_decode_def d b)
qed

theorem wrapped_errors_witness:
  "block \<lparr>float_repr = \<lambda>_. [], float_parse = \<lambda>_. NaN\<rparr> (\<lambda>_. []) WrapIn
     (Inl KeyError :: unit core_return res) = Inl InternalSDKException \<and>
   is_couchbase_exc InternalSDKException"
proof -
  have "block \<lparr>float_repr = \<lambda>_. [], float_parse = \<lambda>_. NaN\<rparr> (\<lambda>_. []) WrapIn
     (Inl KeyError :: unit core_return res) = Inl InternalSDKException"
    by (simp add: block_def boundary_def is_couchbase_exc_def internal_error_eq)
  then show ?thesis using wrapped_errors_are_sdk_errors by blast
qed

end
