(* ===== verification/Backoff.thy ===== *)
theory Backoff
  imports Py_Float
begin

text \<open>
  The pause between two rounds of a loop that retries until a timeout.  The code repeats it
  word for word in \<open>CouchbaseSet.remove\<close>, \<open>CouchbaseQueue.pop\<close> and in both \<open>watch_indexes\<close>
  of \<open>couchbase/management/queries.py\<close>: it lengthens the interval by half a second up to a second,
  never past the time that is left, and sleeps, unless no time is left.  Milliseconds are exact
  rationals.
\<close>

definition backoff ::
  "('w \<Rightarrow> rat \<times> 'w) \<Rightarrow> (rat \<Rightarrow> 'w \<Rightarrow> 'w) \<Rightarrow> rat \<Rightarrow> rat \<Rightarrow> rat \<Rightarrow> 'w \<Rightarrow> (rat \<times> rat) option \<times> 'w" where
  "backoff now_of pause timeout_millis start interval_millis w =
     (let interval_millis = interval_millis + 500;
          interval_millis = (if interval_millis > 1000 then 1000 else interval_millis);
          (now, w) = now_of w;
          time_left = timeout_millis - (now - start) * 1000;
          interval_millis = (if interval_millis > time_left then time_left else interval_millis)
      in if time_left \<le> 0 then (None, w)
         else (Some (interval_millis, time_left), pause (interval_millis / 1000) w))"

definition time_left :: "('w \<Rightarrow> rat) \<Rightarrow> rat \<Rightarrow> rat \<Rightarrow> 'w \<Rightarrow> rat" where
  "time_left time timeout start w = timeout - (time w - start) * 1000"

lemma time_left_mono: "time w \<le> time w' \<Longrightarrow> time_left time T s w' \<le> time_left time T s w"
  by (simp add: time_left_def)

text \<open>
  The clock does not run backwards, and a sleep of \<open>d\<close> seconds lasts at least \<open>d\<close>.
\<close>

definition steady :: "('w \<Rightarrow> rat \<times> 'w) \<Rightarrow> (rat \<Rightarrow> 'w \<Rightarrow> 'w) \<Rightarrow> ('w \<Rightarrow> rat) \<Rightarrow> bool" where
  "steady now_of pause time \<longleftrightarrow>
     (\<forall>w. fst (now_of w) = time w \<and> time w \<le> time (snd (now_of w))) \<and>
     (\<forall>w d. 0 \<le> d \<longrightarrow> time w + d \<le> time (pause d w))"

text \<open>The fuel that is enough, in terms of the time that is left.\<close>

definition enough :: "('w \<Rightarrow> rat) \<Rightarrow> rat \<Rightarrow> rat \<Rightarrow> nat \<Rightarrow> rat \<Rightarrow> 'w \<Rightarrow> bool" where
  "enough time T s n i w \<longleftrightarrow>
     1 \<le> n \<and> (time_left time T s w \<le> 0 \<or> 50 \<le> i \<and> time_left time T s w \<le> 550 * of_nat (n - 1))"

lemma backoff_progress:
  assumes "steady now_of pause time" "backoff now_of pause T s i w = (Some (i', l'), w')"
  shows "0 < time_left time T s w \<and> l' = time_left time T s w \<and>
    (50 \<le> i \<longrightarrow> time_left time T s w' \<le> 0 \<or>
       50 \<le> i' \<and> time_left time T s w' \<le> time_left time T s w - 550)"
proof -
  obtain t w1 where p: "now_of w = (t, w1)" by fastforce
  have now: "t = time w" "time w \<le> time w1"
    using assms(1) p unfolding steady_def by (metis fst_conv, metis snd_conv)
  define j where "j = (if i + 500 > 1000 then 1000 else i + 500)"
  define L where "L = T - (t - s) * 1000"
  define m where "m = (if j > L then L else j)"
  have e: "backoff now_of pause T s i w = (if L \<le> 0 then (None, w1) else (Some (m, L), pause (m / 1000) w1))"
    by (simp add: backoff_def p j_def L_def m_def Let_def)
  then have L: "0 < L" "i' = m" "l' = L" "w' = pause (m / 1000) w1"
    using assms(2) by (auto split: if_splits)
  have Lw: "L = time_left time T s w" by (simp add: L_def time_left_def now)
  have "time_left time T s w' \<le> 0 \<or> 50 \<le> i' \<and> time_left time T s w' \<le> time_left time T s w - 550"
    if i: "50 \<le> i"
  proof -
    have j: "550 \<le> j" using i by (simp add: j_def)
    then have "0 \<le> m / 1000" using L(1) by (simp add: m_def)
    then have "time w1 + m / 1000 \<le> time (pause (m / 1000) w1)"
      using assms(1) unfolding steady_def by blast
    then have "time w + m / 1000 \<le> time w'" using now L(4) by simp
    then have left: "time_left time T s w' \<le> L - m" by (simp add: Lw time_left_def field_simps)
    show ?thesis using left j L(2) Lw by (cases "j > L") (auto simp: m_def)
  qed
  then show ?thesis using L Lw by simp
qed

lemma enough_next:
  assumes "steady now_of pause time" "enough time T s (Suc n) i w" "time w \<le> time w1"
    and "backoff now_of pause T s i w1 = (Some (i', l'), w2)"
  shows "enough time T s n i' w2"
proof -
  note p = backoff_progress [OF assms(1,4)]
  have le: "time_left time T s w1 \<le> time_left time T s w" using assms(3) by (rule time_left_mono)
  then have pos: "0 < time_left time T s w" using p by linarith
  with assms(2) have i: "50 \<le> i" "time_left time T s w \<le> 550 * of_nat n" by (auto simp: enough_def)
  then have "n \<noteq> 0" using pos by auto
  then obtain m where m: "n = Suc m" by (cases n) auto
  have "time_left time T s w2 \<le> 0 \<or> 50 \<le> i' \<and> time_left time T s w2 \<le> 550 * of_nat m"
    using p i le m by (auto simp: algebra_simps)
  then show ?thesis using m by (simp add: enough_def)
qed

end
