(* ===== verification/Datastructures.thy ===== *)
theory Datastructures
  imports Subdoc Wrappers Backoff
begin

text \<open>
  \<open>couchbase/datastructures.py\<close>: lists, maps, sets and queues kept in one document of a
  collection.  The collection is a record of the operations that the classes call and
  of the clock; each is an action on the world.  The retry loops of \<open>CouchbaseSet.remove\<close>
  and \<open>CouchbaseQueue.pop\<close> take fuel, and their milliseconds are exact rationals.

  \<open>document_store\<close> states what a collection does with the specs that the classes send
  when nobody else writes; \<open>cas_store\<close> what it still promises when others do.
\<close>

record 'w collection =
  c_get :: "string \<Rightarrow> ('w, pyval \<times> int) action"
  c_insert :: "string \<Rightarrow> pyval \<Rightarrow> ('w, unit) action"
  c_remove :: "string \<Rightarrow> ('w, unit) action"
  c_lookup_in :: "string \<Rightarrow> spec list \<Rightarrow> ('w, content \<times> int) action"
  c_mutate_in :: "string \<Rightarrow> spec list \<Rightarrow> int option \<Rightarrow> ('w, unit) action"
  perf_counter :: "'w \<Rightarrow> rat \<times> 'w"
  sleep :: "rat \<Rightarrow> 'w \<Rightarrow> 'w"

subsection \<open>Shared pieces\<close>

definition elem_path :: "int \<Rightarrow> string" where
  "elem_path index = ''['' @ map char_of (int_repr index) @ '']''"

definition first_value :: "content \<Rightarrow> pyval res" where
  "first_value value = (case value of [] \<Rightarrow> Inl IndexError | f # _ \<Rightarrow> Inr (dget f ''value'' PNone))"

definition as_list :: "pyval \<Rightarrow> pyval list res" where
  "as_list v = (case v of PList xs \<Rightarrow> Inr xs | PTuple xs \<Rightarrow> Inr xs | PDict d \<Rightarrow> Inr (map fst d)
     | PStr s \<Rightarrow> Inr (map (\<lambda>c. PStr [c]) s) | _ \<Rightarrow> Inl TypeError)"

definition as_dict_value :: "pyval \<Rightarrow> (pyval \<times> pyval) list res" where
  "as_dict_value v = (case v of PDict d \<Rightarrow> Inr d
     | PList xs \<Rightarrow> foldE (\<lambda>x d. case x of PList [k, w] \<Rightarrow> Inr (AList.update k w d) | _ \<Rightarrow> Inl TypeError) xs []
     | _ \<Rightarrow> Inl TypeError)"

definition liftA :: "'a res \<Rightarrow> ('w, 'a) action" where
  "liftA r w = (r, w)"

definition lookup_first :: "'w collection \<Rightarrow> string \<Rightarrow> spec \<Rightarrow> ('w, pyval) action" where
  "lookup_first col key op =
     bindA (c_lookup_in col key [op]) (\<lambda>(value, cas). liftA (first_value value))"

definition list_op :: "'w collection \<Rightarrow> string \<Rightarrow> ('w, 'a) action \<Rightarrow> ('w, 'a) action" where
  "list_op col key fn = datastructure_op (Some (c_insert col key (PList []))) fn"

definition dict_op :: "'w collection \<Rightarrow> string \<Rightarrow> ('w, 'a) action \<Rightarrow> ('w, 'a) action" where
  "dict_op col key fn = datastructure_op (Some (c_insert col key (PDict []))) fn"

definition ds_clear :: "'w collection \<Rightarrow> string \<Rightarrow> ('w, unit) action" where
  "ds_clear col key = catchA (c_remove col key) DocumentNotFoundException (returnA ())"

definition ds_size :: "'w collection \<Rightarrow> string \<Rightarrow> ('w, pyval) action" where
  "ds_size col key = lookup_first col key (SD_count '''' False)"

subsection \<open>CouchbaseList\<close>

definition List_get :: "'w collection \<Rightarrow> string \<Rightarrow> ('w, pyval \<times> int) action" where
  "List_get col key = list_op col key (c_get col key)"

definition List_append :: "'w collection \<Rightarrow> string \<Rightarrow> pyval \<Rightarrow> ('w, unit) action" where
  "List_append col key value =
     list_op col key (c_mutate_in col key [SD_array_append '''' [value] False False] None)"

definition List_prepend :: "'w collection \<Rightarrow> string \<Rightarrow> pyval \<Rightarrow> ('w, unit) action" where
  "List_prepend col key value =
     list_op col key (c_mutate_in col key [SD_array_prepend '''' [value] False False] None)"

definition List_set_at :: "'w collection \<Rightarrow> string \<Rightarrow> int \<Rightarrow> pyval \<Rightarrow> ('w, unit) action" where
  "List_set_at col key index value =
     catchA (c_mutate_in col key [SD_replace (elem_path index) value False] None)
       PathNotFoundException (raiseA InvalidArgumentException)"

definition List_get_at :: "'w collection \<Rightarrow> string \<Rightarrow> int \<Rightarrow> ('w, pyval) action" where
  "List_get_at col key index =
     list_op col key
       (catchA (lookup_first col key (SD_get (elem_path index) False))
         PathNotFoundException (raiseA InvalidArgumentException))"

definition List_remove_at :: "'w collection \<Rightarrow> string \<Rightarrow> int \<Rightarrow> ('w, unit) action" where
  "List_remove_at col key index =
     catchA (c_mutate_in col key [SD_remove (elem_path index) False] None)
       PathNotFoundException (raiseA InvalidArgumentException)"

definition List_size :: "'w collection \<Rightarrow> string \<Rightarrow> ('w, pyval) action" where
  "List_size col key = list_op col key (ds_size col key)"

definition List_index_of :: "'w collection \<Rightarrow> string \<Rightarrow> pyval \<Rightarrow> ('w, int) action" where
  "List_index_of col key value =
     list_op col key
       (bindA (List_get col key) (\<lambda>(v, cas). bindA (liftA (as_list v)) (\<lambda>xs.
          returnA (case py_index value xs of Some i \<Rightarrow> int i | None \<Rightarrow> -1))))"

definition List_get_all :: "'w collection \<Rightarrow> string \<Rightarrow> ('w, pyval list) action" where
  "List_get_all col key = bindA (List_get col key) (\<lambda>(v, cas). liftA (as_list v))"

definition List_clear :: "'w collection \<Rightarrow> string \<Rightarrow> ('w, unit) action" where
  "List_clear = ds_clear"

subsection \<open>CouchbaseMap\<close>

definition Map_get_doc :: "'w collection \<Rightarrow> string \<Rightarrow> ('w, pyval \<times> int) action" where
  "Map_get_doc col key = dict_op col key (c_get col key)"

definition Map_add :: "'w collection \<Rightarrow> string \<Rightarrow> string \<Rightarrow> pyval \<Rightarrow> ('w, unit) action" where
  "Map_add col key mapkey value =
     dict_op col key (c_mutate_in col key [SD_upsert mapkey value False False] None)"

definition Map_get :: "'w collection \<Rightarrow> string \<Rightarrow> string \<Rightarrow> ('w, pyval) action" where
  "Map_get col key mapkey = dict_op col key (lookup_first col key (SD_get mapkey False))"

definition Map_remove :: "'w collection \<Rightarrow> string \<Rightarrow> string \<Rightarrow> ('w, unit) action" where
  "Map_remove col key mapkey =
     catchA (c_mutate_in col key [SD_remove mapkey False] None)
       PathNotFoundException (raiseA InvalidArgumentException)"

definition Map_size :: "'w collection \<Rightarrow> string \<Rightarrow> ('w, pyval) action" where
  "Map_size col key = dict_op col key (ds_size col key)"

definition Map_exists :: "'w collection \<Rightarrow> string \<Rightarrow> string \<Rightarrow> ('w, bool) action" where
  "Map_exists col key mapkey =
     dict_op col key (bindA (c_lookup_in col key [SD_exists mapkey False])
       (\<lambda>(value, cas). liftA (LookupInResult_exists value 0)))"

definition Map_get_all :: "'w collection \<Rightarrow> string \<Rightarrow> ('w, (pyval \<times> pyval) list) action" where
  "Map_get_all col key = bindA (Map_get_doc col key) (\<lambda>(v, cas). liftA (as_dict_value v))"

definition Map_keys :: "'w collection \<Rightarrow> string \<Rightarrow> ('w, pyval list) action" where
  "Map_keys col key = bindA (Map_get_all col key) (\<lambda>d. returnA (map fst d))"

definition Map_values :: "'w collection \<Rightarrow> string \<Rightarrow> ('w, pyval list) action" where
  "Map_values col key = bindA (Map_get_all col key) (\<lambda>d. returnA (map snd d))"

definition Map_clear :: "'w collection \<Rightarrow> string \<Rightarrow> ('w, unit) action" where
  "Map_clear = ds_clear"

subsection \<open>The retry of a conflicting removal\<close>

text \<open>
  The end of an iteration that lost the race: the interval grows by 500 up to 1000
  milliseconds, never beyond the time that is left; without time left the caller gets
  the timeout, otherwise it sleeps and the world and the interval of the next
  iteration are returned.
\<close>

definition retry_pause ::
  "'w collection \<Rightarrow> rat \<Rightarrow> rat \<Rightarrow> rat \<Rightarrow> 'w \<Rightarrow> rat option \<times> 'w" where
  "retry_pause col timeout_millis start interval_millis w =
     apfst (map_option fst) (backoff (perf_counter col) (sleep col) timeout_millis start interval_millis w)"

definition timeout_in_millis :: "int option \<Rightarrow> rat" where
  "timeout_in_millis timeout =
     (case timeout of None \<Rightarrow> total_seconds 10000000 | Some us \<Rightarrow> total_seconds us) * 1000"

subsection \<open>CouchbaseSet\<close>

definition Set_add :: "'w collection \<Rightarrow> string \<Rightarrow> pyval \<Rightarrow> ('w, bool) action" where
  "Set_add col key value =
     list_op col key
       (catchA (bindA (c_mutate_in col key [SD_array_addunique '''' value False False] None)
            (\<lambda>_. returnA True))
          PathExistsException (returnA False))"

fun Set_remove_loop ::
  "nat \<Rightarrow> 'w collection \<Rightarrow> string \<Rightarrow> pyval \<Rightarrow> rat \<Rightarrow> rat \<Rightarrow> rat \<Rightarrow> 'w \<Rightarrow> (unit res \<times> 'w) option" where
  "Set_remove_loop 0 col key value timeout start interval w = None"
| "Set_remove_loop (Suc n) col key value timeout start interval w =
     (case List_get col key w of
        (Inl e, w) \<Rightarrow> Some (Inl e, w)
      | (Inr (v, cas), w) \<Rightarrow>
         (case as_list v of
            Inl e \<Rightarrow> Some (Inl e, w)
          | Inr xs \<Rightarrow>
             (case py_index value xs of
                None \<Rightarrow> Some (Inr (), w)
              | Some i \<Rightarrow>
                 (case c_mutate_in col key [SD_remove (elem_path (int i)) False] (Some cas) w of
                    (Inr _, w) \<Rightarrow> Some (Inr (), w)
                  | (Inl e, w) \<Rightarrow>
                      if e \<noteq> CasMismatchException then Some (Inl e, w)
                      else (case retry_pause col timeout start interval w of
                              (None, w) \<Rightarrow> Some (Inl UnAmbiguousTimeoutException, w)
                            | (Some interval, w) \<Rightarrow>
                                Set_remove_loop n col key value timeout start interval w)))))"

definition Set_remove ::
  "nat \<Rightarrow> 'w collection \<Rightarrow> string \<Rightarrow> pyval \<Rightarrow> int option \<Rightarrow> 'w \<Rightarrow> (unit res \<times> 'w) option" where
  "Set_remove fuel col key value timeout w =
     (let (start, w) = perf_counter col w
      in Set_remove_loop fuel col key value (timeout_in_millis timeout) start 50 w)"

definition Set_contains :: "'w collection \<Rightarrow> string \<Rightarrow> pyval \<Rightarrow> ('w, bool) action" where
  "Set_contains col key value =
     list_op col key (bindA (List_get col key) (\<lambda>(v, cas). bindA (liftA (as_list v)) (\<lambda>xs.
       returnA (py_in value xs))))"

definition Set_size :: "'w collection \<Rightarrow> string \<Rightarrow> ('w, pyval) action" where
  "Set_size col key = list_op col key (ds_size col key)"

definition Set_values :: "'w collection \<Rightarrow> string \<Rightarrow> ('w, pyval list) action" where
  "Set_values col key =
     list_op col key (bindA (List_get col key) (\<lambda>(v, cas). liftA (as_list v)))"

definition Set_clear :: "'w collection \<Rightarrow> string \<Rightarrow> ('w, unit) action" where
  "Set_clear = ds_clear"

subsection \<open>CouchbaseQueue\<close>

definition Queue_push :: "'w collection \<Rightarrow> string \<Rightarrow> pyval \<Rightarrow> ('w, unit) action" where
  "Queue_push col key value =
     list_op col key (c_mutate_in col key [SD_array_prepend '''' [value] False False] None)"

definition queue_error :: "exc \<Rightarrow> exc" where
  "queue_error e = (if e = PathNotFoundException then QueueEmpty else e)"

fun Queue_pop_loop ::
  "nat \<Rightarrow> 'w collection \<Rightarrow> string \<Rightarrow> rat \<Rightarrow> rat \<Rightarrow> rat \<Rightarrow> 'w \<Rightarrow> (pyval res \<times> 'w) option" where
  "Queue_pop_loop 0 col key timeout start interval w = None"
| "Queue_pop_loop (Suc n) col key timeout start interval w =
     (case c_lookup_in col key [SD_get (elem_path (-1)) False] w of
        (Inl e, w) \<Rightarrow> Some (Inl (queue_error e), w)
      | (Inr (value, cas), w) \<Rightarrow>
         (case first_value value of
            Inl e \<Rightarrow> Some (Inl e, w)
          | Inr val \<Rightarrow>
             (case c_mutate_in col key [SD_remove (elem_path (-1)) False] (Some cas) w of
                (Inr _, w) \<Rightarrow> Some (Inr val, w)
              | (Inl e, w) \<Rightarrow>
                  if e \<noteq> CasMismatchException then Some (Inl (queue_error e), w)
                  else (case retry_pause col timeout start interval w of
                          (None, w) \<Rightarrow> Some (Inl UnAmbiguousTimeoutException, w)
                        | (Some interval, w) \<Rightarrow> Queue_pop_loop n col key timeout start interval w))))"

definition Queue_pop ::
  "nat \<Rightarrow> 'w collection \<Rightarrow> string \<Rightarrow> int option \<Rightarrow> 'w \<Rightarrow> (pyval res \<times> 'w) option" where
  "Queue_pop fuel col key timeout w =
     (let (start, w) = perf_counter col w
      in Queue_pop_loop fuel col key (timeout_in_millis timeout) start 50 w)"

definition Queue_size :: "'w collection \<Rightarrow> string \<Rightarrow> ('w, pyval) action" where
  "Queue_size col key = list_op col key (ds_size col key)"

definition Queue_clear :: "'w collection \<Rightarrow> string \<Rightarrow> ('w, unit) action" where
  "Queue_clear = ds_clear"

text \<open>\<open>__iter__\<close> of a list or a queue reads the document once; \<open>__next__\<close> steps through it.\<close>

definition ds_iter :: "'w collection \<Rightarrow> string \<Rightarrow> ('w, pyval list) action" where
  "ds_iter col key = bindA (List_get col key) (\<lambda>(v, cas). liftA (as_list v))"

fun ds_next :: "pyval list \<Rightarrow> pyval res \<times> pyval list" where
  "ds_next [] = (Inl StopIteration, [])"
| "ds_next (x # xs) = (Inr x, xs)"


subsection \<open>What a collection does with a spec\<close>

text \<open>
  The documented effect of the specs that the classes send, on a document that is an
  array or an object: the path is empty, an index in brackets or the plain name of a
  field.
\<close>

definition plain_key :: "string \<Rightarrow> bool" where
  "plain_key p \<longleftrightarrow> p \<noteq> '''' \<and> list_all (\<lambda>c. c \<notin> set ''.[]`'') p"

definition elem_index :: "string \<Rightarrow> pyval list \<Rightarrow> nat option" where
  "elem_index p xs =
     (if p = elem_path (-1) then (if xs = [] then None else Some (length xs - 1))
      else find (\<lambda>i. elem_path (int i) = p) [0..<length xs])"

definition sd_resolve :: "string \<Rightarrow> pyval \<Rightarrow> pyval option" where
  "sd_resolve p v =
     (if p = '''' then Some v
      else case v of
        PList xs \<Rightarrow> map_option ((!) xs) (elem_index p xs)
      | PDict d \<Rightarrow> if plain_key p then map_of d (PStr p) else None
      | _ \<Rightarrow> None)"

definition sd_count_of :: "pyval \<Rightarrow> pyval option" where
  "sd_count_of v = (case v of PList xs \<Rightarrow> Some (PInt (int (length xs)))
     | PDict d \<Rightarrow> Some (PInt (int (length d))) | _ \<Rightarrow> None)"

fun sd_entry :: "pyval \<Rightarrow> spec \<Rightarrow> pydict" where
  "sd_entry v (LookupSpec code p x) =
     [(''opcode'', PInt (SubDocOp_value code)), (''path'', PStr p)] @
     (case sd_resolve p v of
        None \<Rightarrow> [(''status'', PInt 192)]
      | Some u \<Rightarrow>
          (if code = GET_COUNT
           then (case sd_count_of u of Some n \<Rightarrow> [(''status'', PInt 0), (''value'', n)]
                 | None \<Rightarrow> [(''status'', PInt 193)])
           else if code = GET then [(''status'', PInt 0), (''value'', u)]
           else [(''status'', PInt 0)]))"
| "sd_entry v s = []"

definition remove_nth :: "nat \<Rightarrow> 'a list \<Rightarrow> 'a list" where
  "remove_nth i xs = take i xs @ drop (Suc i) xs"

fun sd_mutate :: "pyval \<Rightarrow> spec \<Rightarrow> pyval res" where
  "sd_mutate (PList xs) (MutateSpec code p cp x e u) =
     (if code = ARRAY_PUSH_LAST \<and> p = ''''
      then (case u of PTuple vs \<Rightarrow> Inr (PList (xs @ vs)) | _ \<Rightarrow> Inl TypeError)
      else if code = ARRAY_PUSH_FIRST \<and> p = ''''
      then (case u of PTuple vs \<Rightarrow> Inr (PList (vs @ xs)) | _ \<Rightarrow> Inl TypeError)
      else if code = ARRAY_ADD_UNIQUE \<and> p = ''''
      then (if u \<in> set xs then Inl PathExistsException else Inr (PList (xs @ [u])))
      else if code = REPLACE
      then (case elem_index p xs of Some i \<Rightarrow> Inr (PList (xs[i := u])) | None \<Rightarrow> Inl PathNotFoundException)
      else Inl PathMismatchException)"
| "sd_mutate (PList xs) (RemoveSpec code p cp x e) =
     (case elem_index p xs of
        Some i \<Rightarrow> Inr (PList (remove_nth i xs)) | None \<Rightarrow> Inl PathNotFoundException)"
| "sd_mutate (PDict d) (MutateSpec code p cp x e u) =
     (if code = DICT_UPSERT \<and> plain_key p then Inr (PDict (AList.update (PStr p) u d))
      else Inl PathMismatchException)"
| "sd_mutate (PDict d) (RemoveSpec code p cp x e) =
     (if plain_key p \<and> map_of d (PStr p) \<noteq> None then Inr (PDict (AList.delete (PStr p) d))
      else Inl PathNotFoundException)"
| "sd_mutate v s = Inl PathMismatchException"

text \<open>The paths for which a lookup or a mutation of that document is specified.\<close>

definition known_path :: "pyval \<Rightarrow> string \<Rightarrow> bool" where
  "known_path v p \<longleftrightarrow> p = '''' \<or>
     (case v of PList xs \<Rightarrow> \<exists>i \<ge> -1. p = elem_path i | PDict d \<Rightarrow> plain_key p | _ \<Rightarrow> False)"

fun spec_path :: "spec \<Rightarrow> string" where
  "spec_path (LookupSpec _ p _) = p"
| "spec_path (RemoveSpec _ p _ _ _) = p"
| "spec_path (MutateSpec _ p _ _ _ _) = p"

type_synonym docs = "string \<Rightarrow> (pyval \<times> int) option"

definition same_docs :: "('w \<Rightarrow> docs) \<Rightarrow> ('w \<Rightarrow> bool) \<Rightarrow> 'w \<Rightarrow> 'w \<Rightarrow> bool" where
  "same_docs doc ok w w' \<longleftrightarrow> ok w' \<and> doc w' = doc w"

definition stored :: "('w \<Rightarrow> docs) \<Rightarrow> ('w \<Rightarrow> bool) \<Rightarrow> string \<Rightarrow> pyval \<Rightarrow> 'w \<Rightarrow> 'w \<Rightarrow> bool" where
  "stored doc ok k v w w' \<longleftrightarrow> ok w' \<and> (\<exists>c. doc w' = (doc w)(k \<mapsto> (v, c)))"

text \<open>The promises of a collection to which nobody else writes.\<close>

definition document_store :: "'w collection \<Rightarrow> ('w \<Rightarrow> docs) \<Rightarrow> ('w \<Rightarrow> bool) \<Rightarrow> bool" where
  "document_store col doc ok \<longleftrightarrow> (\<forall>w k. ok w \<longrightarrow>
     (\<exists>w'. c_get col k w = ((case doc w k of None \<Rightarrow> Inl DocumentNotFoundException | Some d \<Rightarrow> Inr d), w')
        \<and> same_docs doc ok w w') \<and>
     (\<forall>v. \<exists>w'. if doc w k = None then c_insert col k v w = (Inr (), w') \<and> stored doc ok k v w w'
        else c_insert col k v w = (Inl DocumentExistsException, w') \<and> same_docs doc ok w w') \<and>
     (\<exists>w'. if doc w k = None then c_remove col k w = (Inl DocumentNotFoundException, w') \<and> same_docs doc ok w w'
        else c_remove col k w = (Inr (), w') \<and> ok w' \<and> doc w' = (doc w)(k := None)) \<and>
     (\<forall>s. \<exists>w'. case doc w k of
          None \<Rightarrow> c_lookup_in col k [s] w = (Inl DocumentNotFoundException, w') \<and> same_docs doc ok w w'
        | Some (v, c) \<Rightarrow> known_path v (spec_path s) \<longrightarrow>
            c_lookup_in col k [s] w = (Inr ([sd_entry v s], c), w') \<and> same_docs doc ok w w') \<and>
     (\<forall>s cas. \<exists>w'. case doc w k of
          None \<Rightarrow> c_mutate_in col k [s] cas w = (Inl DocumentNotFoundException, w') \<and> same_docs doc ok w w'
        | Some (v, c) \<Rightarrow> known_path v (spec_path s) \<longrightarrow>
            (if cas \<noteq> None \<and> cas \<noteq> Some c
             then c_mutate_in col k [s] cas w = (Inl CasMismatchException, w') \<and> same_docs doc ok w w'
             else (case sd_mutate v s of
                 Inl e \<Rightarrow> c_mutate_in col k [s] cas w = (Inl e, w') \<and> same_docs doc ok w w'
               | Inr u \<Rightarrow> c_mutate_in col k [s] cas w = (Inr (), w') \<and> stored doc ok k u w w'))) \<and>
     same_docs doc ok w (snd (perf_counter col w)) \<and>
     (\<forall>d. same_docs doc ok w (sleep col d w)))"

lemma int_repr_char: "map of_char (map char_of (int_repr i)) = int_repr i"
proof -
  have "c < 256" if "c \<in> set (int_repr i)" for c
    using that digits_digit by (fastforce simp: int_repr_def is_digit_def split: if_splits)
  then have "\<forall>c \<in> set (int_repr i). of_char (char_of c :: char) = c" by simp
  then show ?thesis by (simp only: map_map comp_def) (rule map_idI, blast)
qed

lemma elem_path_inj: "elem_path i = elem_path j \<longleftrightarrow> i = j"
proof
  assume "elem_path i = elem_path j"
  then have "map char_of (int_repr i) = (map char_of (int_repr j) :: char list)"
    by (simp add: elem_path_def)
  then have "int_repr i = int_repr j" by (metis int_repr_char)
  then show "i = j" by (rule int_repr_inj)
qed simp

lemma elem_path_nonempty [simp]: "elem_path i \<noteq> ''''"
  by (simp add: elem_path_def)

lemma elem_index_path [simp]:
  "elem_index (elem_path (int i)) xs = (if i < length xs then Some i else None)"
proof -
  have ne: "elem_path (int i) \<noteq> elem_path (-1)" by (simp add: elem_path_inj)
  have "find (\<lambda>j. j = i) [0..<n] = (if i < n then Some i else None)" for n
  proof (cases "i < n")
    case True
    then have "find (\<lambda>j. j = i) [0..<n] = Some i"
      unfolding find_Some_iff by (intro exI [of _ i]) simp
    with True show ?thesis by simp
  qed (simp add: find_None_iff)
  then have "find (\<lambda>j. elem_path (int j) = elem_path (int i)) [0..<length xs] =
      (if i < length xs then Some i else None)"
    by (simp only: elem_path_inj of_nat_eq_iff)
  then show ?thesis using ne by (simp only: elem_index_def if_False)
qed

lemma elem_index_last [simp]:
  "elem_index (elem_path (-1)) xs = (if xs = [] then None else Some (length xs - 1))"
  by (simp add: elem_index_def)


subsection \<open>Operations on a stored container\<close>

text \<open>
  \<open>runs\<close> says that an action computes \<open>f\<close> on a document that holds a container: it
  returns what \<open>f\<close> returns and stores what \<open>f\<close> leaves, and raises
  \<open>DocumentNotFoundException\<close> when there is no document.
\<close>

definition holds :: "('w \<Rightarrow> docs) \<Rightarrow> ('w \<Rightarrow> bool) \<Rightarrow> string \<Rightarrow> pyval \<Rightarrow> 'w \<Rightarrow> 'w \<Rightarrow> bool" where
  "holds doc ok k v w w' \<longleftrightarrow> ok w' \<and> (\<exists>c. doc w' = (doc w)(k \<mapsto> (v, c)))"

definition runs ::
  "('w \<Rightarrow> docs) \<Rightarrow> ('w \<Rightarrow> bool) \<Rightarrow> string \<Rightarrow> ('c \<Rightarrow> pyval) \<Rightarrow> ('w, 'a) action
     \<Rightarrow> ('c \<Rightarrow> 'a res \<times> 'c) \<Rightarrow> bool" where
  "runs doc ok k wrap fn f \<longleftrightarrow> (\<forall>w. ok w \<longrightarrow>
     (doc w k = None \<longrightarrow> (\<exists>w'. fn w = (Inl DocumentNotFoundException, w') \<and> same_docs doc ok w w')) \<and>
     (\<forall>x c. doc w k = Some (wrap x, c) \<longrightarrow>
        (\<exists>w'. fn w = (fst (f x), w') \<and> holds doc ok k (wrap (snd (f x))) w w')))"

lemma same_holds: "same_docs doc ok w w' \<Longrightarrow> doc w k = Some (v, c) \<Longrightarrow> holds doc ok k v w w'"
  unfolding same_docs_def holds_def by (intro conjI exI [of _ c]) (simp_all add: fun_upd_idem)

lemma runs_None:
  "runs doc ok k wrap fn f \<Longrightarrow> ok w \<Longrightarrow> doc w k = None \<Longrightarrow>
     \<exists>w'. fn w = (Inl DocumentNotFoundException, w') \<and> same_docs doc ok w w'"
  unfolding runs_def by blast

lemma runs_Some:
  "runs doc ok k wrap fn f \<Longrightarrow> ok w \<Longrightarrow> doc w k = Some (wrap x, c) \<Longrightarrow>
     \<exists>w'. fn w = (fst (f x), w') \<and> holds doc ok k (wrap (snd (f x))) w w'"
  unfolding runs_def by blast

lemma runs_lookup_in:
  assumes "document_store col doc ok" "\<And>x. known_path (wrap x) (spec_path s)"
  shows "runs doc ok k wrap (bindA (c_lookup_in col k [s]) (\<lambda>(value, cas). liftA (g value)))
    (\<lambda>x. (g [sd_entry (wrap x) s], x))"
  unfolding runs_def
proof (intro allI impI conjI)
  fix w assume w: "ok w"
  then have L: "\<exists>w'. case doc w k of
      None \<Rightarrow> c_lookup_in col k [s] w = (Inl DocumentNotFoundException, w') \<and> same_docs doc ok w w'
    | Some (v, c) \<Rightarrow> known_path v (spec_path s) \<longrightarrow>
        c_lookup_in col k [s] w = (Inr ([sd_entry v s], c), w') \<and> same_docs doc ok w w'"
    using assms(1) unfolding document_store_def by blast
  show "\<exists>w'. bindA (c_lookup_in col k [s]) (\<lambda>(value, cas). liftA (g value)) w =
      (Inl DocumentNotFoundException, w') \<and> same_docs doc ok w w'"
    if "doc w k = None" using L that by (auto simp: bindA_def)
  show "\<exists>w'. bindA (c_lookup_in col k [s]) (\<lambda>(value, cas). liftA (g value)) w =
      (fst (g [sd_entry (wrap x) s], x), w') \<and> holds doc ok k (wrap (snd (g [sd_entry (wrap x) s], x))) w w'"
    if d: "doc w k = Some (wrap x, c)" for x c
  proof -
    obtain w' where "c_lookup_in col k [s] w = (Inr ([sd_entry (wrap x) s], c), w')" "same_docs doc ok w w'"
      using L d assms(2) by auto
    then show ?thesis using same_holds [of doc ok w w' k "wrap x" c] d
      by (auto simp: bindA_def liftA_def)
  qed
qed

lemma runs_lookup:
  assumes "document_store col doc ok" "\<And>x. known_path (wrap x) (spec_path s)"
  shows "runs doc ok k wrap (lookup_first col k s) (\<lambda>x. (first_value [sd_entry (wrap x) s], x))"
  unfolding lookup_first_def by (rule runs_lookup_in [OF assms])

lemma runs_mutate:
  assumes "document_store col doc ok" "\<And>x. known_path (wrap x) (spec_path s)"
    and "\<And>x. sd_mutate (wrap x) s = (case f x of (Inl e, y) \<Rightarrow> Inl e | (Inr u, y) \<Rightarrow> Inr (wrap y))"
    and "\<And>x e y. f x = (Inl e, y) \<Longrightarrow> y = x"
  shows "runs doc ok k wrap (c_mutate_in col k [s] None) f"
  unfolding runs_def
proof (intro allI impI conjI)
  fix w assume w: "ok w"
  then have L: "\<exists>w'. case doc w k of
          None \<Rightarrow> c_mutate_in col k [s] None w = (Inl DocumentNotFoundException, w') \<and> same_docs doc ok w w'
        | Some (v, c) \<Rightarrow> known_path v (spec_path s) \<longrightarrow>
            (if (None :: int option) \<noteq> None \<and> None \<noteq> Some c
             then c_mutate_in col k [s] None w = (Inl CasMismatchException, w') \<and> same_docs doc ok w w'
             else (case sd_mutate v s of
                 Inl e \<Rightarrow> c_mutate_in col k [s] None w = (Inl e, w') \<and> same_docs doc ok w w'
               | Inr u \<Rightarrow> c_mutate_in col k [s] None w = (Inr (), w') \<and> stored doc ok k u w w'))"
    using assms(1) unfolding document_store_def by blast
  show "\<exists>w'. c_mutate_in col k [s] None w = (Inl DocumentNotFoundException, w') \<and> same_docs doc ok w w'"
    if "doc w k = None" using L that by auto
  show "\<exists>w'. c_mutate_in col k [s] None w = (fst (f x), w') \<and> holds doc ok k (wrap (snd (f x))) w w'"
    if d: "doc w k = Some (wrap x, c)" for x c
  proof (cases "f x")
    case (Pair r y)
    show ?thesis
    proof (cases r)
      case (Inl e)
      then have "y = x" using assms(4) Pair by blast
      moreover have "sd_mutate (wrap x) s = Inl e" using assms(3) [of x] Pair Inl by simp
      then obtain w' where "c_mutate_in col k [s] None w = (Inl e, w')" "same_docs doc ok w w'"
        using L d assms(2) [of x] by auto
      ultimately show ?thesis using same_holds [of doc ok w w' k "wrap x" c] d Pair Inl by auto
    next
      case (Inr u)
      then have "sd_mutate (wrap x) s = Inr (wrap y)" using assms(3) [of x] Pair by simp
      then obtain w' where "c_mutate_in col k [s] None w = (Inr (), w')" "stored doc ok k (wrap y) w w'"
        using L d assms(2) [of x] by auto
      then show ?thesis using Pair Inr by (auto simp: stored_def holds_def)
    qed
  qed
qed

lemma runs_get:
  assumes "document_store col doc ok"
  shows "runs doc ok k wrap (bindA (c_get col k) (\<lambda>(v, cas). liftA (g v))) (\<lambda>x. (g (wrap x), x))"
  unfolding runs_def
proof (intro allI impI conjI)
  fix w assume w: "ok w"
  obtain w' where L: "c_get col k w = ((case doc w k of None \<Rightarrow> Inl DocumentNotFoundException | Some d \<Rightarrow> Inr d), w')"
    "same_docs doc ok w w'"
    using assms w unfolding document_store_def by blast
  show "\<exists>w'. bindA (c_get col k) (\<lambda>(v, cas). liftA (g v)) w = (Inl DocumentNotFoundException, w') \<and>
      same_docs doc ok w w'" if "doc w k = None"
    using L that by (auto simp: bindA_def)
  show "\<exists>w'. bindA (c_get col k) (\<lambda>(v, cas). liftA (g v)) w = (fst (g (wrap x), x), w') \<and>
      holds doc ok k (wrap (snd (g (wrap x), x))) w w'" if "doc w k = Some (wrap x, c)" for x c
    using L that same_holds [OF L(2) that] by (auto simp: bindA_def liftA_def)
qed

lemma runs_catch:
  assumes "runs doc ok k wrap fn f" "e \<noteq> DocumentNotFoundException"
  shows "runs doc ok k wrap (catchA fn e (liftA r))
    (\<lambda>x. (case fst (f x) of Inl d \<Rightarrow> if d = e then r else Inl d | Inr y \<Rightarrow> Inr y, snd (f x)))"
  unfolding runs_def
proof (intro allI impI conjI)
  fix w assume w: "ok w"
  show "\<exists>w'. catchA fn e (liftA r) w = (Inl DocumentNotFoundException, w') \<and> same_docs doc ok w w'"
    if "doc w k = None"
    using runs_None [OF assms(1) w that] assms(2) by (auto simp: catchA_def)
  show "\<exists>w'. catchA fn e (liftA r) w =
      (fst (case fst (f x) of Inl d \<Rightarrow> if d = e then r else Inl d | Inr y \<Rightarrow> Inr y, snd (f x)), w') \<and>
      holds doc ok k (wrap (snd (case fst (f x) of Inl d \<Rightarrow> if d = e then r else Inl d | Inr y \<Rightarrow> Inr y, snd (f x)))) w w'"
    if d: "doc w k = Some (wrap x, c)" for x c
    using runs_Some [OF assms(1) w d] by (auto simp: catchA_def liftA_def split: sum.splits)
qed

lemma runs_bind:
  assumes "runs doc ok k wrap fn f"
  shows "runs doc ok k wrap (bindA fn (\<lambda>y. liftA (g y))) (\<lambda>x. (bindE (fst (f x)) g, snd (f x)))"
  unfolding runs_def
proof (intro allI impI conjI)
  fix w assume w: "ok w"
  show "\<exists>w'. bindA fn (\<lambda>y. liftA (g y)) w = (Inl DocumentNotFoundException, w') \<and> same_docs doc ok w w'"
    if "doc w k = None"
    using runs_None [OF assms(1) w that] by (auto simp: bindA_def)
  show "\<exists>w'. bindA fn (\<lambda>y. liftA (g y)) w = (fst (bindE (fst (f x)) g, snd (f x)), w') \<and>
      holds doc ok k (wrap (snd (bindE (fst (f x)) g, snd (f x)))) w w'"
    if d: "doc w k = Some (wrap x, c)" for x c
    using runs_Some [OF assms(1) w d] by (cases "fst (f x)") (auto simp: bindA_def liftA_def)
qed


lemma runs_op:
  assumes st: "document_store col doc ok" and r: "runs doc ok k wrap fn f" and w: "ok w"
    and fin: "\<And>x. fst (f x) \<noteq> Inl DocumentNotFoundException"
    and d: "doc w k = None \<and> x = x0 \<or> (\<exists>c. doc w k = Some (wrap x, c))"
  shows "\<exists>w'. datastructure_op (Some (c_insert col k (wrap x0))) fn w = (fst (f x), w') \<and>
    holds doc ok k (wrap (snd (f x))) w w'"
  using d
proof (elim disjE exE conjE)
  fix c assume "doc w k = Some (wrap x, c)"
  then obtain w' where "fn w = (fst (f x), w')" "holds doc ok k (wrap (snd (f x))) w w'"
    using runs_Some [OF r w] by blast
  then show ?thesis using fin [of x] by (cases "fst (f x)") (auto simp: datastructure_op_def catchA_def)
next
  assume n: "doc w k = None" and x: "x = x0"
  obtain w1 where 1: "fn w = (Inl DocumentNotFoundException, w1)" "same_docs doc ok w w1"
    using runs_None [OF r w n] by blast
  then have w1: "ok w1" "doc w1 k = None" using n by (auto simp: same_docs_def)
  have "\<exists>w2. if doc w1 k = None then c_insert col k (wrap x0) w1 = (Inr (), w2) \<and> stored doc ok k (wrap x0) w1 w2
      else c_insert col k (wrap x0) w1 = (Inl DocumentExistsException, w2) \<and> same_docs doc ok w1 w2"
    using st w1(1) unfolding document_store_def by blast
  then obtain w2 where 2: "c_insert col k (wrap x0) w1 = (Inr (), w2)" "stored doc ok k (wrap x0) w1 w2"
    using w1(2) by auto
  then obtain c where c: "ok w2" "doc w2 = (doc w1)(k \<mapsto> (wrap x0, c))" by (auto simp: stored_def)
  then have "doc w2 k = Some (wrap x0, c)" by simp
  then obtain w3 where 3: "fn w2 = (fst (f x0), w3)" "holds doc ok k (wrap (snd (f x0))) w2 w3"
    using runs_Some [OF r c(1)] by blast
  have "holds doc ok k (wrap (snd (f x0))) w w3"
    using 3(2) c(2) 1(2) by (auto simp: holds_def same_docs_def)
  then show ?thesis using 1(1) 2(1) 3(1) x
    by (auto simp: datastructure_op_def catchA_def bindA_def)
qed

text \<open>A document that holds a container, or no document.\<close>

definition container :: "('w \<Rightarrow> docs) \<Rightarrow> string \<Rightarrow> ('c \<Rightarrow> pyval) \<Rightarrow> 'c option \<Rightarrow> 'w \<Rightarrow> bool" where
  "container doc k wrap s w \<longleftrightarrow>
     (case s of None \<Rightarrow> doc w k = None | Some x \<Rightarrow> \<exists>c. doc w k = Some (wrap x, c))"

definition or_empty :: "'c \<Rightarrow> 'c option \<Rightarrow> 'c" where
  "or_empty x0 s = (case s of None \<Rightarrow> x0 | Some x \<Rightarrow> x)"

text \<open>An action that agrees with a step of the specification.\<close>

definition simulates ::
  "('w \<Rightarrow> docs) \<Rightarrow> ('w \<Rightarrow> bool) \<Rightarrow> string \<Rightarrow> ('c \<Rightarrow> pyval) \<Rightarrow> ('w, 'a) action
     \<Rightarrow> ('c option \<Rightarrow> 'a res \<times> 'c option) \<Rightarrow> bool" where
  "simulates doc ok k wrap act f \<longleftrightarrow> (\<forall>w s. ok w \<and> container doc k wrap s w \<longrightarrow>
     (\<exists>w'. act w = (fst (f s), w') \<and> ok w' \<and> container doc k wrap (snd (f s)) w' \<and>
        (\<forall>k'. k' \<noteq> k \<longrightarrow> doc w' k' = doc w k')))"

lemma simulates_op:
  assumes "document_store col doc ok" "runs doc ok k wrap fn f"
    and "\<And>x. fst (f x) \<noteq> Inl DocumentNotFoundException"
  shows "simulates doc ok k wrap (datastructure_op (Some (c_insert col k (wrap x0))) fn)
    (\<lambda>s. (fst (f (or_empty x0 s)), Some (snd (f (or_empty x0 s)))))"
  unfolding simulates_def
proof (intro allI impI, elim conjE)
  fix w s assume w: "ok w" and s: "container doc k wrap s w"
  have "doc w k = None \<and> or_empty x0 s = x0 \<or> (\<exists>c. doc w k = Some (wrap (or_empty x0 s), c))"
    using s by (cases s) (auto simp: container_def or_empty_def)
  from runs_op [where f = f, OF assms(1,2) w assms(3) this] obtain w' where
    "datastructure_op (Some (c_insert col k (wrap x0))) fn w = (fst (f (or_empty x0 s)), w')"
    "holds doc ok k (wrap (snd (f (or_empty x0 s)))) w w'" by blast
  then show "\<exists>w'. datastructure_op (Some (c_insert col k (wrap x0))) fn w =
      (fst (fst (f (or_empty x0 s)), Some (snd (f (or_empty x0 s)))), w') \<and> ok w' \<and>
      container doc k wrap (snd (fst (f (or_empty x0 s)), Some (snd (f (or_empty x0 s))))) w' \<and>
      (\<forall>k'. k' \<noteq> k \<longrightarrow> doc w' k' = doc w k')"
    by (auto simp: holds_def container_def)
qed

lemma simulates_plain:
  assumes "runs doc ok k wrap fn f"
  shows "simulates doc ok k wrap fn
    (\<lambda>s. case s of None \<Rightarrow> (Inl DocumentNotFoundException, None) | Some x \<Rightarrow> (fst (f x), Some (snd (f x))))"
  unfolding simulates_def
proof (intro allI impI, elim conjE)
  fix w s assume w: "ok w" and s: "container doc k wrap s w"
  show "\<exists>w'. fn w = (fst (case s of None \<Rightarrow> (Inl DocumentNotFoundException, None) | Some x \<Rightarrow> (fst (f x), Some (snd (f x)))), w')
      \<and> ok w' \<and> container doc k wrap (snd (case s of None \<Rightarrow> (Inl DocumentNotFoundException, None)
         | Some x \<Rightarrow> (fst (f x), Some (snd (f x))))) w' \<and> (\<forall>k'. k' \<noteq> k \<longrightarrow> doc w' k' = doc w k')"
  proof (cases s)
    case None
    then show ?thesis using runs_None [OF assms w] s by (auto simp: container_def same_docs_def)
  next
    case (Some x)
    then obtain c where "doc w k = Some (wrap x, c)" using s by (auto simp: container_def)
    from runs_Some [OF assms w this] show ?thesis using Some by (auto simp: container_def holds_def)
  qed
qed

lemma simulates_bind:
  assumes "simulates doc ok k wrap act f"
  shows "simulates doc ok k wrap (bindA act (\<lambda>y. liftA (g y))) (\<lambda>s. (bindE (fst (f s)) g, snd (f s)))"
  unfolding simulates_def
proof (intro allI impI)
  fix w s assume "ok w \<and> container doc k wrap s w"
  then obtain w' where w': "act w = (fst (f s), w')" "ok w'" "container doc k wrap (snd (f s)) w'"
    "\<forall>k'. k' \<noteq> k \<longrightarrow> doc w' k' = doc w k'"
    using assms unfolding simulates_def by blast
  then show "\<exists>w'. bindA act (\<lambda>y. liftA (g y)) w = (fst (bindE (fst (f s)) g, snd (f s)), w') \<and> ok w' \<and>
      container doc k wrap (snd (bindE (fst (f s)) g, snd (f s))) w' \<and> (\<forall>k'. k' \<noteq> k \<longrightarrow> doc w' k' = doc w k')"
    by (cases "fst (f s)") (auto simp: bindA_def liftA_def)
qed

lemma simulates_clear:
  assumes "document_store col doc ok"
  shows "simulates doc ok k wrap (ds_clear col k) (\<lambda>s. (Inr (), None))"
  unfolding simulates_def
proof (intro allI impI, elim conjE)
  fix w s assume w: "ok w" and s: "container doc k wrap s w"
  have "\<exists>w'. if doc w k = None then c_remove col k w = (Inl DocumentNotFoundException, w') \<and> same_docs doc ok w w'
        else c_remove col k w = (Inr (), w') \<and> ok w' \<and> doc w' = (doc w)(k := None)"
    using assms w unfolding document_store_def by blast
  then show "\<exists>w'. ds_clear col k w = (fst (Inr (), None), w') \<and> ok w' \<and>
      container doc k wrap (snd (Inr (), None)) w' \<and> (\<forall>k'. k' \<noteq> k \<longrightarrow> doc w' k' = doc w k')"
    by (cases "doc w k") (auto simp: ds_clear_def catchA_def returnA_def container_def same_docs_def)
qed


text \<open>A sequence of commands, and what a specification says of it.\<close>

fun run_all :: "('m \<Rightarrow> ('w, 'a) action) \<Rightarrow> 'm list \<Rightarrow> ('w \<Rightarrow> 'a res list \<times> 'w)" where
  "run_all run [] w = ([], w)"
| "run_all run (m # ms) w =
     (let (r, w1) = run m w; (rs, w2) = run_all run ms w1 in (r # rs, w2))"

fun spec_all :: "('m \<Rightarrow> 's \<Rightarrow> 'a res \<times> 's) \<Rightarrow> 'm list \<Rightarrow> 's \<Rightarrow> 'a res list \<times> 's" where
  "spec_all step [] s = ([], s)"
| "spec_all step (m # ms) s =
     (let (r, s1) = step m s; (rs, s2) = spec_all step ms s1 in (r # rs, s2))"

lemma simulates_all:
  assumes "\<And>m. m \<in> set ms \<Longrightarrow> simulates doc ok k wrap (run m) (step m)"
    and "ok w" "container doc k wrap s w"
  shows "\<exists>w'. run_all run ms w = (fst (spec_all step ms s), w') \<and> ok w' \<and>
    container doc k wrap (snd (spec_all step ms s)) w' \<and> (\<forall>k'. k' \<noteq> k \<longrightarrow> doc w' k' = doc w k')"
  using assms
proof (induction ms arbitrary: w s)
  case (Cons m ms)
  obtain w1 where 1: "run m w = (fst (step m s), w1)" "ok w1" "container doc k wrap (snd (step m s)) w1"
    "\<forall>k'. k' \<noteq> k \<longrightarrow> doc w1 k' = doc w k'"
    using Cons.prems unfolding simulates_def by (meson list.set_intros(1))
  obtain w2 where "run_all run ms w1 = (fst (spec_all step ms (snd (step m s))), w2)" "ok w2"
    "container doc k wrap (snd (spec_all step ms (snd (step m s)))) w2"
    "\<forall>k'. k' \<noteq> k \<longrightarrow> doc w2 k' = doc w1 k'"
    using Cons.IH [OF Cons.prems(1) 1(2,3)] by auto
  then show ?case using 1 by (auto simp: Let_def case_prod_unfold)
qed auto

subsection \<open>Lists: commands and specification\<close>

datatype list_cmd = LAppend pyval | LPrepend pyval | LSetAt nat pyval | LGetAt nat | LRemoveAt nat
  | LSize | LIndexOf pyval | LGetAll | LClear

fun list_cmd_ok :: "list_cmd \<Rightarrow> bool" where
  "list_cmd_ok (LAppend v) = (\<not> is_macro v)"
| "list_cmd_ok (LPrepend v) = (\<not> is_macro v)"
| "list_cmd_ok (LSetAt i v) = (\<not> is_macro v)"
| "list_cmd_ok _ = True"

definition unitA :: "('w, unit) action \<Rightarrow> ('w, pyval) action" where
  "unitA act = bindA act (\<lambda>y. liftA (Inr PNone))"

fun list_run :: "'w collection \<Rightarrow> string \<Rightarrow> list_cmd \<Rightarrow> ('w, pyval) action" where
  "list_run col k (LAppend v) = unitA (List_append col k v)"
| "list_run col k (LPrepend v) = unitA (List_prepend col k v)"
| "list_run col k (LSetAt i v) = unitA (List_set_at col k (int i) v)"
| "list_run col k (LGetAt i) = List_get_at col k (int i)"
| "list_run col k (LRemoveAt i) = unitA (List_remove_at col k (int i))"
| "list_run col k LSize = List_size col k"
| "list_run col k (LIndexOf v) = bindA (List_index_of col k v) (\<lambda>i. liftA (Inr (PInt i)))"
| "list_run col k LGetAll = bindA (List_get_all col k) (\<lambda>xs. liftA (Inr (PList xs)))"
| "list_run col k LClear = unitA (List_clear col k)"

text \<open>
  The abstract list: \<open>None\<close> while the list was never written or after \<open>clear\<close>.
\<close>

fun list_spec :: "list_cmd \<Rightarrow> pyval list option \<Rightarrow> pyval res \<times> pyval list option" where
  "list_spec (LAppend v) s = (Inr PNone, Some (or_empty [] s @ [v]))"
| "list_spec (LPrepend v) s = (Inr PNone, Some (v # or_empty [] s))"
| "list_spec (LSetAt i v) s = (case s of None \<Rightarrow> (Inl DocumentNotFoundException, None)
     | Some xs \<Rightarrow> if i < length xs then (Inr PNone, Some (xs[i := v]))
                  else (Inl InvalidArgumentException, Some xs))"
| "list_spec (LGetAt i) s =
     (let xs = or_empty [] s in (Inr (if i < length xs then xs ! i else PNone), Some xs))"
| "list_spec (LRemoveAt i) s = (case s of None \<Rightarrow> (Inl DocumentNotFoundException, None)
     | Some xs \<Rightarrow> if i < length xs then (Inr PNone, Some (remove_nth i xs))
                  else (Inl InvalidArgumentException, Some xs))"
| "list_spec LSize s = (Inr (PInt (int (length (or_empty [] s)))), Some (or_empty [] s))"
| "list_spec (LIndexOf v) s = (let xs = or_empty [] s in
     (Inr (PInt (case py_index v xs of Some i \<Rightarrow> int i | None \<Rightarrow> -1)), Some xs))"
| "list_spec LGetAll s = (Inr (PList (or_empty [] s)), Some (or_empty [] s))"
| "list_spec LClear s = (Inr PNone, None)"

lemma known_elem [simp]: "known_path (PList xs) (elem_path (int i))" "known_path (PList xs) (elem_path (-1))"
  "known_path v ''''"
  by (auto simp: known_path_def intro: exI [of _ "int i"])

lemma simulates_cong: "simulates doc ok k wrap act f \<Longrightarrow> (\<And>s. f s = g s) \<Longrightarrow> simulates doc ok k wrap act g"
  by (simp add: simulates_def)

lemma runs_push:
  assumes "document_store col doc ok" "\<not> is_macro v"
  shows "runs doc ok k PList (c_mutate_in col k [SD_array_append '''' [v] False False] None)
      (\<lambda>xs. (Inr (), xs @ [v]))"
    and "runs doc ok k PList (c_mutate_in col k [SD_array_prepend '''' [v] False False] None)
      (\<lambda>xs. (Inr (), v # xs))"
  by (rule runs_mutate [OF assms(1)];
      simp add: SD_array_append_def SD_array_prepend_def array_spec_def ArrayValues_def assms(2))+

lemma runs_replace:
  assumes "document_store col doc ok" "\<not> is_macro v"
  shows "runs doc ok k PList (c_mutate_in col k [SD_replace (elem_path (int i)) v False] None)
    (\<lambda>xs. if i < length xs then (Inr (), xs[i := v]) else (Inl PathNotFoundException, xs))"
  by (rule runs_mutate [OF assms(1)]) (auto simp: SD_replace_def assms(2) split: if_splits)

lemma runs_remove_nth:
  assumes "document_store col doc ok"
  shows "runs doc ok k PList (c_mutate_in col k [SD_remove (elem_path (int i)) False] None)
    (\<lambda>xs. if i < length xs then (Inr (), remove_nth i xs) else (Inl PathNotFoundException, xs))"
  by (rule runs_mutate [OF assms]) (auto simp: SD_remove_def split: if_splits)

lemma runs_elem:
  assumes "document_store col doc ok"
  shows "runs doc ok k PList (lookup_first col k (SD_get (elem_path (int i)) False))
    (\<lambda>xs. (Inr (if i < length xs then xs ! i else PNone), xs))"
proof -
  have "first_value [sd_entry (PList xs) (SD_get (elem_path (int i)) False)] =
      Inr (if i < length xs then xs ! i else PNone)" for xs
    by (simp add: first_value_def SD_get_def sd_resolve_def)
  then show ?thesis
    using runs_lookup [OF assms, of PList "SD_get (elem_path (int i)) False" k] by (simp add: SD_get_def)
qed

lemma runs_size:
  assumes "document_store col doc ok"
  shows "runs doc ok k PList (ds_size col k) (\<lambda>xs. (Inr (PInt (int (length xs))), xs))"
    and "runs doc ok k PDict (ds_size col k) (\<lambda>d. (Inr (PInt (int (length d))), d))"
proof -
  have "first_value [sd_entry (PList xs) (SD_count '''' False)] = Inr (PInt (int (length xs)))"
    "first_value [sd_entry (PDict d) (SD_count '''' False)] = Inr (PInt (int (length d)))" for xs d
    by (simp_all add: first_value_def SD_count_def sd_resolve_def sd_count_of_def)
  then show "runs doc ok k PList (ds_size col k) (\<lambda>xs. (Inr (PInt (int (length xs))), xs))"
    "runs doc ok k PDict (ds_size col k) (\<lambda>d. (Inr (PInt (int (length d))), d))"
    using runs_lookup [OF assms, of PList "SD_count '''' False" k]
      runs_lookup [OF assms, of PDict "SD_count '''' False" k]
    by (simp_all add: ds_size_def SD_count_def)
qed


lemma bind_op:
  assumes "\<And>x w. fst (g x w) \<noteq> Inl DocumentNotFoundException"
  shows "bindA (datastructure_op (Some ins) fn) g = datastructure_op (Some ins) (bindA fn g)"
proof
  fix w
  show "bindA (datastructure_op (Some ins) fn) g w = datastructure_op (Some ins) (bindA fn g) w"
  proof (cases "fn w")
    case (Pair r w1)
    show ?thesis
    proof (cases r)
      case (Inl e)
      show ?thesis
      proof (cases "e = DocumentNotFoundException")
        case True
        obtain r2 w2 where "catchA ins DocumentExistsException (returnA ()) w1 = (r2, w2)" by fastforce
        then show ?thesis using Pair Inl True
          by (cases r2) (auto simp: datastructure_op_def catchA_def bindA_def)
      qed (use Pair Inl in \<open>auto simp: datastructure_op_def catchA_def bindA_def\<close>)
    next
      case (Inr x)
      obtain r2 w2 where g: "g x w1 = (r2, w2)" by fastforce
      have "r2 \<noteq> Inl DocumentNotFoundException" using assms [of x w1] g by simp
      then show ?thesis using Pair Inr g
        by (cases r2) (auto simp: datastructure_op_def catchA_def bindA_def)
    qed
  qed
qed

lemma simulates_outer:
  assumes "simulates doc ok k wrap act f" "\<And>s. fst (f s) \<noteq> Inl DocumentNotFoundException"
  shows "simulates doc ok k wrap (datastructure_op ins act) f"
  unfolding simulates_def
proof (intro allI impI)
  fix w s assume "ok w \<and> container doc k wrap s w"
  then obtain w' where w': "act w = (fst (f s), w')" "ok w'" "container doc k wrap (snd (f s)) w'"
    "\<forall>k'. k' \<noteq> k \<longrightarrow> doc w' k' = doc w k'"
    using assms(1) unfolding simulates_def by blast
  moreover have "datastructure_op ins act w = (fst (f s), w')"
    using w'(1) assms(2) [of s] by (cases "fst (f s)") (auto simp: datastructure_op_def catchA_def)
  ultimately show "\<exists>w'. datastructure_op ins act w = (fst (f s), w') \<and> ok w' \<and>
      container doc k wrap (snd (f s)) w' \<and> (\<forall>k'. k' \<noteq> k \<longrightarrow> doc w' k' = doc w k')" by blast
qed

lemma simulates_read:
  assumes "document_store col doc ok" "\<And>v. g v \<noteq> Inl DocumentNotFoundException"
  shows "simulates doc ok k wrap
    (bindA (datastructure_op (Some (c_insert col k (wrap x0))) (c_get col k)) (\<lambda>(v, cas). liftA (g v)))
    (\<lambda>s. (g (wrap (or_empty x0 s)), Some (or_empty x0 s)))"
proof -
  have "bindA (datastructure_op (Some (c_insert col k (wrap x0))) (c_get col k)) (\<lambda>(v, cas). liftA (g v)) =
      datastructure_op (Some (c_insert col k (wrap x0))) (bindA (c_get col k) (\<lambda>(v, cas). liftA (g v)))"
    by (rule bind_op) (use assms(2) in \<open>auto simp: liftA_def\<close>)
  then show ?thesis
    using simulates_op [OF assms(1) runs_get [OF assms(1), of k wrap g], of x0] assms(2) by simp
qed

lemma lift_bind: "bindA (liftA r) (\<lambda>y. returnA (g y)) = liftA (bindE r (\<lambda>y. Inr (g y)))"
  by (cases r) (auto simp: bindA_def liftA_def returnA_def fun_eq_iff)

lemma as_list_ok: "as_list v \<noteq> Inl DocumentNotFoundException"
  by (cases v) (auto simp: as_list_def)

lemma bindE_not: "r \<noteq> Inl e \<Longrightarrow> bindE r (\<lambda>y. Inr (g y)) \<noteq> Inl e"
  by (cases r) auto

lemma raise_lift: "raiseA e = liftA (Inl e)"
  by (simp add: raiseA_def liftA_def fun_eq_iff)

lemma list_op_reads:
  assumes "document_store col doc ok"
  shows "simulates doc ok k PList (bindA (List_get col k) (\<lambda>(v, cas). liftA (bindE (as_list v) (\<lambda>xs. Inr (h xs)))))
    (\<lambda>s. (Inr (h (or_empty [] s)), Some (or_empty [] s)))"
proof -
  note ok = bindE_not [OF as_list_ok, of _ h]
  show ?thesis
    using simulates_read [where g = "\<lambda>v. bindE (as_list v) (\<lambda>xs. Inr (h xs))" and wrap = PList and ?x0.0 = "[]",
        OF assms ok, of k]
    by (simp add: List_get_def list_op_def as_list_def)
qed

lemma list_simulates:
  assumes st: "document_store col doc ok" and ok: "list_cmd_ok m"
  shows "simulates doc ok k PList (list_run col k m) (list_spec m)"
proof (cases m)
  case (LAppend v)
  have "simulates doc ok k PList (List_append col k v) (\<lambda>s. (Inr (), Some (or_empty [] s @ [v])))"
    using simulates_op [OF st runs_push(1) [OF st, of v k], of "[]"] ok LAppend
    by (simp add: List_append_def list_op_def)
  from simulates_bind [OF this] show ?thesis using LAppend by (simp add: unitA_def simulates_def)
next
  case (LPrepend v)
  have "simulates doc ok k PList (List_prepend col k v) (\<lambda>s. (Inr (), Some (v # or_empty [] s)))"
    using simulates_op [OF st runs_push(2) [OF st, of v k], of "[]"] ok LPrepend
    by (simp add: List_prepend_def list_op_def)
  from simulates_bind [OF this] show ?thesis using LPrepend by (simp add: unitA_def simulates_def)
next
  case (LSetAt i v)
  have "runs doc ok k PList (c_mutate_in col k [SD_replace (elem_path (int i)) v False] None)
      (\<lambda>xs. if i < length xs then (Inr (), xs[i := v]) else (Inl PathNotFoundException, xs))"
    using runs_replace [OF st] ok LSetAt by simp
  from simulates_bind [OF simulates_plain [OF runs_catch [OF this, of PathNotFoundException
        "Inl InvalidArgumentException"]], of "\<lambda>_. Inr PNone"]
  show ?thesis unfolding LSetAt list_run.simps unitA_def List_set_at_def raise_lift
    by (rule simulates_cong) (auto split: option.split)
next
  case (LGetAt i)
  from simulates_op [OF st runs_catch [OF runs_elem [OF st, of k i], of PathNotFoundException
        "Inl InvalidArgumentException"], of "[]"]
  show ?thesis unfolding LGetAt list_run.simps List_get_at_def list_op_def raise_lift
    by (rule simulates_cong) (auto simp: Let_def)
next
  case (LRemoveAt i)
  from simulates_bind [OF simulates_plain [OF runs_catch [OF runs_remove_nth [OF st, of k i],
        of PathNotFoundException "Inl InvalidArgumentException"]], of "\<lambda>_. Inr PNone"]
  show ?thesis unfolding LRemoveAt list_run.simps unitA_def List_remove_at_def raise_lift
    by (rule simulates_cong) (auto split: option.split)
next
  case LSize
  from simulates_op [OF st runs_size(1) [OF st, of k], of "[]"]
  show ?thesis unfolding LSize list_run.simps List_size_def list_op_def
    by (rule simulates_cong) auto
next
  case (LIndexOf v)
  have "simulates doc ok k PList (List_index_of col k v)
      (\<lambda>s. (Inr (case py_index v (or_empty [] s) of Some i \<Rightarrow> int i | None \<Rightarrow> -1), Some (or_empty [] s)))"
    unfolding List_index_of_def list_op_def lift_bind
    by (rule simulates_outer [OF list_op_reads [OF st]]) simp
  from simulates_bind [OF this] show ?thesis unfolding LIndexOf list_run.simps
    by (rule simulates_cong) (auto simp: Let_def)
next
  case LGetAll
  have id: "bindE (as_list v) Inr = as_list v" for v by (cases "as_list v") simp_all
  have "simulates doc ok k PList (List_get_all col k)
      (\<lambda>s. (Inr (or_empty [] s), Some (or_empty [] s)))"
    using list_op_reads [OF st, of k "\<lambda>xs. xs"] unfolding id List_get_all_def .
  from simulates_bind [OF this] show ?thesis unfolding LGetAll list_run.simps
    by (rule simulates_cong) auto
next
  case LClear
  from simulates_bind [OF simulates_clear [OF st, of k PList], of "\<lambda>_. Inr PNone"]
  show ?thesis unfolding LClear list_run.simps unitA_def List_clear_def
    by (rule simulates_cong) auto
qed


subsection \<open>Maps: commands and specification\<close>

datatype map_cmd = MAdd string pyval | MGet string | MRemove string | MSize | MExists string
  | MKeys | MValues | MGetAll | MClear

fun map_cmd_ok :: "map_cmd \<Rightarrow> bool" where
  "map_cmd_ok (MAdd p v) = (plain_key p \<and> \<not> is_macro v)"
| "map_cmd_ok (MGet p) = plain_key p"
| "map_cmd_ok (MRemove p) = plain_key p"
| "map_cmd_ok (MExists p) = plain_key p"
| "map_cmd_ok _ = True"

fun map_run :: "'w collection \<Rightarrow> string \<Rightarrow> map_cmd \<Rightarrow> ('w, pyval) action" where
  "map_run col k (MAdd p v) = unitA (Map_add col k p v)"
| "map_run col k (MGet p) = Map_get col k p"
| "map_run col k (MRemove p) = unitA (Map_remove col k p)"
| "map_run col k MSize = Map_size col k"
| "map_run col k (MExists p) = bindA (Map_exists col k p) (\<lambda>b. liftA (Inr (PBool b)))"
| "map_run col k MKeys = bindA (Map_keys col k) (\<lambda>xs. liftA (Inr (PList xs)))"
| "map_run col k MValues = bindA (Map_values col k) (\<lambda>xs. liftA (Inr (PList xs)))"
| "map_run col k MGetAll = bindA (Map_get_all col k) (\<lambda>d. liftA (Inr (PDict d)))"
| "map_run col k MClear = unitA (Map_clear col k)"

fun map_spec :: "map_cmd \<Rightarrow> (pyval \<times> pyval) list option \<Rightarrow> pyval res \<times> (pyval \<times> pyval) list option" where
  "map_spec (MAdd p v) s = (Inr PNone, Some (AList.update (PStr p) v (or_empty [] s)))"
| "map_spec (MGet p) s =
     (Inr (case map_of (or_empty [] s) (PStr p) of Some v \<Rightarrow> v | None \<Rightarrow> PNone), Some (or_empty [] s))"
| "map_spec (MRemove p) s = (case s of None \<Rightarrow> (Inl DocumentNotFoundException, None)
     | Some d \<Rightarrow> if map_of d (PStr p) \<noteq> None then (Inr PNone, Some (AList.delete (PStr p) d))
                 else (Inl InvalidArgumentException, Some d))"
| "map_spec MSize s = (Inr (PInt (int (length (or_empty [] s)))), Some (or_empty [] s))"
| "map_spec (MExists p) s =
     (Inr (PBool (map_of (or_empty [] s) (PStr p) \<noteq> None)), Some (or_empty [] s))"
| "map_spec MKeys s = (Inr (PList (map fst (or_empty [] s))), Some (or_empty [] s))"
| "map_spec MValues s = (Inr (PList (map snd (or_empty [] s))), Some (or_empty [] s))"
| "map_spec MGetAll s = (Inr (PDict (or_empty [] s)), Some (or_empty [] s))"
| "map_spec MClear s = (Inr PNone, None)"

lemma plain_key_nonempty: "plain_key p \<Longrightarrow> p \<noteq> ''''"
  by (simp add: plain_key_def)

lemma known_key: "plain_key p \<Longrightarrow> known_path (PDict d) p"
  by (simp add: known_path_def)

lemma runs_upsert:
  assumes "document_store col doc ok" "plain_key p" "\<not> is_macro v"
  shows "runs doc ok k PDict (c_mutate_in col k [SD_upsert p v False False] None)
    (\<lambda>d. (Inr (), AList.update (PStr p) v d))"
  by (rule runs_mutate [OF assms(1)]) (use assms(2,3) in \<open>auto simp: SD_upsert_def known_key\<close>)

lemma runs_delete:
  assumes "document_store col doc ok" "plain_key p"
  shows "runs doc ok k PDict (c_mutate_in col k [SD_remove p False] None)
    (\<lambda>d. if map_of d (PStr p) \<noteq> None then (Inr (), AList.delete (PStr p) d)
         else (Inl PathNotFoundException, d))"
  by (rule runs_mutate [OF assms(1)])
    (use assms(2) plain_key_nonempty in \<open>auto simp: SD_remove_def known_key split: if_splits\<close>)

lemma runs_field:
  assumes "document_store col doc ok" "plain_key p"
  shows "runs doc ok k PDict (lookup_first col k (SD_get p False))
    (\<lambda>d. (Inr (case map_of d (PStr p) of Some v \<Rightarrow> v | None \<Rightarrow> PNone), d))"
proof -
  have "first_value [sd_entry (PDict d) (SD_get p False)] =
      Inr (case map_of d (PStr p) of Some v \<Rightarrow> v | None \<Rightarrow> PNone)" for d
    using assms(2) plain_key_nonempty [OF assms(2)]
    by (simp add: first_value_def SD_get_def sd_resolve_def split: option.split)
  then show ?thesis
    using runs_lookup [OF assms(1), of PDict "SD_get p False" k] assms(2) by (simp add: SD_get_def known_key)
qed

lemma runs_exists:
  assumes "document_store col doc ok" "plain_key p"
  shows "runs doc ok k PDict
    (bindA (c_lookup_in col k [SD_exists p False]) (\<lambda>(value, cas). liftA (LookupInResult_exists value 0)))
    (\<lambda>d. (Inr (map_of d (PStr p) \<noteq> None), d))"
proof -
  have "LookupInResult_exists [sd_entry (PDict d) (SD_exists p False)] 0 = Inr (map_of d (PStr p) \<noteq> None)" for d
    using assms(2) plain_key_nonempty [OF assms(2)]
    by (simp add: LookupInResult_exists_def parse_subdocument_exists_def bad_index_def SD_exists_def
        sd_resolve_def split: option.split)
  then show ?thesis
    using runs_lookup_in [OF assms(1), of PDict "SD_exists p False" k "\<lambda>v. LookupInResult_exists v 0"] assms(2)
    by (simp add: SD_exists_def known_key)
qed

lemma foldE_error:
  assumes "foldE f xs s = Inl e" "\<And>x s e. f x s = Inl e \<Longrightarrow> P e"
  shows "P e"
  using assms(1) by (induction xs arbitrary: s) (auto simp: bindE_eq_Inl intro: assms(2))

lemma as_dict_ok: "as_dict_value v \<noteq> Inl DocumentNotFoundException"
proof
  assume a: "as_dict_value v = Inl DocumentNotFoundException"
  then obtain xs where "v = PList xs" "foldE (\<lambda>x d. case x of PList [k, w] \<Rightarrow> Inr (AList.update k w d)
      | _ \<Rightarrow> Inl TypeError) xs [] = Inl DocumentNotFoundException"
    by (cases v) (auto simp: as_dict_value_def)
  then have "DocumentNotFoundException = TypeError"
    by (elim foldE_error) (auto split: pyval.splits list.splits)
  then show False by simp
qed

lemma dict_op_reads:
  assumes "document_store col doc ok"
  shows "simulates doc ok k PDict (bindA (Map_get_all col k) (\<lambda>d. liftA (Inr (h d))))
    (\<lambda>s. (Inr (h (or_empty [] s)), Some (or_empty [] s)))"
proof -
  have "simulates doc ok k PDict (Map_get_all col k) (\<lambda>s. (Inr (or_empty [] s), Some (or_empty [] s)))"
    using simulates_read [where g = as_dict_value and wrap = PDict and ?x0.0 = "[]", OF assms as_dict_ok, of k]
    by (simp add: Map_get_all_def Map_get_doc_def dict_op_def as_dict_value_def)
  from simulates_bind [OF this, of "\<lambda>d. Inr (h d)"] show ?thesis by simp
qed

lemma return_lift: "returnA x = liftA (Inr x)"
  by (simp add: returnA_def liftA_def fun_eq_iff)

lemma map_simulates:
  assumes st: "document_store col doc ok" and ok: "map_cmd_ok m"
  shows "simulates doc ok k PDict (map_run col k m) (map_spec m)"
proof (cases m)
  case (MAdd p v)
  have "simulates doc ok k PDict (Map_add col k p v)
      (\<lambda>s. (Inr (), Some (AList.update (PStr p) v (or_empty [] s))))"
    using simulates_op [OF st runs_upsert [OF st, of p v k], of "[]"] ok MAdd
    by (simp add: Map_add_def dict_op_def)
  from simulates_bind [OF this] show ?thesis using MAdd by (simp add: unitA_def simulates_def)
next
  case (MGet p)
  then show ?thesis using simulates_op [OF st runs_field [OF st, of p k], of "[]"] ok
    by (simp add: Map_get_def dict_op_def simulates_def)
next
  case (MRemove p)
  then have "plain_key p" using ok by simp
  from simulates_bind [OF simulates_plain [OF runs_catch [OF runs_delete [OF st this, of k],
        of PathNotFoundException "Inl InvalidArgumentException"]], of "\<lambda>_. Inr PNone"]
  show ?thesis unfolding MRemove map_run.simps unitA_def Map_remove_def raise_lift
    by (rule simulates_cong) (auto split: option.split)
next
  case MSize
  from simulates_op [OF st runs_size(2) [OF st, of k], of "[]"]
  show ?thesis unfolding MSize map_run.simps Map_size_def dict_op_def
    by (rule simulates_cong) auto
next
  case (MExists p)
  then have "plain_key p" using ok by simp
  from simulates_op [OF st runs_exists [OF st this, of k], of "[]"]
  have "simulates doc ok k PDict (Map_exists col k p)
      (\<lambda>s. (Inr (map_of (or_empty [] s) (PStr p) \<noteq> None), Some (or_empty [] s)))"
    unfolding Map_exists_def dict_op_def by (rule simulates_cong) auto
  from simulates_bind [OF this] show ?thesis unfolding MExists map_run.simps
    by (rule simulates_cong) auto
next
  case MKeys
  from simulates_bind [OF dict_op_reads [OF st, of k "map fst"], of "\<lambda>xs. Inr (PList xs)"]
  show ?thesis unfolding MKeys map_run.simps Map_keys_def return_lift by (rule simulates_cong) auto
next
  case MValues
  from simulates_bind [OF dict_op_reads [OF st, of k "map snd"], of "\<lambda>xs. Inr (PList xs)"]
  show ?thesis unfolding MValues map_run.simps Map_values_def return_lift by (rule simulates_cong) auto
next
  case MGetAll
  from dict_op_reads [OF st, of k PDict] show ?thesis unfolding MGetAll map_run.simps
    by (rule simulates_cong) auto
next
  case MClear
  from simulates_bind [OF simulates_clear [OF st, of k PDict], of "\<lambda>_. Inr PNone"]
  show ?thesis unfolding MClear map_run.simps unitA_def Map_clear_def
    by (rule simulates_cong) auto
qed

end
