(* ===== verification/Retry_Loops.thy ===== *)
theory Retry_Loops
  imports Datastructures
begin

text \<open>
  What the containers of \<open>couchbase/datastructures.py\<close> promise: refinement of the
  abstract list, map and queue while nobody else writes, and for the retry loops of
  \<open>CouchbaseQueue.pop\<close> and \<open>CouchbaseSet.remove\<close> that they return in time and that,
  whatever other clients do, they take out exactly what they report.

  The in-memory store at the start shows that the promises asked of a collection can be
  kept.
\<close>

subsection \<open>A store in memory\<close>

record mem =
  mem_docs :: docs
  mem_next :: int
  mem_clock :: rat

definition mem_put :: "string \<Rightarrow> pyval \<Rightarrow> mem \<Rightarrow> mem" where
  "mem_put k v w = w\<lparr>mem_docs := (mem_docs w)(k \<mapsto> (v, mem_next w)), mem_next := mem_next w + 1\<rparr>"

definition mem_mutate :: "string \<Rightarrow> spec list \<Rightarrow> int option \<Rightarrow> (mem, unit) action" where
  "mem_mutate k ss cas w =
     (case (ss, mem_docs w k) of
        (_, None) \<Rightarrow> (Inl DocumentNotFoundException, w)
      | ([s], Some (v, c)) \<Rightarrow>
          if cas \<noteq> None \<and> cas \<noteq> Some c then (Inl CasMismatchException, w)
          else (case sd_mutate v s of Inl e \<Rightarrow> (Inl e, w) | Inr u \<Rightarrow> (Inr (), mem_put k u w))
      | _ \<Rightarrow> (Inl InvalidArgumentException, w))"

definition mem_collection :: "mem collection" where
  "mem_collection =
     \<lparr>c_get = (\<lambda>k w. (case mem_docs w k of None \<Rightarrow> Inl DocumentNotFoundException | Some d \<Rightarrow> Inr d, w)),
      c_insert = (\<lambda>k v w. if mem_docs w k = None then (Inr (), mem_put k v w)
        else (Inl DocumentExistsException, w)),
      c_remove = (\<lambda>k w. if mem_docs w k = None then (Inl DocumentNotFoundException, w)
        else (Inr (), w\<lparr>mem_docs := (mem_docs w)(k := None)\<rparr>)),
      c_lookup_in = (\<lambda>k ss w. case mem_docs w k of
          None \<Rightarrow> (Inl DocumentNotFoundException, w)
        | Some (v, c) \<Rightarrow> (Inr (map (sd_entry v) ss, c), w)),
      c_mutate_in = mem_mutate,
      perf_counter = (\<lambda>w. (mem_clock w, w\<lparr>mem_clock := mem_clock w + 1 / 1000\<rparr>)),
      sleep = (\<lambda>d w. w\<lparr>mem_clock := mem_clock w + d\<rparr>)\<rparr>"

lemma mem_store: "document_store mem_collection mem_docs (\<lambda>w. True)"
  unfolding document_store_def
proof (intro allI impI conjI)
  fix w k
  show "\<exists>w'. c_get mem_collection k w =
      (case mem_docs w k of None \<Rightarrow> Inl DocumentNotFoundException | Some d \<Rightarrow> Inr d, w') \<and>
      same_docs mem_docs (\<lambda>w. True) w w'"
    by (auto simp: mem_collection_def same_docs_def)
  show "\<exists>w'. if mem_docs w k = None
      then c_insert mem_collection k v w = (Inr (), w') \<and> stored mem_docs (\<lambda>w. True) k v w w'
      else c_insert mem_collection k v w = (Inl DocumentExistsException, w') \<and>
        same_docs mem_docs (\<lambda>w. True) w w'" for v
    by (auto simp: mem_collection_def same_docs_def stored_def mem_put_def)
  show "\<exists>w'. if mem_docs w k = None
      then c_remove mem_collection k w = (Inl DocumentNotFoundException, w') \<and>
        same_docs mem_docs (\<lambda>w. True) w w'
      else c_remove mem_collection k w = (Inr (), w') \<and> True \<and> mem_docs w' = (mem_docs w)(k := None)"
    by (auto simp: mem_collection_def same_docs_def)
  show "\<exists>w'. case mem_docs w k of
      None \<Rightarrow> c_lookup_in mem_collection k [s] w = (Inl DocumentNotFoundException, w') \<and>
        same_docs mem_docs (\<lambda>w. True) w w'
    | Some (v, c) \<Rightarrow> known_path v (spec_path s) \<longrightarrow>
        c_lookup_in mem_collection k [s] w = (Inr ([sd_entry v s], c), w') \<and>
        same_docs mem_docs (\<lambda>w. True) w w'" for s
    by (cases "mem_docs w k") (auto simp: mem_collection_def same_docs_def)
  show "\<exists>w'. case mem_docs w k of
      None \<Rightarrow> c_mutate_in mem_collection k [s] cas w = (Inl DocumentNotFoundException, w') \<and>
        same_docs mem_docs (\<lambda>w. True) w w'
    | Some (v, c) \<Rightarrow> known_path v (spec_path s) \<longrightarrow>
        (if cas \<noteq> None \<and> cas \<noteq> Some c
         then c_mutate_in mem_collection k [s] cas w = (Inl CasMismatchException, w') \<and>
           same_docs mem_docs (\<lambda>w. True) w w'
         else case sd_mutate v s of
             Inl e \<Rightarrow> c_mutate_in mem_collection k [s] cas w = (Inl e, w') \<and>
               same_docs mem_docs (\<lambda>w. True) w w'
           | Inr u \<Rightarrow> c_mutate_in mem_collection k [s] cas w = (Inr (), w') \<and>
               stored mem_docs (\<lambda>w. True) k u w w')" for s cas
  proof (cases "mem_docs w k")
    case (Some d)
    obtain v c where d: "d = (v, c)" by fastforce
    show ?thesis using Some d
      by (cases "cas \<noteq> None \<and> cas \<noteq> Some c"; cases "sd_mutate v s")
        (auto simp: mem_collection_def mem_mutate_def same_docs_def stored_def mem_put_def)
  qed (auto simp: mem_collection_def mem_mutate_def same_docs_def)
qed (auto simp: mem_collection_def same_docs_def)

definition mem_empty :: mem where
  "mem_empty = \<lparr>mem_docs = (\<lambda>_. None), mem_next = 1, mem_clock = 0\<rparr>"

subsection \<open>Queues: commands and specification\<close>

datatype queue_cmd = QPush pyval | QPop | QSize | QClear

fun queue_cmd_ok :: "queue_cmd \<Rightarrow> bool" where
  "queue_cmd_ok (QPush v) = (\<not> is_macro v)"
| "queue_cmd_ok _ = True"

text \<open>A pop that runs out of fuel would show as an outcome that the code does not have.\<close>

fun queue_run :: "nat \<Rightarrow> 'w collection \<Rightarrow> string \<Rightarrow> queue_cmd \<Rightarrow> ('w, pyval) action" where
  "queue_run fuel col k (QPush v) = unitA (Queue_push col k v)"
| "queue_run fuel col k QPop =
     (\<lambda>w. case Queue_pop fuel col k None w of Some r \<Rightarrow> r | None \<Rightarrow> (Inl (SDKException ''no fuel''), w))"
| "queue_run fuel col k QSize = Queue_size col k"
| "queue_run fuel col k QClear = unitA (Queue_clear col k)"

text \<open>The abstract queue lists its elements in the order of their arrival.\<close>

fun queue_spec :: "queue_cmd \<Rightarrow> pyval list option \<Rightarrow> pyval res \<times> pyval list option" where
  "queue_spec (QPush v) s = (Inr PNone, Some (or_empty [] s @ [v]))"
| "queue_spec QPop s = (case s of None \<Rightarrow> (Inl DocumentNotFoundException, None)
     | Some [] \<Rightarrow> (Inl QueueEmpty, Some []) | Some (x # q) \<Rightarrow> (Inr x, Some q))"
| "queue_spec QSize s = (Inr (PInt (int (length (or_empty [] s)))), Some (or_empty [] s))"
| "queue_spec QClear s = (Inr PNone, None)"

definition queue_doc :: "pyval list \<Rightarrow> pyval" where
  "queue_doc q = PList (rev q)"

lemma runs_queue:
  "runs doc ok k PList fn f \<Longrightarrow> runs doc ok k queue_doc fn (\<lambda>q. (fst (f (rev q)), rev (snd (f (rev q)))))"
  unfolding runs_def queue_doc_def by simp

lemma last_lookup:
  assumes "document_store col doc ok" "ok w" "doc w k = Some (PList xs, c)"
  shows "\<exists>w'. c_lookup_in col k [SD_get (elem_path (-1)) False] w =
      (Inr ([sd_entry (PList xs) (SD_get (elem_path (-1)) False)], c), w') \<and> same_docs doc ok w w'"
proof -
  have "\<exists>w'. case doc w k of
          None \<Rightarrow> c_lookup_in col k [SD_get (elem_path (-1)) False] w = (Inl DocumentNotFoundException, w')
            \<and> same_docs doc ok w w'
        | Some (v, c) \<Rightarrow> known_path v (spec_path (SD_get (elem_path (-1)) False)) \<longrightarrow>
            c_lookup_in col k [SD_get (elem_path (-1)) False] w =
              (Inr ([sd_entry v (SD_get (elem_path (-1)) False)], c), w') \<and> same_docs doc ok w w'"
    using assms(1,2) unfolding document_store_def by blast
  then show ?thesis using assms(3) by (simp add: SD_get_def)
qed

lemma last_remove:
  assumes "document_store col doc ok" "ok w" "doc w k = Some (PList xs, c)"
  shows "\<exists>w'. if xs = [] then c_mutate_in col k [SD_remove (elem_path (-1)) False] (Some c) w =
        (Inl PathNotFoundException, w') \<and> same_docs doc ok w w'
      else c_mutate_in col k [SD_remove (elem_path (-1)) False] (Some c) w = (Inr (), w') \<and>
        stored doc ok k (PList (butlast xs)) w w'"
proof -
  let ?s = "SD_remove (elem_path (-1)) False"
  have "\<exists>w'. case doc w k of
          None \<Rightarrow> c_mutate_in col k [?s] (Some c) w = (Inl DocumentNotFoundException, w') \<and> same_docs doc ok w w'
        | Some (v, c') \<Rightarrow> known_path v (spec_path ?s) \<longrightarrow>
            (if Some c \<noteq> None \<and> Some c \<noteq> Some c'
             then c_mutate_in col k [?s] (Some c) w = (Inl CasMismatchException, w') \<and> same_docs doc ok w w'
             else (case sd_mutate v ?s of
                 Inl e \<Rightarrow> c_mutate_in col k [?s] (Some c) w = (Inl e, w') \<and> same_docs doc ok w w'
               | Inr u \<Rightarrow> c_mutate_in col k [?s] (Some c) w = (Inr (), w') \<and> stored doc ok k u w w'))"
    using assms(1,2) unfolding document_store_def by blast
  moreover have "remove_nth (length xs - 1) xs = butlast xs" if "xs \<noteq> []"
    using that by (simp add: remove_nth_def butlast_conv_take)
  ultimately show ?thesis using assms(3) by (cases "xs = []") (simp_all add: SD_remove_def)
qed

lemma pop_simulates:
  assumes "document_store col doc ok"
  shows "simulates doc ok k queue_doc (queue_run (Suc n) col k QPop) (queue_spec QPop)"
  unfolding simulates_def
proof (intro allI impI, elim conjE)
  fix w s assume w: "ok w" and s: "container doc k queue_doc s w"
  obtain start w0 where p: "perf_counter col w = (start, w0)" by fastforce
  have "same_docs doc ok w (snd (perf_counter col w))"
    using assms w unfolding document_store_def by blast
  then have 0: "ok w0" "doc w0 = doc w" by (simp_all add: p same_docs_def)
  show "\<exists>w'. queue_run (Suc n) col k QPop w = (fst (queue_spec QPop s), w') \<and> ok w' \<and>
      container doc k queue_doc (snd (queue_spec QPop s)) w' \<and> (\<forall>k'. k' \<noteq> k \<longrightarrow> doc w' k' = doc w k')"
  proof (cases s)
    case None
    have L: "\<exists>w'. case doc w0 k of
          None \<Rightarrow> c_lookup_in col k [SD_get (elem_path (-1)) False] w0 = (Inl DocumentNotFoundException, w')
            \<and> same_docs doc ok w0 w'
        | Some (v, c) \<Rightarrow> known_path v (spec_path (SD_get (elem_path (-1)) False)) \<longrightarrow>
            c_lookup_in col k [SD_get (elem_path (-1)) False] w0 =
              (Inr ([sd_entry v (SD_get (elem_path (-1)) False)], c), w') \<and> same_docs doc ok w0 w'"
      using assms 0(1) unfolding document_store_def by blast
    then show ?thesis using None s 0
      by (auto simp: container_def Queue_pop_def p queue_error_def same_docs_def)
  next
    case (Some q)
    then obtain c where d: "doc w0 k = Some (PList (rev q), c)"
      using s 0 by (auto simp: container_def queue_doc_def)
    obtain w1 where 1: "c_lookup_in col k [SD_get (elem_path (-1)) False] w0 =
        (Inr ([sd_entry (PList (rev q)) (SD_get (elem_path (-1)) False)], c), w1)" "same_docs doc ok w0 w1"
      using last_lookup [OF assms 0(1) d] by blast
    have d1: "ok w1" "doc w1 k = Some (PList (rev q), c)" using 1(2) d by (auto simp: same_docs_def)
    have val: "first_value [sd_entry (PList (rev q)) (SD_get (elem_path (-1)) False)] =
        Inr (if q = [] then PNone else hd q)"
      by (cases q) (simp_all add: first_value_def SD_get_def sd_resolve_def nth_append)
    show ?thesis
    proof (cases q)
      case Nil
      then obtain w2 where "c_mutate_in col k [SD_remove (elem_path (-1)) False] (Some c) w1 =
          (Inl PathNotFoundException, w2)" "same_docs doc ok w1 w2"
        using last_remove [OF assms d1] by auto
      then show ?thesis using Some Nil 0 1 val d
        by (auto simp: Queue_pop_def p queue_error_def container_def queue_doc_def same_docs_def)
    next
      case (Cons x q')
      then obtain w2 where "c_mutate_in col k [SD_remove (elem_path (-1)) False] (Some c) w1 = (Inr (), w2)"
        "stored doc ok k (PList (rev q')) w1 w2"
        using last_remove [OF assms d1] by (auto simp: butlast_append)
      then show ?thesis using Some Cons 0 1 val
        by (auto simp: Queue_pop_def p container_def queue_doc_def same_docs_def stored_def)
    qed
  qed
qed

lemma queue_simulates:
  assumes st: "document_store col doc ok" and ok: "queue_cmd_ok m"
  shows "simulates doc ok k queue_doc (queue_run (Suc n) col k m) (queue_spec m)"
proof (cases m)
  case (QPush v)
  have e: "PList [] = queue_doc []" by (simp add: queue_doc_def)
  have "\<not> is_macro v" using ok QPush by simp
  from simulates_op [OF st runs_queue [OF runs_push(2) [OF st this, of k]], of "[]"]
  have "simulates doc ok k queue_doc (Queue_push col k v) (\<lambda>s. (Inr (), Some (or_empty [] s @ [v])))"
    unfolding Queue_push_def list_op_def e by (rule simulates_cong) auto
  from simulates_bind [OF this] show ?thesis unfolding QPush queue_run.simps unitA_def
    by (rule simulates_cong) auto
next
  case QPop
  then show ?thesis using pop_simulates [OF st] by simp
next
  case QSize
  have e: "PList [] = queue_doc []" by (simp add: queue_doc_def)
  from simulates_op [OF st runs_queue [OF runs_size(1) [OF st, of k]], of "[]"]
  show ?thesis unfolding QSize queue_run.simps Queue_size_def list_op_def e
    by (rule simulates_cong) auto
next
  case QClear
  from simulates_bind [OF simulates_clear [OF st, of k queue_doc], of "\<lambda>_. Inr PNone"]
  show ?thesis unfolding QClear queue_run.simps unitA_def Queue_clear_def
    by (rule simulates_cong) auto
qed


subsection \<open>The retry loops return\<close>

text \<open>
  What the loops need of the clock: it does not run backwards over an operation, and a
  sleep of \<open>d\<close> seconds lasts at least \<open>d\<close>.
\<close>

definition steady_clock :: "'w collection \<Rightarrow> ('w \<Rightarrow> rat) \<Rightarrow> bool" where
  "steady_clock col time \<longleftrightarrow>
     (\<forall>w. fst (perf_counter col w) = time w \<and> time w \<le> time (snd (perf_counter col w))) \<and>
     (\<forall>w d. 0 \<le> d \<longrightarrow> time w + d \<le> time (sleep col d w)) \<and>
     (\<forall>w k. time w \<le> time (snd (c_get col k w))) \<and>
     (\<forall>w k v. time w \<le> time (snd (c_insert col k v w))) \<and>
     (\<forall>w k ss. time w \<le> time (snd (c_lookup_in col k ss w))) \<and>
     (\<forall>w k ss cas. time w \<le> time (snd (c_mutate_in col k ss cas w)))"

lemma steady_clock_steady: "steady_clock col time \<Longrightarrow> steady (perf_counter col) (sleep col) time"
  by (simp add: steady_clock_def steady_def)

lemma enough_step:
  assumes "steady_clock col time" "enough time T s (Suc n) i w" "time w \<le> time w1"
    and "retry_pause col T s i w1 = (Some i', w2)"
  shows "enough time T s n i' w2"
proof -
  obtain l' where "backoff (perf_counter col) (sleep col) T s i w1 = (Some (i', l'), w2)"
    using assms(4) by (cases "backoff (perf_counter col) (sleep col) T s i w1") (auto simp: retry_pause_def)
  from enough_next [OF steady_clock_steady [OF assms(1)] assms(2,3) this] show ?thesis .
qed

lemma steady_ops:
  assumes "steady_clock col time"
  shows "c_lookup_in col k ss w = (r1, w1) \<Longrightarrow> time w \<le> time w1"
    and "c_mutate_in col k ss cas w = (r2, w1) \<Longrightarrow> time w \<le> time w1"
    and "c_get col k w = (r3, w1) \<Longrightarrow> time w \<le> time w1"
    and "c_insert col k v w = (r4, w1) \<Longrightarrow> time w \<le> time w1"
  using assms unfolding steady_clock_def by (metis snd_conv)+

lemma pop_loop_returns:
  assumes "steady_clock col time" "enough time T s n i w"
  shows "\<exists>r. Queue_pop_loop n col k T s i w = Some r"
  using assms(2)
proof (induction n arbitrary: i w)
  case (Suc n)
  obtain r1 w1 where 1: "c_lookup_in col k [SD_get (elem_path (-1)) False] w = (r1, w1)" by fastforce
  show ?case
  proof (cases r1)
    case (Inr vc)
    obtain val cas where vc: "vc = (val, cas)" by fastforce
    obtain r2 w2 where 2: "c_mutate_in col k [SD_remove (elem_path (-1)) False] (Some cas) w1 = (r2, w2)"
      by fastforce
    obtain o3 w3 where 3: "retry_pause col T s i w2 = (o3, w3)" by fastforce
    have tm: "time w \<le> time w2" using steady_ops [OF assms(1)] 1 2 by (meson order_trans)
    have "\<exists>r. Queue_pop_loop n col k T s i' w3 = Some r" if "o3 = Some i'" for i'
      using Suc.IH enough_step [OF assms(1) Suc.prems tm] 3 that by blast
    then show ?thesis using 1 2 3 Inr vc
      by (cases "first_value val"; cases r2; cases o3) auto
  qed (use 1 in auto)
qed (simp add: enough_def)

lemma List_get_time:
  assumes "steady_clock col time" "List_get col k w = (r, w')"
  shows "time w \<le> time w'"
proof -
  obtain r1 w1 where 1: "c_get col k w = (r1, w1)" by fastforce
  obtain r2 w2 where 2: "c_insert col k (PList []) w1 = (r2, w2)" by fastforce
  obtain r3 w3 where 3: "c_get col k w2 = (r3, w3)" by fastforce
  have "w' \<in> {w1, w2, w3}"
    using assms(2) 1 2 3 unfolding List_get_def list_op_def datastructure_op_def catchA_def bindA_def returnA_def
    by (auto split: sum.splits if_splits)
  moreover have "time w \<le> time w1" "time w1 \<le> time w2" "time w2 \<le> time w3"
    using steady_ops [OF assms(1)] 1 2 3 by blast+
  ultimately show ?thesis by auto
qed

lemma set_remove_loop_returns:
  assumes "steady_clock col time" "enough time T s n i w"
  shows "\<exists>r. Set_remove_loop n col k v T s i w = Some r"
  using assms(2)
proof (induction n arbitrary: i w)
  case (Suc n)
  obtain r1 w1 where 1: "List_get col k w = (r1, w1)" by fastforce
  show ?case
  proof (cases r1)
    case (Inr vc)
    obtain d cas where vc: "vc = (d, cas)" by fastforce
    have "\<exists>r. Set_remove_loop n col k v T s i' w3 = Some r"
      if "c_mutate_in col k [SD_remove (elem_path (int j)) False] (Some cas) w1 = (r2, w2)"
        "retry_pause col T s i w2 = (Some i', w3)" for j r2 w2 i' w3
    proof -
      have "time w \<le> time w2"
        using steady_ops(2) [OF assms(1) that(1)] List_get_time [OF assms(1) 1] by simp
      then show ?thesis using Suc.IH enough_step [OF assms(1) Suc.prems _ that(2)] by blast
    qed
    then show ?thesis using 1 Inr vc by (auto split: sum.split option.split prod.split)
  qed (use 1 in auto)
qed (simp add: enough_def)


subsection \<open>Removal while others write\<close>

text \<open>
  What a collection promises when other clients write at any time: a CAS identifies one
  version of the document for good, a lookup shows some version with its CAS, and a
  mutation with a CAS applies to exactly that version or to none.  A mutation that fails has
  certainly not been applied when the server refused it (the CAS, the path or the document does not match)
  or when it was never sent (the unambiguous timeout, \<open>mcbp_command::cancel\<close>).  Every other error leaves that
  open, as an ambiguous timeout does, or a cancelled request (\<open>couchbase/error_codes.hxx\<close>:
  ``cannot be resolved in a non-ambiguous way''): the mutation is applied once or not
  at all, and nothing is promised about the world afterwards, because it may still
  be on its way.  \<open>ver\<close> gives the versions that a CAS
  stands for, \<open>hist\<close> the mutations of this client that the server applies, in the order in which they were
  sent, with the document before and after.
\<close>

type_synonym versions = "string \<Rightarrow> int \<Rightarrow> pyval option"
type_synonym mutations = "(string \<times> pyval \<times> pyval) list"

definition grows :: "('w \<Rightarrow> versions) \<Rightarrow> 'w \<Rightarrow> 'w \<Rightarrow> bool" where
  "grows ver w w' \<longleftrightarrow> (\<forall>k c v. ver w k c = Some v \<longrightarrow> ver w' k c = Some v)"

definition keeps :: "('w \<Rightarrow> versions) \<Rightarrow> ('w \<Rightarrow> mutations) \<Rightarrow> ('w \<Rightarrow> bool) \<Rightarrow> 'w \<Rightarrow> 'w \<Rightarrow> bool" where
  "keeps ver hist ok w w' \<longleftrightarrow> ok w' \<and> hist w' = hist w \<and> grows ver w w'"

text \<open>\<open>QueueEmpty\<close> is an error of the queue itself, which no collection raises.\<close>

definition definite_failure :: "exc \<Rightarrow> bool" where
  "definite_failure e \<longleftrightarrow> e \<in> {CasMismatchException, PathNotFoundException, DocumentNotFoundException,
     UnAmbiguousTimeoutException, QueueEmpty}"

definition cas_store ::
  "'w collection \<Rightarrow> ('w \<Rightarrow> versions) \<Rightarrow> ('w \<Rightarrow> mutations) \<Rightarrow> ('w \<Rightarrow> bool) \<Rightarrow> bool" where
  "cas_store col ver hist ok \<longleftrightarrow> (\<forall>w k. ok w \<longrightarrow>
     (\<forall>r w'. c_get col k w = (r, w') \<longrightarrow> keeps ver hist ok w w' \<and>
        (\<forall>v c. r = Inr (v, c) \<longrightarrow> ver w' k c = Some v)) \<and>
     (\<forall>v r w'. c_insert col k v w = (r, w') \<longrightarrow> keeps ver hist ok w w') \<and>
     (\<forall>s r w'. c_lookup_in col k [s] w = (r, w') \<longrightarrow> keeps ver hist ok w w' \<and>
        (\<forall>content c. r = Inr (content, c) \<longrightarrow>
           (\<exists>v. ver w' k c = Some v \<and> (known_path v (spec_path s) \<longrightarrow> content = [sd_entry v s])))) \<and>
     (\<forall>s c r w'. c_mutate_in col k [s] (Some c) w = (r, w') \<longrightarrow>
        (case r of
           Inl e \<Rightarrow> if definite_failure e then keeps ver hist ok w w'
             else hist w' = hist w \<or>
               (\<exists>v u. ver w k c = Some v \<and> sd_mutate v s = Inr u \<and> hist w' = hist w @ [(k, v, u)])
         | Inr _ \<Rightarrow> ok w' \<and> grows ver w w' \<and> (\<forall>v. ver w k c = Some v \<longrightarrow>
             (\<exists>u. sd_mutate v s = Inr u \<and> hist w' = hist w @ [(k, v, u)])))) \<and>
     keeps ver hist ok w (snd (perf_counter col w)) \<and>
     (\<forall>d. keeps ver hist ok w (sleep col d w)))"

lemma grows_trans: "grows ver w w' \<Longrightarrow> grows ver w' w'' \<Longrightarrow> grows ver w w''"
  by (simp add: grows_def)

lemma keeps_trans: "keeps ver hist ok w w' \<Longrightarrow> keeps ver hist ok w' w'' \<Longrightarrow> keeps ver hist ok w w''"
  unfolding keeps_def grows_def by simp



lemma cas_lookup:
  assumes "cas_store col ver hist ok" "ok w" "c_lookup_in col k [s] w = (r, w')"
  shows "keeps ver hist ok w w'"
    "r = Inr (content, c) \<Longrightarrow>
       \<exists>v. ver w' k c = Some v \<and> (known_path v (spec_path s) \<longrightarrow> content = [sd_entry v s])"
proof -
  have "keeps ver hist ok w w' \<and> (\<forall>content c. r = Inr (content, c) \<longrightarrow>
      (\<exists>v. ver w' k c = Some v \<and> (known_path v (spec_path s) \<longrightarrow> content = [sd_entry v s])))"
    using assms(1) [unfolded cas_store_def, rule_format (no_asm), OF assms(2)] assms(3) by simp
  then show "keeps ver hist ok w w'"
    "r = Inr (content, c) \<Longrightarrow>
       \<exists>v. ver w' k c = Some v \<and> (known_path v (spec_path s) \<longrightarrow> content = [sd_entry v s])"
    by simp_all
qed

lemma cas_mutate:
  assumes "cas_store col ver hist ok" "ok w" "c_mutate_in col k [s] (Some c) w = (r, w')"
  shows "r = Inl e \<Longrightarrow> definite_failure e \<Longrightarrow> keeps ver hist ok w w'"
    "r = Inl e \<Longrightarrow> \<not> definite_failure e \<Longrightarrow> hist w' = hist w \<or>
       (\<exists>v u. ver w k c = Some v \<and> sd_mutate v s = Inr u \<and> hist w' = hist w @ [(k, v, u)])"
    "r = Inr x \<Longrightarrow> ver w k c = Some v \<Longrightarrow> \<exists>u. sd_mutate v s = Inr u \<and> hist w' = hist w @ [(k, v, u)]"
proof -
  have m: "case r of
           Inl e \<Rightarrow> if definite_failure e then keeps ver hist ok w w'
             else hist w' = hist w \<or>
               (\<exists>v u. ver w k c = Some v \<and> sd_mutate v s = Inr u \<and> hist w' = hist w @ [(k, v, u)])
         | Inr _ \<Rightarrow> ok w' \<and> grows ver w w' \<and> (\<forall>v. ver w k c = Some v \<longrightarrow>
             (\<exists>u. sd_mutate v s = Inr u \<and> hist w' = hist w @ [(k, v, u)]))"
    using assms(1) [unfolded cas_store_def, rule_format (no_asm), OF assms(2)] assms(3) by simp
  then show "r = Inl e \<Longrightarrow> definite_failure e \<Longrightarrow> keeps ver hist ok w w'"
    "r = Inr x \<Longrightarrow> ver w k c = Some v \<Longrightarrow> \<exists>u. sd_mutate v s = Inr u \<and> hist w' = hist w @ [(k, v, u)]"
    by auto
  show "r = Inl e \<Longrightarrow> \<not> definite_failure e \<Longrightarrow> hist w' = hist w \<or>
       (\<exists>v u. ver w k c = Some v \<and> sd_mutate v s = Inr u \<and> hist w' = hist w @ [(k, v, u)])"
    using m by simp
qed

lemma cas_clock:
  assumes "cas_store col ver hist ok" "ok w"
  shows "keeps ver hist ok w (snd (perf_counter col w))" "keeps ver hist ok w (sleep col d w)"
  using assms(1) [unfolded cas_store_def, rule_format (no_asm), OF assms(2)] by simp_all

lemma cas_pause:
  assumes "cas_store col ver hist ok" "ok w" "retry_pause col T s i w = (r, w')"
  shows "keeps ver hist ok w w'"
proof -
  obtain now w1 where p: "perf_counter col w = (now, w1)" by fastforce
  have k: "keeps ver hist ok w w1" using cas_clock(1) [OF assms(1,2)] p by simp
  then have "ok w1" by (simp add: keeps_def)
  then have "keeps ver hist ok w (sleep col d w1)" for d
    using keeps_trans [OF k] cas_clock(2) [OF assms(1)] by blast
  then show ?thesis using assms(3) k by (auto simp: retry_pause_def backoff_def p Let_def split: if_splits)
qed

lemma bracket_path: "\<not> plain_key (elem_path i)"
  by (simp add: plain_key_def elem_path_def)

lemma remove_needs_list:
  assumes "sd_mutate v (SD_remove (elem_path i) False) = Inr u"
  shows "\<exists>xs j. v = PList xs \<and> elem_index (elem_path i) xs = Some j \<and> u = PList (remove_nth j xs)"
  using assms by (cases v) (auto simp: SD_remove_def bracket_path split: option.splits)

lemma removes_last:
  assumes "sd_mutate v (SD_remove (elem_path (-1)) False) = Inr u"
  shows "\<exists>xs x. v = PList (xs @ [x]) \<and> u = PList xs"
proof -
  obtain xs j where xs: "v = PList xs" "elem_index (elem_path (-1)) xs = Some j" "u = PList (remove_nth j xs)"
    using remove_needs_list [OF assms] by blast
  then have "xs \<noteq> []" "j = length xs - 1" by (auto split: if_splits)
  moreover from this have "remove_nth j xs = butlast xs" by (simp add: remove_nth_def butlast_conv_take)
  ultimately show ?thesis using xs append_butlast_last_id by metis
qed


text \<open>
  How a removal ends: with one logged mutation or with none.  When it raises, the mutation is there only
  under an error that leaves its fate open.
\<close>

definition pop_outcome :: "string \<Rightarrow> mutations \<Rightarrow> pyval res \<Rightarrow> mutations \<Rightarrow> bool" where
  "pop_outcome k before r after \<longleftrightarrow>
     (case r of
        Inr x \<Rightarrow> (\<exists>xs. after = before @ [(k, PList (xs @ [x]), PList xs)])
      | Inl e \<Rightarrow> after = before \<or>
          (\<not> definite_failure e \<and> (\<exists>xs x. after = before @ [(k, PList (xs @ [x]), PList xs)])))"

lemma pop_loop_outcome:
  assumes "cas_store col ver hist ok" "ok w" "Queue_pop_loop n col k T s i w = Some (r, w')"
  shows "pop_outcome k (hist w) r (hist w')"
  using assms(2,3)
proof (induction n arbitrary: i w)
  case (Suc n)
  let ?get = "SD_get (elem_path (-1)) False" and ?rem = "SD_remove (elem_path (-1)) False"
  obtain r1 w1 where 1: "c_lookup_in col k [?get] w = (r1, w1)" by fastforce
  have k1: "keeps ver hist ok w w1" by (rule cas_lookup(1) [OF assms(1) Suc.prems(1) 1])
  show ?case
  proof (cases r1)
    case (Inl e)
    then show ?thesis using Suc.prems(2) 1 k1 by (auto simp: pop_outcome_def keeps_def)
  next
    case (Inr vc)
    obtain content cas where vc: "vc = (content, cas)" by fastforce
    show ?thesis
    proof (cases "first_value content")
      case err: (Inl e)
      then have "r = Inl e \<and> w' = w1" using Suc.prems(2) 1 Inr vc by simp
      then show ?thesis using k1 by (simp add: pop_outcome_def keeps_def)
    next
      case val: (Inr x)
      have w1: "ok w1" using k1 by (simp add: keeps_def)
      obtain r2 w2 where 2: "c_mutate_in col k [?rem] (Some cas) w1 = (r2, w2)" by fastforce
      show ?thesis
      proof (cases r2)
        case ok2: (Inr y)
        obtain v where v: "ver w1 k cas = Some v" "known_path v (spec_path ?get) \<longrightarrow> content = [sd_entry v ?get]"
          using cas_lookup(2) [OF assms(1) Suc.prems(1) 1] Inr vc by blast
        obtain u where u: "sd_mutate v ?rem = Inr u" "hist w2 = hist w1 @ [(k, v, u)]"
          using cas_mutate(3) [OF assms(1) w1 2 ok2 v(1)] by blast
        obtain xs y where xs: "v = PList (xs @ [y])" "u = PList xs" using removes_last [OF u(1)] by blast
        have res: "sd_resolve (elem_path (-1)) (PList (xs @ [y])) = Some y"
          by (simp add: sd_resolve_def nth_append)
        have "content = [sd_entry v ?get]" using v(2) xs(1) by (auto simp: SD_get_def known_path_def)
        then have "x = y" using val xs(1) res by (simp add: SD_get_def first_value_def)
        moreover have "r = Inr x \<and> w' = w2" using Suc.prems(2) 1 2 Inr vc val ok2 by simp
        ultimately show ?thesis using u(2) k1 xs by (simp add: pop_outcome_def keeps_def)
      next
        case err: (Inl e)
        show ?thesis
        proof (cases "e = CasMismatchException")
          case False
          have r: "r = Inl (queue_error e) \<and> w' = w2"
            using Suc.prems(2) 1 2 Inr vc val err False by simp
          show ?thesis
          proof (cases "definite_failure e")
            case True
            then show ?thesis using r k1 cas_mutate(1) [OF assms(1) w1 2 err]
              by (simp add: pop_outcome_def keeps_def)
          next
            case open_end: False
            then have "queue_error e = e" by (auto simp: queue_error_def definite_failure_def)
            moreover have "hist w2 = hist w1 \<or> (\<exists>xs x. hist w2 = hist w1 @ [(k, PList (xs @ [x]), PList xs)])"
              using cas_mutate(2) [OF assms(1) w1 2 err open_end] removes_last by blast
            ultimately show ?thesis using r k1 open_end by (auto simp: pop_outcome_def keeps_def)
          qed
        next
          case True
          have l2: "hist w2 = hist w" "ok w2"
            using cas_mutate(1) [OF assms(1) w1 2 err] True k1 by (auto simp: keeps_def definite_failure_def)
          obtain o3 w3 where 3: "retry_pause col T s i w2 = (o3, w3)" by fastforce
          have k3: "ok w3" "hist w3 = hist w"
            using cas_pause [OF assms(1) l2(2) 3] l2(1) by (auto simp: keeps_def)
          show ?thesis
          proof (cases o3)
            case None
            then have "r = Inl UnAmbiguousTimeoutException \<and> w' = w3"
              using Suc.prems(2) 1 2 3 Inr vc val err True by simp
            then show ?thesis using k3 by (simp add: pop_outcome_def)
          next
            case (Some i')
            then have "Queue_pop_loop n col k T s i' w3 = Some (r, w')"
              using Suc.prems(2) 1 2 3 Inr vc val err True by simp
            then show ?thesis using Suc.IH [OF k3(1)] k3(2) by metis
          qed
        qed
      qed
    qed
  qed
qed simp






text \<open>
  A store that other clients write to: before each of this client's mutations the next
  write of the plan is carried out.  Where the plan says so, the answer to the mutation is lost with its
  connection and the request is cancelled, after it has been applied.
\<close>

datatype crowd_event = Write string pyval | AnswerLost

record crowd =
  cr_docs :: docs
  cr_next :: int
  cr_versions :: versions
  cr_hist :: mutations
  cr_plan :: "crowd_event list"

definition crowd_put :: "string \<Rightarrow> pyval \<Rightarrow> crowd \<Rightarrow> crowd" where
  "crowd_put k v w = w\<lparr>cr_docs := (cr_docs w)(k \<mapsto> (v, cr_next w)),
     cr_versions := (\<lambda>k' c. if k' = k \<and> c = cr_next w then Some v else cr_versions w k' c),
     cr_next := cr_next w + 1\<rparr>"

definition crowd_others :: "crowd \<Rightarrow> crowd" where
  "crowd_others w = (case cr_plan w of Write k v # p \<Rightarrow> (crowd_put k v w)\<lparr>cr_plan := p\<rparr> | _ \<Rightarrow> w)"

definition crowd_answer :: "crowd_event list \<Rightarrow> unit res \<times> crowd \<Rightarrow> unit res \<times> crowd" where
  "crowd_answer plan rw = (case (plan, rw) of
       (AnswerLost # p, (r, w)) \<Rightarrow> (Inl (SDKException ''RequestCanceledException''), w\<lparr>cr_plan := p\<rparr>)
     | _ \<Rightarrow> rw)"

definition crowd_write :: "string \<Rightarrow> spec list \<Rightarrow> int option \<Rightarrow> (crowd, unit) action" where
  "crowd_write k ss cas w =
     (case (ss, cr_docs w k) of
        (_, None) \<Rightarrow> (Inl DocumentNotFoundException, w)
      | ([s], Some (v, c)) \<Rightarrow>
          if cas \<noteq> None \<and> cas \<noteq> Some c then (Inl CasMismatchException, w)
          else (case sd_mutate v s of Inl e \<Rightarrow> (Inl e, w)
            | Inr u \<Rightarrow> (Inr (), (crowd_put k u w)\<lparr>cr_hist := cr_hist w @ [(k, v, u)]\<rparr>))
      | _ \<Rightarrow> (Inl InvalidArgumentException, w))"

definition crowd_collection :: "crowd collection" where
  "crowd_collection =
     \<lparr>c_get = (\<lambda>k w. (case cr_docs w k of None \<Rightarrow> Inl DocumentNotFoundException | Some d \<Rightarrow> Inr d, w)),
      c_insert = (\<lambda>k v w. if cr_docs w k = None then (Inr (), crowd_put k v w)
        else (Inl DocumentExistsException, w)),
      c_remove = (\<lambda>k w. if cr_docs w k = None then (Inl DocumentNotFoundException, w)
        else (Inr (), w\<lparr>cr_docs := (cr_docs w)(k := None)\<rparr>)),
      c_lookup_in = (\<lambda>k ss w. case cr_docs w k of
          None \<Rightarrow> (Inl DocumentNotFoundException, w)
        | Some (v, c) \<Rightarrow> (Inr (map (sd_entry v) ss, c), w)),
      c_mutate_in = (\<lambda>k ss cas w. crowd_answer (cr_plan w) (crowd_write k ss cas (crowd_others w))),
      perf_counter = (\<lambda>w. (0, w)),
      sleep = (\<lambda>d w. w)\<rparr>"

definition crowd_ok :: "crowd \<Rightarrow> bool" where
  "crowd_ok w \<longleftrightarrow> (\<forall>k v c. cr_docs w k = Some (v, c) \<longrightarrow> cr_versions w k c = Some v) \<and>
     (\<forall>k c v. cr_versions w k c = Some v \<longrightarrow> c < cr_next w)"

definition crowd_start :: "crowd_event list \<Rightarrow> string \<Rightarrow> pyval \<Rightarrow> crowd" where
  "crowd_start plan k v = crowd_put k v
     \<lparr>cr_docs = (\<lambda>_. None), cr_next = 1, cr_versions = (\<lambda>_ _. None), cr_hist = [], cr_plan = plan\<rparr>"

lemma crowd_put_ok:
  assumes "crowd_ok w"
  shows "crowd_ok (crowd_put k v w)" "grows cr_versions w (crowd_put k v w)"
    "cr_hist (crowd_put k v w) = cr_hist w"
  using assms by (fastforce simp: crowd_ok_def crowd_put_def grows_def split: if_splits)+

lemma crowd_put_keeps: "crowd_ok w \<Longrightarrow> keeps cr_versions cr_hist crowd_ok w (crowd_put k v w)"
  by (simp add: keeps_def crowd_put_ok)

lemma crowd_same: "crowd_ok w \<Longrightarrow> keeps cr_versions cr_hist crowd_ok w w"
  by (simp add: keeps_def grows_def)

lemma crowd_others_keeps:
  assumes "crowd_ok w"
  shows "keeps cr_versions cr_hist crowd_ok w (crowd_others w)"
proof -
  have "keeps cr_versions cr_hist crowd_ok w ((crowd_put k v w)\<lparr>cr_plan := p\<rparr>)" for k v p
    using crowd_put_keeps [OF assms, of k v] by (simp add: keeps_def grows_def crowd_ok_def)
  then show ?thesis using crowd_same [OF assms]
    by (simp add: crowd_others_def split: list.split crowd_event.split)
qed

lemma crowd_write_ok:
  assumes "crowd_ok w" "crowd_write k [s] (Some c) w = (r, w')"
  shows "crowd_ok w' \<and> grows cr_versions w w' \<and>
    (case r of Inl e \<Rightarrow> cr_hist w' = cr_hist w
     | Inr _ \<Rightarrow> (\<exists>v u. cr_versions w k c = Some v \<and> sd_mutate v s = Inr u \<and>
         cr_hist w' = cr_hist w @ [(k, v, u)]))"
proof (cases "cr_docs w k")
  case None
  then show ?thesis using assms by (auto simp: crowd_write_def grows_def)
next
  case (Some d)
  obtain v d' where d: "d = (v, d')" by fastforce
  have ver: "cr_versions w k d' = Some v" using assms(1) Some d by (simp add: crowd_ok_def)
  have same: "grows cr_versions w w" by (simp add: grows_def)
  show ?thesis
  proof (cases "c = d'")
    case False
    then show ?thesis using assms Some d same by (auto simp: crowd_write_def)
  next
    case eq: True
    show ?thesis
    proof (cases "sd_mutate v s")
      case (Inl e)
      then show ?thesis using assms Some d same eq by (auto simp: crowd_write_def)
    next
      case (Inr u)
      then have e: "r = Inr ()" "w' = (crowd_put k u w)\<lparr>cr_hist := cr_hist w @ [(k, v, u)]\<rparr>"
        using assms(2) Some d eq by (simp_all add: crowd_write_def)
      have p: "crowd_ok (crowd_put k u w)" "grows cr_versions w (crowd_put k u w)"
        by (rule crowd_put_ok [OF assms(1)])+
      then have "crowd_ok w'" "grows cr_versions w w'"
        by (simp_all add: e(2) crowd_ok_def grows_def)
      then show ?thesis using e(1) ver eq Inr by (simp add: e(2))
    qed
  qed
qed


lemma crowd_mutate:
  assumes "crowd_ok w" "c_mutate_in crowd_collection k [s] (Some c) w = (r, w')"
  shows "case r of
       Inl e \<Rightarrow> if definite_failure e then keeps cr_versions cr_hist crowd_ok w w'
         else cr_hist w' = cr_hist w \<or>
           (\<exists>v u. cr_versions w k c = Some v \<and> sd_mutate v s = Inr u \<and> cr_hist w' = cr_hist w @ [(k, v, u)])
     | Inr _ \<Rightarrow> crowd_ok w' \<and> grows cr_versions w w' \<and> (\<forall>v. cr_versions w k c = Some v \<longrightarrow>
         (\<exists>u. sd_mutate v s = Inr u \<and> cr_hist w' = cr_hist w @ [(k, v, u)]))"
proof -
  obtain r1 w1 where 1: "crowd_write k [s] (Some c) (crowd_others w) = (r1, w1)" by fastforce
  have o: "crowd_ok (crowd_others w)" "grows cr_versions w (crowd_others w)"
    "cr_hist (crowd_others w) = cr_hist w"
    using crowd_others_keeps [OF assms(1)] by (simp_all add: keeps_def)
  note ok = crowd_write_ok [OF o(1) 1]
  have g: "grows cr_versions w w1" using ok grows_trans [OF o(2)] by simp
  show ?thesis
  proof (cases "\<exists>p. cr_plan w = AnswerLost # p")
    case True
    then obtain p where p: "cr_plan w = AnswerLost # p" by blast
    then have "crowd_others w = w" by (simp add: crowd_others_def)
    moreover have "r = Inl (SDKException ''RequestCanceledException'')" "cr_hist w' = cr_hist w1"
      using assms(2) 1 p by (auto simp: crowd_collection_def crowd_answer_def)
    ultimately show ?thesis using ok by (auto simp: definite_failure_def split: sum.splits)
  next
    case False
    then have "(r, w') = (r1, w1)" using assms(2) 1
      by (auto simp: crowd_collection_def crowd_answer_def split: list.splits crowd_event.splits)
    then show ?thesis using ok g o(2,3) by (force simp: keeps_def grows_def split: sum.splits)
  qed
qed

lemma crowd_store: "cas_store crowd_collection cr_versions cr_hist crowd_ok"
  unfolding cas_store_def
proof (intro allI impI conjI)
  fix w k assume w: "crowd_ok w"
  note same = crowd_same [OF w]
  {
    fix r w' assume "c_get crowd_collection k w = (r, w')"
    then have e: "w' = w" "r = (case cr_docs w k of None \<Rightarrow> Inl DocumentNotFoundException | Some d \<Rightarrow> Inr d)"
      by (auto simp: crowd_collection_def)
    show "keeps cr_versions cr_hist crowd_ok w w'" using same e by simp
    show "cr_versions w' k c = Some v" if "r = Inr (v, c)" for v c
    proof -
      have "cr_docs w k = Some (v, c)" using e(2) that by (cases "cr_docs w k") auto
      then show ?thesis using w e(1) by (simp add: crowd_ok_def)
    qed
  }
  show "keeps cr_versions cr_hist crowd_ok w w'" if "c_insert crowd_collection k v w = (r, w')" for v r w'
    using that same crowd_put_keeps [OF w] by (auto simp: crowd_collection_def split: if_splits)
  {
    fix s r w' assume "c_lookup_in crowd_collection k [s] w = (r, w')"
    then have e: "w' = w \<and> r = (case cr_docs w k of None \<Rightarrow> Inl DocumentNotFoundException
        | Some (v, c) \<Rightarrow> Inr ([sd_entry v s], c))"
      by (cases "cr_docs w k") (auto simp: crowd_collection_def)
    show "keeps cr_versions cr_hist crowd_ok w w'" using same e by simp
    show "\<exists>v. cr_versions w' k c = Some v \<and> (known_path v (spec_path s) \<longrightarrow> content = [sd_entry v s])"
      if "r = Inr (content, c)" for content c
      using w e that by (auto simp: crowd_ok_def split: option.splits)
  }
  show "case r of
       Inl e \<Rightarrow> if definite_failure e then keeps cr_versions cr_hist crowd_ok w w'
         else cr_hist w' = cr_hist w \<or>
           (\<exists>v u. cr_versions w k c = Some v \<and> sd_mutate v s = Inr u \<and> cr_hist w' = cr_hist w @ [(k, v, u)])
     | Inr _ \<Rightarrow> crowd_ok w' \<and> grows cr_versions w w' \<and> (\<forall>v. cr_versions w k c = Some v \<longrightarrow>
         (\<exists>u. sd_mutate v s = Inr u \<and> cr_hist w' = cr_hist w @ [(k, v, u)]))"
    if m: "c_mutate_in crowd_collection k [s] (Some c) w = (r, w')" for s c r w'
    by (rule crowd_mutate [OF w m])
  show "keeps cr_versions cr_hist crowd_ok w (snd (perf_counter crowd_collection w))"
    using same by (simp add: crowd_collection_def)
  show "keeps cr_versions cr_hist crowd_ok w (sleep crowd_collection d w)" for d
    using same by (simp add: crowd_collection_def)
qed

lemma crowd_start_ok: "crowd_ok (crowd_start plan k v)"
  unfolding crowd_start_def by (rule crowd_put_ok(1)) (simp add: crowd_ok_def)


subsection \<open>The promises of the containers\<close>



text \<open>C4. A map is the dictionary of its entries: the operations of \<open>CouchbaseMap\<close> on
  plain field names refine insertion, lookup and deletion in a dictionary that keeps the
  order of insertion.\<close>

theorem map_refines:
  assumes "document_store col doc ok" "list_all map_cmd_ok ms" "ok w" "container doc k PDict s w"
  shows "\<exists>w'. run_all (map_run col k) ms w = (fst (spec_all map_spec ms s), w') \<and>
    container doc k PDict (snd (spec_all map_spec ms s)) w' \<and> (\<forall>k'. k' \<noteq> k \<longrightarrow> doc w' k' = doc w k')"
proof -
  have sim: "\<And>m. m \<in> set ms \<Longrightarrow> simulates doc ok k PDict (map_run col k m) (map_spec m)"
    using map_simulates [OF assms(1)] assms(2) by (simp add: list_all_iff)
  show ?thesis using simulates_all [of ms doc ok k PDict "map_run col k" map_spec, OF sim assms(3,4)]
    by blast
qed

lemma map_refines_witness:
  "\<exists>w'. run_all (map_run mem_collection ''k'') [MAdd ''a'' (PInt 1), MRemove ''a'', MSize] mem_empty =
      ([Inr PNone, Inr PNone, Inr (PInt 0)], w') \<and>
    container mem_docs ''k'' PDict (Some []) w' \<and>
    (\<forall>k'. k' \<noteq> ''k'' \<longrightarrow> mem_docs w' k' = mem_docs mem_empty k')"
proof -
  have s: "spec_all map_spec [MAdd ''a'' (PInt 1), MRemove ''a'', MSize] None =
    ([Inr PNone, Inr PNone, Inr (PInt 0)], Some [])"
    by (simp add: or_empty_def)
  have ok: "list_all map_cmd_ok [MAdd ''a'' (PInt 1), MRemove ''a'', MSize]"
    by (simp add: plain_key_def is_macro_def)
  have "container mem_docs ''k'' PDict None mem_empty" by (simp add: container_def mem_empty_def)
  from map_refines [OF mem_store ok _ this] show ?thesis unfolding s fst_conv snd_conv by simp
qed


text \<open>C5. A queue is first in, first out: any sequence of operations of
  \<open>CouchbaseQueue\<close> refines the abstract queue.  A pop takes the element that was pushed
  first; on an empty queue it raises \<open>QueueEmpty\<close>, on a missing document
  \<open>DocumentNotFoundException\<close>.  One round of the retry loop is enough.\<close>

theorem queue_refines:
  assumes "document_store col doc ok" "list_all queue_cmd_ok ms" "ok w" "container doc k queue_doc s w"
  shows "\<exists>w'. run_all (queue_run (Suc n) col k) ms w = (fst (spec_all queue_spec ms s), w') \<and>
    container doc k queue_doc (snd (spec_all queue_spec ms s)) w' \<and> (\<forall>k'. k' \<noteq> k \<longrightarrow> doc w' k' = doc w k')"
proof -
  have sim: "\<And>m. m \<in> set ms \<Longrightarrow> simulates doc ok k queue_doc (queue_run (Suc n) col k m) (queue_spec m)"
    using queue_simulates [OF assms(1)] assms(2) by (simp add: list_all_iff)
  show ?thesis
    using simulates_all [of ms doc ok k queue_doc "queue_run (Suc n) col k" queue_spec, OF sim assms(3,4)]
    by blast
qed

lemma queue_refines_witness:
  "\<exists>w'. run_all (queue_run 1 mem_collection ''q'') [QPush (PInt 1), QPush (PInt 2), QPop, QPop, QPop] mem_empty =
      ([Inr PNone, Inr PNone, Inr (PInt 1), Inr (PInt 2), Inl QueueEmpty], w')"
proof -
  have s: "spec_all queue_spec [QPush (PInt 1), QPush (PInt 2), QPop, QPop, QPop] None =
    ([Inr PNone, Inr PNone, Inr (PInt 1), Inr (PInt 2), Inl QueueEmpty], Some [])"
    by (simp add: or_empty_def)
  have ok: "list_all queue_cmd_ok [QPush (PInt 1), QPush (PInt 2), QPop, QPop, QPop]"
    by (simp add: is_macro_def)
  have "container mem_docs ''q'' queue_doc None mem_empty" by (simp add: container_def mem_empty_def)
  from queue_refines [OF mem_store ok _ this, of 0] show ?thesis unfolding s fst_conv One_nat_def by blast
qed

text \<open>C6. The retry loops end.  With a clock that does not run backwards, the removal from
  a set and the pop of a queue return after at most one round per 550 milliseconds of
  their timeout and one more, whatever the collection answers.\<close>

theorem retry_loops_return:
  assumes "steady_clock col time" "timeout_in_millis t \<le> 550 * of_nat n"
  shows "(\<exists>r. Queue_pop (Suc n) col k t w = Some r) \<and> (\<exists>r. Set_remove (Suc n) col k v t w = Some r)"
proof -
  obtain s w1 where p: "perf_counter col w = (s, w1)" by fastforce
  then have "s = time w" "time w \<le> time w1"
    using assms(1) unfolding steady_clock_def by (metis fst_conv, metis snd_conv)
  then have "enough time (timeout_in_millis t) s (Suc n) 50 w1"
    using assms(2) by (simp add: enough_def time_left_def)
  then have
    "\<exists>r. Queue_pop_loop (Suc n) col k (timeout_in_millis t) s 50 w1 = Some r"
    "\<exists>r. Set_remove_loop (Suc n) col k v (timeout_in_millis t) s 50 w1 = Some r"
    using pop_loop_returns [OF assms(1)] set_remove_loop_returns [OF assms(1)] by blast+
  then show ?thesis
    by (simp only: Queue_pop_def Set_remove_def p Let_def prod.case)
qed

lemma mem_steady: "steady_clock mem_collection mem_clock"
  unfolding steady_clock_def
  by (auto simp: mem_collection_def mem_mutate_def mem_put_def split: list.splits option.splits sum.splits)

lemma retry_loops_return_witness:
  "(\<exists>r. Queue_pop 20 mem_collection ''k'' None mem_empty = Some r) \<and>
   (\<exists>r. Set_remove 20 mem_collection ''k'' PNone None mem_empty = Some r)"
proof -
  have "timeout_in_millis None \<le> 550 * of_nat 19"
    by code_simp
  from retry_loops_return [OF mem_steady this, of "''k''" mem_empty PNone] show ?thesis
    by (simp add: eval_nat_numeral)
qed

text \<open>C1. A pop takes out exactly the element that it returns, however other clients
  write to the queue meanwhile: it returns \<open>x\<close> only if its own single change of the
  document took \<open>x\<close> from the end of the array.  When it raises it changed nothing, certainly so when it
  raises \<open>QueueEmpty\<close>, reports the missing document or times out by itself; an error that leaves the fate of
  the mutation open (an ambiguous timeout, a cancelled request) can have taken out the last element, once.\<close>

theorem pop_takes_out_what_it_returns:
  assumes "cas_store col ver hist ok" "ok w" "Queue_pop n col k t w = Some (r, w')"
  shows "case r of
      Inr x \<Rightarrow> \<exists>xs. hist w' = hist w @ [(k, PList (xs @ [x]), PList xs)]
    | Inl e \<Rightarrow> hist w' = hist w \<or>
        (e \<notin> {QueueEmpty, DocumentNotFoundException, UnAmbiguousTimeoutException} \<and>
         (\<exists>xs x. hist w' = hist w @ [(k, PList (xs @ [x]), PList xs)]))"
proof -
  obtain s w1 where p: "perf_counter col w = (s, w1)" by fastforce
  then have 1: "ok w1" "hist w1 = hist w"
    using cas_clock(1) [OF assms(1,2)] p by (simp_all add: keeps_def)
  have "Queue_pop_loop n col k (timeout_in_millis t) s 50 w1 = Some (r, w')"
    using assms(3) by (simp add: Queue_pop_def p)
  from pop_loop_outcome [OF assms(1) 1(1) this] show ?thesis
    unfolding pop_outcome_def 1(2) definite_failure_def by (auto split: sum.splits)
qed

lemma pop_takes_out_witness:
  "(case Queue_pop 2 crowd_collection ''q'' None
      (crowd_start [Write ''q'' (PList [PInt 3, PInt 4])] ''q'' (PList [PInt 1])) of
     Some (Inr x, w') \<Rightarrow> x = PInt 4 \<and> (\<exists>xs. cr_hist w' = [(''q'', PList (xs @ [PInt 4]), PList xs)])
   | _ \<Rightarrow> False) \<and>
   (case Queue_pop 2 crowd_collection ''q'' None (crowd_start [AnswerLost] ''q'' (PList [PInt 1])) of
     Some (Inl e, w') \<Rightarrow> e = SDKException ''RequestCanceledException'' \<and>
       (\<exists>xs x. cr_hist w' = [(''q'', PList (xs @ [x]), PList xs)])
   | _ \<Rightarrow> False)"
proof -
  let ?w = "crowd_start [Write ''q'' (PList [PInt 3, PInt 4])] ''q'' (PList [PInt 1])"
  let ?v = "crowd_start [AnswerLost] ''q'' (PList [PInt 1])"
  have "map_option fst (Queue_pop 2 crowd_collection ''q'' None ?w) = Some (Inr (PInt 4))"
    by code_simp
  then obtain w' where w': "Queue_pop 2 crowd_collection ''q'' None ?w = Some (Inr (PInt 4), w')" by auto
  have "map_option (\<lambda>(r, w'). (r, cr_hist w' = [])) (Queue_pop 2 crowd_collection ''q'' None ?v) =
      Some (Inl (SDKException ''RequestCanceledException''), False)"
    by code_simp
  then obtain v' where v': "Queue_pop 2 crowd_collection ''q'' None ?v =
      Some (Inl (SDKException ''RequestCanceledException''), v')" "cr_hist v' \<noteq> []" by auto
  have "cr_hist ?w = []" "cr_hist ?v = []" by (simp_all add: crowd_start_def crowd_put_def)
  then show ?thesis
    using pop_takes_out_what_it_returns [OF crowd_store crowd_start_ok w']
      pop_takes_out_what_it_returns [OF crowd_store crowd_start_ok v'(1)] w' v' by simp
qed



end
