(* ===== verification/Query_Base.thy ===== *)
theory Query_Base
  imports Options Wrappers
begin

text \<open>
  What the query builders \<open>logic/n1ql.py\<close>, \<open>logic/analytics.py\<close>, \<open>logic/views.py\<close> and
  \<open>logic/search.py\<close> share: parameters written as JSON, the split of positional arguments
  into an options block and parameters, and option setters.

  A builder walks over a set of option names, whose order Python does not fix, and runs
  one setter for each.  \<open>local_step S f\<close> says that a setter reads and writes only the
  keys in \<open>S\<close>; setters on disjoint keys may run in any order (\<open>foldE_order\<close>).
\<close>

subsection \<open>Parameters as JSON\<close>

text \<open>
  The value that \<open>json\<close> sees: objects other than the JSON types and integer
  enumerations are not serializable, and any of them stands for all.
\<close>

fun tval_of :: "pyval \<Rightarrow> tval" where
  "tval_of PNone = TNone"
| "tval_of (PBool b) = TBool b"
| "tval_of (PInt i) = TInt i"
| "tval_of (PFloat q) = TFloat (Finite q)"
| "tval_of (PStr s) = TStr (map of_char s)"
| "tval_of (PBytes b) = TBytes b"
| "tval_of (PBytearray b) = TBytearray b"
| "tval_of (PList xs) = TList (map tval_of xs)"
| "tval_of (PTuple xs) = TTuple (map tval_of xs)"
| "tval_of (PDict d) = TDict (map (\<lambda>kv. (tval_of (fst kv), tval_of (snd kv))) d)"
| "tval_of (PIntEnum c m i) = TInt i"
| "tval_of _ = TObject 0"

text \<open>\<open>DefaultJsonSerializer().serialize(v)\<close>, and \<open>json.dumps(v)\<close> with its ASCII output.\<close>

definition json_bytes :: "py_floats \<Rightarrow> pyval \<Rightarrow> pyval res" where
  "json_bytes fs v =
     bindE (DefaultJsonSerializer_serialize fs (tval_of v)) (\<lambda>t.
       case t of TBytes b \<Rightarrow> Inr (PBytes b) | _ \<Rightarrow> Inl TypeError)"

definition unicode_escape :: "nat \<Rightarrow> ustr" where
  "unicode_escape c = [92, 117, hex_digit (c div 4096 mod 16), hex_digit (c div 256 mod 16),
     hex_digit (c div 16 mod 16), hex_digit (c mod 16)]"

definition ascii_escape :: "nat \<Rightarrow> ustr" where
  "ascii_escape c =
     (if c < 127 then [c]
      else if c < 0x10000 then unicode_escape c
      else let n = c - 0x10000
           in unicode_escape (0xD800 + n div 1024 mod 1024) @ unicode_escape (0xDC00 + n mod 1024))"

definition dumps_ascii :: "py_floats \<Rightarrow> tval \<Rightarrow> pyval res" where
  "dumps_ascii fs v = bindE (dumps fs v) (\<lambda>t. Inr (PStr (map char_of (concat (map ascii_escape t)))))"

definition json_dumps :: "py_floats \<Rightarrow> pyval \<Rightarrow> pyval res" where
  "json_dumps fs v = dumps_ascii fs (tval_of v)"

lemma json_bytes_no_bytes: "json_bytes fs (PBytes b) = Inl TypeError"
  by (simp add: json_bytes_def DefaultJsonSerializer_serialize_def)

lemma json_bytes_is_bytes:
  assumes "json_bytes fs v = Inr w"
  shows "\<exists>b. w = PBytes b"
proof -
  obtain t where "(case t of TBytes b \<Rightarrow> Inr (PBytes b) | _ \<Rightarrow> Inl TypeError) = (Inr w :: pyval res)"
    using assms by (auto simp: json_bytes_def bindE_eq_Inr)
  then show ?thesis by (cases t) auto
qed

subsection \<open>Positional arguments\<close>

text \<open>
  The loop over a copy of the positional arguments that takes the options block out:
  the list shrinks while it is iterated, so the element after a block is skipped.
\<close>

fun py_remove :: "pyval \<Rightarrow> pyval list \<Rightarrow> pyval list" where
  "py_remove v [] = []"
| "py_remove v (x # xs) = (if py_eq x v then xs else x # py_remove v xs)"

lemma py_remove_length: "length (py_remove v xs) \<le> length xs"
  by (induction xs) auto

function take_options ::
  "(pyval \<Rightarrow> bool) \<Rightarrow> nat \<Rightarrow> pyval list \<Rightarrow> pyval \<Rightarrow> pyval list \<times> pyval" where
  "take_options is_opt i opts opt =
     (if i < length opts
      then if is_opt (opts ! i)
           then take_options is_opt (Suc i) (py_remove (opts ! i) opts) (opts ! i)
           else take_options is_opt (Suc i) opts opt
      else (opts, opt))"
  by pat_completeness auto
termination
proof (relation "measure (\<lambda>(p, i, opts, opt). length opts - i)")
  fix is_opt :: "pyval \<Rightarrow> bool" and i :: nat and opts :: "pyval list"
  assume "i < length opts"
  then show "((is_opt, Suc i, py_remove (opts ! i) opts, opts ! i), is_opt, i, opts, opt)
      \<in> measure (\<lambda>(p, i, opts, opt). length opts - i)" for opt
    using py_remove_length [of "opts ! i" opts] by simp
qed simp_all

declare take_options.simps [simp del]

lemma take_options_none:
  assumes "\<not> list_ex is_opt opts"
  shows "take_options is_opt i opts opt = (opts, opt)"
proof (induction "length opts - i" arbitrary: i)
  case (Suc n)
  then have "\<not> is_opt (opts ! i)" using assms by (auto simp: list_ex_iff)
  with Suc show ?case by (subst take_options.simps) simp
qed (subst take_options.simps, simp)

text \<open>One block in front is taken out; a second one behind it stays a parameter.\<close>

lemma take_options_front:
  assumes "is_opt o1" "\<not> list_ex is_opt xs"
  shows "take_options is_opt 0 (o1 # xs) opt = (xs, o1)"
  using assms take_options_none [OF assms(2)] by (subst take_options.simps) simp

lemma take_options_two:
  assumes "is_opt o1"
  shows "take_options is_opt 0 [o1, o2] opt = ([o2], o1)"
  using assms by (simp add: take_options.simps)

text \<open>The items of an options block, which is a dictionary.\<close>

fun block_items :: "pyval \<Rightarrow> pydict" where
  "block_items (PInst c d) = d"
| "block_items _ = []"

subsection \<open>Setters\<close>

type_synonym setter = "pyval \<Rightarrow> pydict \<Rightarrow> pydict res"

definition set_option :: "string \<Rightarrow> setter" where
  "set_option name v params = Inr (AList.update name v params)"

text \<open>An option table names for each option the attributes to set, with their transforms.\<close>

type_synonym query_opts = "(string \<times> (string \<times> (pyval \<Rightarrow> pyval res)) list) list"

definition apply_option ::
  "query_opts \<Rightarrow> (string \<Rightarrow> setter) \<Rightarrow> string \<times> pyval \<Rightarrow> pydict \<Rightarrow> pydict res" where
  "apply_option tab setattr kv params =
     (case map_of tab (fst kv) of
        None \<Rightarrow> Inr params
      | Some targets \<Rightarrow>
          foldE (\<lambda>(target, transform) p. bindE (transform (snd kv)) (\<lambda>w. setattr target w p))
            targets params)"

definition agree :: "string set \<Rightarrow> pydict \<Rightarrow> pydict \<Rightarrow> bool" where
  "agree S p q \<longleftrightarrow> (\<forall>k \<in> S. map_of p k = map_of q k)"

definition local_step :: "string set \<Rightarrow> (pydict \<Rightarrow> pydict res) \<Rightarrow> bool" where
  "local_step S f \<longleftrightarrow>
     (\<forall>p q p'. agree S p q \<and> f p = Inr p' \<longrightarrow>
        agree (- S) p p' \<and> (\<exists>q'. f q = Inr q' \<and> agree S p' q'))"

lemma agree_refl [simp]: "agree S p p"
  by (simp add: agree_def)

lemma agree_sym: "agree S p q \<Longrightarrow> agree S q p"
  by (simp add: agree_def)

lemma agree_trans: "agree S p q \<Longrightarrow> agree S q r \<Longrightarrow> agree S p r"
  by (simp add: agree_def)

lemma agree_mono: "agree S p q \<Longrightarrow> T \<subseteq> S \<Longrightarrow> agree T p q"
  by (auto simp: agree_def)

lemma agree_split: "agree S p q \<Longrightarrow> agree (- S) p q \<Longrightarrow> agree UNIV p q"
  by (auto simp: agree_def)

lemma agree_UNIV: "agree UNIV p q \<longleftrightarrow> map_of p = map_of q"
  by (auto simp: agree_def)

lemma local_cong:
  assumes "local_step S f" "agree UNIV p q" "f p = Inr p'"
  shows "\<exists>q'. f q = Inr q' \<and> agree UNIV p' q'"
proof -
  have S: "agree S p q" using assms(2) by (rule agree_mono) simp
  then obtain q' where q': "f q = Inr q'" "agree S p' q'" "agree (- S) p p'"
    using assms(1,3) unfolding local_step_def by blast
  then have "agree (- S) q q'" using assms(1) agree_sym [OF S] unfolding local_step_def by blast
  then have "agree (- S) p' q'"
    using q'(3) agree_mono [OF assms(2), of "- S"] agree_sym agree_trans by (metis subset_UNIV)
  then show ?thesis using q' agree_split by blast
qed

lemma local_commute:
  assumes "local_step S f" "local_step T g" "S \<inter> T = {}"
    and "bindE (f p) g = Inr r"
  shows "\<exists>r'. bindE (g p) f = Inr r' \<and> agree UNIV r r'"
proof -
  obtain p1 where p1: "f p = Inr p1" "g p1 = Inr r" using assms(4) by (auto simp: bindE_eq_Inr)
  have 1: "agree (- S) p p1" using assms(1) p1(1) unfolding local_step_def by (meson agree_refl)
  then have "agree T p1 p" using assms(3) by (intro agree_sym [OF agree_mono [OF 1]]) blast
  then obtain q1 where q1: "g p = Inr q1" "agree T r q1" "agree (- T) p1 r"
    using assms(2) p1(2) unfolding local_step_def by blast
  have 2: "agree (- T) p q1" using assms(2) q1(1) unfolding local_step_def by (meson agree_refl)
  then have "agree S p q1" using assms(3) by (intro agree_mono [OF 2]) blast
  then obtain r' where r': "f q1 = Inr r'" "agree S p1 r'"
    using assms(1) p1(1) unfolding local_step_def by blast
  have 3: "agree (- S) q1 r'" using assms(1) r'(1) unfolding local_step_def by (meson agree_refl)
  have "map_of r k = map_of r' k" for k
  proof -
    have T: "map_of r k = map_of q1 k" "map_of q1 k = map_of r' k" if "k \<in> T"
      using that q1(2) 3 assms(3) by (auto simp: agree_def)
    have S: "map_of r k = map_of p1 k" "map_of p1 k = map_of r' k" if "k \<in> S"
    proof -
      have "k \<in> - T" using that assms(3) by blast
      then show "map_of r k = map_of p1 k" using q1(3) by (simp add: agree_def)
      show "map_of p1 k = map_of r' k" using that r'(2) by (simp add: agree_def)
    qed
    have "map_of p1 k = map_of r k \<and> map_of p k = map_of p1 k \<and> map_of p k = map_of q1 k \<and>
      map_of q1 k = map_of r' k" if "k \<notin> S" "k \<notin> T"
    proof -
      have "k \<in> - S" "k \<in> - T" using that by simp_all
      then show ?thesis using q1(3) 1 2 3 unfolding agree_def by blast
    qed
    then show ?thesis using S T by metis
  qed
  then show ?thesis using q1 r' by (auto simp: agree_def)
qed


lemma local_foldE:
  assumes "\<And>x. x \<in> set xs \<Longrightarrow> local_step (slot x) (f x)"
    and "agree UNIV p q" "foldE f xs p = Inr r"
  shows "\<exists>r'. foldE f xs q = Inr r' \<and> agree UNIV r r'"
  using assms
proof (induction xs arbitrary: p q)
  case (Cons x xs)
  then obtain p1 where p1: "f x p = Inr p1" "foldE f xs p1 = Inr r" by (auto simp: bindE_eq_Inr)
  have "local_step (slot x) (f x)" using Cons.prems(1) by simp
  from local_cong [OF this Cons.prems(2) p1(1)]
  obtain q1 where "f x q = Inr q1" "agree UNIV p1 q1" by blast
  then show ?case using Cons.IH [of p1 q1] Cons.prems(1) p1(2) by simp
qed (simp add: agree_def)

lemma local_to_front:
  assumes "\<And>y. y \<in> set ys \<union> {x} \<Longrightarrow> local_step (slot y) (f y)"
    and "\<And>y. y \<in> set ys \<Longrightarrow> slot x \<inter> slot y = {}"
    and "foldE f (x # ys @ zs) p = Inr r" "\<And>y. y \<in> set zs \<Longrightarrow> local_step (slot y) (f y)"
  shows "\<exists>r'. foldE f (ys @ x # zs) p = Inr r' \<and> agree UNIV r r'"
  using assms
proof (induction ys arbitrary: p r)
  case (Cons y ys)
  obtain p1 where p1: "bindE (f x p) (f y) = Inr p1" "foldE f (ys @ zs) p1 = Inr r"
    using Cons.prems(3) by (auto simp: bindE_eq_Inr)
  have lx: "local_step (slot x) (f x)" and ly: "local_step (slot y) (f y)" and d: "slot x \<inter> slot y = {}"
    using Cons.prems(1,2) by auto
  from local_commute [OF lx ly d p1(1)]
  obtain p2 where p2: "bindE (f y p) (f x) = Inr p2" "agree UNIV p1 p2" by blast
  obtain p3 where p3: "f y p = Inr p3" "f x p3 = Inr p2" using p2(1) by (auto simp: bindE_eq_Inr)
  have "\<exists>r1. foldE f (ys @ zs) p2 = Inr r1 \<and> agree UNIV r r1"
    using local_foldE [of "ys @ zs" slot f, OF _ p2(2) p1(2)] Cons.prems(1,4) by auto
  then obtain r1 where r1: "foldE f (ys @ zs) p2 = Inr r1" "agree UNIV r r1" by blast
  then have "foldE f (x # ys @ zs) p3 = Inr r1" using p3(2) by simp
  then obtain r2 where "foldE f (ys @ x # zs) p3 = Inr r2" "agree UNIV r1 r2"
    using Cons.IH [of p3 r1] Cons.prems(1,2,4) by auto
  then show ?case using p3(1) r1(2) agree_trans by auto
qed (auto simp: agree_def)

text \<open>Steps on disjoint keys: any order gives the same dictionary.\<close>

lemma foldE_order:
  assumes "\<And>x. x \<in> set xs \<Longrightarrow> local_step (slot x) (f x)"
    and "\<And>x y. x \<in> set xs \<Longrightarrow> y \<in> set xs \<Longrightarrow> x \<noteq> y \<Longrightarrow> slot x \<inter> slot y = {}"
    and "distinct xs" "mset xs = mset ys" "foldE f xs p = Inr r"
  shows "\<exists>r'. foldE f ys p = Inr r' \<and> map_of r = map_of r'"
  using assms
proof (induction xs arbitrary: ys p r)
  case (Cons x xs)
  have "x \<in> set ys" using Cons.prems(4) by (metis list.set_intros(1) mset_eq_setD)
  then obtain as bs where ys: "ys = as @ x # bs" by (meson split_list)
  then have m: "mset xs = mset (as @ bs)" using Cons.prems(4) by simp
  then have sets: "set as \<union> set bs = set xs" by (metis mset_eq_setD set_append)
  obtain p1 where p1: "f x p = Inr p1" "foldE f xs p1 = Inr r"
    using Cons.prems(5) by (auto simp: bindE_eq_Inr)
  from Cons.IH [OF _ _ _ m p1(2)] Cons.prems(1,2,3)
  obtain r1 where r1: "foldE f (as @ bs) p1 = Inr r1" "map_of r = map_of r1" by auto
  have xs: "x \<notin> set as" using Cons.prems(3) sets by auto
  have "foldE f (x # as @ bs) p = Inr r1" using p1(1) r1(1) by simp
  then have "\<exists>r'. foldE f (as @ x # bs) p = Inr r' \<and> agree UNIV r1 r'"
  proof (rule local_to_front [of as x slot f bs p r1, rotated 2])
    show "local_step (slot y) (f y)" if "y \<in> set bs" for y using that Cons.prems(1) sets by auto
    show "local_step (slot y) (f y)" if "y \<in> set as \<union> {x}" for y using that Cons.prems(1) sets by auto
    show "slot x \<inter> slot y = {}" if "y \<in> set as" for y
    proof -
      have "y \<in> set (x # xs)" "x \<noteq> y" using that sets xs by auto
      then show ?thesis using Cons.prems(2) by simp
    qed
  qed
  then show ?case using r1(2) ys by (auto simp: agree_UNIV)
qed simp

lemma bindE_Inr [simp]: "bindE m Inr = m"
  by (cases m) simp_all

lemma foldE_Nil [simp]: "foldE f [] = Inr"
  by (rule ext) simp

lemma local_set_option: "local_step {name} (set_option name v)"
  by (auto simp: local_step_def set_option_def agree_def dict_simps)

lemma local_fail: "local_step S (\<lambda>p. Inl e)"
  by (simp add: local_step_def)

lemma local_delete: "local_step {name} (\<lambda>p. Inr (AList.delete name p))"
  by (auto simp: local_step_def agree_def dict_simps)

lemma local_id: "local_step S Inr"
  by (simp add: local_step_def agree_def)


subsection \<open>Builders\<close>

text \<open>
  The contract of an option table and its setters.  Two options clash when their setters
  touch the same key.
\<close>

locale query_options =
  fixes tab :: query_opts and setattr :: "string \<Rightarrow> setter" and slot :: "string \<Rightarrow> string set"
    and clash :: "string \<Rightarrow> string \<Rightarrow> bool"
  assumes local_option: "local_step (slot k) (apply_option tab setattr (k, v))"
    and disjoint_slots: "x \<in> fst ` set tab \<Longrightarrow> y \<in> fst ` set tab \<Longrightarrow> x \<noteq> y \<Longrightarrow> \<not> clash x y \<Longrightarrow>
      slot x \<inter> slot y = {}"
begin

lemma apply_order:
  assumes "set ks \<subseteq> fst ` set tab" "distinct ks"
    and "\<And>x y. x \<in> set ks \<Longrightarrow> y \<in> set ks \<Longrightarrow> \<not> clash x y"
    and "mset (o1 ks) = mset ks" "mset (o2 ks) = mset ks"
    and "foldE (\<lambda>k. apply_option tab setattr (k, h k)) (o1 ks) q = Inr r"
  shows "\<exists>r'. foldE (\<lambda>k. apply_option tab setattr (k, h k)) (o2 ks) q = Inr r' \<and> map_of r = map_of r'"
proof (rule foldE_order [OF _ _ _ _ assms(6)])
  have s: "set (o1 ks) = set ks" using assms(4) by (metis set_mset_mset)
  show "local_step (slot k) (apply_option tab setattr (k, h k))" for k
    by (rule local_option)
  show "slot x \<inter> slot y = {}" if "x \<in> set (o1 ks)" "y \<in> set (o1 ks)" "x \<noteq> y" for x y
  proof (rule disjoint_slots [OF _ _ that(3)])
    have k: "x \<in> set ks" "y \<in> set ks" using that(1,2) s by simp_all
    show "x \<in> fst ` set tab" by (rule subsetD [OF assms(1) k(1)])
    show "y \<in> fst ` set tab" by (rule subsetD [OF assms(1) k(2)])
    show "\<not> clash x y" by (rule assms(3) [OF k])
  qed
  show "distinct (o1 ks)" using assms(2,4) by (metis mset_eq_imp_distinct_iff)
  show "mset (o1 ks) = mset (o2 ks)" using assms(4,5) by simp
qed

lemma build_order:
  assumes "distinct (map fst args)"
    and "\<And>x y. x \<in> fst ` set args \<Longrightarrow> y \<in> fst ` set args \<Longrightarrow> \<not> clash x y"
    and "\<And>ks. mset (o1 ks) = mset ks" "\<And>ks. mset (o2 ks) = mset ks"
    and "foldE (\<lambda>k. apply_option tab setattr (k, h k)) (o1 (filter (\<lambda>k. k \<in> fst ` set tab) (map fst args))) q = Inr r"
  shows "\<exists>r'. foldE (\<lambda>k. apply_option tab setattr (k, h k)) (o2 (filter (\<lambda>k. k \<in> fst ` set tab) (map fst args))) q =
      Inr r' \<and> map_of r = map_of r'"
proof (rule apply_order [where ?o1.0 = o1 and ?o2.0 = o2, OF _ _ _ assms(3,4,5)])
  show "\<not> clash x y" if "x \<in> set (filter (\<lambda>k. k \<in> fst ` set tab) (map fst args))"
    "y \<in> set (filter (\<lambda>k. k \<in> fst ` set tab) (map fst args))" for x y
    using assms(2) that by simp
qed (use assms(1) in auto)

text \<open>An option outside of a key's slots leaves the key alone.\<close>

lemma apply_frame:
  assumes "foldE (\<lambda>k. apply_option tab setattr (k, h k)) ks q = Inr r"
    and "\<And>k. k \<in> set ks \<Longrightarrow> x \<notin> slot k"
  shows "map_of r x = map_of q x"
  using assms
proof (induction ks arbitrary: q)
  case (Cons k ks)
  then obtain p where p: "apply_option tab setattr (k, h k) q = Inr p"
    "foldE (\<lambda>k. apply_option tab setattr (k, h k)) ks p = Inr r"
    by (auto simp: bindE_eq_Inr)
  have "agree (- slot k) q p" using local_option p(1) unfolding local_step_def by (meson agree_refl)
  then have "map_of p x = map_of q x" using Cons.prems(2) by (simp add: agree_def)
  then show ?case using Cons.IH [OF p(2)] Cons.prems(2) by simp
qed simp

end

text \<open>Setters of one attribute each: the slots of the attributes are those of the options.\<close>

lemma local_bindE: "(\<And>w. r = Inr w \<Longrightarrow> local_step S (f w)) \<Longrightarrow> local_step S (\<lambda>p. bindE r (\<lambda>w. f w p))"
  by (cases r) (auto simp: local_fail)

lemma local_if: "local_step S f \<Longrightarrow> local_step S g \<Longrightarrow> local_step S (\<lambda>p. if b then f p else g p)"
  by (cases b) simp_all

lemma local_apply_option:
  assumes "\<And>t w. local_step (target_slot t) (setattr t w)"
    and "list_all (\<lambda>(k, ts). case ts of [] \<Rightarrow> True | [(t, tr)] \<Rightarrow> target_slot t = slot k | _ \<Rightarrow> False) tab"
  shows "local_step (slot k) (apply_option tab setattr (k, v))"
proof (cases "map_of tab k")
  case None
  then show ?thesis using local_id by (simp add: apply_option_def [abs_def])
next
  case (Some ts)
  from bspec [OF assms(2) [unfolded list_all_iff] map_of_SomeD [OF Some]]
  have "case ts of [] \<Rightarrow> True | [(t, tr)] \<Rightarrow> target_slot t = slot k | _ \<Rightarrow> False" by simp
  then consider "ts = []" | t tr where "ts = [(t, tr)]" "target_slot t = slot k"
    by (auto split: list.splits)
  then show ?thesis
  proof cases
    case 1
    then show ?thesis using Some local_id by (simp add: apply_option_def [abs_def])
  next
    case 2
    have "local_step (slot k) (\<lambda>p. bindE (tr v) (\<lambda>w. setattr t w p))"
      using assms(1) [of t] 2(2) by (intro local_bindE) simp
    then show ?thesis using Some 2(1) by (simp add: apply_option_def [abs_def])
  qed
qed


text \<open>When every option has one key of its own, no two options clash.\<close>

lemma own_keys:
  assumes "distinct (map (\<lambda>kt. key (fst kt)) tab)" "x \<in> fst ` set tab" "y \<in> fst ` set tab" "x \<noteq> y"
  shows "{key x} \<inter> {key y} = {}"
proof -
  have "inj_on (\<lambda>kt. key (fst kt)) (set tab)" using assms(1) by (simp add: distinct_map)
  then have "key x \<noteq> key y" using assms(2-4) by (auto dest!: inj_onD)
  then show ?thesis by simp
qed


lemma take_options_mem:
  "snd (take_options is_opt i opts opt) = opt \<or> snd (take_options is_opt i opts opt) \<in> set opts"
proof (induction is_opt i opts opt rule: take_options.induct)
  case (1 is_opt i opts opt)
  have sub: "set (py_remove v xs) \<subseteq> set xs" for v xs by (induction xs) auto
  show ?case
  proof (cases "i < length opts")
    case True
    show ?thesis
    proof (cases "is_opt (opts ! i)")
      case opt: True
      have "take_options is_opt i opts opt = take_options is_opt (Suc i) (py_remove (opts ! i) opts) (opts ! i)"
        using True opt by (subst take_options.simps) simp
      then show ?thesis using 1(1) [OF True opt] sub True by (metis nth_mem subsetD)
    next
      case False
      then have "take_options is_opt i opts opt = take_options is_opt (Suc i) opts opt"
        using True by (subst take_options.simps) simp
      then show ?thesis using 1(2) [OF True False] by simp
    qed
  qed (subst take_options.simps, simp)
qed

lemma block_distinct:
  assumes "\<And>v. v \<in> set options \<Longrightarrow> distinct (map fst (block_items v))"
  shows "distinct (map fst (block_items (snd (take_options is_opt 0 options (PInst c [])))))"
  using take_options_mem [of is_opt 0 options "PInst c []"] assms by auto

end
