(* ===== verification/N1ql.thy ===== *)
theory N1ql
  imports Query_Base
begin

text \<open>
  \<open>N1QLQuery\<close> of \<open>couchbase/logic/n1ql.py\<close>: the parameters of a query, the setters and
  getters of its options, and \<open>create_query_object\<close>, which builds a query from an
  options block and keyword arguments.  A query is its dictionary \<open>_params\<close>; the setters
  return the new dictionary.

  \<open>args.keys() & _VALID_OPTS\<close> is a set, whose iteration order depends on the hashes of
  the process: the builder takes it as the argument \<open>order\<close>.
\<close>

definition QueryScanConsistency :: "pyval list" where
  "QueryScanConsistency =
     [PEnum ''QueryScanConsistency'' ''NOT_BOUNDED'' ''not_bounded'',
      PEnum ''QueryScanConsistency'' ''REQUEST_PLUS'' ''request_plus'',
      PEnum ''QueryScanConsistency'' ''AT_PLUS'' ''at_plus'']"

definition NOT_BOUNDED :: pyval where "NOT_BOUNDED = PEnum ''QueryScanConsistency'' ''NOT_BOUNDED'' ''not_bounded''"
definition REQUEST_PLUS :: pyval where "REQUEST_PLUS = PEnum ''QueryScanConsistency'' ''REQUEST_PLUS'' ''request_plus''"
definition AT_PLUS :: pyval where "AT_PLUS = PEnum ''QueryScanConsistency'' ''AT_PLUS'' ''at_plus''"

definition QueryProfile :: "pyval list" where
  "QueryProfile =
     [PEnum ''QueryProfile'' ''OFF'' ''off'', PEnum ''QueryProfile'' ''PHASES'' ''phases'',
      PEnum ''QueryProfile'' ''TIMINGS'' ''timings'']"

fun enum_class :: "pyval \<Rightarrow> string option" where
  "enum_class (PEnum c m v) = Some c"
| "enum_class _ = None"

subsection \<open>The query and its arguments\<close>

definition set_named_args :: "pydict \<Rightarrow> pydict \<Rightarrow> pydict res" where
  "set_named_args kv params =
     (case map_of params ''named_parameters'' of
        None \<Rightarrow> Inr (AList.update ''named_parameters'' (pdict kv) params)
      | Some (PDict d) \<Rightarrow>
          Inr (AList.update ''named_parameters''
            (PDict (fold (\<lambda>(k, v). AList.update (PStr k) v) kv d)) params)
      | Some _ \<Rightarrow> Inl AttributeError)"

definition add_pos_args :: "pyval list \<Rightarrow> pydict \<Rightarrow> pydict res" where
  "add_pos_args args params =
     (case map_of params ''positional_parameters'' of
        None \<Rightarrow> Inr (AList.update ''positional_parameters'' (PList args) params)
      | Some (PList xs) \<Rightarrow> Inr (AList.update ''positional_parameters'' (PList (xs @ args)) params)
      | Some _ \<Rightarrow> Inl AttributeError)"

text \<open>A named argument called like a parameter of the constructor is a \<open>TypeError\<close>.\<close>

definition N1QLQuery_init :: "pyval \<Rightarrow> pyval list \<Rightarrow> pydict \<Rightarrow> pydict res" where
  "N1QLQuery_init query args kwargs =
     (if dhas kwargs ''query'' \<or> dhas kwargs ''self'' then Inl TypeError
      else bindE (if args = [] then Inr [(''statement'', query)]
                  else add_pos_args args [(''statement'', query)]) (\<lambda>p.
           if kwargs = [] then Inr p else set_named_args kwargs p))"

text \<open>
  The property \<open>params\<close>: it takes the three kinds of parameters out of the dictionary
  and puts them back as JSON.  It changes the query, so it is an action on its
  dictionary, which is also what it returns.
\<close>

definition pop_convert :: "string \<Rightarrow> (pyval \<Rightarrow> pyval res) \<Rightarrow> (pydict, unit) action" where
  "pop_convert name conv params =
     (case map_of params name of
        None \<Rightarrow> (Inr (), params)
      | Some v \<Rightarrow>
          (let rest = AList.delete name params
           in if \<not> truthy v then (Inr (), rest)
              else (case conv v of Inl e \<Rightarrow> (Inl e, rest) | Inr w \<Rightarrow> (Inr (), AList.update name w rest))))"

definition convert_items :: "(string \<Rightarrow> string) \<Rightarrow> (pyval \<Rightarrow> pyval res) \<Rightarrow> pyval \<Rightarrow> pyval res" where
  "convert_items name f v =
     (case v of
        PDict d \<Rightarrow>
          (case str_items d of None \<Rightarrow> Inl TypeError
           | Some kvs \<Rightarrow> bindE (mapE (\<lambda>(k, x). bindE (f x) (\<lambda>y. Inr (name k, y))) kvs)
               (\<lambda>kvs. Inr (pdict kvs)))
      | _ \<Rightarrow> Inl AttributeError)"

definition convert_list :: "(pyval \<Rightarrow> pyval res) \<Rightarrow> pyval \<Rightarrow> pyval res" where
  "convert_list f v = (case v of PList xs \<Rightarrow> bindE (mapE f xs) (\<lambda>ys. Inr (PList ys)) | _ \<Rightarrow> Inl TypeError)"

definition N1QLQuery_params :: "py_floats \<Rightarrow> (pydict, unit) action" where
  "N1QLQuery_params fs =
     bindA (pop_convert ''raw'' (convert_items (\<lambda>k. k) (json_bytes fs))) (\<lambda>_.
     bindA (pop_convert ''positional_parameters'' (convert_list (json_bytes fs))) (\<lambda>_.
       pop_convert ''named_parameters'' (convert_items (\<lambda>k. CHR ''$'' # k) (json_bytes fs))))"

subsection \<open>Getters and setters\<close>

text \<open>
  The getters of \<open>timeout\<close> and \<open>scan_wait\<close> cut off the last element of the value as if
  it were still the text with a unit that an earlier version stored; \<open>to_float\<close> is
  \<open>float(text)\<close>.
\<close>

definition drop_unit :: "(string \<Rightarrow> pyval res) \<Rightarrow> pyval \<Rightarrow> pyval res" where
  "drop_unit to_float v =
     (if \<not> truthy v then Inr PNone
      else case v of PStr s \<Rightarrow> to_float (butlast s) | _ \<Rightarrow> Inl TypeError)"

definition timeout_getter :: "(string \<Rightarrow> pyval res) \<Rightarrow> pydict \<Rightarrow> pyval res" where
  "timeout_getter to_float params = drop_unit to_float (dget params ''timeout'' PNone)"

definition timeout_setter :: setter where
  "timeout_setter value params =
     (if \<not> truthy value then Inr (AList.delete ''timeout'' params)
      else bindE (to_microseconds value) (\<lambda>total_us. set_option ''timeout'' (PInt total_us) params))"

definition consistency_getter :: "pydict \<Rightarrow> pyval" where
  "consistency_getter params =
     (let value = dget params ''scan_consistency'' PNone
      in if value = PNone \<and> dhas params ''mutation_state'' then AT_PLUS
         else if value = PNone then NOT_BOUNDED
         else if is_str value
         then (if value = PStr ''request_plus'' then REQUEST_PLUS else NOT_BOUNDED)
         else PNone)"

definition consistency_setter :: setter where
  "consistency_setter value params =
     (if dhas params ''mutation_state'' then Inr params
      else if enum_class value = Some ''QueryScanConsistency''
      then (if value = AT_PLUS then Inl InvalidArgumentException
            else set_option ''scan_consistency'' (enum_value value) params)
      else if is_str value \<and> value \<in> set (map enum_value QueryScanConsistency)
      then (if value = enum_value AT_PLUS then Inl InvalidArgumentException
            else set_option ''scan_consistency'' value params)
      else Inl InvalidArgumentException)"

definition sv_tokens :: "pyval \<Rightarrow> pyval list" where
  "sv_tokens state = (case attr state ''_sv'' of PSet ts \<Rightarrow> ts | _ \<Rightarrow> [])"

definition consistent_with_setter :: setter where
  "consistent_with_setter value params =
     (if consistency_getter params \<noteq> NOT_BOUNDED then Inl TypeError
      else if \<not> (is_instance_of value ''MutationState'' \<and> sv_tokens value \<noteq> []) then Inl TypeError
      else set_option ''mutation_state'' (PList (map (\<lambda>mt. attr mt ''_token'') (sv_tokens value)))
             (AList.delete ''scan_consistency'' params))"

definition profile_getter :: "pydict \<Rightarrow> pyval" where
  "profile_getter params =
     (case dget params ''profile_mode'' PNone of
        PNone \<Rightarrow> QueryProfile ! 0
      | PStr s \<Rightarrow> if s = ''off'' then QueryProfile ! 0
                  else if s = ''phases'' then QueryProfile ! 1 else QueryProfile ! 2
      | _ \<Rightarrow> PNone)"

definition profile_setter :: setter where
  "profile_setter value params =
     (if enum_class value = Some ''QueryProfile'' then set_option ''profile_mode'' (enum_value value) params
      else if is_str value \<and> value \<in> set (map enum_value QueryProfile)
      then set_option ''profile_mode'' value params
      else Inl InvalidArgumentException)"

definition scan_wait_getter :: "(string \<Rightarrow> pyval res) \<Rightarrow> pydict \<Rightarrow> pyval res" where
  "scan_wait_getter to_float params = drop_unit to_float (dget params ''scan_wait'' PNone)"

definition scan_wait_setter :: setter where
  "scan_wait_setter value params =
     (if \<not> truthy value then Inr (AList.delete ''scan_wait'' params)
      else if dhas params ''scan_wait''
      then bindE (timedelta_as_microseconds value) (\<lambda>us. set_option ''scan_wait'' (PInt us) params)
      else set_option ''scan_wait'' value params)"

definition raw_setter :: setter where
  "raw_setter value params =
     (case value of
        PDict d \<Rightarrow> if list_all (\<lambda>kv. is_str (fst kv)) d then set_option ''raw'' value params else Inl TypeError
      | _ \<Rightarrow> Inl TypeError)"

definition span_setter :: setter where
  "span_setter value params =
     (if is_instance_of value ''CouchbaseSpan'' then set_option ''span'' value params
      else Inl InvalidArgumentException)"

definition serializer_setter :: setter where
  "serializer_setter value params =
     (if is_instance_of value ''Serializer'' then set_option ''serializer'' value params
      else Inl InvalidArgumentException)"

text \<open>The remaining setters store the value under the attribute's name.\<close>

definition N1QL_setters :: "(string \<times> setter) list" where
  "N1QL_setters =
     [(''timeout'', timeout_setter), (''consistency'', consistency_setter),
      (''consistent_with'', consistent_with_setter), (''profile'', profile_setter),
      (''scan_wait'', scan_wait_setter), (''raw'', raw_setter), (''span'', span_setter),
      (''serializer'', serializer_setter)]"

definition N1QL_setattr :: "string \<Rightarrow> setter" where
  "N1QL_setattr target = (case map_of N1QL_setters target of Some f \<Rightarrow> f | None \<Rightarrow> set_option target)"

definition N1QL_VALID_OPTS :: query_opts where
  "N1QL_VALID_OPTS =
     [(''timeout'', [(''timeout'', Inr)]), (''read_only'', [(''readonly'', Inr)]),
      (''scan_consistency'', [(''consistency'', Inr)]),
      (''consistent_with'', [(''consistent_with'', Inr)]), (''adhoc'', [(''adhoc'', Inr)]),
      (''client_context_id'', [(''client_context_id'', Inr)]),
      (''max_parallelism'', [(''max_parallelism'', Inr)]),
      (''pipeline_batch'', [(''pipeline_batch'', Inr)]), (''pipeline_cap'', [(''pipeline_cap'', Inr)]),
      (''profile'', [(''profile'', Inr)]), (''query_context'', [(''query_context'', Inr)]),
      (''raw'', [(''raw'', Inr)]), (''scan_cap'', [(''scan_cap'', Inr)]),
      (''scan_wait'', [(''scan_wait'', \<lambda>v. py_int (timedelta_as_microseconds v))]),
      (''metrics'', [(''metrics'', Inr)]), (''flex_index'', [(''flex_index'', Inr)]),
      (''preserve_expiry'', [(''preserve_expiry'', Inr)]), (''use_replica'', [(''use_replica'', Inr)]),
      (''serializer'', [(''serializer'', Inr)]), (''positional_parameters'', []),
      (''named_parameters'', []), (''span'', [(''span'', Inr)])]"

subsection \<open>create_query_object\<close>

definition is_query_options :: "pyval \<Rightarrow> bool" where
  "is_query_options v \<longleftrightarrow> is_instance_of v ''QueryOptions'' \<or> is_instance_of v ''QueryOptionsBase''"

text \<open>The keys of \<open>args\<close> that are no options, with their values: named parameters.\<close>

definition free_kwargs :: "query_opts \<Rightarrow> pydict \<Rightarrow> pydict" where
  "free_kwargs tab args = filter (\<lambda>kv. fst kv \<notin> fst ` set tab) args"

definition query_arguments ::
  "(pyval \<Rightarrow> bool) \<Rightarrow> pyval list \<Rightarrow> pydict \<Rightarrow> pydict \<times> pyval" where
  "query_arguments is_opt options kwargs =
     (let (opts, opt) = take_options is_opt 0 options (PInst ''QueryOptions'' []);
          args = dupdate (block_items opt) kwargs;
          positional = dget args ''positional_parameters'' (PList [])
      in (AList.delete ''positional_parameters'' args, if opts \<noteq> [] then PList opts else positional))"

definition as_args :: "pyval \<Rightarrow> pyval list res" where
  "as_args v = (case v of PList xs \<Rightarrow> Inr xs | PTuple xs \<Rightarrow> Inr xs | PSet xs \<Rightarrow> Inr xs
     | PDict d \<Rightarrow> Inr (map fst d) | PStr s \<Rightarrow> Inr (map (\<lambda>c. PStr [c]) s) | _ \<Rightarrow> Inl TypeError)"

definition named_arguments :: "query_opts \<Rightarrow> pydict \<Rightarrow> pydict res" where
  "named_arguments tab args =
     (case dget args ''named_parameters'' (PDict []) of
        PDict d \<Rightarrow> (case str_items d of
            Some kvs \<Rightarrow> Inr (dupdate kvs (free_kwargs tab args)) | None \<Rightarrow> Inl TypeError)
      | _ \<Rightarrow> Inl TypeError)"

definition N1QL_create_query_object ::
  "(string list \<Rightarrow> string list) \<Rightarrow> pyval \<Rightarrow> pyval list \<Rightarrow> pydict \<Rightarrow> pydict res" where
  "N1QL_create_query_object order statement options kwargs =
     (let (args, positional) = query_arguments is_query_options options kwargs
      in bindE (named_arguments N1QL_VALID_OPTS args) (\<lambda>named.
         bindE (as_args positional) (\<lambda>pos.
         bindE (N1QLQuery_init statement pos named) (\<lambda>q0.
           let args = AList.delete ''named_parameters'' args;
               q = AList.update ''metrics'' (dget args ''metrics'' (PBool False)) q0
           in foldE (\<lambda>k. apply_option N1QL_VALID_OPTS N1QL_setattr (k, dget args k PNone))
                (order (filter (\<lambda>k. k \<in> fst ` set N1QL_VALID_OPTS) (map fst args))) q))))"



subsection \<open>The order of the options\<close>

definition N1QL_slot :: "string \<Rightarrow> string set" where
  "N1QL_slot k =
     (if k = ''scan_consistency'' \<or> k = ''consistent_with'' then {''scan_consistency'', ''mutation_state''}
      else if k = ''read_only'' then {''readonly''}
      else if k = ''profile'' then {''profile_mode''} else {k})"

lemma local_consistency: "local_step {''scan_consistency'', ''mutation_state''} (consistency_setter v)"
  unfolding local_step_def consistency_setter_def set_option_def
  by (auto simp: agree_def dict_simps dhas_def)

lemma consistency_agree:
  "agree {''scan_consistency'', ''mutation_state''} p q \<Longrightarrow> consistency_getter p = consistency_getter q"
  by (simp add: agree_def consistency_getter_def dget_def dhas_def)

lemma local_consistent_with: "local_step {''scan_consistency'', ''mutation_state''} (consistent_with_setter v)"
  unfolding local_step_def
proof (intro allI impI, elim conjE)
  fix p q p'
  assume a: "agree {''scan_consistency'', ''mutation_state''} p q" and r: "consistent_with_setter v p = Inr p'"
  note c = consistency_agree [OF a]
  show "agree (- {''scan_consistency'', ''mutation_state''}) p p' \<and>
      (\<exists>q'. consistent_with_setter v q = Inr q' \<and> agree {''scan_consistency'', ''mutation_state''} p' q')"
    using r unfolding consistent_with_setter_def c set_option_def
    by (auto simp: agree_def dict_simps split: if_splits)
qed

lemma local_scan_wait: "local_step {''scan_wait''} (scan_wait_setter v)"
  unfolding local_step_def scan_wait_setter_def set_option_def
  by (auto simp: agree_def dict_simps dhas_def bindE_eq_Inr split: if_splits)

lemma local_timeout: "local_step {''timeout''} (timeout_setter v)"
  unfolding local_step_def timeout_setter_def set_option_def
  by (auto simp: agree_def dict_simps bindE_eq_Inr split: if_splits)

lemma local_simple_setters:
  "local_step {''profile_mode''} (profile_setter v)" "local_step {''raw''} (raw_setter v)"
  "local_step {''span''} (span_setter v)" "local_step {''serializer''} (serializer_setter v)"
  unfolding profile_setter_def [abs_def] raw_setter_def [abs_def] span_setter_def [abs_def]
    serializer_setter_def [abs_def]
  by (cases v; (intro local_if local_set_option local_fail | simp add: local_fail local_set_option))+

definition N1QL_target_slot :: "string \<Rightarrow> string set" where
  "N1QL_target_slot t =
     (if t = ''consistency'' \<or> t = ''consistent_with'' then {''scan_consistency'', ''mutation_state''}
      else if t = ''profile'' then {''profile_mode''} else {t})"

lemma local_setattr: "local_step (N1QL_target_slot t) (N1QL_setattr t v)"
  unfolding N1QL_setattr_def N1QL_setters_def N1QL_target_slot_def
  by (simp add: local_consistency local_consistent_with local_timeout local_scan_wait
      local_simple_setters local_set_option)

lemma N1QL_slots:
  "list_all (\<lambda>(k, ts). case ts of [] \<Rightarrow> True | [(t, tr)] \<Rightarrow> N1QL_target_slot t = N1QL_slot k | _ \<Rightarrow> False)
     N1QL_VALID_OPTS"
  by (simp add: N1QL_VALID_OPTS_def N1QL_target_slot_def N1QL_slot_def)

lemma abstract_slots:
  fixes a :: string
  assumes "distinct [a, b, m, r, r', p, p']" "x \<notin> {r', p', m}" "y \<notin> {r', p', m}" "x \<noteq> y" "{x, y} \<noteq> {a, b}"
    and "\<And>k. S k = (if k = a \<or> k = b then {a, m} else if k = r then {r'} else if k = p then {p'} else {k})"
  shows "S x \<inter> S y = {}"
  using assms(1-5) unfolding assms(6) by (auto split: if_splits)

lemma slot_disjoint:
  assumes "x \<in> fst ` set N1QL_VALID_OPTS" "y \<in> fst ` set N1QL_VALID_OPTS" "x \<noteq> y"
    and "\<not> ({x, y} = {''scan_consistency'', ''consistent_with''})"
  shows "N1QL_slot x \<inter> N1QL_slot y = {}"
proof (rule abstract_slots [OF _ _ _ assms(3,4)])
  have "list_all (\<lambda>z. z \<notin> {''readonly'', ''profile_mode'', ''mutation_state''}) (map fst N1QL_VALID_OPTS)"
    by (simp add: N1QL_VALID_OPTS_def)
  then have no: "\<forall>z \<in> fst ` set N1QL_VALID_OPTS. z \<notin> {''readonly'', ''profile_mode'', ''mutation_state''}"
    by (simp only: list_all_iff set_map)
  show "x \<notin> {''readonly'', ''profile_mode'', ''mutation_state''}" by (rule bspec [OF no assms(1)])
  show "y \<notin> {''readonly'', ''profile_mode'', ''mutation_state''}" by (rule bspec [OF no assms(2)])
  show "N1QL_slot k =
     (if k = ''scan_consistency'' \<or> k = ''consistent_with'' then {''scan_consistency'', ''mutation_state''}
      else if k = ''read_only'' then {''readonly''}
      else if k = ''profile'' then {''profile_mode''} else {k})" for k
    by (rule N1QL_slot_def)
qed simp

interpretation n1ql_opts: query_options N1QL_VALID_OPTS N1QL_setattr N1QL_slot
  "\<lambda>x y. {x, y} = {''scan_consistency'', ''consistent_with''}"
  by unfold_locales (rule local_apply_option [OF local_setattr N1QL_slots] slot_disjoint; assumption?)+

definition query_keys :: "query_opts \<Rightarrow> (pyval \<Rightarrow> bool) \<Rightarrow> pyval list \<Rightarrow> pydict \<Rightarrow> string set" where
  "query_keys tab is_opt options kwargs =
     (let (args, positional) = query_arguments is_opt options kwargs in fst ` set args)"


lemma args_distinct:
  assumes "distinct (map fst (block_items (snd (take_options is_opt 0 options (PInst ''QueryOptions'' [])))))"
  shows "distinct (map fst (fst (query_arguments is_opt options kwargs)))"
proof -
  obtain xs o1 where t: "take_options is_opt 0 options (PInst ''QueryOptions'' []) = (xs, o1)" by fastforce
  have "distinct (map fst (block_items o1))" using assms t by simp
  then show ?thesis
    by (simp add: query_arguments_def t Let_def distinct_keys_delete distinct_dupdate)
qed

text \<open>C33. The result of building a query does not depend on the order in which Python
  iterates over the set of options, unless both \<open>scan_consistency\<close> and
  \<open>consistent_with\<close> are given.\<close>

theorem create_query_object_order:
  assumes "\<And>ks. mset (o1 ks) = mset ks" "\<And>ks. mset (o2 ks) = mset ks"
    and "\<not> {''scan_consistency'', ''consistent_with''} \<subseteq> query_keys N1QL_VALID_OPTS is_query_options options kwargs"
    and "distinct (map fst (block_items (snd (take_options is_query_options 0 options (PInst ''QueryOptions'' [])))))"
    and "N1QL_create_query_object o1 statement options kwargs = Inr q1"
  shows "\<exists>q2. N1QL_create_query_object o2 statement options kwargs = Inr q2 \<and> map_of q1 = map_of q2"
proof -
  obtain args positional where qa: "query_arguments is_query_options options kwargs = (args, positional)"
    by fastforce
  define b where "b = AList.delete ''named_parameters'' args"
  define ks where "ks = filter (\<lambda>k. k \<in> fst ` set N1QL_VALID_OPTS) (map fst b)"
  have d: "distinct (map fst args)" using args_distinct [OF assms(4), of kwargs] qa by simp
  have b: "set (map fst b) \<subseteq> fst ` set args" "distinct (map fst b)"
    by (auto simp: b_def AList.delete_eq intro: distinct_keys_delete [OF d, unfolded AList.delete_eq])
  obtain named pos q0 where *: "named_arguments N1QL_VALID_OPTS args = Inr named" "as_args positional = Inr pos"
    "N1QLQuery_init statement pos named = Inr q0"
    and r: "foldE (\<lambda>k. apply_option N1QL_VALID_OPTS N1QL_setattr (k, dget b k PNone)) (o1 ks)
      (AList.update ''metrics'' (dget b ''metrics'' (PBool False)) q0) = Inr q1"
    using assms(5) unfolding N1QL_create_query_object_def qa
    by (auto simp: bindE_eq_Inr Let_def b_def ks_def)
  have "\<not> {''scan_consistency'', ''consistent_with''} \<subseteq> fst ` set args"
    using assms(3) by (simp add: query_keys_def qa)
  moreover have "set ks \<subseteq> fst ` set args" using b(1) unfolding ks_def by auto
  ultimately have n: "{x, y} \<noteq> {''scan_consistency'', ''consistent_with''}" if "x \<in> set ks" "y \<in> set ks" for x y
    using that by (metis empty_subsetI insert_subset subset_trans)
  have "set ks \<subseteq> fst ` set N1QL_VALID_OPTS" "distinct ks" using b(2) by (auto simp: ks_def)
  from n1ql_opts.apply_order [where ?o1.0 = o1 and ?o2.0 = o2 and h = "\<lambda>k. dget b k PNone",
      OF this n assms(1,2) r]
  show ?thesis unfolding N1QL_create_query_object_def qa
    by (simp add: * Let_def b_def ks_def)
qed


definition sample_state :: pyval where
  "sample_state = PInst ''MutationState'' [(''_sv'', PSet [PInst ''MutationToken''
     [(''_token'', pdict [(''partition_id'', PInt 7), (''bucket_name'', PStr ''b'')])]])]"

lemma create_query_object_order_witness:
  "\<exists>q2. N1QL_create_query_object rev (PStr ''SELECT 1'')
        [PInst ''QueryOptions'' [(''read_only'', PBool True), (''adhoc'', PBool False)], PInt 5] [(''x'', PInt 1)] = Inr q2 \<and>
     map_of [(''statement'', PStr ''SELECT 1''), (''positional_parameters'', PList [PInt 5]),
       (''named_parameters'', pdict [(''x'', PInt 1)]), (''metrics'', PBool False),
       (''readonly'', PBool True), (''adhoc'', PBool False)] = map_of q2"
proof (rule create_query_object_order [where ?o1.0 = "\<lambda>ks. ks"])
  let ?options = "[PInst ''QueryOptions'' [(''read_only'', PBool True), (''adhoc'', PBool False)], PInt 5]"
  show "N1QL_create_query_object (\<lambda>ks. ks) (PStr ''SELECT 1'') ?options [(''x'', PInt 1)] =
    Inr [(''statement'', PStr ''SELECT 1''), (''positional_parameters'', PList [PInt 5]),
       (''named_parameters'', pdict [(''x'', PInt 1)]), (''metrics'', PBool False),
       (''readonly'', PBool True), (''adhoc'', PBool False)]"
    by code_simp
  show "\<not> {''scan_consistency'', ''consistent_with''} \<subseteq>
      query_keys N1QL_VALID_OPTS is_query_options ?options [(''x'', PInt 1)]"
    by code_simp
  show "distinct (map fst (block_items (snd (take_options is_query_options 0 ?options (PInst ''QueryOptions'' [])))))"
    by code_simp
qed simp_all

text \<open>With both options the outcome depends on the order: an error or a query.\<close>

lemma create_query_object_order_matters:
  "N1QL_create_query_object (\<lambda>ks. ks) (PStr ''s'') []
     [(''scan_consistency'', REQUEST_PLUS), (''consistent_with'', sample_state)] = Inl TypeError"
  "\<exists>q. N1QL_create_query_object rev (PStr ''s'') []
     [(''scan_consistency'', REQUEST_PLUS), (''consistent_with'', sample_state)] = Inr q"
proof -
  show "N1QL_create_query_object (\<lambda>ks. ks) (PStr ''s'') []
     [(''scan_consistency'', REQUEST_PLUS), (''consistent_with'', sample_state)] = Inl TypeError"
    by code_simp
  have "N1QL_create_query_object rev (PStr ''s'') []
     [(''scan_consistency'', REQUEST_PLUS), (''consistent_with'', sample_state)] =
     Inr [(''statement'', PStr ''s''), (''metrics'', PBool False),
       (''mutation_state'', PList [pdict [(''partition_id'', PInt 7), (''bucket_name'', PStr ''b'')]])]"
    by code_simp
  then show "\<exists>q. N1QL_create_query_object rev (PStr ''s'') []
     [(''scan_consistency'', REQUEST_PLUS), (''consistent_with'', sample_state)] = Inr q" by blast
qed

subsection \<open>Parameters on the wire\<close>

lemma str_items_pdict: "str_items (map (\<lambda>(k, v). (PStr k, v)) kvs) = Some kvs"
  by (induction kvs) auto

lemma mapE_length_pos: "mapE f xs = Inr ys \<Longrightarrow> xs \<noteq> [] \<Longrightarrow> ys \<noteq> []"
  using mapE_length by fastforce


lemma convert_pdict:
  "convert_items name f (pdict kvs) = bindE (mapE (\<lambda>(k, x). bindE (f x) (\<lambda>y. Inr (name k, y))) kvs) (\<lambda>r. Inr (pdict r))"
  by (simp add: convert_items_def pdict_def str_items_pdict)

lemma convert_items_bytes: "mapE (json_bytes fs) xs = Inr ys \<Longrightarrow> xs \<noteq> [] \<Longrightarrow> \<exists>b zs. ys = PBytes b # zs"
  by (cases xs) (auto simp: bindE_eq_Inr dest: json_bytes_is_bytes)

lemma mapE_bytes_again: "mapE (json_bytes fs) xs = Inr ys \<Longrightarrow> xs \<noteq> [] \<Longrightarrow> mapE (json_bytes fs) ys = Inl TypeError"
  using convert_items_bytes by (fastforce simp: json_bytes_no_bytes)

lemma truthy_pdict: "truthy (pdict d) \<longleftrightarrow> d \<noteq> []"
  by (simp add: pdict_def)

text \<open>The parameters of a new query go out as JSON, each once: positional ones in
  their order, named ones under their name with a \<open>$\<close> in front.  Reading \<open>params\<close> also
  replaces the parameters in the query itself, so reading it a second time raises
  \<open>TypeError\<close> for a query with positional parameters.\<close>

lemma N1QLQuery_params_spec:
  assumes "N1QLQuery_init statement args kwargs = Inr q"
    and "mapE (json_bytes fs) args = Inr ys"
    and "mapE (\<lambda>(k, x). bindE (json_bytes fs x) (\<lambda>y. Inr (CHR ''$'' # k, y))) kwargs = Inr kvs"
  shows "\<exists>p. N1QLQuery_params fs q = (Inr (), p) \<and>
    p = [(''statement'', statement)] @
      (if args = [] then [] else [(''positional_parameters'', PList ys)]) @
      (if kwargs = [] then [] else [(''named_parameters'', pdict kvs)]) \<and>
    (args \<noteq> [] \<longrightarrow> fst (N1QLQuery_params fs p) = Inl TypeError)"
proof -
  have q: "q = [(''statement'', statement)] @
      (if args = [] then [] else [(''positional_parameters'', PList args)]) @
      (if kwargs = [] then [] else [(''named_parameters'', pdict kwargs)])"
    using assms(1) by (auto simp: N1QLQuery_init_def add_pos_args_def set_named_args_def split: if_splits)
  note p = N1QLQuery_params_def pop_convert_def bindA_def convert_list_def
  have 1: "N1QLQuery_params fs q = (Inr (), [(''statement'', statement)] @
      (if args = [] then [] else [(''positional_parameters'', PList ys)]) @
      (if kwargs = [] then [] else [(''named_parameters'', pdict kvs)]))"
    by (cases "args = []"; cases "kwargs = []")
      (simp_all add: q p assms(2,3) convert_pdict truthy_pdict Let_def)
  have "fst (N1QLQuery_params fs ([(''statement'', statement), (''positional_parameters'', PList ys)] @ r)) =
      Inl TypeError" if "args \<noteq> []" "map_of r ''raw'' = None" for r
    using that mapE_bytes_again [OF assms(2)] mapE_length_pos [OF assms(2)] by (simp add: p Let_def)
  from this [of "if kwargs = [] then [] else [(''named_parameters'', pdict kvs)]"]
  show ?thesis unfolding 1 by simp
qed

lemma N1QLQuery_params_witness:
  "\<exists>p. N1QLQuery_params \<lparr>float_repr = \<lambda>_. [], float_parse = \<lambda>_. NaN\<rparr>
      [(''statement'', PStr ''s''), (''positional_parameters'', PList [PBool True])] = (Inr (), p) \<and>
    p = [(''statement'', PStr ''s''), (''positional_parameters'', PList [PBytes [116, 114, 117, 101]])] \<and>
    fst (N1QLQuery_params \<lparr>float_repr = \<lambda>_. [], float_parse = \<lambda>_. NaN\<rparr> p) = Inl TypeError"
proof -
  let ?fs = "\<lparr>float_repr = \<lambda>_. [], float_parse = \<lambda>_. NaN\<rparr>"
  have 1: "N1QLQuery_init (PStr ''s'') [PBool True] [] =
      Inr [(''statement'', PStr ''s''), (''positional_parameters'', PList [PBool True])]"
    by (simp add: N1QLQuery_init_def add_pos_args_def)
  have 2: "mapE (json_bytes ?fs) [PBool True] = Inr [PBytes [116, 114, 117, 101]]"
    by (simp add: json_bytes_def DefaultJsonSerializer_serialize_def str_encode_def true_text_def
        is_scalar_def utf8_char_def)
  from N1QLQuery_params_spec [OF 1 2, of "[]"] show ?thesis
    by (simp only: mapE.simps append.simps append_Nil2 list.distinct if_False if_True simp_thms)
qed

lemma str_items_shape: "str_items e = Some d \<Longrightarrow> e = map (\<lambda>(k, v). (PStr k, v)) d"
  by (induction e arbitrary: d rule: str_items.induct) (auto split: pyval.splits)




lemma dupdate_Nil [simp]: "dupdate d [] = d"
  by (simp add: dupdate_def)




end
