(* ===== verification/Analytics.thy ===== *)
theory Analytics
  imports N1ql
begin

text \<open>
  \<open>AnalyticsQuery\<close> of \<open>couchbase/logic/analytics.py\<close> and \<open>ViewQuery\<close> of
  \<open>couchbase/logic/views.py\<close>: the setters and getters of their options and the builders
  \<open>create_query_object\<close> and \<open>create_view_query_object\<close>.  The contract
  \<open>query_options\<close> holds for both tables, without any clash.
\<close>

subsection \<open>Analytics queries\<close>

definition Analytics_set_named_args :: "py_floats \<Rightarrow> pydict \<Rightarrow> pydict \<Rightarrow> pydict res" where
  "Analytics_set_named_args fs kv params =
     bindE (mapE (\<lambda>(k, v). bindE (json_dumps fs v) (\<lambda>w. Inr (CHR ''$'' # k, w))) kv) (\<lambda>named_params.
       Inr (AList.update ''named_parameters'' (pdict named_params) params))"

definition Analytics_add_pos_args :: "py_floats \<Rightarrow> pyval list \<Rightarrow> pydict \<Rightarrow> pydict res" where
  "Analytics_add_pos_args fs args params =
     bindE (mapE (json_dumps fs) args) (\<lambda>json_args. add_pos_args json_args params)"

definition AnalyticsQuery_init :: "py_floats \<Rightarrow> pyval \<Rightarrow> pyval list \<Rightarrow> pydict \<Rightarrow> pydict res" where
  "AnalyticsQuery_init fs query args kwargs =
     (if dhas kwargs ''query'' \<or> dhas kwargs ''self'' then Inl TypeError
      else bindE (if args = [] then Inr [(''statement'', query)]
                  else Analytics_add_pos_args fs args [(''statement'', query)]) (\<lambda>p.
           if kwargs = [] then Inr p else Analytics_set_named_args fs kwargs p))"

definition Analytics_timeout_setter :: setter where
  "Analytics_timeout_setter value params =
     (if \<not> truthy value then Inr (AList.delete ''timeout'' params)
      else bindE (to_microseconds value) (\<lambda>total_us. set_option ''timeout'' (PInt total_us) params))"

definition Analytics_timeout_getter :: "(string \<Rightarrow> pyval res) \<Rightarrow> pydict \<Rightarrow> pyval res" where
  "Analytics_timeout_getter to_float params = drop_unit to_float (dget params ''timeout'' PNone)"

definition Analytics_consistency_setter :: setter where
  "Analytics_consistency_setter = set_option ''scan_consistency''"

definition Analytics_consistency_getter :: "pydict \<Rightarrow> pyval" where
  "Analytics_consistency_getter params = dget params ''scan_consistency'' (PStr ''not_bounded'')"

definition Analytics_query_context_setter :: setter where
  "Analytics_query_context_setter = set_option ''scope_qualifier''"

definition Analytics_serializer_setter :: setter where
  "Analytics_serializer_setter value params =
     (if is_instance_of value ''Serializer'' then set_option ''serializer'' value params
      else Inl InvalidArgumentException)"

definition Analytics_raw_setter :: "py_floats \<Rightarrow> setter" where
  "Analytics_raw_setter fs value params =
     (case value of
        PDict d \<Rightarrow>
          (if list_all (\<lambda>kv. is_str (fst kv)) d
           then bindE (convert_items (\<lambda>k. k) (json_dumps fs) value) (\<lambda>raw_params.
                  set_option ''raw'' raw_params params)
           else Inl TypeError)
      | _ \<Rightarrow> Inl TypeError)"

definition Analytics_span_setter :: setter where
  "Analytics_span_setter value params =
     (if is_instance_of value ''CouchbaseSpan'' then set_option ''span'' value params
      else Inl InvalidArgumentException)"

definition Analytics_setattr :: "py_floats \<Rightarrow> string \<Rightarrow> setter" where
  "Analytics_setattr fs target =
     (case map_of
        [(''timeout'', Analytics_timeout_setter), (''consistency'', Analytics_consistency_setter),
         (''query_context'', Analytics_query_context_setter), (''serializer'', Analytics_serializer_setter),
         (''raw'', Analytics_raw_setter fs), (''span'', Analytics_span_setter)] target of
        Some f \<Rightarrow> f | None \<Rightarrow> set_option target)"

definition Analytics_VALID_OPTS :: query_opts where
  "Analytics_VALID_OPTS =
     [(''timeout'', [(''timeout'', Inr)]), (''read_only'', [(''readonly'', Inr)]),
      (''scan_consistency'', [(''consistency'', value_attr)]),
      (''client_context_id'', [(''client_context_id'', Inr)]), (''priority'', [(''priority'', Inr)]),
      (''query_context'', [(''query_context'', Inr)]), (''serializer'', [(''serializer'', Inr)]),
      (''raw'', [(''raw'', Inr)]), (''positional_parameters'', []), (''named_parameters'', []),
      (''span'', [(''span'', Inr)])]"

definition is_analytics_options :: "pyval \<Rightarrow> bool" where
  "is_analytics_options v \<longleftrightarrow>
     is_instance_of v ''AnalyticsOptions'' \<or> is_instance_of v ''AnalyticsOptionsBase''"

definition Analytics_create_query_object ::
  "py_floats \<Rightarrow> (string list \<Rightarrow> string list) \<Rightarrow> pyval \<Rightarrow> pyval list \<Rightarrow> pydict \<Rightarrow> pydict res" where
  "Analytics_create_query_object fs order statement options kwargs =
     (let (args, positional) = query_arguments is_analytics_options options kwargs
      in bindE (named_arguments Analytics_VALID_OPTS args) (\<lambda>named.
         bindE (as_args positional) (\<lambda>pos.
         bindE (AnalyticsQuery_init fs statement pos named) (\<lambda>q0.
           let args = AList.delete ''named_parameters'' args;
               q = AList.update ''metrics'' (dget args ''metrics'' (PBool True)) q0
           in foldE (\<lambda>k. apply_option Analytics_VALID_OPTS (Analytics_setattr fs) (k, dget args k PNone))
                (order (filter (\<lambda>k. k \<in> fst ` set Analytics_VALID_OPTS) (map fst args))) q))))"

subsection \<open>View queries\<close>

definition ViewScanConsistency :: "pyval list" where
  "ViewScanConsistency =
     [PEnum ''ViewScanConsistency'' ''NOT_BOUNDED'' ''ok'',
      PEnum ''ViewScanConsistency'' ''REQUEST_PLUS'' ''false'',
      PEnum ''ViewScanConsistency'' ''UPDATE_AFTER'' ''update_after'']"

definition ViewOrdering :: "pyval list" where
  "ViewOrdering =
     [PEnum ''ViewOrdering'' ''DESCENDING'' ''true'', PEnum ''ViewOrdering'' ''ASCENDING'' ''false'']"

definition ViewErrorMode :: "pyval list" where
  "ViewErrorMode =
     [PEnum ''ViewErrorMode'' ''CONTINUE'' ''continue'', PEnum ''ViewErrorMode'' ''STOP'' ''stop'']"

text \<open>The members of this enumeration have Boolean values.\<close>

definition DesignDocumentNamespace :: "pyval list" where
  "DesignDocumentNamespace =
     [PInst ''DesignDocumentNamespace'' [(''name'', PStr ''PRODUCTION''), (''value'', PBool False)],
      PInst ''DesignDocumentNamespace'' [(''name'', PStr ''DEVELOPMENT''), (''value'', PBool True)]]"

definition ViewQuery_init :: "pyval \<Rightarrow> pyval \<Rightarrow> pyval \<Rightarrow> pydict" where
  "ViewQuery_init bucket design_doc view =
     [(''bucket_name'', bucket), (''document_name'', design_doc), (''view_name'', view)]"

definition View_timeout_setter :: setter where
  "View_timeout_setter value params =
     (if \<not> truthy value then Inr (AList.delete ''timeout'' params)
      else bindE (to_microseconds value) (\<lambda>total_us. set_option ''timeout'' (PInt total_us) params))"

definition View_timeout_getter :: "(string \<Rightarrow> pyval res) \<Rightarrow> pydict \<Rightarrow> pyval res" where
  "View_timeout_getter to_float params = drop_unit to_float (dget params ''timeout'' PNone)"

text \<open>
  The setters of \<open>consistency\<close>, \<open>order\<close> and \<open>on_error\<close> take a member of their
  enumeration or its value.
\<close>

definition set_member :: "pyval list \<Rightarrow> string \<Rightarrow> string \<Rightarrow> setter" where
  "set_member members cls name value params =
     (if enum_class value = Some cls then set_option name (enum_value value) params
      else if is_str value \<and> value \<in> set (map enum_value members) then set_option name value params
      else Inl InvalidArgumentException)"

definition View_consistency_setter :: setter where
  "View_consistency_setter = set_member ViewScanConsistency ''ViewScanConsistency'' ''scan_consistency''"

definition View_consistency_getter :: "pydict \<Rightarrow> pyval" where
  "View_consistency_getter params =
     (case dget params ''scan_consistency'' PNone of
        PNone \<Rightarrow> ViewScanConsistency ! 0
      | PStr s \<Rightarrow> if s = ''ok'' then ViewScanConsistency ! 0
                  else if s = ''false'' then ViewScanConsistency ! 1 else ViewScanConsistency ! 2
      | _ \<Rightarrow> PNone)"

definition View_order_setter :: setter where
  "View_order_setter = set_member ViewOrdering ''ViewOrdering'' ''order''"

definition View_order_getter :: "pydict \<Rightarrow> pyval" where
  "View_order_getter params =
     (case dget params ''order'' PNone of
        PNone \<Rightarrow> ViewOrdering ! 0
      | PStr s \<Rightarrow> if s = ''false'' then ViewOrdering ! 1 else ViewOrdering ! 0
      | _ \<Rightarrow> PNone)"

definition View_on_error_setter :: setter where
  "View_on_error_setter = set_member ViewErrorMode ''ViewErrorMode'' ''on_error''"

definition View_on_error_getter :: "pydict \<Rightarrow> pyval" where
  "View_on_error_getter params =
     (case dget params ''on_error'' PNone of
        PNone \<Rightarrow> ViewErrorMode ! 1
      | PStr s \<Rightarrow> if s = ''continue'' then ViewErrorMode ! 0 else ViewErrorMode ! 1
      | _ \<Rightarrow> PNone)"

definition View_namespace_setter :: setter where
  "View_namespace_setter value params =
     (if is_instance_of value ''DesignDocumentNamespace'' then set_option ''namespace'' (attr value ''value'') params
      else if is_str value \<and> value \<in> set (map (\<lambda>m. attr m ''value'') DesignDocumentNamespace)
      then set_option ''namespace'' value params
      else Inl InvalidArgumentException)"

definition View_namespace_getter :: "pydict \<Rightarrow> pyval" where
  "View_namespace_getter params =
     (case dget params ''namespace'' PNone of
        PNone \<Rightarrow> DesignDocumentNamespace ! 1
      | PStr s \<Rightarrow> if s = ''production'' then DesignDocumentNamespace ! 0 else DesignDocumentNamespace ! 1
      | PBool b \<Rightarrow> if \<not> b then DesignDocumentNamespace ! 0 else DesignDocumentNamespace ! 1
      | _ \<Rightarrow> DesignDocumentNamespace ! 1)"

definition View_json_setter :: "py_floats \<Rightarrow> string \<Rightarrow> setter" where
  "View_json_setter fs name value params = bindE (json_dumps fs value) (\<lambda>w. set_option name w params)"

definition View_keys_setter :: "py_floats \<Rightarrow> setter" where
  "View_keys_setter fs value params =
     (case value of
        PList ks \<Rightarrow> bindE (mapE (json_dumps fs) ks) (\<lambda>ws. set_option ''keys'' (PList ws) params)
      | _ \<Rightarrow> Inl InvalidArgumentException)"

definition View_query_string_setter :: setter where
  "View_query_string_setter value params =
     (case value of PList _ \<Rightarrow> set_option ''query_string'' value params | _ \<Rightarrow> Inl InvalidArgumentException)"

definition View_serializer_setter :: setter where
  "View_serializer_setter value params =
     (if is_instance_of value ''Serializer'' then set_option ''serializer'' value params
      else Inl InvalidArgumentException)"

definition View_span_setter :: setter where
  "View_span_setter value params =
     (if is_instance_of value ''CouchbaseSpan'' then set_option ''span'' value params
      else Inl InvalidArgumentException)"

definition View_setattr :: "py_floats \<Rightarrow> string \<Rightarrow> setter" where
  "View_setattr fs target =
     (case map_of
        [(''timeout'', View_timeout_setter), (''consistency'', View_consistency_setter),
         (''startkey'', View_json_setter fs ''start_key''), (''endkey'', View_json_setter fs ''end_key''),
         (''startkey_docid'', set_option ''start_key_doc_id''), (''endkey_docid'', set_option ''end_key_doc_id''),
         (''key'', View_json_setter fs ''key''), (''keys'', View_keys_setter fs), (''order'', View_order_setter),
         (''on_error'', View_on_error_setter), (''namespace'', View_namespace_setter),
         (''query_string'', View_query_string_setter), (''serializer'', View_serializer_setter),
         (''span'', View_span_setter)] target of
        Some f \<Rightarrow> f | None \<Rightarrow> set_option target)"

definition View_VALID_OPTS :: query_opts where
  "View_VALID_OPTS =
     map (\<lambda>k. (k, [(if k = ''scan_consistency'' then ''consistency'' else k, Inr)]))
       [''timeout'', ''skip'', ''limit'', ''scan_consistency'', ''startkey'', ''endkey'', ''startkey_docid'',
        ''endkey_docid'', ''inclusive_end'', ''group'', ''group_level'', ''key'', ''keys'', ''reduce'', ''order'',
        ''on_error'', ''namespace'', ''debug'', ''client_context_id'', ''raw'', ''query_string'', ''serializer'',
        ''span'', ''full_set'']"

definition is_view_options :: "pyval \<Rightarrow> bool" where
  "is_view_options v \<longleftrightarrow> is_instance_of v ''ViewOptions'' \<or> is_instance_of v ''ViewOptionsBase''"

definition create_view_query_object ::
  "py_floats \<Rightarrow> (string list \<Rightarrow> string list) \<Rightarrow> pyval \<Rightarrow> pyval \<Rightarrow> pyval \<Rightarrow> pyval list \<Rightarrow> pydict \<Rightarrow> pydict res" where
  "create_view_query_object fs order bucket design_doc view options kwargs =
     (let (opts, opt) = take_options is_view_options 0 options (PInst ''ViewOptions'' []);
          args = dupdate (block_items opt) kwargs
      in foldE (\<lambda>k. apply_option View_VALID_OPTS (View_setattr fs) (k, dget args k PNone))
           (order (filter (\<lambda>k. k \<in> fst ` set View_VALID_OPTS) (map fst args)))
           (ViewQuery_init bucket design_doc view))"


subsection \<open>The order of the options\<close>

lemmas simple_setter = local_if local_set_option local_fail local_delete local_bindE

definition Analytics_target_key :: "string \<Rightarrow> string" where
  "Analytics_target_key t =
     (case map_of [(''consistency'', ''scan_consistency''), (''query_context'', ''scope_qualifier'')] t of
        Some x \<Rightarrow> x | None \<Rightarrow> t)"

definition Analytics_key :: "string \<Rightarrow> string" where
  "Analytics_key k = Analytics_target_key (if k = ''read_only'' then ''readonly'' else k)"

lemma local_Analytics_setattr: "local_step {Analytics_target_key t} (Analytics_setattr fs t v)"
proof -
  have "local_step {''timeout''} (Analytics_timeout_setter v)"
    unfolding Analytics_timeout_setter_def [abs_def] by (intro simple_setter)
  moreover have "local_step {''raw''} (Analytics_raw_setter fs v)"
    unfolding Analytics_raw_setter_def [abs_def] by (cases v) (simp_all add: simple_setter)
  moreover have "local_step {''span''} (Analytics_span_setter v)"
    unfolding Analytics_span_setter_def [abs_def] by (intro simple_setter)
  moreover have "local_step {''serializer''} (Analytics_serializer_setter v)"
    unfolding Analytics_serializer_setter_def [abs_def] by (intro simple_setter)
  ultimately show ?thesis
    by (simp add: Analytics_setattr_def Analytics_target_key_def Analytics_consistency_setter_def
        Analytics_query_context_setter_def local_set_option)
qed

interpretation analytics_opts: query_options Analytics_VALID_OPTS "Analytics_setattr fs"
  "\<lambda>k. {Analytics_key k}" "\<lambda>_ _. False" for fs
proof
  show "local_step {Analytics_key k} (apply_option Analytics_VALID_OPTS (Analytics_setattr fs) (k, v))" for k v
    by (rule local_apply_option [OF local_Analytics_setattr])
      (simp add: Analytics_VALID_OPTS_def Analytics_key_def Analytics_target_key_def)
  show "{Analytics_key x} \<inter> {Analytics_key y} = {}"
    if "x \<in> fst ` set Analytics_VALID_OPTS" "y \<in> fst ` set Analytics_VALID_OPTS" "x \<noteq> y" for x y
    by (rule own_keys [OF _ that]) (simp add: Analytics_VALID_OPTS_def Analytics_key_def Analytics_target_key_def)
qed

definition View_key :: "string \<Rightarrow> string" where
  "View_key k =
     (case map_of [(''consistency'', ''scan_consistency''), (''startkey'', ''start_key''),
        (''endkey'', ''end_key''), (''startkey_docid'', ''start_key_doc_id''),
        (''endkey_docid'', ''end_key_doc_id'')] k of Some x \<Rightarrow> x | None \<Rightarrow> k)"

lemma local_set_member: "local_step {name} (set_member members cls name v)"
  unfolding set_member_def [abs_def] by (intro simple_setter)

lemma local_View_setattr: "local_step {View_key t} (View_setattr fs t v)"
proof -
  have "local_step {''timeout''} (View_timeout_setter v)"
    unfolding View_timeout_setter_def [abs_def] by (intro simple_setter)
  moreover have "local_step {name} (View_json_setter fs name v)" for name
    unfolding View_json_setter_def [abs_def] by (intro simple_setter)
  moreover have "local_step {''keys''} (View_keys_setter fs v)"
    unfolding View_keys_setter_def [abs_def] by (cases v) (simp_all add: simple_setter)
  moreover have "local_step {''query_string''} (View_query_string_setter v)"
    unfolding View_query_string_setter_def [abs_def] by (cases v) (simp_all add: simple_setter)
  moreover have "local_step {''span''} (View_span_setter v)"
    unfolding View_span_setter_def [abs_def] by (intro simple_setter)
  moreover have "local_step {''serializer''} (View_serializer_setter v)"
    unfolding View_serializer_setter_def [abs_def] by (intro simple_setter)
  moreover have "local_step {''namespace''} (View_namespace_setter v)"
    unfolding View_namespace_setter_def [abs_def] by (intro simple_setter)
  ultimately show ?thesis
    by (simp add: View_setattr_def View_key_def View_consistency_setter_def View_order_setter_def
        View_on_error_setter_def local_set_option local_set_member)
qed

interpretation view_opts: query_options View_VALID_OPTS "View_setattr fs"
  "\<lambda>k. {View_key k}" "\<lambda>_ _. False" for fs
proof
  show "local_step {View_key k} (apply_option View_VALID_OPTS (View_setattr fs) (k, v))" for k v
    by (rule local_apply_option [OF local_View_setattr]) (simp add: View_VALID_OPTS_def View_key_def)
  show "{View_key x} \<inter> {View_key y} = {}"
    if "x \<in> fst ` set View_VALID_OPTS" "y \<in> fst ` set View_VALID_OPTS" "x \<noteq> y" for x y
    by (rule own_keys [OF _ that]) (simp add: View_VALID_OPTS_def View_key_def)
qed

subsection \<open>Properties\<close>

text \<open>An analytics query or a view query is the same whatever the order in which
  Python iterates over the set of its options, errors apart: if one order succeeds, so
  does every other, with the same parameters.\<close>

theorem analytics_view_query_order:
  assumes "\<And>ks. mset (o1 ks) = mset ks" "\<And>ks. mset (o2 ks) = mset ks"
    and "\<And>v. v \<in> set options \<Longrightarrow> distinct (map fst (block_items v))"
  shows "(\<forall>q. Analytics_create_query_object fs o1 statement options kwargs = Inr q \<longrightarrow>
      (\<exists>q'. Analytics_create_query_object fs o2 statement options kwargs = Inr q' \<and> map_of q = map_of q')) \<and>
    (\<forall>q. create_view_query_object fs o1 bucket design_doc view options kwargs = Inr q \<longrightarrow>
      (\<exists>q'. create_view_query_object fs o2 bucket design_doc view options kwargs = Inr q' \<and> map_of q = map_of q'))"
proof (intro conjI allI impI)
  fix q assume a: "Analytics_create_query_object fs o1 statement options kwargs = Inr q"
  obtain args positional where qa: "query_arguments is_analytics_options options kwargs = (args, positional)"
    by fastforce
  define b where "b = AList.delete ''named_parameters'' args"
  have "distinct (map fst (block_items (snd
      (take_options is_analytics_options 0 options (PInst ''QueryOptions'' [])))))"
    by (rule block_distinct) (rule assms(3))
  from args_distinct [OF this, of kwargs] have "distinct (map fst args)" by (simp add: qa)
  then have d: "distinct (map fst b)" by (simp add: b_def distinct_keys_delete)
  obtain named pos q0 where *: "named_arguments Analytics_VALID_OPTS args = Inr named" "as_args positional = Inr pos"
    "AnalyticsQuery_init fs statement pos named = Inr q0"
    and r: "foldE (\<lambda>k. apply_option Analytics_VALID_OPTS (Analytics_setattr fs) (k, dget b k PNone))
      (o1 (filter (\<lambda>k. k \<in> fst ` set Analytics_VALID_OPTS) (map fst b)))
      (AList.update ''metrics'' (dget b ''metrics'' (PBool True)) q0) = Inr q"
    using a unfolding Analytics_create_query_object_def qa by (auto simp: bindE_eq_Inr Let_def b_def)
  from analytics_opts.build_order [where ?o1.0 = o1 and ?o2.0 = o2, OF d _ assms(1,2) r]
  show "\<exists>q'. Analytics_create_query_object fs o2 statement options kwargs = Inr q' \<and> map_of q = map_of q'"
    unfolding Analytics_create_query_object_def qa by (simp add: * Let_def b_def)
next
  fix q assume a: "create_view_query_object fs o1 bucket design_doc view options kwargs = Inr q"
  obtain opts opt where t: "take_options is_view_options 0 options (PInst ''ViewOptions'' []) = (opts, opt)"
    by fastforce
  have "distinct (map fst (block_items (snd (take_options is_view_options 0 options (PInst ''ViewOptions'' [])))))"
    by (rule block_distinct) (rule assms(3))
  then have d: "distinct (map fst (dupdate (block_items opt) kwargs))"
    by (simp add: t distinct_dupdate)
  have r: "foldE (\<lambda>k. apply_option View_VALID_OPTS (View_setattr fs) (k, dget (dupdate (block_items opt) kwargs) k PNone))
      (o1 (filter (\<lambda>k. k \<in> fst ` set View_VALID_OPTS) (map fst (dupdate (block_items opt) kwargs))))
      (ViewQuery_init bucket design_doc view) = Inr q"
    using a unfolding create_view_query_object_def t by (simp add: Let_def)
  from view_opts.build_order [where ?o1.0 = o1 and ?o2.0 = o2, OF d _ assms(1,2) r]
  show "\<exists>q'. create_view_query_object fs o2 bucket design_doc view options kwargs = Inr q' \<and> map_of q = map_of q'"
    unfolding create_view_query_object_def t by (simp add: Let_def)
qed

lemma analytics_view_query_order_witness:
  "(\<exists>q'. Analytics_create_query_object \<lparr>float_repr = \<lambda>_. [], float_parse = \<lambda>_. NaN\<rparr> rev (PStr ''s'')
        [PInst ''AnalyticsOptions'' [(''priority'', PBool True)]] [(''read_only'', PBool True)] = Inr q' \<and>
      map_of [(''statement'', PStr ''s''), (''metrics'', PBool True), (''priority'', PBool True),
        (''readonly'', PBool True)] = map_of q') \<and>
   (\<exists>q'. create_view_query_object \<lparr>float_repr = \<lambda>_. [], float_parse = \<lambda>_. NaN\<rparr> rev (PStr ''b'') (PStr ''d'') (PStr ''v'')
        [PInst ''AnalyticsOptions'' [(''priority'', PBool True)]] [(''read_only'', PBool True)] = Inr q' \<and>
      map_of [(''bucket_name'', PStr ''b''), (''document_name'', PStr ''d''), (''view_name'', PStr ''v'')] = map_of q')"
proof -
  let ?fs = "\<lparr>float_repr = \<lambda>_. [], float_parse = \<lambda>_. NaN\<rparr>"
  let ?options = "[PInst ''AnalyticsOptions'' [(''priority'', PBool True)]]"
  have 1: "Analytics_create_query_object ?fs (\<lambda>ks. ks) (PStr ''s'') ?options [(''read_only'', PBool True)] =
    Inr [(''statement'', PStr ''s''), (''metrics'', PBool True), (''priority'', PBool True), (''readonly'', PBool True)]"
    by code_simp
  have 2: "create_view_query_object ?fs (\<lambda>ks. ks) (PStr ''b'') (PStr ''d'') (PStr ''v'') ?options
      [(''read_only'', PBool True)] =
    Inr [(''bucket_name'', PStr ''b''), (''document_name'', PStr ''d''), (''view_name'', PStr ''v'')]"
    by code_simp
  have d: "distinct (map fst (block_items v))" if "v \<in> set ?options" for v using that by simp
  note order = analytics_view_query_order [where ?o1.0 = "\<lambda>ks. ks" and ?o2.0 = rev and options = ?options, OF refl _ d]
  show ?thesis
    using order [of ?fs "PStr ''s''" "[(''read_only'', PBool True)]" "PStr ''b''" "PStr ''d''" "PStr ''v''"] 1 2
    by simp
qed

text \<open>The enumerated options of a view query read back what was set, for every member of
  their enumerations.  The namespace is set by its member only: the texts that the
  error message offers are refused.\<close>

theorem view_enumerations_roundtrip:
  "(\<forall>m \<in> set ViewScanConsistency. map_sum id View_consistency_getter (View_consistency_setter m p) = Inr m) \<and>
   (\<forall>m \<in> set ViewOrdering. map_sum id View_order_getter (View_order_setter m p) = Inr m) \<and>
   (\<forall>m \<in> set ViewErrorMode. map_sum id View_on_error_getter (View_on_error_setter m p) = Inr m) \<and>
   (\<forall>m \<in> set DesignDocumentNamespace. map_sum id View_namespace_getter (View_namespace_setter m p) = Inr m) \<and>
   View_namespace_setter (PStr s) p = Inl InvalidArgumentException"
  by (simp add: ViewScanConsistency_def ViewOrdering_def ViewErrorMode_def DesignDocumentNamespace_def
      View_consistency_setter_def View_consistency_getter_def View_order_setter_def View_order_getter_def
      View_on_error_setter_def View_on_error_getter_def View_namespace_setter_def View_namespace_getter_def
      set_member_def set_option_def dict_simps)

lemma view_enumerations_witness:
  "map_sum id View_order_getter (View_order_setter (PEnum ''ViewOrdering'' ''ASCENDING'' ''false'') []) =
     Inr (PEnum ''ViewOrdering'' ''ASCENDING'' ''false'')"
  using view_enumerations_roundtrip [of "[]"] by (simp only: ViewOrdering_def set_simps ball_simps)

end
