(* ===== verification/Streaming.thy ===== *)
theory Streaming
  imports Query_Base
begin

text \<open>
  Reading the rows of a query, \<open>couchbase/n1ql.py\<close>, \<open>analytics.py\<close>, \<open>search.py\<close> and
  \<open>views.py\<close> with their request logic under \<open>couchbase/logic/\<close>, and of a range scan,
  \<open>kv_range_scan.py\<close>.  A request is a state machine: created, streaming, done.

  The iterator of the core is the list of the things that it will still do, one for each
  call of \<open>next\<close>: yield an item, signal its end, or raise.  After the last of them it
  signals its end for good.  The four query requests run the same code around their own
  treatment of a row and of the final response, which are the arguments \<open>row\<close> and \<open>meta\<close>;
  the locale \<open>row_request\<close> is what they rely on.
\<close>

subsection \<open>The iterator of the core\<close>

datatype item = Row tval | NoRow | ErrorItem base_exc | Response kwargs

datatype event = Yield item | EndSignal | Raises exc

fun next_event :: "event list option \<Rightarrow> item res \<times> event list option" where
  "next_event None = (Inl TypeError, None)"
| "next_event (Some []) = (Inl StopIteration, Some [])"
| "next_event (Some (Yield i # es)) = (Inr i, Some es)"
| "next_event (Some (EndSignal # es)) = (Inl StopIteration, Some es)"
| "next_event (Some (Raises e # es)) = (Inl e, Some es)"

definition core_error :: "py_floats \<Rightarrow> (tval \<Rightarrow> ustr) \<Rightarrow> base_exc \<Rightarrow> exc" where
  "core_error fs so base =
     (case build_exception fs so base None of Inl e \<Rightarrow> e | Inr c \<Rightarrow> exc_of_class c)"

subsection \<open>The request\<close>

record 'm request =
  started_streaming :: bool
  done_streaming :: bool
  streaming_result :: "event list option"
  metadata :: "'m option"

definition new_request :: "'m request" where
  "new_request = \<lparr>started_streaming = False, done_streaming = False, streaming_result = None, metadata = None\<rparr>"

text \<open>
  The keyword arguments of the call into the core: the query, the timeout of the options
  or else the default one, and the callbacks of the asynchronous variants.
\<close>

definition optional_kwarg :: "string \<Rightarrow> pyval \<Rightarrow> pydict" where
  "optional_kwarg k v = (if truthy v then [(k, v)] else [])"

definition N1QL_submit_kwargs :: "pyval \<Rightarrow> pydict \<Rightarrow> pyval \<Rightarrow> pyval \<Rightarrow> pyval \<Rightarrow> pydict" where
  "N1QL_submit_kwargs conn params default_timeout callback errback =
     [(''conn'', conn), (''query_args'', pdict params)] @
     optional_kwarg ''streaming_timeout'' (dget params ''timeout'' default_timeout) @
     optional_kwarg ''callback'' callback @ optional_kwarg ''errback'' errback"

definition Analytics_submit_kwargs :: "pyval \<Rightarrow> pydict \<Rightarrow> pyval \<Rightarrow> pyval \<Rightarrow> pyval \<Rightarrow> pydict" where
  "Analytics_submit_kwargs conn params default_timeout callback errback =
     dupdate (dupdate [(''conn'', conn)] params)
       (optional_kwarg ''streaming_timeout'' (dget params ''timeout'' default_timeout) @
        optional_kwarg ''callback'' callback @ optional_kwarg ''errback'' errback)"

definition Search_submit_kwargs ::
  "pyval \<Rightarrow> pydict \<Rightarrow> pyval \<Rightarrow> pyval \<Rightarrow> pyval \<Rightarrow> pyval \<Rightarrow> pyval \<Rightarrow> pydict" where
  "Search_submit_kwargs conn encoded_query default_timeout bucket scope callback errback =
     (let span = dget encoded_query ''span'' PNone;
          op_args = AList.delete ''span'' encoded_query;
          op_args = (if bucket \<noteq> PNone \<and> scope \<noteq> PNone
                     then AList.update ''scope_name'' scope (AList.update ''bucket_name'' bucket op_args)
                     else op_args)
      in [(''conn'', conn), (''op_args'', pdict op_args)] @ optional_kwarg ''span'' span @
         optional_kwarg ''streaming_timeout'' (dget op_args ''timeout'' default_timeout) @
         optional_kwarg ''callback'' callback @ optional_kwarg ''errback'' errback)"

definition View_submit_kwargs :: "pyval \<Rightarrow> pydict \<Rightarrow> pyval \<Rightarrow> pyval \<Rightarrow> pyval \<Rightarrow> pydict" where
  "View_submit_kwargs conn encoded_query default_timeout callback errback =
     (let span = dget encoded_query ''span'' PNone; op_args = AList.delete ''span'' encoded_query
      in [(''conn'', conn), (''op_args'', pdict op_args)] @ optional_kwarg ''span'' span @
         optional_kwarg ''streaming_timeout'' (dget op_args ''timeout'' default_timeout) @
         optional_kwarg ''callback'' callback @ optional_kwarg ''errback'' errback)"

text \<open>\<open>backend\<close> is the call into the core with those arguments.\<close>

definition submit_query :: "event list res \<Rightarrow> ('m request, unit) action" where
  "submit_query backend r =
     (if done_streaming r then (Inr (), r)
      else (case backend of
              Inl e \<Rightarrow> (Inl e, r\<lparr>started_streaming := True\<rparr>)
            | Inr es \<Rightarrow> (Inr (), r\<lparr>started_streaming := True, streaming_result := Some es\<rparr>)))"

definition request_iter :: "event list res \<Rightarrow> ('m request, unit) action" where
  "request_iter backend r =
     (if done_streaming r then (Inl AlreadyQueriedException, r)
      else if \<not> started_streaming r then submit_query backend r
      else (Inr (), r))"

definition set_metadata :: "(base_exc \<Rightarrow> exc) \<Rightarrow> (item \<Rightarrow> 'm res) \<Rightarrow> item \<Rightarrow> ('m request, unit) action" where
  "set_metadata mk meta response r =
     (case response of
        ErrorItem b \<Rightarrow> (Inl (mk b), r)
      | _ \<Rightarrow> (case meta response of Inl e \<Rightarrow> (Inl e, r) | Inr m \<Rightarrow> (Inr (), r\<lparr>metadata := Some m\<rparr>)))"

definition get_metadata :: "(base_exc \<Rightarrow> exc) \<Rightarrow> (item \<Rightarrow> 'm res) \<Rightarrow> ('m request, unit) action" where
  "get_metadata mk meta r =
     (let (x, s) = next_event (streaming_result r); r = r\<lparr>streaming_result := s\<rparr>
      in case x of
           Inl e \<Rightarrow> (boundary (Inl e), r)
         | Inr response \<Rightarrow> (let (y, r) = set_metadata mk meta response r in (boundary y, r)))"

text \<open>\<open>Inr None\<close> is the \<open>None\<close> that the code returns once the request is done.\<close>

definition get_next_row ::
  "(base_exc \<Rightarrow> exc) \<Rightarrow> (item \<Rightarrow> 'r res) \<Rightarrow> ('m request, 'r option) action" where
  "get_next_row mk row r =
     (if done_streaming r then (Inr None, r)
      else (let (x, s) = next_event (streaming_result r);
                (x, s) = (if x = Inl StopIteration then next_event s else (x, s));
                r = r\<lparr>streaming_result := s\<rparr>
            in case x of
                 Inl e \<Rightarrow> (Inl e, r)
               | Inr (ErrorItem b) \<Rightarrow> (Inl (mk b), r)
               | Inr NoRow \<Rightarrow> (Inl StopIteration, r)
               | Inr i \<Rightarrow> (case row i of Inl e \<Rightarrow> (Inl e, r) | Inr v \<Rightarrow> (Inr (Some v), r))))"

definition request_next ::
  "(base_exc \<Rightarrow> exc) \<Rightarrow> (item \<Rightarrow> 'r res) \<Rightarrow> (item \<Rightarrow> 'm res) \<Rightarrow> ('m request, 'r option) action" where
  "request_next mk row meta r =
     (case get_next_row mk row r of
        (Inr v, r) \<Rightarrow> (Inr v, r)
      | (Inl e, r) \<Rightarrow>
          if e = StopIteration
          then (case get_metadata mk meta (r\<lparr>done_streaming := True\<rparr>) of
                  (Inl e, r) \<Rightarrow> (Inl e, r)
                | (Inr _, r) \<Rightarrow> (Inl StopIteration, r))
          else (boundary (Inl e), r))"

text \<open>\<open>[r for r in list(self)]\<close>: the loop ends with the first exception; \<open>StopIteration\<close> is its normal end.\<close>

fun drain ::
  "nat \<Rightarrow> (base_exc \<Rightarrow> exc) \<Rightarrow> (item \<Rightarrow> 'r res) \<Rightarrow> (item \<Rightarrow> 'm res) \<Rightarrow> 'r option list \<Rightarrow> 'm request
     \<Rightarrow> ('r option list res \<times> 'm request) option" where
  "drain 0 mk row meta rows r = None"
| "drain (Suc n) mk row meta rows r =
     (case request_next mk row meta r of
        (Inr v, r) \<Rightarrow> drain n mk row meta (rows @ [v]) r
      | (Inl e, r) \<Rightarrow> Some (if e = StopIteration then Inr rows else Inl e, r))"

definition request_execute ::
  "nat \<Rightarrow> (base_exc \<Rightarrow> exc) \<Rightarrow> (item \<Rightarrow> 'r res) \<Rightarrow> (item \<Rightarrow> 'm res) \<Rightarrow> event list res \<Rightarrow> 'm request
     \<Rightarrow> ('r option list res \<times> 'm request) option" where
  "request_execute fuel mk row meta backend r =
     (case request_iter backend r of
        (Inl e, r) \<Rightarrow> Some (Inl e, r)
      | (Inr _, r) \<Rightarrow> drain fuel mk row meta [] r)"

subsection \<open>Rows and responses of the four services\<close>

definition json_loads :: "py_floats \<Rightarrow> tval \<Rightarrow> tval res" where
  "json_loads fs v = (case v of TStr s \<Rightarrow> loads fs s
     | TBytes _ \<Rightarrow> bindE (decode_utf8 v) (loads fs) | TBytearray _ \<Rightarrow> bindE (decode_utf8 v) (loads fs)
     | _ \<Rightarrow> Inl TypeError)"

fun dict_kwargs :: "tval \<Rightarrow> kwargs res" where
  "dict_kwargs (TDict d) = mapE (\<lambda>(k, v). case k of TStr s \<Rightarrow> Inr (map char_of s, v) | _ \<Rightarrow> Inl TypeError) d"
| "dict_kwargs _ = Inl AttributeError"

definition response_value :: "item \<Rightarrow> tval res" where
  "response_value i = (case i of Response raw_result \<Rightarrow> Inr (kget raw_result ''value'') | _ \<Rightarrow> Inl AttributeError)"

text \<open>A metadata entry that holds JSON text is replaced by its value.  The names in these
  dictionaries are ASCII.\<close>

definition parse_entry :: "py_floats \<Rightarrow> string \<Rightarrow> kwargs \<Rightarrow> kwargs res" where
  "parse_entry fs name raw =
     (case kget raw name of TNone \<Rightarrow> Inr raw
      | t \<Rightarrow> bindE (json_loads fs t) (\<lambda>v. Inr (AList.update name v raw)))"

definition QueryMetaData_init :: "py_floats \<Rightarrow> tval \<Rightarrow> kwargs option res" where
  "QueryMetaData_init fs raw =
     (if raw = TNone then Inr None
      else bindE (dict_kwargs raw) (\<lambda>d. bindE (dict_kwargs (kget d ''metadata'')) (\<lambda>m.
           bindE (parse_entry fs ''signature'' m) (\<lambda>m. bindE (parse_entry fs ''profile'' m) (\<lambda>m. Inr (Some m))))))"

definition AnalyticsMetaData_init :: "py_floats \<Rightarrow> tval \<Rightarrow> kwargs option res" where
  "AnalyticsMetaData_init fs raw =
     (if raw = TNone then Inr None
      else bindE (dict_kwargs raw) (\<lambda>d. bindE (dict_kwargs (kget d ''metadata'')) (\<lambda>m.
           bindE (parse_entry fs ''signature'' m) (\<lambda>m. Inr (Some m)))))"

definition ViewMetaData_init :: "tval \<Rightarrow> tval res" where
  "ViewMetaData_init raw =
     (if raw = TNone then Inr TNone else bindE (dict_kwargs raw) (\<lambda>d. Inr (kget d ''metadata'')))"

definition N1QL_row :: "serializer \<Rightarrow> item \<Rightarrow> tval res" where
  "N1QL_row ser i = (case i of Row t \<Rightarrow> deserialize ser t | _ \<Rightarrow> deserialize ser (TObject 0))"

definition Analytics_row :: "serializer \<Rightarrow> item \<Rightarrow> tval res" where
  "Analytics_row ser i = (case i of Row t \<Rightarrow> deserialize ser t | _ \<Rightarrow> deserialize ser (TObject 0))"

definition N1QL_meta :: "py_floats \<Rightarrow> item \<Rightarrow> kwargs option res" where
  "N1QL_meta fs i = bindE (response_value i) (QueryMetaData_init fs)"

definition Analytics_meta :: "py_floats \<Rightarrow> item \<Rightarrow> kwargs option res" where
  "Analytics_meta fs i = bindE (response_value i) (AnalyticsMetaData_init fs)"

text \<open>\<open>ViewRow.from_json\<close>; a \<open>row_factory\<close> that is no class makes \<open>issubclass\<close> raise.\<close>

record view_row =
  vr_key :: tval
  vr_id :: tval
  vr_value :: tval
  vr_document :: tval

definition ViewRow_from_json :: "py_floats \<Rightarrow> tval \<Rightarrow> view_row res" where
  "ViewRow_from_json fs json_data =
     bindE (dict_kwargs json_data) (\<lambda>d.
     bindE (if map_of d ''key'' = None then Inr TNone else json_loads fs (kget d ''key'')) (\<lambda>key.
     bindE (if map_of d ''value'' = None then Inr TNone else json_loads fs (kget d ''value'')) (\<lambda>val.
       Inr \<lparr>vr_key = key, vr_id = kget d ''id'', vr_value = val, vr_document = TNone\<rparr>)))"

datatype row_factory = RowClass | OtherClass | NoClass

datatype view_result = ViewObject view_row | RawRow tval

definition View_row :: "py_floats \<Rightarrow> row_factory \<Rightarrow> item \<Rightarrow> view_result res" where
  "View_row fs factory i =
     (let t = (case i of Row t \<Rightarrow> t | _ \<Rightarrow> TObject 0)
      in case factory of
           RowClass \<Rightarrow> bindE (ViewRow_from_json fs t) (\<lambda>v. Inr (ViewObject v))
         | OtherClass \<Rightarrow> Inr (RawRow t)
         | NoClass \<Rightarrow> Inl TypeError)"

definition View_meta :: "item \<Rightarrow> tval res" where
  "View_meta i = bindE (response_value i) ViewMetaData_init"


text \<open>What the iterator has left to do.\<close>

definition events_left :: "'m request \<Rightarrow> nat" where
  "events_left r = (case streaming_result r of None \<Rightarrow> 0 | Some es \<Rightarrow> length es)"

definition pending :: "event list option \<Rightarrow> nat" where
  "pending s = (case s of None \<Rightarrow> 0 | Some es \<Rightarrow> length es)"

lemma next_pending:
  assumes "next_event s = (x, s')"
  shows "pending s' \<le> pending s" "x = Inr i \<Longrightarrow> pending s' < pending s"
  using assms by (cases s rule: next_event.cases; auto simp: pending_def)+

subsection \<open>The contract of a row request\<close>

text \<open>
  What the services rely on: neither the error that is built for an error item nor the
  treatment of a row raises \<open>StopIteration\<close>, which would end the rows silently.
\<close>

locale row_request =
  fixes mk :: "base_exc \<Rightarrow> exc" and row :: "item \<Rightarrow> 'r res" and meta :: "item \<Rightarrow> 'm res"
  assumes error_no_stop: "mk b \<noteq> StopIteration"
    and row_no_stop: "row i \<noteq> Inl StopIteration"
begin

lemma next_done: "done_streaming r \<Longrightarrow> request_next mk row meta r = (Inr None, r)"
  by (simp add: request_next_def get_next_row_def)

lemma next_row:
  assumes "\<not> done_streaming r" "streaming_result r = Some (Yield (Row t) # es)" "row (Row t) = Inr v"
  shows "request_next mk row meta r = (Inr (Some v), r\<lparr>streaming_result := Some es\<rparr>)"
  using assms by (simp add: request_next_def get_next_row_def)

lemma next_end:
  assumes "\<not> done_streaming r" "streaming_result r = Some (Yield NoRow # Yield (Response kw) # es)"
    and "meta (Response kw) = Inr m"
  shows "request_next mk row meta r =
    (Inl StopIteration, r\<lparr>done_streaming := True, streaming_result := Some es, metadata := Some m\<rparr>)"
  using assms by (simp add: request_next_def get_next_row_def get_metadata_def set_metadata_def boundary_def Let_def)

lemma metadata_sdk:
  assumes "get_metadata mk meta r = (Inl e, r')"
  shows "is_couchbase_exc e"
proof -
  obtain x s where 1: "next_event (streaming_result r) = (x, s)" by fastforce
  show ?thesis
  proof (cases x)
    case (Inl d)
    then have "boundary (Inl d :: unit res) = Inl e" using assms by (simp add: get_metadata_def 1 Let_def)
    then show ?thesis by (rule boundary_sdk)
  next
    case (Inr i)
    obtain y r2 where "set_metadata mk meta i (r\<lparr>streaming_result := s\<rparr>) = (y, r2)" by fastforce
    then have "boundary y = Inl e" using assms Inr by (simp add: get_metadata_def 1 Let_def)
    then show ?thesis by (rule boundary_sdk)
  qed
qed

lemma metadata_done: "get_metadata mk meta r = (y, r') \<Longrightarrow> done_streaming r' = done_streaming r"
  by (cases "next_event (streaming_result r)")
    (auto simp: get_metadata_def set_metadata_def Let_def split: sum.splits item.splits)

lemma next_sdk:
  assumes "request_next mk row meta r = (Inl e, r')"
  shows "is_couchbase_exc e \<or> e = StopIteration \<and> done_streaming r'"
proof -
  obtain x r1 where 1: "get_next_row mk row r = (x, r1)" by fastforce
  obtain y r2 where 2: "get_metadata mk meta (r1\<lparr>done_streaming := True\<rparr>) = (y, r2)" by fastforce
  show ?thesis
  proof (cases x)
    case (Inl d)
    show ?thesis
    proof (cases "d = StopIteration")
      case True
      then have "y = Inl e \<or> e = StopIteration \<and> r' = r2"
        using assms Inl by (auto simp: request_next_def 1 2 split: sum.splits)
      then show ?thesis using metadata_sdk 2 metadata_done [OF 2] by auto
    next
      case False
      then have "boundary (Inl d :: 'r option res) = Inl e" using assms Inl by (simp add: request_next_def 1)
      then show ?thesis using boundary_sdk by blast
    qed
  qed (use assms in \<open>simp add: request_next_def 1\<close>)
qed

lemma drain_rows:
  assumes "\<not> done_streaming r" "streaming_result r = Some (map (\<lambda>t. Yield (Row t)) ts @ [Yield NoRow, Yield (Response kw)])"
    and "mapE (\<lambda>t. row (Row t)) ts = Inr vs" "meta (Response kw) = Inr m" "length ts < n"
  shows "drain n mk row meta acc r = Some (Inr (acc @ map Some vs),
    r\<lparr>done_streaming := True, streaming_result := Some [], metadata := Some m\<rparr>)"
  using assms
proof (induction ts arbitrary: n acc r vs)
  case Nil
  then obtain n' where "n = Suc n'" by (cases n) auto
  then show ?case using next_end [of r kw "[]" m] Nil by simp
next
  case (Cons t ts)
  then obtain n' where n: "n = Suc n'" by (cases n) auto
  from Cons.prems(3) obtain v ws where v: "row (Row t) = Inr v" "mapE (\<lambda>t. row (Row t)) ts = Inr ws" "vs = v # ws"
    by (auto simp: bindE_eq_Inr)
  show ?case
    using Cons.IH [of "r\<lparr>streaming_result := Some (map (\<lambda>t. Yield (Row t)) ts @ [Yield NoRow, Yield (Response kw)])\<rparr>"
        ws n' "acc @ [Some v]"] next_row [OF Cons.prems(1) _ v(1)] Cons.prems v n
    by simp
qed

lemma row_takes:
  assumes "\<not> done_streaming r" "get_next_row mk row r = (Inr v, r')"
  shows "events_left r' < events_left r \<and> \<not> done_streaming r'"
proof -
  obtain x s where 1: "next_event (streaming_result r) = (x, s)" by fastforce
  obtain x2 s2 where 2: "next_event s = (x2, s2)" by fastforce
  define y where "y = (if x = Inl StopIteration then x2 else x)"
  define u where "u = (if x = Inl StopIteration then s2 else s)"
  have g: "get_next_row mk row r = (case y of
                 Inl e \<Rightarrow> (Inl e, r\<lparr>streaming_result := u\<rparr>)
               | Inr (ErrorItem b) \<Rightarrow> (Inl (mk b), r\<lparr>streaming_result := u\<rparr>)
               | Inr NoRow \<Rightarrow> (Inl StopIteration, r\<lparr>streaming_result := u\<rparr>)
               | Inr i \<Rightarrow> (case row i of Inl e \<Rightarrow> (Inl e, r\<lparr>streaming_result := u\<rparr>)
                   | Inr v \<Rightarrow> (Inr (Some v), r\<lparr>streaming_result := u\<rparr>)))"
  proof (cases "x = Inl StopIteration")
    case True
    then have e: "y = x2" "u = s2" by (simp_all add: y_def u_def)
    show ?thesis unfolding e using assms(1) True by (simp add: get_next_row_def 1 2 Let_def)
  next
    case False
    then have e: "y = x" "u = s" by (simp_all add: y_def u_def)
    show ?thesis unfolding e using assms(1) False by (simp add: get_next_row_def 1 Let_def)
  qed
  then obtain i where i: "y = Inr i" using assms(2) by (cases y) auto
  then have r': "r' = r\<lparr>streaming_result := u\<rparr>"
    using g assms(2) by (cases i) (auto split: sum.splits)
  have "pending u < pending (streaming_result r)"
  proof (cases "x = Inl StopIteration")
    case True
    then have "x2 = Inr i" "u = s2" using i by (simp_all add: y_def u_def)
    then show ?thesis using next_pending(1) [OF 1] next_pending(2) [OF 2] by fastforce
  next
    case False
    then have "x = Inr i" "u = s" using i by (simp_all add: y_def u_def)
    then show ?thesis using next_pending(2) [OF 1] by simp
  qed
  then show ?thesis using r' assms(1) by (simp add: events_left_def pending_def)
qed

lemma next_takes:
  assumes "\<not> done_streaming r" "request_next mk row meta r = (Inr v, r')"
  shows "events_left r' < events_left r \<and> \<not> done_streaming r'"
proof -
  obtain x r1 where 1: "get_next_row mk row r = (x, r1)" by fastforce
  have "x = Inr v \<and> r' = r1"
    using assms(2) by (cases x) (auto simp: request_next_def 1 boundary_def split: if_splits prod.splits sum.splits)
  then show ?thesis using row_takes [OF assms(1)] 1 by blast
qed

lemma drain_ends:
  assumes "\<not> done_streaming r" "events_left r < n"
  shows "\<exists>x. drain n mk row meta acc r = Some x"
  using assms
proof (induction n arbitrary: r acc)
  case (Suc n)
  obtain x r1 where 1: "request_next mk row meta r = (x, r1)" by fastforce
  show ?case
  proof (cases x)
    case (Inr v)
    then have "events_left r1 < events_left r \<and> \<not> done_streaming r1" using next_takes [OF Suc.prems(1)] 1 by blast
    then show ?thesis using Suc.IH [of r1 "acc @ [v]"] Suc.prems(2) 1 Inr by simp
  qed (simp add: 1)
qed simp

end

subsection \<open>The four services\<close>

text \<open>All that \<open>ErrorMapper\<close> itself raises is an \<open>AttributeError\<close> or a \<open>TypeError\<close>.\<close>

definition type_errors :: "'a res \<Rightarrow> bool" where
  "type_errors r \<longleftrightarrow> (\<forall>e. r = Inl e \<longrightarrow> e = AttributeError \<or> e = TypeError)"

lemma type_errors_basic [intro]:
  "type_errors (Inr x)" "type_errors (Inl AttributeError)" "type_errors (Inl TypeError)"
  by (simp_all add: type_errors_def)

lemma type_errors_bind [intro]: "type_errors m \<Longrightarrow> (\<And>x. type_errors (f x)) \<Longrightarrow> type_errors (bindE m f)"
  by (auto simp: type_errors_def bindE_eq_Inl)

lemma type_errors_if [intro]: "type_errors a \<Longrightarrow> type_errors b \<Longrightarrow> type_errors (if c then a else b)"
  by simp

lemma type_errors_first [intro]: "type_errors b \<Longrightarrow> type_errors (first_some a b)"
  by (simp add: first_some_def type_errors_def split: option.splits)

lemma type_errors_parts [intro]:
  "type_errors (is_null_or_empty_text v)" "type_errors (dict_get v k)"
  by (auto simp: is_null_or_empty_text_def dict_get_def type_errors_def split: tval.splits if_splits)

lemma type_errors_match [intro]: "type_errors (match_errors so m errs)"
  by (induction errs) (auto intro!: type_errors_bind split: option.split)

lemma type_errors_name: "type_errors (bindE (dict_get v k) (\<lambda>t. if t \<noteq> TNone then Inr (f t) else Inr None))"
  by blast

lemma type_errors_errors: "type_errors (case v of TList errs \<Rightarrow> match_errors so m errs
    | _ \<Rightarrow> bindE (dict_get v k) (\<lambda>t. if t \<noteq> TNone then Inr (f t) else Inr None))"
  by (cases v) (simp_all add: type_errors_name type_errors_match)

lemma type_errors_body [intro]: "type_errors (parse_http_response_body fs so m body)"
  unfolding parse_http_response_body_def
proof (intro type_errors_bind)
  show "type_errors (case body of TStr s \<Rightarrow> (case loads fs s of Inr v \<Rightarrow> Inr (Some v) | Inl e \<Rightarrow> Inr None)
            | _ \<Rightarrow> Inl TypeError)"
    by (auto simp: type_errors_def split: tval.splits sum.splits)
  have d: "type_errors (bindE (dict_get (TDict d) ''errors'') (\<lambda>errors.
             if errors \<noteq> TNone then
               (case errors of
                  TList errs \<Rightarrow> match_errors so m errs
                | _ \<Rightarrow> bindE (dict_get errors ''name'') (\<lambda>err_text.
                    if err_text \<noteq> TNone then Inr (process_mapping m err_text) else Inr None))
             else bindE (dict_get (TDict d) ''name'') (\<lambda>name.
               if name \<noteq> TNone then Inr (process_mapping m name) else Inr None)))" for d
    by (intro type_errors_bind type_errors_parts type_errors_if type_errors_errors type_errors_name) auto
  show "type_errors (case loaded of
         None \<Rightarrow> Inr None
       | Some (TStr s) \<Rightarrow> Inr (process_mapping m (TStr s))
       | Some (TDict d) \<Rightarrow>
           bindE (dict_get (TDict d) ''errors'') (\<lambda>errors.
             if errors \<noteq> TNone then
               (case errors of
                  TList errs \<Rightarrow> match_errors so m errs
                | _ \<Rightarrow> bindE (dict_get errors ''name'') (\<lambda>err_text.
                    if err_text \<noteq> TNone then Inr (process_mapping m err_text) else Inr None))
             else bindE (dict_get (TDict d) ''name'') (\<lambda>name.
               if name \<noteq> TNone then Inr (process_mapping m name) else Inr None))
       | Some _ \<Rightarrow> Inr None)" for loaded
    using d by (auto split: option.split tval.split)
qed

lemma type_errors_http [intro]: "type_errors (parse_http_context fs so ctx mapping info)"
  unfolding parse_http_context_def Let_def by blast

lemma type_errors_kv [intro]: "type_errors (parse_kv_context ctx m v)"
  unfolding parse_kv_context_def
  by (intro type_errors_bind type_errors_parts type_errors_first) (auto split: tval.split)

lemma type_errors_context [intro]: "type_errors (ErrorContext_from_dict kw)"
  by (auto simp: ErrorContext_from_dict_def type_errors_def split: option.splits tval.splits)

lemma type_errors_build: "type_errors (build_exception fs so base m)"
  unfolding build_exception_def
  by (cases "error_ctx base") (simp_all, blast+)

lemma build_no_stop: "build_exception fs so base m = Inl e \<Longrightarrow> e \<noteq> StopIteration"
  using type_errors_build [of fs so base m] by (auto simp: type_errors_def)

lemma core_error_no_stop: "core_error fs so b \<noteq> StopIteration"
  using build_no_stop exc_of_class_sdk
  by (auto simp: core_error_def is_couchbase_exc_def split: sum.splits)

lemma default_no_stop: "deserialize (DefaultJsonSerializer fs) v \<noteq> Inl StopIteration"
  by (auto simp: DefaultJsonSerializer_def DefaultJsonSerializer_deserialize_def decode_utf8_def loads_def
      bindE_eq_Inl split: tval.splits option.splits if_splits prod.splits)

interpretation n1ql: row_request "core_error fs so" "N1QL_row (DefaultJsonSerializer fs)" "N1QL_meta fs"
  for fs so
  by unfold_locales (simp_all add: core_error_no_stop N1QL_row_def default_no_stop split: item.split)

interpretation analytics: row_request "core_error fs so" "Analytics_row (DefaultJsonSerializer fs)" "Analytics_meta fs"
  for fs so
  by unfold_locales (simp_all add: core_error_no_stop Analytics_row_def default_no_stop split: item.split)

lemma json_loads_no_stop: "json_loads fs v \<noteq> Inl StopIteration"
  by (auto simp: json_loads_def decode_utf8_def loads_def bindE_eq_Inl
      split: tval.splits option.splits if_splits prod.splits)

lemma mapE_no: "(\<And>x. x \<in> set xs \<Longrightarrow> f x \<noteq> Inl e) \<Longrightarrow> mapE f xs \<noteq> Inl e"
  by (induction xs) (auto simp: bindE_eq_Inl)

lemma dict_kwargs_no_stop: "dict_kwargs v \<noteq> Inl StopIteration"
  by (cases v) (auto intro!: mapE_no split: tval.splits)

interpretation views: row_request "core_error fs so" "View_row fs factory" View_meta for fs so factory
proof
  show "View_row fs factory i \<noteq> Inl StopIteration" for i
    using json_loads_no_stop dict_kwargs_no_stop
    by (cases factory) (auto simp: View_row_def ViewRow_from_json_def bindE_eq_Inl split: if_splits)
qed (rule core_error_no_stop)


subsection \<open>Range scans\<close>

text \<open>
  \<open>RangeScanRequest\<close>: the iterator of the core raises \<open>RangeScanCompletedException\<close>, or
  delivers an error of that class, when the scan is complete.  An item is the raw result
  of one document.
\<close>

definition ScanTerm_init :: "pyval \<Rightarrow> pyval \<Rightarrow> pydict res" where
  "ScanTerm_init t exclusive =
     (if is_str t then Inr [(''_term'', t), (''_exclusive'', exclusive)] else Inl InvalidArgumentException)"

definition ScanTerm_to_dict :: "pydict \<Rightarrow> pydict" where
  "ScanTerm_to_dict t = [(''term'', dget t ''_term'' PNone), (''exclusive'', dget t ''_exclusive'' PNone)]"

record scan_request =
  scan_started :: bool
  scan_done :: bool
  scan_iterator :: "event list option"
  scan_cancelled :: bool
  scan_ids_only :: bool

definition RangeScanRequest_init :: "bool \<Rightarrow> bool \<Rightarrow> scan_request res" where
  "RangeScanRequest_init has_transcoder ids_only =
     (if \<not> has_transcoder then Inl InvalidArgumentException
      else Inr \<lparr>scan_started = False, scan_done = False, scan_iterator = None, scan_cancelled = False,
             scan_ids_only = ids_only\<rparr>)"

definition submit_scan :: "event list res \<Rightarrow> (scan_request, unit) action" where
  "submit_scan backend r =
     (if scan_done r then (Inr (), r)
      else (case backend of
              Inl e \<Rightarrow> (Inl e, r\<lparr>scan_started := True\<rparr>)
            | Inr es \<Rightarrow> (Inr (), r\<lparr>scan_started := True, scan_iterator := Some es\<rparr>)))"

definition scan_iter :: "event list res \<Rightarrow> (scan_request, unit) action" where
  "scan_iter backend r =
     (if scan_done r then (Inl AlreadyQueriedException, r)
      else if \<not> scan_started r then submit_scan backend r
      else (Inr (), r))"

definition cancel_scan :: "(scan_request, unit) action" where
  "cancel_scan r =
     (case scan_iterator r of
        None \<Rightarrow> (Inl AttributeError, r)
      | Some _ \<Rightarrow> (Inr (), if \<not> scan_cancelled r then r\<lparr>scan_cancelled := True\<rparr> else r))"

definition flags_of :: "tval \<Rightarrow> int option" where
  "flags_of v = (case v of TInt i \<Rightarrow> Some i | _ \<Rightarrow> None)"

definition scan_get_next_row ::
  "(base_exc \<Rightarrow> exc) \<Rightarrow> decoder \<Rightarrow> (scan_request, (kwargs \<times> bool) option) action" where
  "scan_get_next_row mk decode r =
     (if scan_done r then (Inr None, r)
      else (let (x, s) = next_event (scan_iterator r); r = r\<lparr>scan_iterator := s\<rparr>
            in case x of
                 Inl e \<Rightarrow> (Inl e, r)
               | Inr (ErrorItem b) \<Rightarrow> (Inl (mk b), r)
               | Inr (Response raw_result) \<Rightarrow>
                   (let v = kget raw_result ''value''
                    in if utruthy v
                       then (case decode_value decode (Document v) (flags_of (kget raw_result ''flags'')) of
                               Inr (Document w) \<Rightarrow> (Inr (Some (AList.update ''value'' w raw_result, scan_ids_only r)), r)
                             | Inr (Fields _) \<Rightarrow> (Inl TypeError, r)
                             | Inl e \<Rightarrow> (Inl e, r))
                       else (Inr (Some (raw_result, scan_ids_only r)), r))
               | Inr _ \<Rightarrow> (Inl AttributeError, r)))"

definition scan_next ::
  "(base_exc \<Rightarrow> exc) \<Rightarrow> decoder \<Rightarrow> (scan_request, (kwargs \<times> bool) option) action" where
  "scan_next mk decode r =
     (case scan_get_next_row mk decode r of
        (Inr v, r) \<Rightarrow> (Inr v, r)
      | (Inl e, r) \<Rightarrow>
          if e = RangeScanCompletedException \<or> e = StopIteration
          then (Inl StopIteration, r\<lparr>scan_done := True\<rparr>)
          else (boundary (Inl e), r))"


text \<open>The loop over the documents of a scan.\<close>

fun scan_drain ::
  "nat \<Rightarrow> (base_exc \<Rightarrow> exc) \<Rightarrow> decoder \<Rightarrow> (kwargs \<times> bool) option list \<Rightarrow> scan_request
     \<Rightarrow> ((kwargs \<times> bool) option list res \<times> scan_request) option" where
  "scan_drain 0 mk decode rows r = None"
| "scan_drain (Suc n) mk decode rows r =
     (case scan_next mk decode r of
        (Inr v, r) \<Rightarrow> scan_drain n mk decode (rows @ [v]) r
      | (Inl e, r) \<Rightarrow> Some (if e = StopIteration then Inr rows else Inl e, r))"

definition decoded_scan :: "decoder \<Rightarrow> kwargs \<Rightarrow> kwargs res" where
  "decoded_scan decode raw_result =
     (if utruthy (kget raw_result ''value'')
      then bindE (decode (kget raw_result ''value'') (flags_of (kget raw_result ''flags''))) (\<lambda>w.
             Inr (AList.update ''value'' w raw_result))
      else Inr raw_result)"

lemma scan_drain_rows:
  assumes "\<not> scan_done r" "scan_iterator r = Some (map (\<lambda>d. Yield (Response d)) raws @ [Yield (ErrorItem b)])"
    and "mk b = RangeScanCompletedException" "mapE (decoded_scan decode) raws = Inr docs" "length raws < n"
  shows "scan_drain n mk decode acc r = Some (Inr (acc @ map (\<lambda>d. Some (d, scan_ids_only r)) docs),
    r\<lparr>scan_done := True, scan_iterator := Some []\<rparr>)"
  using assms
proof (induction raws arbitrary: n acc r docs)
  case Nil
  then obtain n' where "n = Suc n'" by (cases n) auto
  then show ?case using Nil by (simp add: scan_next_def scan_get_next_row_def Let_def)
next
  case (Cons d raws)
  then obtain n' where n: "n = Suc n'" by (cases n) auto
  from Cons.prems(4) obtain e es where e: "decoded_scan decode d = Inr e" "mapE (decoded_scan decode) raws = Inr es"
    "docs = e # es" by (auto simp: bindE_eq_Inr)
  let ?r = "r\<lparr>scan_iterator := Some (map (\<lambda>d. Yield (Response d)) raws @ [Yield (ErrorItem b)])\<rparr>"
  have "scan_get_next_row mk decode r = (Inr (Some (e, scan_ids_only r)), ?r)"
    using Cons.prems(1,2) e(1)
    by (auto simp: scan_get_next_row_def decoded_scan_def decode_value_def Let_def bindE_eq_Inr split: if_splits)
  then have "scan_next mk decode r = (Inr (Some (e, scan_ids_only r)), ?r)"
    by (simp add: scan_next_def)
  then show ?case
    using Cons.IH [of ?r es n' "acc @ [Some (e, scan_ids_only r)]"] Cons.prems e n by simp
qed

subsection \<open>Properties\<close>

text \<open>C25. A query returns its rows once, in the order of the stream: executing a new query
  deserializes every row that the core delivers up to the end mark, keeps the metadata
  and leaves the request done.  Iterating again raises \<open>AlreadyQueriedException\<close>; only
  \<open>next\<close> on the exhausted iterator returns \<open>None\<close> where Python's protocol asks for
  \<open>StopIteration\<close>.\<close>

theorem N1QL_execute_rows:
  assumes "mapE (\<lambda>t. deserialize (DefaultJsonSerializer fs) t) ts = Inr vs"
    and "N1QL_meta fs (Response kw) = Inr m" "length ts < n"
  shows "\<exists>r. request_execute n (core_error fs so) (N1QL_row (DefaultJsonSerializer fs)) (N1QL_meta fs)
      (Inr (map (\<lambda>t. Yield (Row t)) ts @ [Yield NoRow, Yield (Response kw)])) new_request =
        Some (Inr (map Some vs), r) \<and>
    metadata r = Some m \<and> request_iter backend r = (Inl AlreadyQueriedException, r) \<and>
    request_next (core_error fs so) (N1QL_row (DefaultJsonSerializer fs)) (N1QL_meta fs) r = (Inr None, r)"
proof -
  let ?es = "map (\<lambda>t. Yield (Row t)) ts @ [Yield NoRow, Yield (Response kw)]"
  let ?r = "new_request\<lparr>started_streaming := True, streaming_result := Some ?es\<rparr> :: kwargs option request"
  have "mapE (\<lambda>t. N1QL_row (DefaultJsonSerializer fs) (Row t)) ts = Inr vs"
    using assms(1) by (simp add: N1QL_row_def)
  from n1ql.drain_rows [of ?r ts kw fs vs m n so "[]", OF _ _ this assms(2,3)]
  show ?thesis
    by (simp add: request_execute_def request_iter_def submit_query_def new_request_def n1ql.next_done)
qed

lemma N1QL_execute_rows_witness:
  "\<exists>r. request_execute 3 (core_error \<lparr>float_repr = \<lambda>_. [], float_parse = \<lambda>_. NaN\<rparr> (\<lambda>_. []))
      (N1QL_row (DefaultJsonSerializer \<lparr>float_repr = \<lambda>_. [], float_parse = \<lambda>_. NaN\<rparr>))
      (N1QL_meta \<lparr>float_repr = \<lambda>_. [], float_parse = \<lambda>_. NaN\<rparr>)
      (Inr (map (\<lambda>t. Yield (Row t)) [TBytes [116, 114, 117, 101], TBytes [110, 117, 108, 108]] @
        [Yield NoRow, Yield (Response [])])) new_request = Some (Inr (map Some [TBool True, TNone]), r) \<and>
    metadata r = Some None \<and> request_iter (Inr []) r = (Inl AlreadyQueriedException, r) \<and>
    request_next (core_error \<lparr>float_repr = \<lambda>_. [], float_parse = \<lambda>_. NaN\<rparr> (\<lambda>_. []))
      (N1QL_row (DefaultJsonSerializer \<lparr>float_repr = \<lambda>_. [], float_parse = \<lambda>_. NaN\<rparr>))
      (N1QL_meta \<lparr>float_repr = \<lambda>_. [], float_parse = \<lambda>_. NaN\<rparr>) r = (Inr None, r)"
proof (rule N1QL_execute_rows)
  let ?fs = "\<lparr>float_repr = \<lambda>_. [], float_parse = \<lambda>_. NaN\<rparr>"
  have d: "deserialize (DefaultJsonSerializer ?fs) (TBytes b) = Inr v"
    if "dumps ?fs v = Inr t" "utf8_encode t = Some b" "plain ?fs v" for b t v
    using loads_dumps [OF that(3)] that(1,2)
    by (auto simp: DefaultJsonSerializer_def DefaultJsonSerializer_deserialize_def decode_utf8_bytes)
  have "deserialize (DefaultJsonSerializer ?fs) (TBytes [116, 114, 117, 101]) = Inr (TBool True)"
    by (rule d [of _ true_text]) (simp_all add: true_text_def is_scalar_def utf8_char_def)
  moreover have "deserialize (DefaultJsonSerializer ?fs) (TBytes [110, 117, 108, 108]) = Inr TNone"
    by (rule d [of _ null_text]) (simp_all add: null_text_def is_scalar_def utf8_char_def)
  ultimately show "mapE (\<lambda>t. deserialize (DefaultJsonSerializer ?fs) t)
      [TBytes [116, 114, 117, 101], TBytes [110, 117, 108, 108]] = Inr [TBool True, TNone]" by simp
  show "N1QL_meta \<lparr>float_repr = \<lambda>_. [], float_parse = \<lambda>_. NaN\<rparr> (Response []) = Inr None"
    by (simp add: N1QL_meta_def response_value_def kget_def QueryMetaData_init_def)
qed simp

text \<open>C26. Executing a query, an analytics query or a view query returns whatever the core
  does: it takes at most one round for every event of the stream and one more.\<close>

theorem request_execute_returns:
  "(\<exists>x. request_execute (Suc (length es)) (core_error fs so) (N1QL_row (DefaultJsonSerializer fs)) (N1QL_meta fs)
      (Inr es) new_request = Some x) \<and>
   (\<exists>x. request_execute (Suc (length es)) (core_error fs so) (Analytics_row (DefaultJsonSerializer fs))
      (Analytics_meta fs) (Inr es) new_request = Some x) \<and>
   (\<exists>x. request_execute (Suc (length es)) (core_error fs so) (View_row fs factory) View_meta
      (Inr es) new_request = Some x)"
proof -
  have l: "events_left (new_request\<lparr>started_streaming := True, streaming_result := Some es\<rparr>) < Suc (length es)"
    for es :: "event list" by (simp add: events_left_def)
  note e = request_execute_def request_iter_def submit_query_def new_request_def
  show ?thesis
    using n1ql.drain_ends [OF _ l, of es fs so "[]"] analytics.drain_ends [OF _ l, of es fs so "[]"]
      views.drain_ends [OF _ l, of es fs so factory "[]"]
    by (simp add: e)
qed

text \<open>C24. While rows are read, only exceptions of the SDK come out of \<open>next\<close>, apart from the
  \<open>StopIteration\<close> of the protocol, after which the request is done.\<close>

theorem iteration_errors_are_sdk_errors:
  "(request_next (core_error fs so) (N1QL_row (DefaultJsonSerializer fs)) (N1QL_meta fs) r1 = (Inl e, r1') \<longrightarrow>
      is_couchbase_exc e \<or> e = StopIteration \<and> done_streaming r1') \<and>
   (request_next (core_error fs so) (Analytics_row (DefaultJsonSerializer fs)) (Analytics_meta fs) r2 = (Inl e, r2') \<longrightarrow>
      is_couchbase_exc e \<or> e = StopIteration \<and> done_streaming r2') \<and>
   (request_next (core_error fs so) (View_row fs factory) View_meta r3 = (Inl e, r3') \<longrightarrow>
      is_couchbase_exc e \<or> e = StopIteration \<and> done_streaming r3') \<and>
   (scan_next (core_error fs so) decode r4 = (Inl e, r4') \<longrightarrow>
      is_couchbase_exc e \<or> e = StopIteration \<and> scan_done r4')"
proof (intro conjI impI)
  show "is_couchbase_exc e \<or> e = StopIteration \<and> scan_done r4'"
    if "scan_next (core_error fs so) decode r4 = (Inl e, r4')"
    using that boundary_sdk [of _ e] by (auto simp: scan_next_def split: prod.splits sum.splits if_splits)
qed (rule n1ql.next_sdk analytics.next_sdk views.next_sdk; assumption)+

text \<open>A stream whose iterator raises a built-in exception, one that is at its end, and a scan that fails.\<close>

lemma iteration_errors_witness:
  "(\<exists>e r. request_next (core_error \<lparr>float_repr = \<lambda>_. [], float_parse = \<lambda>_. NaN\<rparr> (\<lambda>_. []))
       (N1QL_row (DefaultJsonSerializer \<lparr>float_repr = \<lambda>_. [], float_parse = \<lambda>_. NaN\<rparr>))
       (N1QL_meta \<lparr>float_repr = \<lambda>_. [], float_parse = \<lambda>_. NaN\<rparr>)
       (new_request\<lparr>started_streaming := True, streaming_result := Some [Raises ValueError]\<rparr>) = (Inl e, r) \<and>
     is_couchbase_exc e) \<and>
   (\<exists>r. request_next (core_error \<lparr>float_repr = \<lambda>_. [], float_parse = \<lambda>_. NaN\<rparr> (\<lambda>_. []))
       (View_row \<lparr>float_repr = \<lambda>_. [], float_parse = \<lambda>_. NaN\<rparr> RowClass) View_meta
       (new_request\<lparr>started_streaming := True, streaming_result := Some [Yield NoRow, Yield (Response [])]\<rparr>) =
       (Inl StopIteration, r) \<and> done_streaming r) \<and>
   (\<exists>e r. scan_next (core_error \<lparr>float_repr = \<lambda>_. [], float_parse = \<lambda>_. NaN\<rparr> (\<lambda>_. [])) (\<lambda>v flags. Inl KeyError)
       \<lparr>scan_started = True, scan_done = False,
         scan_iterator = Some [Yield (Response [(''key'', TStr [107]), (''value'', TInt 5)])],
         scan_cancelled = False, scan_ids_only = False\<rparr> = (Inl e, r) \<and> is_couchbase_exc e)"
proof -
  let ?fs = "\<lparr>float_repr = \<lambda>_. [], float_parse = \<lambda>_. NaN\<rparr>"
  let ?mk = "core_error ?fs (\<lambda>_. [])"
  let ?q = "\<lambda>es. (new_request\<lparr>started_streaming := True, streaming_result := Some es\<rparr>)"
  let ?s = "\<lparr>scan_started = True, scan_done = False,
      scan_iterator = Some [Yield (Response [(''key'', TStr [107]), (''value'', TInt 5)])],
      scan_cancelled = False, scan_ids_only = False\<rparr>"
  obtain r1 where r1: "request_next ?mk (N1QL_row (DefaultJsonSerializer ?fs)) (N1QL_meta ?fs)
      (?q [Raises ValueError]) = (Inl internal_error, r1)"
    by (simp add: request_next_def get_next_row_def new_request_def boundary_def is_couchbase_exc_def)
  obtain r3 where r3: "request_next ?mk (View_row ?fs RowClass) View_meta
      (?q [Yield NoRow, Yield (Response [])]) = (Inl StopIteration, r3)"
    by (simp add: request_next_def get_next_row_def new_request_def get_metadata_def set_metadata_def View_meta_def
        response_value_def kget_def ViewMetaData_init_def boundary_def)
  obtain r4 where r4: "scan_next ?mk (\<lambda>v flags. Inl KeyError) ?s = (Inl internal_error, r4)"
    by (simp add: scan_next_def scan_get_next_row_def decode_value_def Let_def kget_def utruthy_def boundary_def is_couchbase_exc_def)
  have "internal_error \<noteq> StopIteration" by code_simp
  then have sdk: "is_couchbase_exc internal_error"
    using iteration_errors_are_sdk_errors [THEN conjunct1, THEN mp, OF r1] by blast
  have "is_couchbase_exc StopIteration \<or> done_streaming r3"
    using iteration_errors_are_sdk_errors [THEN conjunct2, THEN conjunct2, THEN conjunct1, THEN mp, OF r3] by blast
  then have "done_streaming r3" by (simp add: is_couchbase_exc_def)
  then show ?thesis using r1 r3 r4 sdk by blast
qed

text \<open>A range scan returns the documents in the order of the stream, each decoded by the
  transcoder when it has a value, until the core reports that the scan is complete.\<close>

theorem scan_rows_in_order:
  assumes "\<not> scan_done r" "scan_iterator r = Some (map (\<lambda>d. Yield (Response d)) raws @ [Yield (ErrorItem b)])"
    and "mapE (decoded_scan decode) raws = Inr docs" "error_ctx b = None" "Errors.err b = 134" "length raws < n"
  shows "\<exists>r'. scan_drain n (core_error fs so) decode [] r =
      Some (Inr (map (\<lambda>d. Some (d, scan_ids_only r)) docs), r') \<and>
    scan_iter backend r' = (Inl AlreadyQueriedException, r')"
proof -
  have "core_error fs so b = RangeScanCompletedException"
    using assms(4,5) by (simp add: core_error_def build_exception_def) code_simp
  from scan_drain_rows [where acc = "[]" and mk = "core_error fs so" and b = b, OF assms(1,2) this assms(3,6)]
  show ?thesis by (simp add: scan_iter_def)
qed

lemma scan_rows_witness:
  "\<exists>r'. scan_drain 2 (core_error \<lparr>float_repr = \<lambda>_. [], float_parse = \<lambda>_. NaN\<rparr> (\<lambda>_. [])) (\<lambda>v flags. Inr v) []
        \<lparr>scan_started = True, scan_done = False,
          scan_iterator = Some (map (\<lambda>d. Yield (Response d)) [[(''key'', TStr [107]), (''value'', TInt 5)]] @
            [Yield (ErrorItem \<lparr>err = 134, error_info = None, error_ctx = None\<rparr>)]),
          scan_cancelled = False, scan_ids_only = False\<rparr> =
      Some (Inr [Some ([(''key'', TStr [107]), (''value'', TInt 5)], False)], r') \<and>
    scan_iter (Inr []) r' = (Inl AlreadyQueriedException, r')"
proof -
  let ?r = "\<lparr>scan_started = True, scan_done = False,
          scan_iterator = Some (map (\<lambda>d. Yield (Response d)) [[(''key'', TStr [107]), (''value'', TInt 5)]] @
            [Yield (ErrorItem \<lparr>err = 134, error_info = None, error_ctx = None\<rparr>)]),
          scan_cancelled = False, scan_ids_only = False\<rparr>"
  have "mapE (decoded_scan (\<lambda>v flags. Inr v)) [[(''key'', TStr [107]), (''value'', TInt 5)]] =
    Inr [[(''key'', TStr [107]), (''value'', TInt 5)]]"
    by (simp add: decoded_scan_def kget_def utruthy_def)
  from scan_rows_in_order [of ?r "[[(''key'', TStr [107]), (''value'', TInt 5)]]"
      "\<lparr>err = 134, error_info = None, error_ctx = None\<rparr>", OF _ _ this, of 2
      "\<lparr>float_repr = \<lambda>_. [], float_parse = \<lambda>_. NaN\<rparr>" "\<lambda>_. []" "Inr []"]
  show ?thesis by simp
qed

end
