(* ===== verification/Buckets.thy ===== *)
theory Buckets
  imports Options
begin

text \<open>
  \<open>couchbase/management/logic/buckets_logic.py\<close>, and what it shares with the other
  managers: the request that a management operation hands to the core.

  A request is the dictionary of keyword arguments of \<open>management_operation\<close>; the core
  that answers it is not modelled.  The connection and the values of the enumerations of
  the extension module are fields of a \<open>mgmt_env\<close>.  \<open>bucket_mapping\<close> is an instance of
  the contract \<open>bidi_mapping\<close>, from which the round trip of the settings follows.
\<close>

subsection \<open>Requests to the core\<close>

record mgmt_env =
  mg_env :: py_env
  mg_conn :: pyval
  mg_value :: "string \<Rightarrow> string \<Rightarrow> pyval"

definition mgmt_kwargs :: "mgmt_env \<Rightarrow> string \<Rightarrow> string \<Rightarrow> string \<Rightarrow> pydict" where
  "mgmt_kwargs m mgmt_op ops op_type =
     [(''conn'', mg_conn m), (''mgmt_op'', mg_value m ''mgmt_operations'' mgmt_op),
      (''op_type'', mg_value m ops op_type)]"

text \<open>
  \<open>callback = kwargs.pop('callback', None)\<close> and its use, likewise for the error
  handler; \<open>take_handlers\<close> returns the rest of the keyword arguments and the request.
\<close>

definition take_handler :: "string \<Rightarrow> pydict \<times> pydict \<Rightarrow> pydict \<times> pydict" where
  "take_handler h kr =
     (let (kwargs, req) = kr; callback = dget kwargs h PNone
      in (AList.delete h kwargs, if truthy callback then AList.update h callback req else req))"

definition take_handlers :: "pydict \<Rightarrow> pydict \<Rightarrow> pydict \<times> pydict" where
  "take_handlers kwargs req = take_handler ''errback'' (take_handler ''callback'' (kwargs, req))"

definition add_timeout :: "pydict \<Rightarrow> pydict \<Rightarrow> pydict" where
  "add_timeout final_args req =
     (if dget final_args ''timeout'' PNone \<noteq> PNone
      then AList.update ''timeout'' (dget final_args ''timeout'' PNone) req else req)"

lemma take_handlers_simps:
  "fst (take_handlers kwargs req) = AList.delete ''errback'' (AList.delete ''callback'' kwargs)"
  "map_of (snd (take_handlers kwargs req)) k =
     (if k = ''callback'' \<and> truthy (dget kwargs ''callback'' PNone)
      then Some (dget kwargs ''callback'' PNone)
      else if k = ''errback'' \<and> truthy (dget kwargs ''errback'' PNone)
      then Some (dget kwargs ''errback'' PNone)
      else map_of req k)"
  by (simp_all add: take_handlers_def take_handler_def Let_def dict_simps)

lemma map_of_add_timeout:
  "map_of (add_timeout final req) k =
     (if k = ''timeout'' \<and> dget final ''timeout'' PNone \<noteq> PNone
      then Some (dget final ''timeout'' PNone) else map_of req k)"
  by (simp add: add_timeout_def dict_simps)

subsection \<open>Bucket settings\<close>

definition EvictionPolicyType :: "pyval list" where
  "EvictionPolicyType =
     [PEnum ''EvictionPolicyType'' ''NOT_RECENTLY_USED'' ''nruEviction'',
      PEnum ''EvictionPolicyType'' ''NO_EVICTION'' ''noEviction'',
      PEnum ''EvictionPolicyType'' ''FULL'' ''fullEviction'',
      PEnum ''EvictionPolicyType'' ''VALUE_ONLY'' ''valueOnly'']"

definition BucketType_COUCHBASE :: pyval where
  "BucketType_COUCHBASE = PEnum ''BucketType'' ''COUCHBASE'' ''membase''"

definition BucketType :: "pyval list" where
  "BucketType = [BucketType_COUCHBASE, PEnum ''BucketType'' ''MEMCACHED'' ''memcached'',
     PEnum ''BucketType'' ''EPHEMERAL'' ''ephemeral'']"

definition CompressionMode :: "pyval list" where
  "CompressionMode = [PEnum ''CompressionMode'' ''OFF'' ''off'',
     PEnum ''CompressionMode'' ''PASSIVE'' ''passive'',
     PEnum ''CompressionMode'' ''ACTIVE'' ''active'']"

definition ConflictResolutionType :: "pyval list" where
  "ConflictResolutionType = [PEnum ''ConflictResolutionType'' ''TIMESTAMP'' ''lww'',
     PEnum ''ConflictResolutionType'' ''SEQUENCE_NUMBER'' ''seqno'',
     PEnum ''ConflictResolutionType'' ''CUSTOM'' ''custom'']"

definition StorageBackend_COUCHSTORE :: pyval where
  "StorageBackend_COUCHSTORE = PEnum ''StorageBackend'' ''COUCHSTORE'' ''couchstore''"

definition StorageBackend :: "pyval list" where
  "StorageBackend = [PEnum ''StorageBackend'' ''UNDEFINED'' ''undefined'',
     StorageBackend_COUCHSTORE, PEnum ''StorageBackend'' ''MAGMA'' ''magma'']"

definition bucket_mapping :: mapping where
  "bucket_mapping =
     [BidirectionalTransform ''flush_enabled'' (Some ''flushEnabled'', Identity_call Ty_bool False)
        (Some ''flushEnabled'', Identity_call Ty_bool False) (PBool False),
      BidirectionalTransform ''num_replicas'' (Some ''numReplicas'', Identity_call Ty_int False)
        (Some ''numReplicas'', Identity_call Ty_int False) (PInt 0),
      BidirectionalTransform ''ram_quota_mb'' (Some ''ramQuotaMB'', Identity_call Ty_int False)
        (Some ''ramQuotaMB'', Identity_call Ty_int False) PNone,
      BidirectionalTransform ''replica_index'' (Some ''replicaIndex'', Identity_call Ty_bool False)
        (Some ''replicaIndex'', Identity_call Ty_bool False) (PBool False),
      BidirectionalTransform ''bucket_type'' (Some ''bucketType'', EnumToStr_call BucketType None)
        (Some ''bucketType'', StrToEnum_call BucketType None False) BucketType_COUCHBASE,
      BidirectionalTransform ''max_ttl'' (Some ''maxTTL'', Identity_call Ty_int False)
        (Some ''maxTTL'', Identity_call Ty_int False) PNone,
      BidirectionalTransform ''max_expiry'' (Some ''maxExpiry'', TimeDeltaToSeconds_call)
        (Some ''maxExpiry'', SecondsToTimeDelta_call) PNone,
      BidirectionalTransform ''compression_mode''
        (Some ''compressionMode'', EnumToStr_call CompressionMode None)
        (Some ''compressionMode'', StrToEnum_call CompressionMode None True) PNone,
      BidirectionalTransform ''conflict_resolution_type''
        (Some ''conflictResolutionType'', EnumToStr_call ConflictResolutionType None)
        (Some ''conflictResolutionType'', StrToEnum_call ConflictResolutionType None False) PNone,
      BidirectionalTransform ''eviction_policy''
        (Some ''evictionPolicy'', EnumToStr_call EvictionPolicyType None)
        (Some ''evictionPolicy'', StrToEnum_call EvictionPolicyType None False) PNone,
      BidirectionalTransform ''name'' (None, Identity_call Ty_str False)
        (None, Identity_call Ty_str False) PNone,
      BidirectionalTransform ''minimum_durability_level''
        (Some ''durabilityMinLevel'',
         EnumToStr_call DurabilityLevel (Some DurabilityLevel_to_server_str))
        (Some ''durabilityMinLevel'',
         StrToEnum_call DurabilityLevel (Some DurabilityLevel_from_server_str) False) PNone,
      BidirectionalTransform ''storage_backend''
        (Some ''storageBackend'', EnumToStr_call StorageBackend None)
        (Some ''storageBackend'', StrToEnum_call StorageBackend None False)
        StorageBackend_COUCHSTORE,
      BidirectionalTransform ''history_retention_collection_default''
        (Some ''historyRetentionCollectionDefault'', Identity_call Ty_bool True)
        (Some ''historyRetentionCollectionDefault'', Identity_call Ty_bool True) PNone,
      BidirectionalTransform ''history_retention_bytes''
        (Some ''historyRetentionBytes'', Identity_call Ty_int False)
        (Some ''historyRetentionBytes'', Identity_call Ty_int False) PNone,
      BidirectionalTransform ''history_retention_duration''
        (Some ''historyRetentionDuration'', TimeDeltaToSeconds_call)
        (Some ''historyRetentionDuration'', SecondsToTimeDelta_call) PNone]"

text \<open>
  \<open>BucketSettings\<close> is a dictionary.  Its getters are lookups; that of \<open>num_replicas\<close>
  looks up another key.
\<close>

definition BucketSettings_init :: "pydict \<Rightarrow> pydict" where
  "BucketSettings_init kwargs =
     (if dget kwargs ''bucket_type'' PNone = PStr ''couchbase''
      then AList.update ''bucket_type'' BucketType_COUCHBASE kwargs else kwargs)"

definition CreateBucketSettings_init :: "pydict \<Rightarrow> pydict" where
  "CreateBucketSettings_init kwargs = BucketSettings_init kwargs"

definition BucketSettings_num_replicas :: "pydict \<Rightarrow> pyval" where
  "BucketSettings_num_replicas self = dget self ''replica_number'' PNone"

definition BucketSettings_transform_to_dest :: "pydict \<Rightarrow> pydict res" where
  "BucketSettings_transform_to_dest self =
     (let kwargs = AList.update ''bucket_password'' (PStr '''') self
      in bindE (transform_to_dest bucket_mapping kwargs) (\<lambda>params.
           Inr (dupdate params [(''authType'', PStr ''sasl''),
                                (''saslPassword'', dget kwargs ''bucket_password'' PNone)])))"

definition BucketSettings_transform_from_dest :: "pydict \<Rightarrow> pydict res" where
  "BucketSettings_transform_from_dest data =
     bindE (transform_from_dest bucket_mapping data) (\<lambda>params. Inr (BucketSettings_init params))"

subsection \<open>Operations\<close>

text \<open>The end that the operations share: the remaining keyword arguments and the options.\<close>

definition finish_request :: "mgmt_env \<Rightarrow> pydict \<Rightarrow> pydict list \<Rightarrow> pydict \<Rightarrow> pydict res" where
  "finish_request m kwargs options req =
     bindE (forward_args (mg_env m) kwargs options) (\<lambda>final_args. Inr (add_timeout final_args req))"

definition create_bucket :: "mgmt_env \<Rightarrow> pydict \<Rightarrow> pydict list \<Rightarrow> pydict \<Rightarrow> pydict res" where
  "create_bucket m settings options kwargs =
     (let (kwargs', req) = take_handlers kwargs
            (mgmt_kwargs m ''BUCKET'' ''bucket_mgmt_operations'' ''CREATE_BUCKET'')
      in bindE (BucketSettings_transform_to_dest settings) (\<lambda>params.
           finish_request m kwargs' options
             (AList.update ''op_args'' (pdict [(''bucket_settings'', pdict params)]) req)))"

definition update_bucket :: "mgmt_env \<Rightarrow> pydict \<Rightarrow> pydict list \<Rightarrow> pydict \<Rightarrow> pydict res" where
  "update_bucket m settings options kwargs =
     (let (kwargs', req) = take_handlers kwargs
            (mgmt_kwargs m ''BUCKET'' ''bucket_mgmt_operations'' ''UPDATE_BUCKET'')
      in bindE (BucketSettings_transform_to_dest settings) (\<lambda>params.
           finish_request m kwargs' options
             (AList.update ''op_args'' (pdict [(''bucket_settings'', pdict params)]) req)))"

definition named_bucket_request ::
  "mgmt_env \<Rightarrow> string \<Rightarrow> pyval \<Rightarrow> pydict list \<Rightarrow> pydict \<Rightarrow> pydict res" where
  "named_bucket_request m op_type name options kwargs =
     (let (kwargs', req) = take_handlers kwargs (mgmt_kwargs m ''BUCKET'' ''bucket_mgmt_operations'' op_type)
      in finish_request m kwargs' options
           (AList.update ''op_args'' (pdict [(''bucket_name'', name)]) req))"

definition drop_bucket :: "mgmt_env \<Rightarrow> pyval \<Rightarrow> pydict list \<Rightarrow> pydict \<Rightarrow> pydict res" where
  "drop_bucket m name options kwargs =
     bindE (is_null_or_empty name) (\<lambda>empty.
       if empty then Inl InvalidArgumentException
       else if \<not> is_str name then Inl InvalidArgumentException
       else named_bucket_request m ''DROP_BUCKET'' name options kwargs)"

definition get_bucket :: "mgmt_env \<Rightarrow> pyval \<Rightarrow> pydict list \<Rightarrow> pydict \<Rightarrow> pydict res" where
  "get_bucket m name options kwargs = named_bucket_request m ''GET_BUCKET'' name options kwargs"

definition get_all_buckets :: "mgmt_env \<Rightarrow> pydict list \<Rightarrow> pydict \<Rightarrow> pydict res" where
  "get_all_buckets m options kwargs =
     (let (kwargs', req) = take_handlers kwargs
            (mgmt_kwargs m ''BUCKET'' ''bucket_mgmt_operations'' ''GET_ALL_BUCKETS'')
      in finish_request m kwargs' options req)"

definition flush_bucket :: "mgmt_env \<Rightarrow> pyval \<Rightarrow> pydict list \<Rightarrow> pydict \<Rightarrow> pydict res" where
  "flush_bucket m name options kwargs = named_bucket_request m ''FLUSH_BUCKET'' name options kwargs"

definition bucket_describe :: "mgmt_env \<Rightarrow> pyval \<Rightarrow> pydict list \<Rightarrow> pydict \<Rightarrow> pydict res" where
  "bucket_describe m name options kwargs =
     named_bucket_request m ''BUCKET_DESCRIBE'' name options kwargs"

subsection \<open>The settings table keeps its contract\<close>

definition duration_seconds :: "pyval \<Rightarrow> bool" where
  "duration_seconds v = (case v of
     PTimedelta us \<Rightarrow> 0 \<le> us \<and> us mod 10 ^ 6 = 0 \<and> timedelta_in_range us | _ \<Rightarrow> False)"

definition setting_kinds :: "(string \<times> (pyval \<Rightarrow> bool)) list" where
  "setting_kinds =
     [(''flush_enabled'', is_bool), (''num_replicas'', is_int), (''ram_quota_mb'', is_int),
      (''replica_index'', is_bool), (''bucket_type'', \<lambda>v. v \<in> set BucketType), (''max_ttl'', is_int),
      (''max_expiry'', duration_seconds), (''compression_mode'', \<lambda>v. v \<in> set CompressionMode),
      (''conflict_resolution_type'', \<lambda>v. v \<in> set ConflictResolutionType),
      (''eviction_policy'', \<lambda>v. v \<in> set EvictionPolicyType), (''name'', is_str),
      (''minimum_durability_level'', \<lambda>v. v \<in> set DurabilityLevel),
      (''storage_backend'', \<lambda>v. v \<in> set StorageBackend),
      (''history_retention_collection_default'', \<lambda>v. is_bool v \<or> v = PNone),
      (''history_retention_bytes'', is_int), (''history_retention_duration'', duration_seconds)]"

definition valid_setting :: "string \<Rightarrow> pyval \<Rightarrow> bool" where
  "valid_setting k v = (case map_of setting_kinds k of None \<Rightarrow> False | Some p \<Rightarrow> p v)"

lemma duration_inverse:
  assumes "duration_seconds v"
  shows "\<exists>w. TimeDeltaToSeconds_call v = Inr w \<and> SecondsToTimeDelta_call w = Inr v"
proof -
  obtain us where us: "v = PTimedelta us" "0 \<le> us" "us mod 10 ^ 6 = 0" "timedelta_in_range us"
    using assms by (cases v) (simp_all add: duration_seconds_def)
  define s where "s = us div 10 ^ 6"
  have s: "us = s * 10 ^ 6" using us(3) unfolding s_def by auto
  have "0 \<le> s" "s < 2 ^ 53" using us(2,4) by (simp_all add: s timedelta_in_range_def)
  then have "TimeDeltaToSeconds_call v = Inr (PInt s)"
    unfolding us(1) s by (rule TimeDeltaToSeconds_whole)
  moreover have "SecondsToTimeDelta_call (PInt s) = Inr v"
    unfolding us(1) s by (rule SecondsToTimeDelta_int) (use us(4) s in blast)
  ultimately show ?thesis by blast
qed

lemma durability_inverse:
  assumes "v \<in> set DurabilityLevel"
  shows "\<exists>w. EnumToStr_call DurabilityLevel (Some DurabilityLevel_to_server_str) v = Inr w \<and>
    StrToEnum_call DurabilityLevel (Some DurabilityLevel_from_server_str) False w = Inr v"
proof -
  have "\<not> is_str v" using assms by (auto simp: DurabilityLevel_def DurabilityLevel_defs)
  then show ?thesis using assms durability_level.codec [OF assms]
    by (simp add: EnumToStr_call_def StrToEnum_call_def)
qed

lemma enum_inverse:
  assumes "v \<in> set ty" and "list_all (\<lambda>m. \<exists>c n s. m = PEnum c n s) ty"
    and "distinct (map enum_value ty)"
  shows "\<exists>w. EnumToStr_call ty None v = Inr w \<and> StrToEnum_call ty None opt w = Inr v"
proof -
  obtain c n s where v: "v = PEnum c n s" using assms(1,2) by (auto simp: list_all_iff)
  have uniq: "m = v" if "m \<in> set ty" "py_eq (enum_value m) (enum_value v)" for m
  proof -
    have "enum_value m = enum_value v" using that assms(2) v by (auto simp: list_all_iff)
    then show ?thesis using assms(1,3) that(1) by (auto simp: distinct_map dest: inj_onD)
  qed
  have str: "\<not> is_str v" "enum_value v \<notin> set ty"
    using assms(2) v by (auto simp: list_all_iff)
  have "EnumToStr_call ty None v = Inr (enum_value v) \<and>
        StrToEnum_call ty None opt (enum_value v) = Inr v"
    using enum_roundtrip [OF assms(1) str uniq, of opt] v by simp
  then show ?thesis by blast
qed

lemma bucket_enums:
  "list_all (\<lambda>m. \<exists>c n s. m = PEnum c n s) BucketType" "distinct (map enum_value BucketType)"
  "list_all (\<lambda>m. \<exists>c n s. m = PEnum c n s) CompressionMode" "distinct (map enum_value CompressionMode)"
  "list_all (\<lambda>m. \<exists>c n s. m = PEnum c n s) ConflictResolutionType"
  "distinct (map enum_value ConflictResolutionType)"
  "list_all (\<lambda>m. \<exists>c n s. m = PEnum c n s) EvictionPolicyType"
  "distinct (map enum_value EvictionPolicyType)"
  "list_all (\<lambda>m. \<exists>c n s. m = PEnum c n s) StorageBackend" "distinct (map enum_value StorageBackend)"
  by (simp_all add: BucketType_def BucketType_COUCHBASE_def CompressionMode_def
      ConflictResolutionType_def EvictionPolicyType_def StorageBackend_def StorageBackend_COUCHSTORE_def)

lemma bucket_enums_inverse:
  "v \<in> set BucketType \<Longrightarrow>
     \<exists>w. EnumToStr_call BucketType None v = Inr w \<and> StrToEnum_call BucketType None opt w = Inr v"
  "v \<in> set CompressionMode \<Longrightarrow>
     \<exists>w. EnumToStr_call CompressionMode None v = Inr w \<and> StrToEnum_call CompressionMode None opt w = Inr v"
  "v \<in> set ConflictResolutionType \<Longrightarrow>
     \<exists>w. EnumToStr_call ConflictResolutionType None v = Inr w \<and>
         StrToEnum_call ConflictResolutionType None opt w = Inr v"
  "v \<in> set EvictionPolicyType \<Longrightarrow>
     \<exists>w. EnumToStr_call EvictionPolicyType None v = Inr w \<and>
         StrToEnum_call EvictionPolicyType None opt w = Inr v"
  "v \<in> set StorageBackend \<Longrightarrow>
     \<exists>w. EnumToStr_call StorageBackend None v = Inr w \<and> StrToEnum_call StorageBackend None opt w = Inr v"
  by ((erule enum_inverse; rule bucket_enums)+)

lemma bucket_mapping_keys:
  "map t_key bucket_mapping =
     [''flush_enabled'', ''num_replicas'', ''ram_quota_mb'', ''replica_index'', ''bucket_type'',
      ''max_ttl'', ''max_expiry'', ''compression_mode'', ''conflict_resolution_type'',
      ''eviction_policy'', ''name'', ''minimum_durability_level'', ''storage_backend'',
      ''history_retention_collection_default'', ''history_retention_bytes'',
      ''history_retention_duration'']"
  "map to_key bucket_mapping =
     [''flushEnabled'', ''numReplicas'', ''ramQuotaMB'', ''replicaIndex'', ''bucketType'',
      ''maxTTL'', ''maxExpiry'', ''compressionMode'', ''conflictResolutionType'',
      ''evictionPolicy'', ''name'', ''durabilityMinLevel'', ''storageBackend'',
      ''historyRetentionCollectionDefault'', ''historyRetentionBytes'', ''historyRetentionDuration'']"
  "map from_key bucket_mapping = map to_key bucket_mapping"
  by (simp_all add: bucket_mapping_def BidirectionalTransform_def)

lemma identity_inverse:
  "is_bool v \<Longrightarrow> \<exists>w. Identity_call Ty_bool opt v = Inr w \<and> Identity_call Ty_bool opt w = Inr v"
  "is_int v \<Longrightarrow> \<exists>w. Identity_call Ty_int opt v = Inr w \<and> Identity_call Ty_int opt w = Inr v"
  "is_str v \<Longrightarrow> \<exists>w. Identity_call Ty_str opt v = Inr w \<and> Identity_call Ty_str opt w = Inr v"
  "is_bool v \<or> v = PNone \<Longrightarrow>
     \<exists>w. Identity_call Ty_bool True v = Inr w \<and> Identity_call Ty_bool True w = Inr v"
  by (auto simp: Identity_call_def)

lemmas setting_inverse =
  identity_inverse duration_inverse durability_inverse bucket_enums_inverse

definition invertible :: "(pyval \<Rightarrow> bool) \<Rightarrow> transform_entry \<Rightarrow> bool" where
  "invertible p t \<longleftrightarrow> (\<forall>v. p v \<longrightarrow> (\<exists>w. to_fn t v = Inr w \<and> from_fn t w = Inr v))"

lemma invertible_entry:
  "(\<And>v. p v \<Longrightarrow> \<exists>w. f v = Inr w \<and> g w = Inr v) \<Longrightarrow>
     invertible p (BidirectionalTransform k (a, f) (b, g) d)"
  by (simp add: invertible_def BidirectionalTransform_def)

lemma setting_kinds_invertible:
  "list_all2 (\<lambda>kp t. fst kp = t_key t \<and> invertible (snd kp) t) setting_kinds bucket_mapping"
  unfolding setting_kinds_def bucket_mapping_def
  by (intro list.rel_intros conjI; (simp only: snd_conv)?;
      ((rule invertible_entry, erule setting_inverse) | simp add: BidirectionalTransform_def))

lemma bucket_mapping_inverse:
  assumes "t \<in> set bucket_mapping" "valid_setting (t_key t) v"
  shows "\<exists>w. to_fn t v = Inr w \<and> from_fn t w = Inr v"
proof -
  from assms(2) obtain p where p: "map_of setting_kinds (t_key t) = Some p" "p v"
    by (auto simp: valid_setting_def split: option.splits)
  obtain i where i: "i < length bucket_mapping" "t = bucket_mapping ! i"
    using assms(1) by (metis in_set_conv_nth)
  have nth: "fst (setting_kinds ! i) = t_key t" "invertible (snd (setting_kinds ! i)) t"
    and len: "i < length setting_kinds"
    using setting_kinds_invertible i by (auto simp: list_all2_conv_all_nth)
  have "distinct (map fst setting_kinds)" by (simp add: setting_kinds_def)
  then have "map_of setting_kinds (t_key t) = Some (snd (setting_kinds ! i))"
    using nth_mem [OF len] nth(1) by (metis map_of_is_SomeI prod.collapse)
  with p nth(2) show ?thesis by (simp add: invertible_def)
qed

interpretation bucket_settings: bidi_mapping bucket_mapping valid_setting
proof
  show "distinct (map t_key bucket_mapping)" "distinct (map to_key bucket_mapping)"
    unfolding bucket_mapping_keys by simp_all
  fix t assume t: "t \<in> set bucket_mapping"
  then have "to_key t \<in> set (map to_key bucket_mapping)" by simp
  moreover have "\<forall>t \<in> set bucket_mapping. from_key t = to_key t"
    using bucket_mapping_keys(3) by (simp only: map_eq_conv)
  ultimately show "from_key t = to_key t \<and> to_key t \<noteq> ''''"
    using t unfolding bucket_mapping_keys by (elim conjI [OF bspec]) auto
next
  fix k v assume "valid_setting k v"
  then have "k \<in> set (map fst setting_kinds)"
    by (force simp: valid_setting_def dest: map_of_SomeD split: option.splits)
  also have "map fst setting_kinds = map t_key bucket_mapping"
    unfolding bucket_mapping_keys by (simp add: setting_kinds_def)
  finally show "k \<in> t_key ` set bucket_mapping" by simp
qed (rule bucket_mapping_inverse)

subsection \<open>Settings survive the round trip\<close>

definition entry_default :: "mapping \<Rightarrow> string \<Rightarrow> pyval option" where
  "entry_default ts k =
     (case mapping_get ts k of
        Some t \<Rightarrow> (if t_default t \<noteq> PNone then Some (t_default t) else None)
      | None \<Rightarrow> None)"

lemma map_of_set_defaults:
  assumes "distinct (map t_key ts)"
  shows "map_of (set_defaults ts d) k =
    (case map_of d k of Some v \<Rightarrow> Some v | None \<Rightarrow> entry_default ts k)"
  using assms
proof (induction ts arbitrary: d)
  case Nil
  then show ?case by (simp add: set_defaults_def entry_default_def split: option.splits)
next
  case (Cons t ts)
  define d' where "d' = (if \<not> dhas d (t_key t) \<and> t_default t \<noteq> PNone
      then AList.update (t_key t) (t_default t) d else d)"
  have "set_defaults (t # ts) d = set_defaults ts d'" by (simp add: set_defaults_def d'_def)
  moreover have "mapping_get ts (t_key t) = None"
    using Cons.prems mapping_get_None [of ts "t_key t"] by auto
  ultimately show ?case
    using Cons.IH [of d'] Cons.prems
    by (auto simp: d'_def entry_default_def dhas_def dict_simps split: option.splits)
qed

lemma distinct_set_defaults:
  "distinct (map fst d) \<Longrightarrow> distinct (map fst (set_defaults ts d))"
proof -
  have "distinct (map fst d) \<Longrightarrow> distinct (map fst (fold (\<lambda>t d. if \<not> dhas d (t_key t) \<and>
      t_default t \<noteq> PNone then AList.update (t_key t) (t_default t) d else d) ts d))"
    by (induction ts arbitrary: d) (auto intro: distinct_keys_update)
  then show "distinct (map fst d) \<Longrightarrow> ?thesis" by (simp add: set_defaults_def)
qed

lemma bucket_defaults:
  "entry_default bucket_mapping k = map_of
     [(''flush_enabled'', PBool False), (''num_replicas'', PInt 0), (''replica_index'', PBool False),
      (''bucket_type'', BucketType_COUCHBASE), (''storage_backend'', StorageBackend_COUCHSTORE)] k"
  by (simp add: entry_default_def bucket_mapping_def BidirectionalTransform_def
      BucketType_COUCHBASE_def StorageBackend_COUCHSTORE_def)

lemma bucket_defaults_valid:
  assumes "entry_default bucket_mapping k = Some v"
  shows "valid_setting k v"
proof -
  have "(k, v) \<in> set [(''flush_enabled'', PBool False), (''num_replicas'', PInt 0),
      (''replica_index'', PBool False), (''bucket_type'', BucketType_COUCHBASE),
      (''storage_backend'', StorageBackend_COUCHSTORE)]"
    using assms unfolding bucket_defaults by (rule map_of_SomeD)
  moreover have "list_all (\<lambda>(k, v). valid_setting k v) [(''flush_enabled'', PBool False),
      (''num_replicas'', PInt 0), (''replica_index'', PBool False),
      (''bucket_type'', BucketType_COUCHBASE), (''storage_backend'', StorageBackend_COUCHSTORE)]"
    by (simp add: valid_setting_def setting_kinds_def is_int_def BucketType_def StorageBackend_def)
  ultimately show ?thesis unfolding list_all_iff by blast
qed

lemma valid_setting_known: "valid_setting k v \<Longrightarrow> k \<in> t_key ` set bucket_mapping"
  by (rule bucket_settings.valid_key)

lemma bucket_password_foreign:
  "''bucket_password'' \<notin> t_key ` set bucket_mapping"
  "''bucket_password'' \<notin> to_key ` set bucket_mapping"
  "''authType'' \<notin> from_key ` set bucket_mapping"
  "''saslPassword'' \<notin> from_key ` set bucket_mapping"
  unfolding set_map [symmetric] bucket_mapping_keys by simp_all

lemma BucketSettings_init_valid:
  "(\<And>v. map_of r ''bucket_type'' = Some v \<Longrightarrow> valid_setting ''bucket_type'' v) \<Longrightarrow>
     BucketSettings_init r = r"
  by (auto simp: BucketSettings_init_def dget_def valid_setting_def setting_kinds_def BucketType_def
      BucketType_COUCHBASE_def split: option.splits)

text \<open>The settings with the defaults filled in, as \<open>transform_to_dest\<close> converts them.\<close>

abbreviation bucket_kw :: "pydict \<Rightarrow> pydict" where
  "bucket_kw d \<equiv> set_defaults bucket_mapping (AList.update ''bucket_password'' (PStr '''') d)"

lemma bucket_kw_lookup:
  "map_of (bucket_kw d) k = (case map_of (AList.update ''bucket_password'' (PStr '''') d) k of
     Some v \<Rightarrow> Some v | None \<Rightarrow> entry_default bucket_mapping k)"
  by (rule map_of_set_defaults) (rule bucket_settings.keys_distinct)

lemma bucket_kw_valid:
  assumes "\<And>k v. (k, v) \<in> set d \<Longrightarrow> valid_setting k v" "map_of (bucket_kw d) k = Some v" "k \<noteq> ''bucket_password''"
  shows "valid_setting k v"
  using assms(2,3) bucket_kw_lookup [where d = d and k = k] assms(1) map_of_SomeD [where xs = d] bucket_defaults_valid [of k v]
  by (auto simp: dict_simps split: option.splits)

lemma bucket_settings_to_dest:
  assumes d: "distinct (map fst d)" and ok: "\<And>k v. (k, v) \<in> set d \<Longrightarrow> valid_setting k v"
  shows "\<exists>s. BucketSettings_transform_to_dest d = Inr (dupdate s [(''authType'', PStr ''sasl''), (''saslPassword'', PStr '''')]) \<and>
    (\<forall>t \<in> set bucket_mapping. map_of s (to_key t) =
        map_option (\<lambda>v. projr (to_fn t v)) (map_of (bucket_kw d) (t_key t)))"
proof -
  have dist: "distinct (map fst (bucket_kw d))"
    using d by (simp add: distinct_keys_update distinct_set_defaults)
  have "valid_setting k v \<or> k \<notin> t_key ` set bucket_mapping \<and> k \<notin> to_key ` set bucket_mapping"
    if "(k, v) \<in> set (bucket_kw d)" for k v
    using bucket_kw_valid [OF ok, where k = k and v = v] that dist bucket_password_foreign(1,2)
    by (cases "k = ''bucket_password''") simp_all
  then obtain s where s: "convert_to_dest bucket_mapping (bucket_kw d) = Inr s"
    "\<And>t. t \<in> set bucket_mapping \<Longrightarrow> map_of s (to_key t) =
        map_option (\<lambda>v. projr (to_fn t v)) (map_of (bucket_kw d) (t_key t))"
    using bucket_settings.to_dest [OF dist] by blast
  have "dget (AList.update ''bucket_password'' (PStr '''') d) ''bucket_password'' PNone = PStr ''''"
    by (simp add: dict_simps)
  then show ?thesis using s
    by (intro exI [of _ s]) (simp add: BucketSettings_transform_to_dest_def transform_to_dest_def Let_def)
qed

text \<open>C22. Bucket settings of the right types come back from the names and values of the
  server as they were, completed by the defaults; the request also carries the fixed
  authentication fields.
\<close>

theorem bucket_settings_roundtrip:
  assumes d: "distinct (map fst d)" and ok: "\<And>k v. (k, v) \<in> set d \<Longrightarrow> valid_setting k v"
  shows "\<exists>s r. BucketSettings_transform_to_dest d = Inr s \<and>
    BucketSettings_transform_from_dest s = Inr r \<and>
    map_of s ''authType'' = Some (PStr ''sasl'') \<and> map_of s ''saslPassword'' = Some (PStr '''') \<and>
    (\<forall>k. map_of r k = (case map_of d k of Some v \<Rightarrow> Some v
       | None \<Rightarrow> map_of [(''flush_enabled'', PBool False), (''num_replicas'', PInt 0),
           (''replica_index'', PBool False), (''bucket_type'', BucketType_COUCHBASE),
           (''storage_backend'', StorageBackend_COUCHSTORE)] k))"
proof -
  define e where "e = bucket_kw d"
  have e_valid: "valid_setting k v" if "map_of e k = Some v" "k \<noteq> ''bucket_password''" for k v
    using bucket_kw_valid [OF ok] that unfolding e_def by blast
  obtain s where s: "BucketSettings_transform_to_dest d = Inr (dupdate s [(''authType'', PStr ''sasl''), (''saslPassword'', PStr '''')])"
    "\<And>t. t \<in> set bucket_mapping \<Longrightarrow> map_of s (to_key t) =
        map_option (\<lambda>v. projr (to_fn t v)) (map_of e (t_key t))"
    using bucket_settings_to_dest [OF d ok] unfolding e_def by blast
  define s' where "s' = dupdate s [(''authType'', PStr ''sasl''), (''saslPassword'', PStr '''')]"
  have to: "BucketSettings_transform_to_dest d = Inr s'" using s(1) by (simp add: s'_def)
  have auth: "map_of s' ''authType'' = Some (PStr ''sasl'')" "map_of s' ''saslPassword'' = Some (PStr '''')"
    by (simp_all add: s'_def dupdate_def dict_simps)
  have same: "map_of s' (from_key t) = map_of s (from_key t)" if "t \<in> set bucket_mapping" for t
  proof -
    have "from_key t \<noteq> ''authType''" "from_key t \<noteq> ''saslPassword''"
      using that bucket_password_foreign(3,4) by (metis imageI)+
    then show ?thesis by (simp add: s'_def dupdate_def dict_simps)
  qed
  have known: "t_key t \<noteq> ''bucket_password''" if "t \<in> set bucket_mapping" for t
    using that bucket_password_foreign(1) by (metis imageI)
  obtain r where r: "convert_from_dest bucket_mapping s = Inr r"
    "map_of r = (map_of e) |` (t_key ` set bucket_mapping)"
    using bucket_settings.from_dest [OF _ s(2)] e_valid known by blast
  have r_of: "map_of r k = (case map_of d k of Some v \<Rightarrow> Some v
      | None \<Rightarrow> entry_default bucket_mapping k)" for k
  proof (cases "k \<in> t_key ` set bucket_mapping")
    case True
    then have "k \<noteq> ''bucket_password''" using bucket_password_foreign(1) by blast
    with True show ?thesis by (simp add: r(2) e_def bucket_kw_lookup dict_simps)
  next
    case False
    then have "map_of d k = None" using ok valid_setting_known map_of_SomeD [of d k]
      by (cases "map_of d k") blast+
    with False show ?thesis
      using mapping_get_None [of bucket_mapping k] by (simp add: r(2) entry_default_def)
  qed
  have "BucketSettings_init r = r"
  proof (rule BucketSettings_init_valid)
    fix v assume "map_of r ''bucket_type'' = Some v"
    then have "map_of e ''bucket_type'' = Some v"
      by (auto simp: r(2) restrict_map_def split: if_splits)
    then show "valid_setting ''bucket_type'' v" by (rule e_valid) simp
  qed
  moreover have "convert_from_dest bucket_mapping s' = Inr r"
    using convert_from_dest_cong [of bucket_mapping s' s] same r(1) by simp
  ultimately have "BucketSettings_transform_from_dest s' = Inr r"
    by (simp add: BucketSettings_transform_from_dest_def transform_from_dest_def)
  with to auth r_of show ?thesis unfolding bucket_defaults by blast
qed

lemma bucket_settings_roundtrip_witness:
  "let d = [(''name'', PStr ''b''), (''max_expiry'', PTimedelta (10 * 10 ^ 6)),
            (''minimum_durability_level'', DurabilityLevel_MAJORITY)]
   in \<exists>s r. BucketSettings_transform_to_dest d = Inr s \<and>
        BucketSettings_transform_from_dest s = Inr r \<and>
        map_of r ''max_expiry'' = Some (PTimedelta (10 * 10 ^ 6)) \<and>
        map_of r ''num_replicas'' = Some (PInt 0) \<and> map_of r ''ram_quota_mb'' = None"
proof -
  define d where "d = [(''name'', PStr ''b''), (''max_expiry'', PTimedelta (10 * 10 ^ 6)),
      (''minimum_durability_level'', DurabilityLevel_MAJORITY)]"
  have "list_all (\<lambda>(k, v). valid_setting k v) d"
    by (simp add: d_def valid_setting_def setting_kinds_def duration_seconds_def
        timedelta_in_range_def DurabilityLevel_def)
  then have ok: "valid_setting k v" if "(k, v) \<in> set d" for k v
    using that unfolding list_all_iff by blast
  have "distinct (map fst d)" by (simp add: d_def)
  from bucket_settings_roundtrip [OF this ok] obtain s r where
    "BucketSettings_transform_to_dest d = Inr s" "BucketSettings_transform_from_dest s = Inr r"
    "\<forall>k. map_of r k = (case map_of d k of Some v \<Rightarrow> Some v
       | None \<Rightarrow> map_of [(''flush_enabled'', PBool False), (''num_replicas'', PInt 0),
           (''replica_index'', PBool False), (''bucket_type'', BucketType_COUCHBASE),
           (''storage_backend'', StorageBackend_COUCHSTORE)] k)" by blast
  moreover from this(3) [THEN spec] have "map_of r ''max_expiry'' = Some (PTimedelta (10 * 10 ^ 6))"
    "map_of r ''num_replicas'' = Some (PInt 0)" "map_of r ''ram_quota_mb'' = None"
    by (simp_all add: d_def)
  ultimately have "BucketSettings_transform_to_dest d = Inr s \<and>
      BucketSettings_transform_from_dest s = Inr r \<and>
      map_of r ''max_expiry'' = Some (PTimedelta (10 * 10 ^ 6)) \<and>
      map_of r ''num_replicas'' = Some (PInt 0) \<and> map_of r ''ram_quota_mb'' = None" by blast
  then show ?thesis unfolding Let_def d_def by blast
qed

end
