(* ===== verification/Users.thy ===== *)
theory Users
  imports Buckets
begin

text \<open>
  \<open>couchbase/management/logic/users_logic.py\<close> and the authentication domains of
  \<open>couchbase/auth.py\<close>: roles, users and groups, their construction from arguments and
  from the replies of the server, and the requests of the user manager.

  A role is an object \<open>PInst ''Role''\<close>, so that collections of roles and other values can
  be mixed as the code allows.  A user and a group are records of the values their
  attributes hold.  A set is written by its elements in the order they were added; the
  iteration order of Python's sets is not modelled further.
\<close>

subsection \<open>Domains\<close>

definition AuthDomain_Local :: pyval where
  "AuthDomain_Local = PIntEnum ''AuthDomain'' ''Local'' 0"

definition AuthDomain_External :: pyval where
  "AuthDomain_External = PIntEnum ''AuthDomain'' ''External'' 1"

definition AuthDomain :: "pyval list" where
  "AuthDomain = [AuthDomain_Local, AuthDomain_External]"

definition AuthDomain_to_str :: "pyval \<Rightarrow> pyval" where
  "AuthDomain_to_str value =
     (if py_eq value AuthDomain_External then PStr ''external'' else PStr ''local'')"

definition AuthDomain_from_str :: "pyval \<Rightarrow> pyval" where
  "AuthDomain_from_str value =
     (if value = PStr ''external'' then AuthDomain_External else AuthDomain_Local)"

interpretation auth_domain: enum_codec AuthDomain AuthDomain_to_str "\<lambda>v. Inr (AuthDomain_from_str v)"
  by unfold_locales
     (auto simp: AuthDomain_def AuthDomain_to_str_def AuthDomain_from_str_def
       AuthDomain_Local_def AuthDomain_External_def)

definition get_valid_domain :: "pyval \<Rightarrow> pyval res" where
  "get_valid_domain auth_domain =
     (if auth_domain = PStr ''local'' \<or> auth_domain = PStr ''external'' then Inr auth_domain
      else if auth_domain \<in> set AuthDomain then Inr (AuthDomain_to_str auth_domain)
      else Inl InvalidArgumentException)"

subsection \<open>Roles\<close>

definition mk_role :: "pyval \<Rightarrow> pyval \<Rightarrow> pyval \<Rightarrow> pyval \<Rightarrow> pyval" where
  "mk_role name bucket scope collection =
     PInst ''Role'' [(''_name'', name), (''_bucket'', bucket), (''_scope'', scope),
       (''_collection'', collection)]"

definition Role_init :: "pyval \<Rightarrow> pyval \<Rightarrow> pyval \<Rightarrow> pyval \<Rightarrow> pyval res" where
  "Role_init name bucket scope collection =
     (if \<not> truthy name then Inl InvalidArgumentException
      else Inr (mk_role name bucket scope collection))"

definition Role_as_dict :: "pyval \<Rightarrow> pyval res" where
  "Role_as_dict self =
     (if \<not> is_instance_of self ''Role'' then Inl AttributeError
      else Inr (pdict [(''name'', attr self ''_name''), (''bucket'', attr self ''_bucket''),
             (''scope'', attr self ''_scope''), (''collection'', attr self ''_collection'')]))"

definition Role_create_role :: "pyval \<Rightarrow> pyval res" where
  "Role_create_role raw_data =
     bindE (jget raw_data ''name'' PNone) (\<lambda>name.
     bindE (jget raw_data ''bucket_name'' PNone) (\<lambda>bucket.
     bindE (jget raw_data ''scope_name'' PNone) (\<lambda>scope.
     bindE (jget raw_data ''collection_name'' PNone) (\<lambda>collection.
       Role_init name bucket scope collection))))"

record role_and_description =
  rd_role :: pyval
  rd_display_name :: pyval
  rd_description :: pyval
  rd_ce :: pyval

definition create_role_and_description :: "pyval \<Rightarrow> role_and_description res" where
  "create_role_and_description raw_data =
     bindE (Role_create_role raw_data) (\<lambda>role.
     bindE (jget raw_data ''display_name'' PNone) (\<lambda>display_name.
     bindE (jget raw_data ''description'' PNone) (\<lambda>description.
     bindE (jget raw_data ''ce'' PNone) (\<lambda>ce.
       Inr \<lparr>rd_role = role, rd_display_name = display_name, rd_description = description, rd_ce = ce\<rparr>))))"

record origin =
  origin_type :: pyval
  origin_name :: pyval

text \<open>\<open>Origin(**o)\<close>: the keys of \<open>o\<close> are among the names of the parameters.\<close>

definition Origin_of :: "pyval \<Rightarrow> origin res" where
  "Origin_of v =
     (case v of
        PDict d \<Rightarrow> (if set (map fst d) \<subseteq> {PStr ''type'', PStr ''name''}
                    then bindE (jget v ''type'' PNone) (\<lambda>t. bindE (jget v ''name'' PNone) (\<lambda>n.
                           Inr \<lparr>origin_type = t, origin_name = n\<rparr>))
                    else Inl TypeError)
      | _ \<Rightarrow> Inl TypeError)"

record role_and_origins =
  ro_role :: pyval
  ro_origins :: "origin list"

definition create_role_and_origins :: "pyval \<Rightarrow> role_and_origins res" where
  "create_role_and_origins raw_data =
     bindE (jget raw_data ''origins'' PNone) (\<lambda>origin_data.
     bindE (jget raw_data ''role'' PNone) (\<lambda>raw_role.
     bindE (Role_create_role raw_role) (\<lambda>role.
     bindE (if truthy origin_data then bindE (py_iter origin_data) (mapE Origin_of) else Inr [])
       (\<lambda>origins. Inr \<lparr>ro_role = role, ro_origins = origins\<rparr>))))"

subsection \<open>Users\<close>

text \<open>\<open>isinstance(r, type)\<close> holds of classes; \<open>valid_type\<close> is the class the elements should have.\<close>

definition is_class :: "pyval \<Rightarrow> bool" where
  "is_class v = is_instance_of v ''type''"

definition validate_all_set_types :: "pyval list \<Rightarrow> unit res" where
  "validate_all_set_types xs = (if list_all is_class xs then Inl InvalidArgumentException else Inr ())"

definition to_set :: "(pyval \<Rightarrow> bool) \<Rightarrow> pyval \<Rightarrow> pyval res" where
  "to_set valid_type value =
     (if \<not> truthy value then Inr value
      else case value of
        PSet xs \<Rightarrow> bindE (validate_all_set_types xs) (\<lambda>_. Inr value)
      | PList xs \<Rightarrow> bindE (validate_all_set_types xs) (\<lambda>_. py_set xs)
      | PTuple xs \<Rightarrow> bindE (validate_all_set_types xs) (\<lambda>_. py_set xs)
      | _ \<Rightarrow> if valid_type value then py_set [value] else Inl InvalidArgumentException)"

definition is_role :: "pyval \<Rightarrow> bool" where
  "is_role v = is_instance_of v ''Role''"

record user =
  u_username :: pyval
  u_display_name :: pyval
  u_groups :: pyval
  u_roles :: pyval
  u_password :: pyval

definition User_init :: "pyval \<Rightarrow> pyval \<Rightarrow> pyval \<Rightarrow> pyval \<Rightarrow> pyval \<Rightarrow> user res" where
  "User_init username display_name groups roles password =
     (if \<not> truthy username then Inl InvalidArgumentException
      else bindE (to_set is_str groups) (\<lambda>gs. bindE (to_set is_role roles) (\<lambda>rs.
             Inr \<lparr>u_username = username, u_display_name = display_name, u_groups = gs,
                  u_roles = rs, u_password = password\<rparr>)))"

definition User_groups_setter :: "pyval \<Rightarrow> user \<Rightarrow> user res" where
  "User_groups_setter value self = bindE (to_set is_str value) (\<lambda>gs. Inr (self\<lparr>u_groups := gs\<rparr>))"

definition User_roles_setter :: "pyval \<Rightarrow> user \<Rightarrow> user res" where
  "User_roles_setter value self = bindE (to_set is_role value) (\<lambda>rs. Inr (self\<lparr>u_roles := rs\<rparr>))"

definition User_password_setter :: "pyval \<Rightarrow> user \<Rightarrow> user" where
  "User_password_setter value self = self\<lparr>u_password := value\<rparr>"

definition User_as_dict :: "user \<Rightarrow> pydict res" where
  "User_as_dict self =
     (let output = [(''username'', u_username self), (''name'', u_display_name self),
                    (''password'', u_password self)]
      in bindE (if truthy (u_roles self)
                then bindE (py_iter (u_roles self)) (\<lambda>rs. Inr (output @ [(''roles'', PList rs)]))
                else Inr output) (\<lambda>output.
         if truthy (u_groups self)
         then bindE (py_iter (u_groups self)) (\<lambda>gs. Inr (output @ [(''groups'', PList gs)]))
         else Inr output))"

definition User_create_user :: "pyval \<Rightarrow> pyval \<Rightarrow> user res" where
  "User_create_user raw_data roles =
     bindE (if \<not> truthy roles
            then bindE (jget raw_data ''roles'' PNone) (\<lambda>rs. bindE (py_iter rs) (\<lambda>xs.
                   bindE (mapE Role_create_role xs) (\<lambda>ys. bindE (py_set ys) (\<lambda>_. Inr ()))))
            else Inr ()) (\<lambda>_.
     bindE (jget raw_data ''groups'' PNone) (\<lambda>group_data.
     bindE (jget raw_data ''username'' PNone) (\<lambda>username.
     bindE (jget raw_data ''display_name'' PNone) (\<lambda>display_name.
     bindE (if truthy group_data then bindE (py_iter group_data) py_set else Inr PNone) (\<lambda>groups.
       User_init username display_name groups roles PNone)))))"

record user_and_metadata =
  um_domain :: pyval
  um_effective_roles :: "role_and_origins list"
  um_user :: user
  um_password_changed :: pyval
  um_external_groups :: pyval
  um_raw_data :: pyval

text \<open>
  \<open>strptime\<close> stands for \<open>datetime.strptime\<close>; the loop over the two formats keeps the
  first that succeeds and swallows every exception.
\<close>

definition parse_password_changed :: "(pyval \<Rightarrow> string \<Rightarrow> pyval res) \<Rightarrow> pyval \<Rightarrow> pyval" where
  "parse_password_changed strptime pw_data =
     fold (\<lambda>f pw_changed. if truthy pw_changed then pw_changed
            else case strptime pw_data f of Inr t \<Rightarrow> t | Inl _ \<Rightarrow> pw_changed)
       [''%Y-%m-%dT%H:%M:%S.%fZ'', ''%Y-%m-%dT%H:%M:%SZ''] PNone"

definition direct_role :: "role_and_origins \<Rightarrow> bool" where
  "direct_role r \<longleftrightarrow> list_ex (\<lambda>u. origin_type u = PStr ''user'') (ro_origins r) \<or> ro_origins r = []"

definition create_user_and_metadata ::
  "(pyval \<Rightarrow> string \<Rightarrow> pyval res) \<Rightarrow> pyval \<Rightarrow> user_and_metadata res" where
  "create_user_and_metadata strptime raw_data =
     bindE (jget raw_data ''effective_roles'' PNone) (\<lambda>raw_roles.
     bindE (py_iter raw_roles) (\<lambda>xs.
     bindE (mapE create_role_and_origins xs) (\<lambda>effective_roles.
     bindE (py_set (map ro_role (filter direct_role effective_roles))) (\<lambda>user_roles.
     bindE (jget raw_data ''external_groups'' PNone) (\<lambda>ext_group_data.
     bindE (jget raw_data ''password_changed'' PNone) (\<lambda>pw_data.
     bindE (jget raw_data ''domain'' PNone) (\<lambda>domain.
     bindE (jget raw_data ''user'' PNone) (\<lambda>raw_user.
     bindE (User_create_user raw_user user_roles) (\<lambda>user.
     bindE (if truthy ext_group_data then bindE (py_iter ext_group_data) py_set else Inr PNone)
       (\<lambda>external_groups.
         Inr \<lparr>um_domain = AuthDomain_from_str domain, um_effective_roles = effective_roles,
              um_user = user, um_password_changed = parse_password_changed strptime pw_data,
              um_external_groups = external_groups, um_raw_data = raw_data\<rparr>))))))))))"

subsection \<open>Groups\<close>

record group =
  g_name :: pyval
  g_description :: pyval
  g_roles :: pyval
  g_ldap_group_reference :: pyval
  g_raw_data :: pyval

definition Group_init :: "pyval \<Rightarrow> pyval \<Rightarrow> pyval \<Rightarrow> pyval \<Rightarrow> pydict \<Rightarrow> group res" where
  "Group_init name description roles ldap_group_reference kwargs =
     (if \<not> truthy name then Inl InvalidArgumentException
      else bindE (to_set is_role roles) (\<lambda>rs.
             Inr \<lparr>g_name = name, g_description = description, g_roles = rs,
                  g_ldap_group_reference = ldap_group_reference,
                  g_raw_data = dget kwargs ''raw_data'' PNone\<rparr>))"

definition Group_roles_setter :: "pyval \<Rightarrow> group \<Rightarrow> group res" where
  "Group_roles_setter value self = bindE (to_set is_role value) (\<lambda>rs. Inr (self\<lparr>g_roles := rs\<rparr>))"

definition Group_as_dict :: "group \<Rightarrow> pydict res" where
  "Group_as_dict self =
     bindE (py_iter (g_roles self)) (\<lambda>xs. bindE (mapE Role_as_dict xs) (\<lambda>rs.
       Inr [(''name'', g_name self), (''description'', g_description self), (''roles'', PList rs),
            (''ldap_group_reference'', g_ldap_group_reference self)]))"

text \<open>The last keyword of the call is misspelt, so the constructor collects it in its \<open>kwargs\<close>.\<close>

definition Group_create_group :: "pyval \<Rightarrow> group res" where
  "Group_create_group raw_data =
     bindE (jget raw_data ''name'' PNone) (\<lambda>name.
     bindE (jget raw_data ''description'' PNone) (\<lambda>description.
     bindE (jget raw_data ''roles'' PNone) (\<lambda>raw_roles.
     bindE (py_iter raw_roles) (\<lambda>xs.
     bindE (mapE Role_create_role xs) (\<lambda>ys.
     bindE (py_set ys) (\<lambda>roles.
     bindE (jget raw_data ''ldap_group_ref'' PNone) (\<lambda>ldap.
       Group_init name description roles PNone [(''ldap_group_referenc'', ldap)])))))))"

subsection \<open>Requests of the user manager\<close>

definition user_kwargs :: "mgmt_env \<Rightarrow> string \<Rightarrow> pydict" where
  "user_kwargs m op_type = mgmt_kwargs m ''USER'' ''user_mgmt_operations'' op_type"

definition pop_domain :: "pydict \<Rightarrow> pyval res" where
  "pop_domain final_args = get_valid_domain (dget final_args ''domain_name'' (PStr ''local''))"

text \<open>
  In the operations on users the options are merged first and the handlers are taken
  out of the keyword arguments later; in those on groups it is the other way round.
\<close>

definition send_user_request ::
  "mgmt_env \<Rightarrow> string \<Rightarrow> pydict \<Rightarrow> pydict \<Rightarrow> pydict \<Rightarrow> pydict" where
  "send_user_request m op_type op_args kwargs final_args =
     add_timeout final_args
       (snd (take_handlers kwargs (user_kwargs m op_type @ [(''op_args'', pdict op_args)])))"

definition get_user :: "mgmt_env \<Rightarrow> pyval \<Rightarrow> pydict list \<Rightarrow> pydict \<Rightarrow> pydict res" where
  "get_user m username options kwargs =
     bindE (forward_args (mg_env m) kwargs options) (\<lambda>final_args.
     bindE (pop_domain final_args) (\<lambda>domain.
       Inr (send_user_request m ''GET_USER'' [(''domain'', domain), (''username'', username)]
              kwargs final_args)))"

definition get_all_users :: "mgmt_env \<Rightarrow> pydict list \<Rightarrow> pydict \<Rightarrow> pydict res" where
  "get_all_users m options kwargs =
     bindE (forward_args (mg_env m) kwargs options) (\<lambda>final_args.
     bindE (pop_domain final_args) (\<lambda>domain.
       Inr (send_user_request m ''GET_ALL_USERS'' [(''domain'', domain)] kwargs final_args)))"

fun is_set :: "pyval \<Rightarrow> bool" where
  "is_set (PSet xs) = True"
| "is_set v = False"

text \<open>\<open>list(map(lambda r: r.as_dict(), roles))\<close> under the key \<open>roles\<close>, where there are roles.\<close>

definition put_roles :: "pyval \<Rightarrow> pydict \<Rightarrow> pydict res" where
  "put_roles roles d =
     (if truthy roles
      then bindE (py_iter roles) (\<lambda>rs. bindE (mapE Role_as_dict rs) (\<lambda>ds.
             Inr (AList.update ''roles'' (PList ds) d)))
      else Inr d)"

definition user_fields :: "string list" where
  "user_fields = [''password'', ''name'', ''username'', ''groups'']"

definition user_payload :: "user \<Rightarrow> pyval \<Rightarrow> pydict res" where
  "user_payload user domain =
     (if \<not> truthy (u_groups user) \<and> (\<not> truthy (u_roles user) \<or> \<not> is_set (u_roles user))
      then Inl InvalidArgumentException
      else bindE (User_as_dict user) (\<lambda>d.
        let user_dict = filter (\<lambda>kv. fst kv \<in> set user_fields) d
        in if truthy (dget user_dict ''password'' PNone) \<and> domain = PStr ''external''
           then Inl InvalidArgumentException
           else put_roles (u_roles user) user_dict))"

definition upsert_user :: "mgmt_env \<Rightarrow> user \<Rightarrow> pydict list \<Rightarrow> pydict \<Rightarrow> pydict res" where
  "upsert_user m user options kwargs =
     bindE (forward_args (mg_env m) kwargs options) (\<lambda>final_args.
     bindE (pop_domain final_args) (\<lambda>domain.
     bindE (user_payload user domain) (\<lambda>user_dict.
       Inr (send_user_request m ''UPSERT_USER''
              [(''domain'', domain), (''user'', pdict user_dict)] kwargs final_args))))"

definition drop_user :: "mgmt_env \<Rightarrow> pyval \<Rightarrow> pydict list \<Rightarrow> pydict \<Rightarrow> pydict res" where
  "drop_user m username options kwargs =
     bindE (forward_args (mg_env m) kwargs options) (\<lambda>final_args.
     bindE (pop_domain final_args) (\<lambda>domain.
       Inr (send_user_request m ''DROP_USER'' [(''domain'', domain), (''username'', username)]
              kwargs final_args)))"

definition change_password :: "mgmt_env \<Rightarrow> pyval \<Rightarrow> pydict list \<Rightarrow> pydict \<Rightarrow> pydict res" where
  "change_password m new_password options kwargs =
     bindE (forward_args (mg_env m) kwargs options) (\<lambda>final_args.
       Inr (send_user_request m ''CHANGE_PASSWORD'' [(''password'', new_password)] kwargs final_args))"

definition handlers_first ::
  "mgmt_env \<Rightarrow> string \<Rightarrow> pydict \<Rightarrow> pydict list \<Rightarrow> pydict \<Rightarrow> pydict res" where
  "handlers_first m op_type op_args options kwargs =
     (let (kwargs', req) = take_handlers kwargs (user_kwargs m op_type @ op_args)
      in finish_request m kwargs' options req)"

definition get_roles :: "mgmt_env \<Rightarrow> pydict list \<Rightarrow> pydict \<Rightarrow> pydict res" where
  "get_roles m options kwargs = handlers_first m ''GET_ROLES'' [] options kwargs"

definition get_group :: "mgmt_env \<Rightarrow> pyval \<Rightarrow> pydict list \<Rightarrow> pydict \<Rightarrow> pydict res" where
  "get_group m group_name options kwargs =
     handlers_first m ''GET_GROUP'' [(''op_args'', pdict [(''name'', group_name)])] options kwargs"

definition get_all_groups :: "mgmt_env \<Rightarrow> pydict list \<Rightarrow> pydict \<Rightarrow> pydict res" where
  "get_all_groups m options kwargs = handlers_first m ''GET_ALL_GROUPS'' [] options kwargs"

definition group_fields :: "string list" where
  "group_fields = [''name'', ''description'', ''ldap_group_reference'']"

definition upsert_group :: "mgmt_env \<Rightarrow> group \<Rightarrow> pydict list \<Rightarrow> pydict \<Rightarrow> pydict res" where
  "upsert_group m g options kwargs =
     bindE (Group_as_dict g) (\<lambda>d.
     bindE (put_roles (g_roles g) (filter (\<lambda>kv. fst kv \<in> set group_fields) d)) (\<lambda>group_dict.
       handlers_first m ''UPSERT_GROUP'' [(''op_args'', pdict [(''group'', pdict group_dict)])]
         options kwargs))"

definition drop_group :: "mgmt_env \<Rightarrow> pyval \<Rightarrow> pydict list \<Rightarrow> pydict \<Rightarrow> pydict res" where
  "drop_group m group_name options kwargs =
     handlers_first m ''DROP_GROUP'' [(''op_args'', pdict [(''name'', group_name)])] options kwargs"

subsection \<open>What the constructors and setters store\<close>

definition set_field :: "pyval \<Rightarrow> bool" where
  "set_field v \<longleftrightarrow> \<not> truthy v \<or> (\<exists>xs. v = PSet xs)"

lemma to_set_field:
  assumes "to_set p v = Inr w"
  shows "set_field w"
proof (cases v)
  case (PSet xs)
  then show ?thesis using assms by (auto simp: to_set_def set_field_def bindE_eq_Inr split: if_splits)
qed (use assms in \<open>auto simp: to_set_def set_field_def bindE_eq_Inr py_set_def split: if_splits\<close>)

datatype user_op = SetGroups pyval | SetRoles pyval | SetPassword pyval | SetDisplayName pyval

fun user_step :: "user_op \<Rightarrow> user \<Rightarrow> user res" where
  "user_step (SetGroups v) u = User_groups_setter v u"
| "user_step (SetRoles v) u = User_roles_setter v u"
| "user_step (SetPassword v) u = Inr (User_password_setter v u)"
| "user_step (SetDisplayName v) u = Inr (u\<lparr>u_display_name := v\<rparr>)"

definition user_typed :: "user \<Rightarrow> bool" where
  "user_typed u \<longleftrightarrow> truthy (u_username u) \<and> set_field (u_groups u) \<and> set_field (u_roles u)"

lemma user_step_typed: "user_step f u = Inr u' \<Longrightarrow> user_typed u \<Longrightarrow> user_typed u'"
  by (cases f) (auto simp: user_typed_def User_groups_setter_def User_roles_setter_def
      User_password_setter_def bindE_eq_Inr dest: to_set_field)

text \<open>C36. Whatever a user is constructed with and whatever its setters are given, its groups
  and its roles are a set or a false value, so the check of \<open>upsert_user\<close> that the roles
  are a set never refuses roles that are there.
\<close>

theorem user_collections_typed:
  assumes "User_init username display_name groups roles password = Inr u"
    and "foldE user_step fs u = Inr u'"
  shows "set_field (u_groups u') \<and> set_field (u_roles u') \<and> truthy (u_username u') \<and>
    (truthy (u_roles u') \<longrightarrow> is_set (u_roles u'))"
proof -
  have "user_typed u"
    using assms(1)
    by (auto simp: User_init_def user_typed_def bindE_eq_Inr dest: to_set_field split: if_splits)
  with assms(2) have "user_typed u'"
    using foldE_invariant [of user_step fs u u' user_typed] user_step_typed by blast
  then show ?thesis by (auto simp: user_typed_def set_field_def)
qed

lemma user_collections_typed_witness:
  "\<exists>u u'. User_init (PStr ''u'') PNone (PStr ''g'') (PList [mk_role (PStr ''admin'') PNone PNone PNone])
      PNone = Inr u \<and>
    foldE user_step [SetGroups (PTuple [PStr ''a'', PStr ''a''])] u = Inr u' \<and>
    u_groups u' = PSet [PStr ''a''] \<and> is_set (u_roles u')"
proof -
  have 1: "\<exists>u. User_init (PStr ''u'') PNone (PStr ''g'')
      (PList [mk_role (PStr ''admin'') PNone PNone PNone]) PNone = Inr u \<and>
      truthy (u_roles u)"
    by (simp add: User_init_def to_set_def py_set_def validate_all_set_types_def is_class_def
        mk_role_def py_in_def)
  then obtain u where u: "User_init (PStr ''u'') PNone (PStr ''g'')
      (PList [mk_role (PStr ''admin'') PNone PNone PNone]) PNone = Inr u" "truthy (u_roles u)"
    by blast
  have step: "foldE user_step [SetGroups (PTuple [PStr ''a'', PStr ''a''])] u =
      Inr (u\<lparr>u_groups := PSet [PStr ''a'']\<rparr>)"
    by (simp add: User_groups_setter_def to_set_def py_set_def validate_all_set_types_def is_class_def
        py_in_def)
  from user_collections_typed [OF u(1) step] u step show ?thesis
    by (intro exI [of _ u] exI [of _ "u\<lparr>u_groups := PSet [PStr ''a'']\<rparr>"]) simp
qed

subsection \<open>What the user manager sends\<close>

lemma op_args_sent:
  "map_of (send_user_request m op_type op_args kwargs final_args) ''op_args'' = Some (pdict op_args)"
  by (simp add: send_user_request_def map_of_add_timeout take_handlers_simps user_kwargs_def
      mgmt_kwargs_def)

lemma op_args_kept:
  assumes "handlers_first m op_type [(''op_args'', a)] options kwargs = Inr req"
  shows "map_of req ''op_args'' = Some a"
proof -
  obtain kwargs' r where r: "take_handlers kwargs (user_kwargs m op_type @ [(''op_args'', a)]) = (kwargs', r)"
    by fastforce
  then have "map_of r ''op_args'' = Some a"
    using take_handlers_simps(2) [of kwargs "user_kwargs m op_type @ [(''op_args'', a)]" "''op_args''"]
    by (simp add: user_kwargs_def mgmt_kwargs_def)
  with assms r show ?thesis
    by (auto simp: handlers_first_def finish_request_def bindE_eq_Inr map_of_add_timeout)
qed

lemma pop_domain_values:
  "pop_domain final_args = Inr d \<Longrightarrow> d = PStr ''local'' \<or> d = PStr ''external''"
  by (auto simp: pop_domain_def get_valid_domain_def AuthDomain_to_str_def split: if_splits)

lemma put_roles_lookup:
  "put_roles roles d = Inr e \<Longrightarrow>
     map_of e k = (if k = ''roles'' \<and> truthy roles
       then map_option PList (okE (bindE (py_iter roles) (mapE Role_as_dict))) else map_of d k)"
  by (auto simp: put_roles_def bindE_eq_Inr dict_simps split: if_splits)

lemma map_of_keep: "map_of (filter (\<lambda>kv. fst kv \<in> A) d) k = (if k \<in> A then map_of d k else None)"
  by (induction d) auto

lemma User_as_dict_fields:
  assumes "User_as_dict u = Inr d"
  shows "map_of (filter (\<lambda>kv. fst kv \<in> set user_fields) d) k =
    (if k = ''username'' then Some (u_username u) else if k = ''name'' then Some (u_display_name u)
     else if k = ''password'' then Some (u_password u)
     else if k = ''groups'' \<and> truthy (u_groups u)
     then map_option PList (okE (py_iter (u_groups u))) else None)"
proof -
  obtain rs gs where d: "d = [(''username'', u_username u), (''name'', u_display_name u),
      (''password'', u_password u)] @ (if truthy (u_roles u) then [(''roles'', PList rs)] else [])
      @ (if truthy (u_groups u) then [(''groups'', PList gs)] else [])"
    and gs: "truthy (u_groups u) \<Longrightarrow> py_iter (u_groups u) = Inr gs"
    using assms unfolding User_as_dict_def Let_def bindE_eq_Inr
    by (cases "truthy (u_roles u)"; cases "truthy (u_groups u)") (auto simp: bindE_eq_Inr)
  show ?thesis
    unfolding map_of_keep d map_of_append user_fields_def
    by (cases "truthy (u_groups u)") (use gs in simp_all)
qed

lemma user_payload_cases:
  assumes "user_payload u domain = Inr e"
  shows "(truthy (u_groups u) \<or> truthy (u_roles u)) \<and>
    \<not> (truthy (u_password u) \<and> domain = PStr ''external'') \<and>
    (\<exists>d. User_as_dict u = Inr d \<and> put_roles (u_roles u) (filter (\<lambda>kv. fst kv \<in> set user_fields) d) = Inr e)"
proof -
  from assms have g: "truthy (u_groups u) \<or> truthy (u_roles u)"
    by (auto simp: user_payload_def split: if_splits)
  from assms obtain d where d: "User_as_dict u = Inr d"
    by (auto simp: user_payload_def bindE_eq_Inr split: if_splits)
  have "dget (filter (\<lambda>kv. fst kv \<in> set user_fields) d) ''password'' PNone = u_password u"
    by (simp add: dget_def User_as_dict_fields [OF d])
  with assms d g show ?thesis
    by (simp add: user_payload_def Let_def split: if_splits)
qed

text \<open>C16. A request to upsert a user goes to the local or the external domain, has a role or a
  group, holds every role of the user in the form of the server, and never carries a
  password for an external user.
\<close>

theorem upsert_user_request:
  assumes "upsert_user m u options kwargs = Inr req"
  shows "\<exists>domain d. map_of req ''op_args'' = Some (pdict [(''domain'', domain), (''user'', pdict d)]) \<and>
    (domain = PStr ''local'' \<or> domain = PStr ''external'' \<and> \<not> truthy (u_password u)) \<and>
    (truthy (u_groups u) \<or> truthy (u_roles u)) \<and>
    map_of d ''username'' = Some (u_username u) \<and> map_of d ''password'' = Some (u_password u) \<and>
    map_of d ''roles'' =
      (if truthy (u_roles u)
       then map_option PList (okE (bindE (py_iter (u_roles u)) (mapE Role_as_dict))) else None)"
proof -
  from assms obtain final domain e where
    pd: "pop_domain final = Inr domain" and e: "user_payload u domain = Inr e"
    and req: "req = send_user_request m ''UPSERT_USER'' [(''domain'', domain), (''user'', pdict e)] kwargs final"
    by (auto simp: upsert_user_def bindE_eq_Inr)
  from user_payload_cases [OF e] obtain d where
    g: "truthy (u_groups u) \<or> truthy (u_roles u)"
    and pw: "\<not> (truthy (u_password u) \<and> domain = PStr ''external'')"
    and d: "User_as_dict u = Inr d"
    and p: "put_roles (u_roles u) (filter (\<lambda>kv. fst kv \<in> set user_fields) d) = Inr e" by blast
  have "map_of e ''username'' = Some (u_username u)" "map_of e ''password'' = Some (u_password u)"
    "map_of e ''roles'' = (if truthy (u_roles u)
       then map_option PList (okE (bindE (py_iter (u_roles u)) (mapE Role_as_dict))) else None)"
    by (simp_all add: put_roles_lookup [OF p] User_as_dict_fields [OF d])
  then show ?thesis using g pw pop_domain_values [OF pd] unfolding req op_args_sent by blast
qed

lemma forward_args_empty: "forward_args env [] [] = Inr []"
  by (simp add: forward_args_def get_temp_opts_def nested_kwargs_def dupdate_def)

definition some_mgmt_env :: mgmt_env where
  "some_mgmt_env = \<lparr>mg_env = \<lparr>time_now = 0, str_of = \<lambda>_. ''''\<rparr>, mg_conn = PNone,
     mg_value = \<lambda>e k. PStr k\<rparr>"

lemma upsert_user_request_witness:
  "let u = \<lparr>u_username = PStr ''u'', u_display_name = PNone, u_groups = PSet [PStr ''g''],
            u_roles = PNone, u_password = PStr ''pw''\<rparr>
   in \<exists>req domain d. upsert_user some_mgmt_env u [] [] = Inr req \<and>
        map_of req ''op_args'' = Some (pdict [(''domain'', domain), (''user'', pdict d)]) \<and>
        domain = PStr ''local'' \<and> map_of d ''password'' = Some (PStr ''pw'') \<and> map_of d ''roles'' = None"
proof -
  define u where "u = \<lparr>u_username = PStr ''u'', u_display_name = PNone,
      u_groups = PSet [PStr ''g''], u_roles = PNone, u_password = PStr ''pw''\<rparr>"
  have pd: "pop_domain [] = Inr (PStr ''local'')"
    by (simp add: pop_domain_def get_valid_domain_def)
  have "\<exists>d. user_payload u (PStr ''local'') = Inr d"
    by (simp add: user_payload_def u_def User_as_dict_def py_iter_def user_fields_def put_roles_def)
  then obtain req where req: "upsert_user some_mgmt_env u [] [] = Inr req"
    by (auto simp: upsert_user_def forward_args_empty pd)
  from upsert_user_request [OF this] obtain domain d where
    sent: "map_of req ''op_args'' = Some (pdict [(''domain'', domain), (''user'', pdict d)])"
    and dom: "domain = PStr ''local'' \<or> domain = PStr ''external'' \<and> \<not> truthy (u_password u)"
    and pw: "map_of d ''password'' = Some (u_password u)"
    and roles: "map_of d ''roles'' = (if truthy (u_roles u)
       then map_option PList (okE (bindE (py_iter (u_roles u)) (mapE Role_as_dict))) else None)"
    by blast
  have "domain = PStr ''local''" using dom by (simp add: u_def)
  moreover have "map_of d ''password'' = Some (PStr ''pw'')" "map_of d ''roles'' = None"
    using pw roles by (simp_all add: u_def)
  ultimately show ?thesis unfolding Let_def u_def [symmetric] using req sent by blast
qed

subsection \<open>Reading users and groups\<close>

lemma Role_create_role_is_role:
  assumes "Role_create_role v = Inr r"
  shows "\<exists>n b s c. r = mk_role n b s c \<and> truthy n"
  using assms by (auto simp: Role_create_role_def Role_init_def bindE_eq_Inr split: if_splits)

lemma mapE_Inr_all: "mapE f xs = Inr ys \<Longrightarrow> y \<in> set ys \<Longrightarrow> \<exists>x \<in> set xs. f x = Inr y"
  by (induction xs arbitrary: ys) (auto simp: bindE_eq_Inr)

lemma create_role_and_origins_role:
  assumes "create_role_and_origins v = Inr r"
  shows "\<exists>n b s c. ro_role r = mk_role n b s c"
proof -
  from assms obtain w where "Role_create_role w = Inr (ro_role r)"
    by (auto simp: create_role_and_origins_def bindE_eq_Inr)
  from Role_create_role_is_role [OF this] show ?thesis by blast
qed

lemma roles_set:
  assumes "py_set xs = Inr v" and "\<forall>x \<in> set xs. \<exists>n b s c. x = mk_role n b s c"
  shows "\<exists>ys. v = PSet ys \<and> set ys = set xs \<and> to_set is_role v = Inr v"
proof -
  from py_set_eq [OF assms(1)] obtain ys where ys: "v = PSet ys" "set ys \<subseteq> set xs"
    and cov: "\<forall>x \<in> set xs. \<exists>y \<in> set ys. py_eq y x" by blast
  have "x \<in> set ys" if "x \<in> set xs" for x
  proof -
    from bspec [OF cov that] obtain y where y: "y \<in> set ys" "py_eq y x" by (rule bexE)
    then have "y \<in> set xs" using ys(2) by blast
    then obtain n b s c where "y = mk_role n b s c" using assms(2) by blast
    with y(2) have "x = y" unfolding mk_role_def by (simp only: py_eq.simps)
    with y(1) show ?thesis by simp
  qed
  then have eq: "set ys = set xs" using ys(2) by blast
  moreover have "\<not> list_all is_class ys" if "ys \<noteq> []"
  proof -
    have "hd ys \<in> set xs" using that eq hd_in_set by blast
    then have "\<not> is_class (hd ys)" using assms(2) by (auto simp: is_class_def mk_role_def)
    then show ?thesis using that by (cases ys) auto
  qed
  ultimately show ?thesis
    using ys(1) by (auto simp: to_set_def validate_all_set_types_def)
qed

lemma User_create_user_fields:
  assumes "User_create_user raw roles = Inr u" "to_set is_role roles = Inr roles"
  shows "u_roles u = roles \<and> u_password u = PNone"
proof -
  from assms(1) obtain un dn gs where "User_init un dn gs roles PNone = Inr u"
    by (auto simp: User_create_user_def bindE_eq_Inr)
  then show ?thesis using assms(2) by (auto simp: User_init_def bindE_eq_Inr split: if_splits)
qed

text \<open>C27. A user read from the server has as its own roles exactly those effective roles that
  name the user as an origin or name no origin at all: a role that comes from a group
  alone is listed as effective and is not the user's.
\<close>

theorem user_roles_are_the_direct_ones:
  assumes "create_user_and_metadata strptime raw = Inr um"
  shows "\<exists>rs. u_roles (um_user um) = PSet rs \<and>
    set rs = ro_role ` {r \<in> set (um_effective_roles um).
      ro_origins r = [] \<or> PStr ''user'' \<in> origin_type ` set (ro_origins r)} \<and>
    um_domain um \<in> set AuthDomain \<and> u_password (um_user um) = PNone"
proof -
  obtain xs effective raw_user user_roles where
    eff: "mapE create_role_and_origins xs = Inr effective"
    and ur: "py_set (map ro_role (filter direct_role effective)) = Inr user_roles"
    and us: "User_create_user raw_user user_roles = Inr (um_user um)"
    and um: "um_effective_roles um = effective" "\<exists>d. um_domain um = AuthDomain_from_str d"
    by (insert assms, unfold create_user_and_metadata_def bindE_eq_Inr,
        elim exE conjE, rule that, assumption, assumption)
       (simp_all only: sum.inject, auto)
  have "\<forall>x \<in> set (map ro_role (filter direct_role effective)). \<exists>n b s c. x = mk_role n b s c"
    using create_role_and_origins_role mapE_Inr_all [OF eff] by fastforce
  from roles_set [OF ur this] obtain rs where rs: "user_roles = PSet rs"
    "set rs = ro_role ` {r \<in> set effective. direct_role r}" "to_set is_role user_roles = Inr user_roles"
    by auto
  have "u_roles (um_user um) = user_roles \<and> u_password (um_user um) = PNone"
    using us rs(3) by (rule User_create_user_fields)
  moreover have "um_domain um \<in> set AuthDomain"
    using um(2) by (auto simp: AuthDomain_from_str_def AuthDomain_def)
  moreover have "direct_role r \<longleftrightarrow> ro_origins r = [] \<or> PStr ''user'' \<in> origin_type ` set (ro_origins r)" for r
    unfolding direct_role_def list_ex_iff image_iff by metis
  ultimately show ?thesis using rs um(1) by simp
qed

definition sample_user_json :: pyval where
  "sample_user_json = PDict
     [(PStr ''domain'', PStr ''local''),
      (PStr ''user'', PDict [(PStr ''username'', PStr ''u'')]),
      (PStr ''effective_roles'', PList
        [PDict [(PStr ''role'', PDict [(PStr ''name'', PStr ''admin'')]),
                (PStr ''origins'', PList [PDict [(PStr ''type'', PStr ''user'')]])],
         PDict [(PStr ''role'', PDict [(PStr ''name'', PStr ''reader'')]),
                (PStr ''origins'', PList [PDict [(PStr ''type'', PStr ''group''), (PStr ''name'', PStr ''g'')]])]])]"

lemma user_roles_are_the_direct_ones_witness:
  "\<exists>um rs. create_user_and_metadata (\<lambda>_ _. Inl TypeError) sample_user_json = Inr um \<and>
     length (um_effective_roles um) = 2 \<and> u_roles (um_user um) = PSet rs \<and>
     set rs = {mk_role (PStr ''admin'') PNone PNone PNone}"
proof -
  have "\<exists>um. create_user_and_metadata (\<lambda>_ _. Inl TypeError) sample_user_json = Inr um \<and>
      um_effective_roles um =
        [\<lparr>ro_role = mk_role (PStr ''admin'') PNone PNone PNone,
          ro_origins = [\<lparr>origin_type = PStr ''user'', origin_name = PNone\<rparr>]\<rparr>,
         \<lparr>ro_role = mk_role (PStr ''reader'') PNone PNone PNone,
          ro_origins = [\<lparr>origin_type = PStr ''group'', origin_name = PStr ''g''\<rparr>]\<rparr>]"
    by (simp add: sample_user_json_def create_user_and_metadata_def create_role_and_origins_def
        Role_create_role_def Role_init_def Origin_of_def py_iter_def direct_role_def py_set_def
        mk_role_def py_in_def User_create_user_def User_init_def to_set_def validate_all_set_types_def
        is_class_def)
  then obtain um where um: "create_user_and_metadata (\<lambda>_ _. Inl TypeError) sample_user_json = Inr um"
    "um_effective_roles um =
        [\<lparr>ro_role = mk_role (PStr ''admin'') PNone PNone PNone,
          ro_origins = [\<lparr>origin_type = PStr ''user'', origin_name = PNone\<rparr>]\<rparr>,
         \<lparr>ro_role = mk_role (PStr ''reader'') PNone PNone PNone,
          ro_origins = [\<lparr>origin_type = PStr ''group'', origin_name = PStr ''g''\<rparr>]\<rparr>]" by blast
  from user_roles_are_the_direct_ones [OF um(1)] obtain rs where rs: "u_roles (um_user um) = PSet rs"
    "set rs = ro_role ` {r \<in> set (um_effective_roles um).
       ro_origins r = [] \<or> PStr ''user'' \<in> origin_type ` set (ro_origins r)}" by blast
  have "{r \<in> set (um_effective_roles um).
       ro_origins r = [] \<or> PStr ''user'' \<in> origin_type ` set (ro_origins r)} =
      {\<lparr>ro_role = mk_role (PStr ''admin'') PNone PNone PNone,
        ro_origins = [\<lparr>origin_type = PStr ''user'', origin_name = PNone\<rparr>]\<rparr>}"
    unfolding um(2) by auto
  then have "set rs = {mk_role (PStr ''admin'') PNone PNone PNone}" using rs(2) by simp
  with um rs(1) show ?thesis by simp
qed

text \<open>A group that is read from the server and written back keeps its name, its description
  and its roles, but the request always has no LDAP group reference, whatever the server
  reported.
\<close>

lemma group_read_and_written:
  assumes "Group_create_group raw = Inr g" and "upsert_group m g options kwargs = Inr req"
  shows "\<exists>d. map_of req ''op_args'' = Some (pdict [(''group'', pdict d)]) \<and>
    Inr (the (map_of d ''name'')) = jget raw ''name'' PNone \<and>
    Inr (the (map_of d ''description'')) = jget raw ''description'' PNone \<and>
    map_of d ''ldap_group_reference'' = Some PNone \<and>
    map_of d ''roles'' = (if truthy (g_roles g)
      then map_option PList (okE (bindE (py_iter (g_roles g)) (mapE Role_as_dict))) else None)"
proof -
  from assms(1) obtain n descr roles ldap where init:
    "Group_init n descr roles PNone [(''ldap_group_referenc'', ldap)] = Inr g"
    "jget raw ''name'' PNone = Inr n" "jget raw ''description'' PNone = Inr descr"
    by (auto simp: Group_create_group_def bindE_eq_Inr)
  have g: "g_name g = n" "g_description g = descr" "g_ldap_group_reference g = PNone"
    using init(1) by (auto simp: Group_init_def bindE_eq_Inr split: if_splits)
  from assms(2) obtain rs d where
    d: "put_roles (g_roles g) (filter (\<lambda>kv. fst kv \<in> set group_fields)
          [(''name'', g_name g), (''description'', g_description g), (''roles'', PList rs),
           (''ldap_group_reference'', g_ldap_group_reference g)]) = Inr d"
    and req: "handlers_first m ''UPSERT_GROUP'' [(''op_args'', pdict [(''group'', pdict d)])]
        options kwargs = Inr req"
    by (auto simp: upsert_group_def Group_as_dict_def bindE_eq_Inr)
  have "map_of d ''name'' = Some n" "map_of d ''description'' = Some descr"
    "map_of d ''ldap_group_reference'' = Some PNone"
    "map_of d ''roles'' = (if truthy (g_roles g)
      then map_option PList (okE (bindE (py_iter (g_roles g)) (mapE Role_as_dict))) else None)"
    by (simp_all add: put_roles_lookup [OF d] map_of_keep group_fields_def g)
  then show ?thesis using op_args_kept [OF req] init(2,3) by (intro exI [of _ d]) simp
qed

lemma group_read_and_written_witness:
  "let raw = PDict [(PStr ''name'', PStr ''g''), (PStr ''roles'', PList []),
                    (PStr ''ldap_group_ref'', PStr ''cn=g'')]
   in \<exists>g req d. Group_create_group raw = Inr g \<and> upsert_group some_mgmt_env g [] [] = Inr req \<and>
        map_of req ''op_args'' = Some (pdict [(''group'', pdict d)]) \<and>
        map_of d ''ldap_group_reference'' = Some PNone"
proof -
  define raw where "raw = PDict [(PStr ''name'', PStr ''g''), (PStr ''roles'', PList []),
      (PStr ''ldap_group_ref'', PStr ''cn=g'')]"
  have "\<exists>g. Group_create_group raw = Inr g \<and> g_roles g = PSet []"
    by (simp add: raw_def Group_create_group_def Group_init_def py_iter_def py_set_def to_set_def)
  then obtain g where g: "Group_create_group raw = Inr g" "g_roles g = PSet []" by blast
  have "\<exists>req. upsert_group some_mgmt_env g [] [] = Inr req"
    by (simp add: upsert_group_def Group_as_dict_def g(2) py_iter_def put_roles_def handlers_first_def
        finish_request_def take_handlers_def take_handler_def forward_args_empty)
  then obtain req where req: "upsert_group some_mgmt_env g [] [] = Inr req" by blast
  from group_read_and_written [OF g(1) req] show ?thesis
    unfolding Let_def raw_def [symmetric] using g(1) req by blast
qed

end
