(* ===== verification/Search_Queries.thy ===== *)
theory Search_Queries
  imports Options
begin

text \<open>
  \<open>couchbase/logic/search_queries.py\<close> and the property generator of
  \<open>couchbase/logic/search.py\<close>: the classes of full text queries, the assignment of their
  keyword arguments, their validation and their encoding as JSON.

  A query is a tree.  \<open>encodable\<close> returns the JSON value, or the exception, and the query
  as it is afterwards: a \<open>BooleanQuery\<close> keeps the encoding of its clauses in its own JSON.
  \<open>plain_json\<close> is the encoding without that state, \<open>well_formed\<close> the condition under which
  a query can be encoded.  Keyword arguments that name methods or private attributes of
  the classes are not modelled.
\<close>

subsection \<open>Conversions\<close>

text \<open>\<open>int(s)\<close> of a text: blanks around it, a sign, digits with single underscores between.\<close>

definition blank :: "char \<Rightarrow> bool" where
  "blank c = str_isspace [c]"

fun digits_value :: "bool \<Rightarrow> int \<Rightarrow> string \<Rightarrow> int option" where
  "digits_value after acc [] = (if after then Some acc else None)"
| "digits_value after acc (c # cs) =
     (let n = of_char c :: nat
      in if 48 \<le> n \<and> n \<le> 57 then digits_value True (10 * acc + int n - 48) cs
         else if n = 95 \<and> after then digits_value False acc cs
         else None)"

definition int_of_text :: "string \<Rightarrow> int option" where
  "int_of_text s =
     (let t = rev (dropWhile blank (rev (dropWhile blank s)))
      in case t of
           [] \<Rightarrow> None
         | c # cs \<Rightarrow> if c = CHR ''-'' then map_option uminus (digits_value False 0 cs)
                     else if c = CHR ''+'' then digits_value False 0 cs
                     else digits_value False 0 t)"

definition to_int :: "pyval \<Rightarrow> pyval res" where
  "to_int v =
     (case num_of v of
        Some q \<Rightarrow> Inr (PInt (py_trunc q))
      | None \<Rightarrow>
          (case v of
             PStr s \<Rightarrow> (case int_of_text s of Some i \<Rightarrow> Inr (PInt i) | None \<Rightarrow> Inl ValueError)
           | PBytes b \<Rightarrow> (case int_of_text (map (\<lambda>w. char_of (unat w)) b) of Some i \<Rightarrow> Inr (PInt i) | None \<Rightarrow> Inl ValueError)
           | PBytearray b \<Rightarrow> (case int_of_text (map (\<lambda>w. char_of (unat w)) b) of Some i \<Rightarrow> Inr (PInt i) | None \<Rightarrow> Inl ValueError)
           | _ \<Rightarrow> Inl TypeError))"

definition to_str :: "py_env \<Rightarrow> pyval \<Rightarrow> pyval res" where
  "to_str env v = (case v of PStr s \<Rightarrow> Inr v | _ \<Rightarrow> Inr (PStr (str_of env v)))"

text \<open>\<open>float(x)\<close> of a number; an integer beyond the doubles overflows.\<close>

definition to_float :: "pyval \<Rightarrow> pyval res" where
  "to_float v =
     (case v of
        PFloat q \<Rightarrow> Inr v
      | _ \<Rightarrow> (case int_of v of
               None \<Rightarrow> Inl TypeError
             | Some i \<Rightarrow> if \<bar>fl (of_int i)\<bar> < 2 ^ 1024 then Inr (PFloat (fl (of_int i)))
                         else Inl OverflowError))"

definition py_len :: "pyval \<Rightarrow> nat res" where
  "py_len v = bindE (py_iter v) (\<lambda>xs. Inr (length xs))"

definition py_item :: "pyval \<Rightarrow> nat \<Rightarrow> pyval res" where
  "py_item v i =
     (case v of
        PDict d \<Rightarrow> (case find (\<lambda>kv. py_eq (fst kv) (PInt (int i))) d of
                      Some kv \<Rightarrow> Inr (snd kv) | None \<Rightarrow> Inl KeyError)
      | PSet xs \<Rightarrow> Inl TypeError
      | _ \<Rightarrow> bindE (py_iter v) (\<lambda>xs. if i < length xs then Inr (xs ! i) else Inl IndexError))"

definition gen_location :: "pyval \<Rightarrow> pyval res" where
  "gen_location v =
     bindE (py_iter v) (\<lambda>xs.
       if length xs \<noteq> 2 \<or> \<not> list_all (\<lambda>pt. num_of pt \<noteq> None) xs then Inl InvalidArgumentException
       else bindE (py_item v 0) (\<lambda>x. bindE (to_float x) (\<lambda>lon.
            bindE (py_item v 1) (\<lambda>y. bindE (to_float y) (\<lambda>lat. Inr (PList [lon, lat]))))))"

definition gen_locations :: "pyval \<Rightarrow> pyval res" where
  "gen_locations v = bindE (py_iter v) (\<lambda>xs. bindE (mapE gen_location xs) (\<lambda>ys. Inr (PList ys)))"

subsection \<open>Properties of the classes\<close>

text \<open>A property of a query class: its name, the key it is stored under and its conversion.\<close>

type_synonym query_props = "(string \<times> string \<times> (pyval \<Rightarrow> pyval res)) list"

datatype query_class =
    TermQuery | QueryStringQuery | WildcardQuery | DocIdQuery | MatchQuery | MatchPhraseQuery
  | PhraseQuery | PrefixQuery | RegexQuery | BooleanFieldQuery | GeoDistanceQuery
  | GeoBoundingBoxQuery | GeoPolygonQuery | NumericRangeQuery | DateRangeQuery | TermRangeQuery
  | MatchAllQuery | MatchNoneQuery

definition common_fields :: "py_env \<Rightarrow> string list \<Rightarrow> query_props" where
  "common_fields env fs =
     map (\<lambda>f. (f, f, if f = ''prefix_length'' \<or> f = ''fuzziness'' then to_int else to_str env)) fs"

definition MatchOperator :: "pyval list" where
  "MatchOperator = [PEnum ''MatchOperator'' ''OR'' ''or'', PEnum ''MatchOperator'' ''AND'' ''and'']"

definition lower :: "string \<Rightarrow> string" where
  "lower = map (\<lambda>c. let n = of_char c :: nat
      in if 65 \<le> n \<and> n \<le> 90 \<or> 192 \<le> n \<and> n \<le> 222 \<and> n \<noteq> 215 then char_of (n + 32) else c)"

definition match_operator :: "pyval \<Rightarrow> pyval res" where
  "match_operator v =
     (let match_op = (if v \<in> set MatchOperator then enum_value v else v)
      in if truthy match_op
         then (case match_op of
                 PStr s \<Rightarrow> if lower s \<in> {''or'', ''and''} then Inr match_op else Inl ValueError
               | PBytes b \<Rightarrow> Inl ValueError
               | PBytearray b \<Rightarrow> Inl ValueError
               | _ \<Rightarrow> Inl AttributeError)
         else Inr match_op)"

definition phrase_terms :: "pyval \<Rightarrow> pyval res" where
  "phrase_terms v =
     (case v of
        PList xs \<Rightarrow> (if list_all is_str xs then Inr v else Inl InvalidArgumentException)
      | PTuple xs \<Rightarrow> (if list_all is_str xs then Inr (PList xs) else Inl InvalidArgumentException)
      | _ \<Rightarrow> Inl InvalidArgumentException)"

definition same_key :: "string \<Rightarrow> string \<times> string \<times> (pyval \<Rightarrow> pyval res)" where
  "same_key k = (k, k, Inr)"

fun own_props :: "query_class \<Rightarrow> query_props" where
  "own_props TermQuery = [same_key ''term'']"
| "own_props QueryStringQuery = [same_key ''query'']"
| "own_props WildcardQuery = [same_key ''wildcard'']"
| "own_props DocIdQuery = [same_key ''ids'']"
| "own_props MatchQuery = [same_key ''match'', (''match_operator'', ''operator'', match_operator)]"
| "own_props MatchPhraseQuery = [same_key ''match_phrase'']"
| "own_props PhraseQuery = [(''terms'', ''terms'', phrase_terms)]"
| "own_props PrefixQuery = [same_key ''prefix'']"
| "own_props RegexQuery = [(''regex'', ''regexp'', Inr), same_key ''regexp'']"
| "own_props BooleanFieldQuery = [same_key ''bool'']"
| "own_props GeoDistanceQuery = [(''location'', ''location'', gen_location), same_key ''distance'']"
| "own_props GeoBoundingBoxQuery =
     [(''top_left'', ''top_left'', gen_location), (''bottom_right'', ''bottom_right'', gen_location)]"
| "own_props GeoPolygonQuery = [(''polygon_points'', ''polygon_points'', gen_locations)]"
| "own_props NumericRangeQuery =
     [same_key ''min'', same_key ''min_inclusive'', same_key ''max'', same_key ''max_inclusive'']"
| "own_props DateRangeQuery =
     [same_key ''start'', same_key ''start_inclusive'', same_key ''end'', same_key ''end_inclusive'',
      same_key ''datetime_parser'']"
| "own_props TermRangeQuery =
     [same_key ''start'', same_key ''start_inclusive'', same_key ''end'', same_key ''end_inclusive'']"
| "own_props MatchAllQuery = []"
| "own_props MatchNoneQuery = []"

fun decorated_fields :: "query_class \<Rightarrow> string list" where
  "decorated_fields TermQuery = [''fuzziness'', ''prefix_length'', ''field'']"
| "decorated_fields WildcardQuery = [''field'']"
| "decorated_fields MatchQuery = [''prefix_length'', ''fuzziness'', ''field'', ''analyzer'']"
| "decorated_fields MatchPhraseQuery = [''field'', ''analyzer'']"
| "decorated_fields PhraseQuery = [''field'']"
| "decorated_fields PrefixQuery = [''field'']"
| "decorated_fields RegexQuery = [''field'']"
| "decorated_fields BooleanFieldQuery = [''field'']"
| "decorated_fields GeoDistanceQuery = [''field'']"
| "decorated_fields GeoBoundingBoxQuery = [''field'']"
| "decorated_fields GeoPolygonQuery = [''field'']"
| "decorated_fields NumericRangeQuery = [''field'']"
| "decorated_fields DateRangeQuery = [''field'']"
| "decorated_fields TermRangeQuery = [''field'']"
| "decorated_fields _ = []"

definition query_props :: "py_env \<Rightarrow> query_class \<Rightarrow> query_props" where
  "query_props env c = same_key ''boost'' # own_props c @ common_fields env (decorated_fields c)"

definition assign_kwargs :: "query_props \<Rightarrow> pydict \<Rightarrow> pydict \<Rightarrow> pydict res" where
  "assign_kwargs props kwargs json =
     foldE (\<lambda>(k, v) js.
        case map_of props k of
          None \<Rightarrow> Inl AttributeError
        | Some (key, conv) \<Rightarrow> bindE (conv v) (\<lambda>w. Inr (AList.update key w js))) kwargs json"

subsection \<open>Queries\<close>

text \<open>
  \<open>Query c js\<close> is an object of a class without clauses and its \<open>_json_\<close>; the clauses of
  a \<open>BooleanQuery\<close> are \<open>must\<close>, \<open>should\<close> and \<open>must_not\<close>.
\<close>

datatype squery =
    Query query_class pydict
  | RawQuery pyval
  | ConjunctionQuery pydict "squery list"
  | DisjunctionQuery pydict "squery list"
  | BooleanQuery pydict "squery option" "squery option" "squery option"

fun termprop :: "query_class \<Rightarrow> string" where
  "termprop TermQuery = ''term''"
| "termprop QueryStringQuery = ''query''"
| "termprop WildcardQuery = ''wildcard''"
| "termprop DocIdQuery = ''ids''"
| "termprop MatchQuery = ''match''"
| "termprop MatchPhraseQuery = ''match_phrase''"
| "termprop PhraseQuery = ''terms''"
| "termprop PrefixQuery = ''prefix''"
| "termprop RegexQuery = ''regexp''"
| "termprop BooleanFieldQuery = ''bool''"
| "termprop _ = ''''"

definition single_term_init :: "py_env \<Rightarrow> query_class \<Rightarrow> pyval \<Rightarrow> pydict \<Rightarrow> squery res" where
  "single_term_init env c trm kwargs =
     (let kwargs = (if dhas kwargs (termprop c) then kwargs else AList.update (termprop c) trm kwargs)
      in bindE (assign_kwargs (query_props env c) kwargs []) (\<lambda>js. Inr (Query c js)))"

definition PhraseQuery_init :: "py_env \<Rightarrow> pyval list \<Rightarrow> pydict \<Rightarrow> squery res" where
  "PhraseQuery_init env phrases kwargs =
     (let kwargs = (if dhas kwargs ''terms'' then kwargs else AList.update ''terms'' (PTuple phrases) kwargs)
      in bindE (assign_kwargs (query_props env PhraseQuery) kwargs []) (\<lambda>js. Inr (Query PhraseQuery js)))"

definition GeoDistanceQuery_init :: "py_env \<Rightarrow> pyval \<Rightarrow> pyval \<Rightarrow> pydict \<Rightarrow> squery res" where
  "GeoDistanceQuery_init env distance location kwargs =
     bindE (assign_kwargs (query_props env GeoDistanceQuery)
              (AList.update ''location'' location (AList.update ''distance'' distance kwargs)) [])
       (\<lambda>js. Inr (Query GeoDistanceQuery js))"

definition GeoBoundingBoxQuery_init :: "py_env \<Rightarrow> pyval \<Rightarrow> pyval \<Rightarrow> pydict \<Rightarrow> squery res" where
  "GeoBoundingBoxQuery_init env top_left bottom_right kwargs =
     bindE (assign_kwargs (query_props env GeoBoundingBoxQuery)
              (AList.update ''bottom_right'' bottom_right (AList.update ''top_left'' top_left kwargs)) [])
       (\<lambda>js. Inr (Query GeoBoundingBoxQuery js))"

definition GeoPolygonQuery_init :: "py_env \<Rightarrow> pyval \<Rightarrow> pydict \<Rightarrow> squery res" where
  "GeoPolygonQuery_init env polygon_points kwargs =
     bindE (assign_kwargs (query_props env GeoPolygonQuery)
              (AList.update ''polygon_points'' polygon_points kwargs) [])
       (\<lambda>js. Inr (Query GeoPolygonQuery js))"

fun minmax :: "query_class \<Rightarrow> string \<times> string" where
  "minmax NumericRangeQuery = (''min'', ''max'')"
| "minmax _ = (''start'', ''end'')"

definition validate_range_query ::
  "py_env \<Rightarrow> query_class \<Rightarrow> pyval \<Rightarrow> pyval \<Rightarrow> pydict \<Rightarrow> squery res" where
  "validate_range_query env c r1 r2 kwargs =
     bindE (assign_kwargs (query_props env c) kwargs []) (\<lambda>js.
       if r1 = PNone \<and> r2 = PNone then Inl TypeError
       else let js = (if r1 \<noteq> PNone then AList.update (fst (minmax c)) r1 js else js);
                js = (if r2 \<noteq> PNone then AList.update (snd (minmax c)) r2 js else js)
            in Inr (Query c js))"

definition MatchAllQuery_init :: "py_env \<Rightarrow> pydict \<Rightarrow> squery res" where
  "MatchAllQuery_init env kwargs =
     bindE (assign_kwargs (query_props env MatchAllQuery) kwargs [(''match_all'', PNone)])
       (\<lambda>js. Inr (Query MatchAllQuery js))"

definition MatchNoneQuery_init :: "py_env \<Rightarrow> pydict \<Rightarrow> squery res" where
  "MatchNoneQuery_init env kwargs =
     bindE (assign_kwargs (query_props env MatchNoneQuery) kwargs [(''match_none'', PNone)])
       (\<lambda>js. Inr (Query MatchNoneQuery js))"

definition ConjunctionQuery_init :: "squery list \<Rightarrow> pydict \<Rightarrow> squery res" where
  "ConjunctionQuery_init queries kwargs =
     bindE (assign_kwargs [same_key ''boost''] kwargs []) (\<lambda>js. Inr (ConjunctionQuery js queries))"

definition disjunction_min :: "pyval \<Rightarrow> pyval res" where
  "disjunction_min v =
     bindE (to_int v) (\<lambda>w. if \<not> truthy w then Inl InvalidArgumentException else Inr w)"

definition DisjunctionQuery_init :: "squery list \<Rightarrow> pydict \<Rightarrow> squery res" where
  "DisjunctionQuery_init queries kwargs =
     bindE (assign_kwargs [same_key ''boost'', (''min'', ''min'', disjunction_min)] kwargs []) (\<lambda>js.
       Inr (DisjunctionQuery (if dhas js ''min'' then js else AList.update ''min'' (PInt 1) js) queries))"

text \<open>
  What a clause of a \<open>BooleanQuery\<close> is set to: nothing, a query, an iterable of queries,
  or something else.  A single query that is not of the required class is wrapped.
\<close>

datatype clause = NoClause | OneQuery squery | ManyQueries "squery list" | NotQueries

fun is_conjunction :: "squery \<Rightarrow> bool" where
  "is_conjunction (ConjunctionQuery _ _) = True"
| "is_conjunction _ = False"

fun is_disjunction :: "squery \<Rightarrow> bool" where
  "is_disjunction (DisjunctionQuery _ _) = True"
| "is_disjunction _ = False"

definition set_query ::
  "(squery \<Rightarrow> bool) \<Rightarrow> (squery list \<Rightarrow> squery) \<Rightarrow> clause \<Rightarrow> squery option res" where
  "set_query is_reqtype reqtype value =
     (case value of
        NoClause \<Rightarrow> Inr None
      | OneQuery q \<Rightarrow> Inr (Some (if is_reqtype q then q else reqtype [q]))
      | ManyQueries qs \<Rightarrow> Inr (Some (reqtype qs))
      | NotQueries \<Rightarrow> Inl TypeError)"

definition must_setter :: "clause \<Rightarrow> squery option res" where
  "must_setter = set_query is_conjunction (ConjunctionQuery [])"

definition should_setter :: "clause \<Rightarrow> squery option res" where
  "should_setter = set_query is_disjunction (DisjunctionQuery [(''min'', PInt 1)])"

definition must_not_setter :: "clause \<Rightarrow> squery option res" where
  "must_not_setter = set_query is_disjunction (DisjunctionQuery [(''min'', PInt 1)])"

definition BooleanQuery_init :: "clause \<Rightarrow> clause \<Rightarrow> clause \<Rightarrow> squery res" where
  "BooleanQuery_init must should must_not =
     bindE (must_setter must) (\<lambda>m. bindE (should_setter should) (\<lambda>s. bindE (must_not_setter must_not) (\<lambda>n.
       Inr (BooleanQuery [] m s n))))"

subsection \<open>Encoding\<close>

abbreviation NoChildrenException :: exc where
  "NoChildrenException \<equiv> SDKException ''NoChildrenException''"

fun validate_query :: "query_class \<Rightarrow> pydict \<Rightarrow> unit res" where
  "validate_query DocIdQuery js =
     (if \<not> truthy (dget js ''ids'' PNone) then Inl NoChildrenException else Inr ())"
| "validate_query PhraseQuery js =
     (if \<not> truthy (dget js ''terms'' PNone) then Inl NoChildrenException else Inr ())"
| "validate_query _ js = Inr ()"

definition validate_disjunction :: "pydict \<Rightarrow> nat \<Rightarrow> unit res" where
  "validate_disjunction js n =
     (if n = 0 then Inl NoChildrenException
      else case int_of (dget js ''min'' PNone) of
        None \<Rightarrow> Inl TypeError
      | Some m \<Rightarrow> if int n < m then Inl InvalidArgumentException else Inr ())"

definition put_clause :: "string \<Rightarrow> pyval option \<Rightarrow> pydict \<Rightarrow> pydict" where
  "put_clause target v js = (case v of None \<Rightarrow> js | Some w \<Rightarrow> AList.update target w js)"

fun encodable :: "squery \<Rightarrow> pyval res \<times> squery"
  and encodables :: "squery list \<Rightarrow> pyval list res \<times> squery list"
  and encode_clause :: "squery option \<Rightarrow> pyval option res \<times> squery option" where
  "encodable (Query c js) = (bindE (validate_query c js) (\<lambda>_. Inr (pdict js)), Query c js)"
| "encodable (RawQuery obj) = (Inr obj, RawQuery obj)"
| "encodable (ConjunctionQuery js qs) =
     (if qs = [] then (Inl NoChildrenException, ConjunctionQuery js qs)
      else let (r, qs') = encodables qs
           in (bindE r (\<lambda>vs. Inr (pdict (AList.update ''conjuncts'' (PList vs) js))),
               ConjunctionQuery js qs'))"
| "encodable (DisjunctionQuery js qs) =
     (case validate_disjunction js (length qs) of
        Inl e \<Rightarrow> (Inl e, DisjunctionQuery js qs)
      | Inr _ \<Rightarrow>
          let (r, qs') = encodables qs
          in (bindE r (\<lambda>vs. Inr (pdict (AList.update ''disjuncts'' (PList vs) js))),
              DisjunctionQuery js qs'))"
| "encodable (BooleanQuery js m s n) =
     (let (r1, m') = encode_clause m
      in case r1 of
           Inl e \<Rightarrow> (Inl e, BooleanQuery js m' s n)
         | Inr v1 \<Rightarrow>
             let js1 = put_clause ''must'' v1 js; (r2, n') = encode_clause n
             in case r2 of
                  Inl e \<Rightarrow> (Inl e, BooleanQuery js1 m' s n')
                | Inr v2 \<Rightarrow>
                    let js2 = put_clause ''must_not'' v2 js1; (r3, s') = encode_clause s
                    in case r3 of
                         Inl e \<Rightarrow> (Inl e, BooleanQuery js2 m' s' n')
                       | Inr v3 \<Rightarrow>
                           let js3 = put_clause ''should'' v3 js2
                           in (if m = None \<and> n = None \<and> s = None then Inl ValueError
                               else Inr (pdict js3), BooleanQuery js3 m' s' n'))"
| "encodables [] = (Inr [], [])"
| "encodables (q # qs) =
     (let (r, q') = encodable q
      in case r of
           Inl e \<Rightarrow> (Inl e, q' # qs)
         | Inr v \<Rightarrow> let (rs, qs') = encodables qs in (bindE rs (\<lambda>vs. Inr (v # vs)), q' # qs'))"
| "encode_clause None = (Inr None, None)"
| "encode_clause (Some q) = (let (r, q') = encodable q in (bindE r (\<lambda>v. Inr (Some v)), Some q'))"

subsection \<open>Encoding without state\<close>

definition enough_children :: "pydict \<Rightarrow> nat \<Rightarrow> bool" where
  "enough_children js n =
     (0 < n \<and> (case int_of (dget js ''min'' PNone) of None \<Rightarrow> False | Some m \<Rightarrow> m \<le> int n))"

lemma validate_disjunction_iff: "validate_disjunction js n = Inr () \<longleftrightarrow> enough_children js n"
  by (auto simp: validate_disjunction_def enough_children_def split: option.splits)

fun well_formed :: "squery \<Rightarrow> bool" where
  "well_formed (Query DocIdQuery js) = truthy (dget js ''ids'' PNone)"
| "well_formed (Query PhraseQuery js) = truthy (dget js ''terms'' PNone)"
| "well_formed (Query _ js) = True"
| "well_formed (RawQuery obj) = True"
| "well_formed (ConjunctionQuery js qs) = (qs \<noteq> [] \<and> list_all well_formed qs)"
| "well_formed (DisjunctionQuery js qs) =
     (enough_children js (length qs) \<and> list_all well_formed qs)"
| "well_formed (BooleanQuery js m s n) =
     ((m \<noteq> None \<or> s \<noteq> None \<or> n \<noteq> None) \<and> pred_option well_formed m \<and>
      pred_option well_formed s \<and> pred_option well_formed n)"

lemma well_formed_Query: "well_formed (Query c js) \<longleftrightarrow> validate_query c js = Inr ()"
  by (cases c) auto

fun plain_json :: "squery \<Rightarrow> pyval" where
  "plain_json (Query c js) = pdict js"
| "plain_json (RawQuery obj) = obj"
| "plain_json (ConjunctionQuery js qs) =
     pdict (AList.update ''conjuncts'' (PList (map plain_json qs)) js)"
| "plain_json (DisjunctionQuery js qs) =
     pdict (AList.update ''disjuncts'' (PList (map plain_json qs)) js)"
| "plain_json (BooleanQuery js m s n) =
     pdict (put_clause ''should'' (map_option plain_json s)
       (put_clause ''must_not'' (map_option plain_json n)
         (put_clause ''must'' (map_option plain_json m) js)))"

text \<open>The query that an encoding leaves behind: every \<open>BooleanQuery\<close> has its clauses stored.\<close>

fun stored :: "squery \<Rightarrow> squery" where
  "stored (Query c js) = Query c js"
| "stored (RawQuery obj) = RawQuery obj"
| "stored (ConjunctionQuery js qs) = ConjunctionQuery js (map stored qs)"
| "stored (DisjunctionQuery js qs) = DisjunctionQuery js (map stored qs)"
| "stored (BooleanQuery js m s n) =
     BooleanQuery (put_clause ''should'' (map_option plain_json s)
       (put_clause ''must_not'' (map_option plain_json n)
         (put_clause ''must'' (map_option plain_json m) js)))
       (map_option stored m) (map_option stored s) (map_option stored n)"

lemma encode_clause_all:
  "(\<And>q. q \<in> set_option c \<Longrightarrow> encodable q = (Inr (plain_json q), stored q)) \<Longrightarrow>
     encode_clause c = (Inr (map_option plain_json c), map_option stored c)"
  by (cases c) simp_all

lemma encodables_all:
  "(\<And>q. q \<in> set qs \<Longrightarrow> encodable q = (Inr (plain_json q), stored q)) \<Longrightarrow>
     encodables qs = (Inr (map plain_json qs), map stored qs)"
  by (induction qs) simp_all

lemma encodable_well_formed: "well_formed q \<Longrightarrow> encodable q = (Inr (plain_json q), stored q)"
proof (induction q)
  case (Query c js)
  then show ?case by (simp add: well_formed_Query)
next
  case (ConjunctionQuery js qs)
  have "encodables qs = (Inr (map plain_json qs), map stored qs)"
    using ConjunctionQuery by (intro encodables_all) (auto simp: list_all_iff)
  with ConjunctionQuery.prems show ?case by simp
next
  case (DisjunctionQuery js qs)
  have "encodables qs = (Inr (map plain_json qs), map stored qs)"
    using DisjunctionQuery by (intro encodables_all) (auto simp: list_all_iff)
  with DisjunctionQuery.prems show ?case by (simp add: validate_disjunction_iff [THEN iffD2])
next
  case (BooleanQuery js m s n)
  have "encode_clause m = (Inr (map_option plain_json m), map_option stored m)"
    "encode_clause s = (Inr (map_option plain_json s), map_option stored s)"
    "encode_clause n = (Inr (map_option plain_json n), map_option stored n)"
    using BooleanQuery by (auto intro!: encode_clause_all simp: option.pred_set)
  with BooleanQuery.prems show ?case by (auto simp: Let_def)
qed simp_all

lemma clause_well_formed:
  "pred_option well_formed c \<Longrightarrow>
     encode_clause c = (Inr (map_option plain_json c), map_option stored c)"
  by (rule encode_clause_all) (auto simp: option.pred_set encodable_well_formed)

definition fails :: "'a res \<times> 'b \<Rightarrow> bool" where
  "fails r \<longleftrightarrow> (\<exists>e s. r = (Inl e, s))"

lemma encodables_fail:
  assumes "\<And>q. q \<in> set qs \<Longrightarrow> \<not> well_formed q \<Longrightarrow> fails (encodable q)" "\<not> list_all well_formed qs"
  shows "fails (encodables qs)"
  using assms
proof (induction qs)
  case (Cons q qs)
  show ?case
  proof (cases "well_formed q")
    case True
    then have "fails (encodables qs)" using Cons by simp
    with encodable_well_formed [OF True] show ?thesis by (auto simp: fails_def)
  next
    case False
    then have "fails (encodable q)" using Cons.prems(1) by simp
    then show ?thesis by (auto simp: fails_def)
  qed
qed simp

lemma clause_fails:
  assumes "\<And>q. q \<in> set_option c \<Longrightarrow> \<not> well_formed q \<Longrightarrow> fails (encodable q)"
    "\<not> pred_option well_formed c"
  shows "fails (encode_clause c)"
  using assms by (cases c) (fastforce simp: fails_def)+

lemma encodable_ill_formed: "\<not> well_formed q \<Longrightarrow> fails (encodable q)"
proof (induction q)
  case (Query c js)
  then show ?case by (cases "validate_query c js") (auto simp: fails_def well_formed_Query)
next
  case (ConjunctionQuery js qs)
  show ?case
  proof (cases "qs = []")
    case False
    then have "fails (encodables qs)" using ConjunctionQuery by (intro encodables_fail) auto
    with False show ?thesis by (auto simp: fails_def)
  qed (simp add: fails_def)
next
  case (DisjunctionQuery js qs)
  show ?case
  proof (cases "validate_disjunction js (length qs)")
    case (Inr u)
    then have "fails (encodables qs)" using DisjunctionQuery validate_disjunction_iff [of js "length qs"] by (intro encodables_fail) auto
    with Inr show ?thesis by (auto simp: fails_def)
  qed (simp add: fails_def)
next
  case (BooleanQuery js m s n)
  consider (m) "\<not> pred_option well_formed m"
    | (n) "pred_option well_formed m" "\<not> pred_option well_formed n"
    | (s) "pred_option well_formed m" "pred_option well_formed n" "\<not> pred_option well_formed s"
    | (none) "m = None" "s = None" "n = None"
    using BooleanQuery.prems by auto
  then show ?case
  proof cases
    case m
    then have "fails (encode_clause m)" using BooleanQuery.IH by (intro clause_fails) auto
    then show ?thesis by (auto simp: fails_def)
  next
    case n
    then have "fails (encode_clause n)" using BooleanQuery.IH by (intro clause_fails) auto
    with clause_well_formed [OF n(1)] show ?thesis by (auto simp: fails_def Let_def)
  next
    case s
    then have "fails (encode_clause s)" using BooleanQuery.IH by (intro clause_fails) auto
    with clause_well_formed [OF s(1)] clause_well_formed [OF s(2)] show ?thesis
      by (auto simp: fails_def Let_def)
  qed (simp add: fails_def Let_def)
qed simp

subsection \<open>Properties\<close>

lemma update_same: "map_of js k = Some v \<Longrightarrow> AList.update k v js = js"
  by (induction js) auto

lemma put_clause_same: "(case v of None \<Rightarrow> True | Some w \<Rightarrow> map_of js k = Some w) \<Longrightarrow> put_clause k v js = js"
  by (cases v) (simp_all add: put_clause_def update_same)

lemma map_of_put_clause:
  "map_of (put_clause k v js) l = (if l = k \<and> v \<noteq> None then v else map_of js l)"
  by (cases v) (simp_all add: put_clause_def dict_simps)

definition put_clauses :: "pyval option \<Rightarrow> pyval option \<Rightarrow> pyval option \<Rightarrow> pydict \<Rightarrow> pydict" where
  "put_clauses m s n js =
     put_clause ''should'' s (put_clause ''must_not'' n (put_clause ''must'' m js))"

lemma put_clauses_again:
  assumes "m' = m \<or> m' = None" "s' = s \<or> s' = None" "n' = n \<or> n' = None"
  shows "put_clauses m' s' n' (put_clauses m s n js) = put_clauses m s n js"
proof -
  let ?js = "put_clauses m s n js"
  have "put_clause ''must'' m' ?js = ?js"
    using assms(1) by (intro put_clause_same)
      (auto simp: put_clauses_def map_of_put_clause split: option.splits)
  moreover have "put_clause ''must_not'' n' ?js = ?js"
    using assms(3) by (intro put_clause_same)
      (auto simp: put_clauses_def map_of_put_clause split: option.splits)
  moreover have "put_clause ''should'' s' ?js = ?js"
    using assms(2) by (intro put_clause_same)
      (auto simp: put_clauses_def map_of_put_clause split: option.splits)
  ultimately show ?thesis by (simp add: put_clauses_def)
qed

lemma plain_stored: "plain_json (stored q) = plain_json q"
proof (induction q)
  case (BooleanQuery js m s n)
  have "map_option plain_json (map_option stored c) = map_option plain_json c"
    if "c \<in> {m, s, n}" for c
    using that BooleanQuery by (cases c) auto
  then have "plain_json (stored (BooleanQuery js m s n)) =
      pdict (put_clauses (map_option plain_json m) (map_option plain_json s) (map_option plain_json n)
        (put_clauses (map_option plain_json m) (map_option plain_json s) (map_option plain_json n) js))"
    by (simp add: put_clauses_def)
  then show ?case by (simp add: put_clauses_again) (simp add: put_clauses_def)
qed (simp_all cong: map_cong)

lemma well_formed_stored: "well_formed (stored q) = well_formed q"
proof (induction q)
  case (BooleanQuery js m s n)
  have "pred_option well_formed (map_option stored c) = pred_option well_formed c"
    if "c \<in> {m, s, n}" for c
    using that BooleanQuery by (cases c) auto
  then show ?case by simp
qed (auto simp: list_all_iff)

text \<open>C13. Encoding a query succeeds exactly on the well-formed queries (no empty compound, no
  disjunction that asks for more matches than it has parts, at any depth), gives the JSON
  of the reference encoding with every clause in its place, and gives the same JSON again.\<close>

theorem encodable_spec:
  "(if well_formed q
    then fst (encodable q) = Inr (plain_json q) \<and>
         fst (encodable (snd (encodable q))) = Inr (plain_json q)
    else (\<exists>e. fst (encodable q) = Inl e))"
proof (cases "well_formed q")
  case True
  then show ?thesis
    using encodable_well_formed [OF True] encodable_well_formed [of "stored q"]
    by (simp add: well_formed_stored plain_stored)
next
  case False
  then show ?thesis using encodable_ill_formed [OF False] by (auto simp: fails_def)
qed

text \<open>A clause that is taken out of a \<open>BooleanQuery\<close> after the query was encoded is
  still sent: the next encoding gives the same JSON as before, with the clause in it.\<close>

theorem removed_clause_is_still_sent:
  assumes wf: "well_formed (BooleanQuery js (Some m) s n)" and other: "s \<noteq> None \<or> n \<noteq> None"
    and enc: "encodable (BooleanQuery js (Some m) s n) = (r, BooleanQuery js' (Some m') s' n')"
    and removed: "must_setter NoClause = Inr c"
  shows "fst (encodable (BooleanQuery js' c s' n')) = r \<and> map_of js' ''must'' = Some (plain_json m)"
proof -
  have c: "c = None" using removed by (simp add: must_setter_def set_query_def)
  let ?J = "put_clauses (Some (plain_json m)) (map_option plain_json s) (map_option plain_json n)"
  from trans [OF enc [symmetric] encodable_well_formed [OF wf]]
  have r: "r = Inr (pdict (?J js))" and st: "js' = ?J js" "s' = map_option stored s" "n' = map_option stored n"
    by (simp_all add: put_clauses_def)
  have plain: "map_option plain_json (map_option stored d) = map_option plain_json d" for d
    by (cases d) (simp_all add: plain_stored)
  have "pred_option well_formed (map_option stored d)" if "pred_option well_formed d" for d
    using that by (cases d) (simp_all add: well_formed_stored)
  then have "well_formed (BooleanQuery js' None s' n')" using wf other st by auto
  from encodable_well_formed [OF this]
  have "fst (encodable (BooleanQuery js' None s' n')) =
      Inr (pdict (put_clauses None (map_option plain_json s') (map_option plain_json n') js'))"
    by (simp add: put_clauses_def)
  then have "fst (encodable (BooleanQuery js' None s' n')) = r"
    using r by (simp add: st plain put_clauses_again)
  moreover have "map_of js' ''must'' = Some (plain_json m)"
    by (simp add: st put_clauses_def map_of_put_clause)
  ultimately show ?thesis using c by simp
qed

lemma removed_clause_is_still_sent_witness:
  "\<exists>js' m' s' n' r. encodable (BooleanQuery [] (Some (RawQuery (PInt 1))) (Some (RawQuery (PInt 2))) None) =
       (r, BooleanQuery js' (Some m') s' n') \<and>
     fst (encodable (BooleanQuery js' None s' n')) = r \<and> map_of js' ''must'' = Some (PInt 1)"
proof -
  have wf: "well_formed (BooleanQuery [] (Some (RawQuery (PInt 1))) (Some (RawQuery (PInt 2))) None)"
    by simp
  have "\<exists>js' m' s' n' r. encodable (BooleanQuery [] (Some (RawQuery (PInt 1))) (Some (RawQuery (PInt 2))) None) =
       (r, BooleanQuery js' (Some m') s' n')"
    using encodable_well_formed [OF wf] by simp
  then obtain js' m' s' n' r where
    enc: "encodable (BooleanQuery [] (Some (RawQuery (PInt 1))) (Some (RawQuery (PInt 2))) None) =
       (r, BooleanQuery js' (Some m') s' n')" by blast
  have c: "must_setter NoClause = Inr None" by (simp add: must_setter_def set_query_def)
  from removed_clause_is_still_sent [OF wf _ enc c] enc show ?thesis by fastforce
qed

end
