(* ===== verification/Search.thy ===== *)
theory Search
  imports Analytics Streaming Search_Queries
begin

text \<open>
  \<open>couchbase/logic/search.py\<close>, \<open>logic/vector_search.py\<close> and \<open>logic/search_request.py\<close>: sort
  orders and facets, vector queries, the builder of a search request with its setters and
  getters, the parameters it is sent with, and the rows, facets and locations of a result.

  A sorting order is an object \<open>PInst ''Sort''\<close> and a facet an object of its class, each with
  its \<open>_json_\<close>.  The contract \<open>query_options\<close> holds for the option table of the builder,
  and \<open>row_request\<close> for the rows of a search.
\<close>

subsection \<open>Sort orders\<close>

definition mk_sort :: "pyval \<Rightarrow> pyval" where
  "mk_sort json = PInst ''Sort'' [(''_json_'', json)]"

datatype sort_class = Sort | SortScore | SortID | SortField | SortGeoDistance

fun sort_props :: "sort_class \<Rightarrow> query_props" where
  "sort_props SortField =
     [same_key ''desc'', (''descending'', ''desc'', Inr), same_key ''field'', same_key ''type'',
      same_key ''mode'', same_key ''missing'']"
| "sort_props SortGeoDistance =
     [same_key ''desc'', (''descending'', ''desc'', Inr), (''location'', ''location'', gen_location),
      same_key ''field'', same_key ''unit'']"
| "sort_props _ = [same_key ''desc'', (''descending'', ''desc'', Inr)]"

definition Sort_init :: "sort_class \<Rightarrow> pyval \<Rightarrow> pydict \<Rightarrow> pyval res" where
  "Sort_init c sortby kwargs =
     (let kwargs = (case map_of kwargs ''descending'' of
            None \<Rightarrow> kwargs
          | Some v \<Rightarrow> AList.update ''desc'' v (AList.delete ''descending'' kwargs))
      in bindE (assign_kwargs (sort_props c) kwargs [(''by'', sortby)]) (\<lambda>js. Inr (mk_sort (pdict js))))"

definition SortString_init :: "pyval list \<Rightarrow> pyval" where
  "SortString_init fs = mk_sort (PList fs)"

definition SortScore_init :: "pydict \<Rightarrow> pyval res" where
  "SortScore_init kwargs = Sort_init SortScore (PStr ''score'') kwargs"

definition SortID_init :: "pydict \<Rightarrow> pyval res" where
  "SortID_init kwargs = Sort_init SortID (PStr ''id'') kwargs"

definition SortField_init :: "pyval \<Rightarrow> pydict \<Rightarrow> pyval res" where
  "SortField_init field kwargs = Sort_init SortField (PStr ''field'') (AList.update ''field'' field kwargs)"

definition SortGeoDistance_init :: "pyval \<Rightarrow> pyval \<Rightarrow> pydict \<Rightarrow> pyval res" where
  "SortGeoDistance_init location field kwargs =
     Sort_init SortGeoDistance (PStr ''geo_distance'')
       (dupdate kwargs [(''location'', location), (''field'', field)])"

definition SortRaw_init :: "pyval \<Rightarrow> pyval" where
  "SortRaw_init raw = mk_sort raw"

definition Sort_as_encodable :: "pyval \<Rightarrow> pyval res" where
  "Sort_as_encodable s = (if is_instance_of s ''Sort'' then Inr (attr s ''_json_'') else Inl AttributeError)"

subsection \<open>Facets\<close>

definition facet_classes :: "string list" where
  "facet_classes = [''Facet'', ''TermFacet'', ''DateFacet'', ''NumericFacet'']"

fun facet_json :: "pyval \<Rightarrow> (string \<times> pydict) option" where
  "facet_json (PInst c d) =
     (if c \<in> set facet_classes then
        (case map_of d ''_json_'' of
           Some (PDict kvs) \<Rightarrow> map_option (\<lambda>js. (c, js)) (str_items kvs)
         | _ \<Rightarrow> None)
      else None)"
| "facet_json v = None"

definition mk_facet :: "string \<Rightarrow> pydict \<Rightarrow> pyval" where
  "mk_facet c js = PInst c [(''_json_'', pdict js)]"

definition Facet_init :: "string \<Rightarrow> pyval \<Rightarrow> pyval \<Rightarrow> pyval" where
  "Facet_init c field limit =
     (let js = [(''field'', field)];
          js = (if truthy limit then AList.update ''size'' limit js else js);
          js = (if c = ''DateFacet'' then AList.update ''date_ranges'' (PList []) js
                else if c = ''NumericFacet'' then AList.update ''numeric_ranges'' (PList []) js else js)
      in mk_facet c js)"

definition mk_range_bucket :: "pyval \<Rightarrow> string \<Rightarrow> string \<Rightarrow> pyval \<Rightarrow> pyval \<Rightarrow> pyval res" where
  "mk_range_bucket name n1 n2 r1 r2 =
     (let d = []; d = (if r1 \<noteq> PNone then AList.update n1 r1 d else d);
          d = (if r2 \<noteq> PNone then AList.update n2 r2 d else d)
      in if d = [] then Inl InvalidArgumentException else Inr (pdict (AList.update ''name'' name d)))"

text \<open>\<open>add_range\<close> of a facet that keeps its ranges under the key \<open>ranges\<close>.\<close>

definition append_range :: "string \<Rightarrow> pyval \<Rightarrow> pyval res \<Rightarrow> pyval res" where
  "append_range ranges self bucket =
     bindE bucket (\<lambda>b.
       case facet_json self of
         None \<Rightarrow> Inl AttributeError
       | Some (c, js) \<Rightarrow>
           (case map_of js ranges of
              Some (PList xs) \<Rightarrow> Inr (mk_facet c (AList.update ranges (PList (xs @ [b])) js))
            | _ \<Rightarrow> Inl AttributeError))"

definition DateFacet_add_range :: "pyval \<Rightarrow> pyval \<Rightarrow> pyval \<Rightarrow> pyval \<Rightarrow> pyval res" where
  "DateFacet_add_range self name start until =
     append_range ''date_ranges'' self (mk_range_bucket name ''start'' ''end'' start until)"

definition NumericFacet_add_range :: "pyval \<Rightarrow> pyval \<Rightarrow> pyval \<Rightarrow> pyval \<Rightarrow> pyval res" where
  "NumericFacet_add_range self name mn mx =
     append_range ''numeric_ranges'' self (mk_range_bucket name ''min'' ''max'' mn mx)"

definition FacetDict_setitem :: "string \<Rightarrow> pyval \<Rightarrow> pydict \<Rightarrow> pydict res" where
  "FacetDict_setitem key facet d =
     (case facet_json facet of
        None \<Rightarrow> Inl ValueError
      | Some (c, js) \<Rightarrow>
          if c = ''DateFacet'' \<and> \<not> truthy (dget js ''date_ranges'' PNone) then Inl InvalidArgumentException
          else if c = ''NumericFacet'' \<and> \<not> truthy (dget js ''numeric_ranges'' PNone)
          then Inl InvalidArgumentException
          else Inr (AList.update key facet d))"

definition FacetDict_init :: "pyval \<Rightarrow> pydict res" where
  "FacetDict_init facets =
     (case facets of
        PDict d \<Rightarrow> (case str_items d of
            None \<Rightarrow> Inl TypeError
          | Some kvs \<Rightarrow> foldE (\<lambda>(k, v). FacetDict_setitem k v) kvs [])
      | _ \<Rightarrow> Inl TypeError)"

subsection \<open>Vector queries\<close>

record vector_query =
  vq_field_name :: pyval
  vq_vector :: pyval
  vq_vector_base64 :: pyval
  vq_num_candidates :: pyval
  vq_boost :: pyval

fun is_float :: "pyval \<Rightarrow> bool" where
  "is_float (PFloat q) = True"
| "is_float v = False"

definition validate_and_set_vector :: "pyval \<Rightarrow> vector_query \<Rightarrow> vector_query res" where
  "validate_and_set_vector vector self =
     (case vector of
        PNone \<Rightarrow> Inl InvalidArgumentException
      | PList xs \<Rightarrow> (if xs = [] then Inl InvalidArgumentException
                     else if \<not> list_all is_float xs then Inl InvalidArgumentException
                     else Inr (self\<lparr>vq_vector := vector\<rparr>))
      | PStr s \<Rightarrow> Inr (self\<lparr>vq_vector_base64 := vector\<rparr>)
      | _ \<Rightarrow> Inl InvalidArgumentException)"

definition num_candidates_setter :: "pyval \<Rightarrow> vector_query \<Rightarrow> vector_query res" where
  "num_candidates_setter v self =
     (case int_of v of
        None \<Rightarrow> Inl InvalidArgumentException
      | Some i \<Rightarrow> if i < 1 then Inl InvalidArgumentException else Inr (self\<lparr>vq_num_candidates := v\<rparr>))"

definition boost_setter :: "pyval \<Rightarrow> vector_query \<Rightarrow> vector_query res" where
  "boost_setter v self =
     (if \<not> is_float v then Inl InvalidArgumentException else Inr (self\<lparr>vq_boost := v\<rparr>))"

definition VectorQuery_init :: "pyval \<Rightarrow> pyval \<Rightarrow> pyval \<Rightarrow> pyval \<Rightarrow> vector_query res" where
  "VectorQuery_init field_name vector num_candidates boost =
     bindE (is_null_or_empty field_name) (\<lambda>empty.
       if empty then Inl InvalidArgumentException
       else bindE (validate_and_set_vector vector
              \<lparr>vq_field_name = field_name, vq_vector = PNone, vq_vector_base64 = PNone,
               vq_num_candidates = PNone, vq_boost = PNone\<rparr>) (\<lambda>q.
            bindE (if num_candidates \<noteq> PNone then num_candidates_setter num_candidates q else Inr q) (\<lambda>q.
              if boost \<noteq> PNone then boost_setter boost q else Inr q)))"

record vector_search =
  vs_queries :: "vector_query list"
  vs_options :: pydict

definition VectorSearch_init :: "vector_query list \<Rightarrow> pydict \<Rightarrow> vector_search res" where
  "VectorSearch_init queries options =
     (if queries = [] then Inl InvalidArgumentException
      else Inr \<lparr>vs_queries = queries, vs_options = options\<rparr>)"

definition encode_vector_query :: "vector_query \<Rightarrow> pyval" where
  "encode_vector_query q =
     (let e = [(''field'', vq_field_name q),
               (''k'', if vq_num_candidates q \<noteq> PNone then vq_num_candidates q else PInt 3)];
          e = (if vq_vector q \<noteq> PNone then AList.update ''vector'' (vq_vector q) e
               else AList.update ''vector_base64'' (vq_vector_base64 q) e);
          e = (if vq_boost q \<noteq> PNone then AList.update ''boost'' (vq_boost q) e else e)
      in pdict e)"

definition encode_vector_search :: "vector_search option \<Rightarrow> pyval" where
  "encode_vector_search v =
     (case v of None \<Rightarrow> PNone | Some s \<Rightarrow> PList (map encode_vector_query (vs_queries s)))"

text \<open>A request holds a query, a vector search or both.\<close>

datatype request_part = SearchQueryPart squery | VectorSearchPart vector_search | OtherPart

record search_request =
  sr_search_query :: "squery option"
  sr_vector_search :: "vector_search option"

definition SearchRequest_init :: "request_part \<Rightarrow> search_request res" where
  "SearchRequest_init query =
     (case query of
        SearchQueryPart q \<Rightarrow> Inr \<lparr>sr_search_query = Some q, sr_vector_search = None\<rparr>
      | VectorSearchPart v \<Rightarrow> Inr \<lparr>sr_search_query = None, sr_vector_search = Some v\<rparr>
      | OtherPart \<Rightarrow> Inl InvalidArgumentException)"

definition with_search_query :: "request_part \<Rightarrow> search_request \<Rightarrow> search_request res" where
  "with_search_query query self =
     (case query of
        SearchQueryPart q \<Rightarrow> (if sr_search_query self \<noteq> None then Inl InvalidArgumentException
                              else Inr (self\<lparr>sr_search_query := Some q\<rparr>))
      | _ \<Rightarrow> Inl InvalidArgumentException)"

definition with_vector_search :: "request_part \<Rightarrow> search_request \<Rightarrow> search_request res" where
  "with_vector_search query self =
     (case query of
        VectorSearchPart v \<Rightarrow> (if sr_vector_search self \<noteq> None then Inl InvalidArgumentException
                               else Inr (self\<lparr>sr_vector_search := Some v\<rparr>))
      | _ \<Rightarrow> Inl InvalidArgumentException)"

subsection \<open>The setters of the builder\<close>

definition HighlightStyle :: "pyval list" where
  "HighlightStyle = [PEnum ''HighlightStyle'' ''Ansi'' ''ansi'', PEnum ''HighlightStyle'' ''Html'' ''html'']"

definition Search_NOT_BOUNDED :: pyval where
  "Search_NOT_BOUNDED = PEnum ''SearchScanConsistency'' ''NOT_BOUNDED'' ''not_bounded''"

definition Search_REQUEST_PLUS :: pyval where
  "Search_REQUEST_PLUS = PEnum ''SearchScanConsistency'' ''REQUEST_PLUS'' ''request_plus''"

definition Search_AT_PLUS :: pyval where
  "Search_AT_PLUS = PEnum ''SearchScanConsistency'' ''AT_PLUS'' ''at_plus''"

definition SearchScanConsistency :: "pyval list" where
  "SearchScanConsistency = [Search_NOT_BOUNDED, Search_REQUEST_PLUS, Search_AT_PLUS]"

definition VectorQueryCombination :: "pyval list" where
  "VectorQueryCombination =
     [PEnum ''VectorQueryCombination'' ''AND'' ''and'', PEnum ''VectorQueryCombination'' ''OR'' ''or'']"

definition Search_timeout_setter :: setter where
  "Search_timeout_setter value params =
     (if \<not> truthy value then Inr (AList.delete ''timeout'' params)
      else bindE (to_microseconds value) (\<lambda>total_us. set_option ''timeout'' (PInt total_us) params))"

definition Search_timeout_getter :: "(string \<Rightarrow> pyval res) \<Rightarrow> pydict \<Rightarrow> pyval res" where
  "Search_timeout_getter float_of params = drop_unit float_of (dget params ''timeout'' PNone)"

text \<open>\<open>fields\<close>, \<open>highlight_fields\<close> and \<open>collections\<close> take a list of strings.\<close>

definition string_list_setter :: "string \<Rightarrow> setter" where
  "string_list_setter name value params =
     (case value of
        PList xs \<Rightarrow> (if list_all is_str xs then set_option name value params
                     else Inl InvalidArgumentException)
      | _ \<Rightarrow> Inl InvalidArgumentException)"

text \<open>A text that names no member is dropped without an error by the next two setters.\<close>

definition highlight_style_setter :: setter where
  "highlight_style_setter value params =
     (if enum_class value = Some ''HighlightStyle'' then set_option ''highlight_style'' (enum_value value) params
      else if is_str value
      then (if value = PStr ''html'' \<or> value = PStr ''ansi'' then set_option ''highlight_style'' value params
            else Inr params)
      else Inl InvalidArgumentException)"

definition highlight_style_getter :: "pydict \<Rightarrow> pyval" where
  "highlight_style_getter params =
     (let value = dget params ''highlight_style'' PNone
      in if enum_class value = Some ''HighlightStyle'' then value
         else if is_str value
         then (if value = PStr ''html'' then HighlightStyle ! 1 else HighlightStyle ! 0)
         else PNone)"

definition vector_query_combination_setter :: setter where
  "vector_query_combination_setter value params =
     (if enum_class value = Some ''VectorQueryCombination''
      then set_option ''vector_query_combination'' (enum_value value) params
      else case value of
        PStr s \<Rightarrow> (if lower s = ''and'' \<or> lower s = ''or''
                   then set_option ''vector_query_combination'' (PStr (lower s)) params else Inr params)
      | _ \<Rightarrow> Inl InvalidArgumentException)"

text \<open>The getter reads another key.\<close>

definition vector_query_combination_getter :: "pydict \<Rightarrow> pyval" where
  "vector_query_combination_getter params =
     (let value = dget params ''highlight_style'' PNone
      in if enum_class value = Some ''VectorQueryCombination'' then value
         else if is_str value
         then (if value = PStr ''and'' then VectorQueryCombination ! 0 else VectorQueryCombination ! 1)
         else PNone)"

definition Search_consistency_getter :: "pydict \<Rightarrow> pyval" where
  "Search_consistency_getter params =
     (let value = dget params ''scan_consistency'' PNone
      in if value = PNone \<and> dhas params ''mutation_state'' then Search_AT_PLUS
         else if value = PNone then Search_NOT_BOUNDED
         else if is_str value
         then (if value = PStr ''request_plus'' then Search_REQUEST_PLUS else Search_NOT_BOUNDED)
         else PNone)"

definition Search_consistency_setter :: setter where
  "Search_consistency_setter value params =
     (if dhas params ''mutation_state'' then Inr params
      else if enum_class value = Some ''SearchScanConsistency''
      then (if value = Search_AT_PLUS then Inl InvalidArgumentException
            else set_option ''scan_consistency'' (enum_value value) params)
      else if is_str value \<and> value \<in> set (map enum_value SearchScanConsistency)
      then (if value = enum_value Search_AT_PLUS then Inl InvalidArgumentException
            else set_option ''scan_consistency'' value params)
      else Inl InvalidArgumentException)"

definition Search_consistent_with_setter :: setter where
  "Search_consistent_with_setter value params =
     (if Search_consistency_getter params \<noteq> Search_NOT_BOUNDED then Inl TypeError
      else if \<not> (is_instance_of value ''MutationState'' \<and> sv_tokens value \<noteq> []) then Inl TypeError
      else set_option ''mutation_state'' (PList (map (\<lambda>mt. attr mt ''_token'') (sv_tokens value)))
             (AList.delete ''scan_consistency'' params))"

definition Search_consistent_with_getter :: "pydict \<Rightarrow> pydict" where
  "Search_consistent_with_getter params =
     [(''consistency'', Search_consistency_getter params),
      (''scan_vectors'', dget params ''mutation_state'' PNone)]"

definition Search_raw_setter :: "py_floats \<Rightarrow> setter" where
  "Search_raw_setter fs value params =
     (case value of
        PDict d \<Rightarrow>
          (if list_all (\<lambda>kv. is_str (fst kv)) d
           then bindE (convert_items (\<lambda>k. k) (json_dumps fs) value) (\<lambda>raw_params.
                  set_option ''raw'' raw_params params)
           else Inl TypeError)
      | _ \<Rightarrow> Inl TypeError)"

definition Search_serializer_setter :: setter where
  "Search_serializer_setter value params =
     (if is_instance_of value ''Serializer'' then set_option ''serializer'' value params
      else Inl InvalidArgumentException)"

definition Search_span_setter :: setter where
  "Search_span_setter value params =
     (if is_instance_of value ''CouchbaseSpan'' then set_option ''span'' value params
      else Inl InvalidArgumentException)"

definition Search_setattr :: "py_floats \<Rightarrow> string \<Rightarrow> setter" where
  "Search_setattr fs target =
     (case map_of
        [(''timeout'', Search_timeout_setter), (''fields'', string_list_setter ''fields''),
         (''highlight_style'', highlight_style_setter),
         (''highlight_fields'', string_list_setter ''highlight_fields''),
         (''consistency'', Search_consistency_setter),
         (''consistent_with'', Search_consistent_with_setter),
         (''collections'', string_list_setter ''collections''), (''raw'', Search_raw_setter fs),
         (''serializer'', Search_serializer_setter), (''span'', Search_span_setter),
         (''vector_query_combination'', vector_query_combination_setter)] target of
        Some f \<Rightarrow> f | None \<Rightarrow> set_option target)"

definition Search_VALID_OPTS :: query_opts where
  "Search_VALID_OPTS =
     [(''timeout'', [(''timeout'', Inr)]), (''limit'', [(''limit'', Inr)]), (''skip'', [(''skip'', Inr)]),
      (''explain'', [(''explain'', Inr)]), (''fields'', [(''fields'', Inr)]),
      (''highlight_style'', [(''highlight_style'', Inr)]),
      (''highlight_fields'', [(''highlight_fields'', Inr)]),
      (''scan_consistency'', [(''consistency'', Inr)]), (''consistent_with'', [(''consistent_with'', Inr)]),
      (''raw'', [(''raw'', Inr)]), (''disable_scoring'', [(''disable_scoring'', Inr)]),
      (''scope_name'', [(''scope_name'', Inr)]), (''collections'', [(''collections'', Inr)]),
      (''include_locations'', [(''include_locations'', Inr)]),
      (''client_context_id'', [(''client_context_id'', Inr)]), (''serializer'', [(''serializer'', Inr)]),
      (''facets'', []), (''sort'', []), (''show_request'', [(''show_request'', Inr)]),
      (''span'', [(''span'', Inr)]), (''vector_query_combination'', [(''vector_query_combination'', Inr)]),
      (''log_request'', [(''log_request'', Inr)]), (''log_response'', [(''log_response'', Inr)])]"

subsection \<open>The builder\<close>

record search_builder =
  sb_index_name :: pyval
  sb_params :: pydict
  sb_query :: squery
  sb_vector_search :: "vector_search option"
  sb_facets :: pydict
  sb_sort :: pyval

text \<open>The last branch of the setter builds an exception and does not raise it.\<close>

definition sort_setter :: "pyval \<Rightarrow> search_builder \<Rightarrow> search_builder res" where
  "sort_setter value self =
     bindE (py_iter value) (\<lambda>xs.
       if list_all is_str xs then Inr (self\<lparr>sb_sort := value\<rparr>)
       else if list_all (\<lambda>s. is_instance_of s ''Sort'' \<or> is_str s) xs then Inr (self\<lparr>sb_sort := value\<rparr>)
       else Inr self)"

definition SearchQueryBuilder_init ::
  "pyval \<Rightarrow> squery \<Rightarrow> vector_search option \<Rightarrow> pyval \<Rightarrow> pyval \<Rightarrow> search_builder res" where
  "SearchQueryBuilder_init index_name query vector facets sorting =
     bindE (FacetDict_init facets) (\<lambda>fd.
       let self = \<lparr>sb_index_name = index_name, sb_params = [], sb_query = query,
                   sb_vector_search = vector, sb_facets = fd, sb_sort = PNone\<rparr>
       in if sorting \<noteq> PNone then sort_setter sorting self else Inr self)"

text \<open>
  The parameters that are sent.  The clauses that the encoding stores in a boolean query
  do not change what it encodes to (\<open>encodable_spec\<close>) and are left out here.
\<close>

definition sort_specs :: "py_floats \<Rightarrow> pyval \<Rightarrow> pyval list res" where
  "sort_specs fs sorting =
     bindE (py_iter sorting) (\<lambda>xs.
       if list_all is_str xs then mapE (json_dumps fs) xs
       else mapE (\<lambda>s. bindE (Sort_as_encodable s) (json_dumps fs)) xs)"

definition encode_facets :: "py_floats \<Rightarrow> pydict \<Rightarrow> pydict res" where
  "encode_facets fs facets =
     mapE (\<lambda>(name, facet).
       case facet_json facet of
         None \<Rightarrow> Inl AttributeError
       | Some (c, js) \<Rightarrow> bindE (json_dumps fs (pdict js)) (\<lambda>w. Inr (name, w))) facets"

definition Search_as_encodable :: "py_floats \<Rightarrow> search_builder \<Rightarrow> pydict res" where
  "Search_as_encodable fs self =
     bindE (fst (encodable (sb_query self))) (\<lambda>q.
     bindE (json_dumps fs q) (\<lambda>query.
       let vector_search = encode_vector_search (sb_vector_search self);
           params = [(''index_name'', sb_index_name self), (''query'', query)]
       in bindE (if truthy vector_search
                 then bindE (json_dumps fs vector_search) (\<lambda>w. Inr (AList.update ''vector_search'' w params))
                 else Inr params) (\<lambda>params.
          let params = dupdate params (filter (\<lambda>kv. fst kv \<noteq> ''scope_name'') (sb_params self))
          in bindE (if sb_facets self \<noteq> []
                    then bindE (encode_facets fs (sb_facets self)) (\<lambda>fd. Inr (AList.update ''facets'' (pdict fd) params))
                    else Inr params) (\<lambda>params.
             if truthy (sb_sort self)
             then bindE (sort_specs fs (sb_sort self)) (\<lambda>ss. Inr (AList.update ''sort_specs'' (PList ss) params))
             else Inr params))))"

definition is_search_options :: "pyval \<Rightarrow> bool" where
  "is_search_options v \<longleftrightarrow> is_instance_of v ''SearchOptions'' \<or> is_instance_of v ''SearchOptionsBase''"

definition get_search_query_args :: "pyval list \<Rightarrow> pydict \<Rightarrow> pydict" where
  "get_search_query_args options kwargs =
     (let (opts, opt) = take_options is_search_options 0 options (PInst ''SearchOptions'' [])
      in dupdate (block_items opt) kwargs)"

definition apply_search_options ::
  "py_floats \<Rightarrow> (string list \<Rightarrow> string list) \<Rightarrow> pydict \<Rightarrow> search_builder \<Rightarrow> search_builder res" where
  "apply_search_options fs order args q =
     bindE (foldE (\<lambda>k. apply_option Search_VALID_OPTS (Search_setattr fs) (k, dget args k PNone))
              (order (filter (\<lambda>k. k \<in> fst ` set Search_VALID_OPTS) (map fst args))) (sb_params q))
       (\<lambda>params. Inr (q\<lparr>sb_params := params\<rparr>))"

definition create_search_query_object ::
  "py_floats \<Rightarrow> (string list \<Rightarrow> string list) \<Rightarrow> pyval \<Rightarrow> squery \<Rightarrow> pyval list \<Rightarrow> pydict \<Rightarrow> search_builder res" where
  "create_search_query_object fs order index_name search_query options kwargs =
     (let args = get_search_query_args options kwargs;
          facets = dget args ''facets'' (PDict []); sorting = dget args ''sort'' PNone;
          args = AList.delete ''sort'' (AList.delete ''facets'' args)
      in bindE (SearchQueryBuilder_init index_name search_query None facets sorting) (\<lambda>q.
           apply_search_options fs order args
             (q\<lparr>sb_params := AList.update ''metrics'' (dget args ''metrics'' (PBool True)) (sb_params q)\<rparr>)))"

definition create_search_query_from_request ::
  "py_floats \<Rightarrow> (string list \<Rightarrow> string list) \<Rightarrow> pyval \<Rightarrow> search_request \<Rightarrow> pyval list \<Rightarrow> pydict \<Rightarrow> search_builder res" where
  "create_search_query_from_request fs order index_name request options kwargs =
     (let args = get_search_query_args options kwargs;
          facets = dget args ''facets'' (PDict []); sorting = dget args ''sort'' PNone;
          args = AList.delete ''sort'' (AList.delete ''facets'' args);
          search_query = (case sr_search_query request of
              Some q \<Rightarrow> q | None \<Rightarrow> Query MatchNoneQuery [(''match_none'', PNone)]);
          combo = (case sr_vector_search request of
              None \<Rightarrow> PNone | Some v \<Rightarrow> dget (vs_options v) ''vector_query_combination'' PNone);
          args = (if truthy combo then AList.update ''vector_query_combination'' combo args else args)
      in bindE (SearchQueryBuilder_init index_name search_query (sr_vector_search request) facets sorting) (\<lambda>q.
           apply_search_options fs order args
             (q\<lparr>sb_params := AList.update ''show_request'' (dget args ''show_request'' (PBool False))
                 (AList.update ''metrics'' (dget args ''metrics'' (PBool True)) (sb_params q))\<rparr>)))"

subsection \<open>The order of the options\<close>

definition Search_slot :: "string \<Rightarrow> string set" where
  "Search_slot k =
     (if k = ''scan_consistency'' \<or> k = ''consistent_with'' then {''scan_consistency'', ''mutation_state''}
      else {k})"

definition Search_target_slot :: "string \<Rightarrow> string set" where
  "Search_target_slot t =
     (if t = ''consistency'' \<or> t = ''consistent_with'' then {''scan_consistency'', ''mutation_state''}
      else {t})"

lemma local_Search_consistency:
  "local_step {''scan_consistency'', ''mutation_state''} (Search_consistency_setter v)"
  unfolding local_step_def Search_consistency_setter_def set_option_def
  by (auto simp: agree_def dict_simps dhas_def)

lemma Search_consistency_agree:
  "agree {''scan_consistency'', ''mutation_state''} p q \<Longrightarrow>
     Search_consistency_getter p = Search_consistency_getter q"
  by (simp add: agree_def Search_consistency_getter_def dget_def dhas_def)

lemma local_Search_consistent_with:
  "local_step {''scan_consistency'', ''mutation_state''} (Search_consistent_with_setter v)"
  unfolding local_step_def
proof (intro allI impI, elim conjE)
  fix p q p'
  assume a: "agree {''scan_consistency'', ''mutation_state''} p q"
    and r: "Search_consistent_with_setter v p = Inr p'"
  note c = Search_consistency_agree [OF a]
  show "agree (- {''scan_consistency'', ''mutation_state''}) p p' \<and>
      (\<exists>q'. Search_consistent_with_setter v q = Inr q' \<and> agree {''scan_consistency'', ''mutation_state''} p' q')"
    using r unfolding Search_consistent_with_setter_def c set_option_def
    by (auto simp: agree_def dict_simps split: if_splits)
qed

lemma local_Search_setattr: "local_step (Search_target_slot t) (Search_setattr fs t v)"
proof -
  have "local_step {''timeout''} (Search_timeout_setter v)"
    unfolding Search_timeout_setter_def [abs_def] by (intro simple_setter)
  moreover have "local_step {name} (string_list_setter name v)" for name
    unfolding string_list_setter_def [abs_def] by (cases v) (simp_all add: simple_setter)
  moreover have "local_step {''highlight_style''} (highlight_style_setter v)"
    unfolding highlight_style_setter_def [abs_def] by (intro simple_setter local_id)
  moreover have "local_step {''vector_query_combination''} (vector_query_combination_setter v)"
    unfolding vector_query_combination_setter_def [abs_def]
    by (cases v) (simp_all add: simple_setter local_id)
  moreover have "local_step {''raw''} (Search_raw_setter fs v)"
    unfolding Search_raw_setter_def [abs_def] by (cases v) (simp_all add: simple_setter)
  moreover have "local_step {''span''} (Search_span_setter v)"
    unfolding Search_span_setter_def [abs_def] by (intro simple_setter)
  moreover have "local_step {''serializer''} (Search_serializer_setter v)"
    unfolding Search_serializer_setter_def [abs_def] by (intro simple_setter)
  ultimately show ?thesis
    by (simp add: Search_setattr_def Search_target_slot_def local_Search_consistency
        local_Search_consistent_with local_set_option)
qed

lemma Search_slots:
  "list_all (\<lambda>(k, ts). case ts of [] \<Rightarrow> True | [(t, tr)] \<Rightarrow> Search_target_slot t = Search_slot k | _ \<Rightarrow> False)
     Search_VALID_OPTS"
  by (simp add: Search_VALID_OPTS_def Search_target_slot_def Search_slot_def)

lemma Search_slot_disjoint:
  assumes "x \<in> fst ` set Search_VALID_OPTS" "y \<in> fst ` set Search_VALID_OPTS" "x \<noteq> y"
    and "\<not> ({x, y} = {''scan_consistency'', ''consistent_with''})"
  shows "Search_slot x \<inter> Search_slot y = {}"
proof -
  have "list_all (\<lambda>z. z \<noteq> ''mutation_state'') (map fst Search_VALID_OPTS)"
    by (simp add: Search_VALID_OPTS_def)
  then have no: "\<forall>z \<in> fst ` set Search_VALID_OPTS. z \<noteq> ''mutation_state''"
    by (simp only: list_all_iff set_map)
  have "x \<noteq> ''mutation_state''" "y \<noteq> ''mutation_state''"
    by (rule bspec [OF no assms(1)], rule bspec [OF no assms(2)])
  then show ?thesis using assms(3,4) unfolding Search_slot_def by (simp split: if_split) blast
qed

interpretation search_opts: query_options Search_VALID_OPTS "Search_setattr fs" Search_slot
  "\<lambda>x y. {x, y} = {''scan_consistency'', ''consistent_with''}" for fs
  by unfold_locales
     (rule local_apply_option [OF local_Search_setattr Search_slots] Search_slot_disjoint; assumption?)+

lemma Search_scope_name_only:
  assumes "apply_search_options fs order args q = Inr r"
    and "\<And>ks. mset (order ks) = mset ks" and "k \<notin> (\<Union>x \<in> fst ` set args. Search_slot x)"
  shows "map_of (sb_params r) k = map_of (sb_params q) k"
proof -
  let ?ks = "filter (\<lambda>k. k \<in> fst ` set Search_VALID_OPTS) (map fst args)"
  from assms(1) obtain p where p: "foldE (\<lambda>k. apply_option Search_VALID_OPTS (Search_setattr fs) (k, dget args k PNone))
      (order ?ks) (sb_params q) = Inr p" "sb_params r = p"
    by (auto simp: apply_search_options_def bindE_eq_Inr)
  have "set (order ?ks) = set ?ks" using assms(2) by (metis set_mset_mset)
  then have "\<And>x. x \<in> set (order ?ks) \<Longrightarrow> k \<notin> Search_slot x" using assms(3) by auto
  from search_opts.apply_frame [OF p(1) this] p(2) show ?thesis by simp
qed

lemma apply_search_options_order:
  assumes "\<And>ks. mset (o1 ks) = mset ks" "\<And>ks. mset (o2 ks) = mset ks"
    and "distinct (map fst args)"
    and "\<not> {''scan_consistency'', ''consistent_with''} \<subseteq> fst ` set args"
    and "apply_search_options fs o1 args q = Inr b1"
  shows "\<exists>b2. apply_search_options fs o2 args q = Inr b2 \<and> map_of (sb_params b1) = map_of (sb_params b2) \<and>
    b2 = b1\<lparr>sb_params := sb_params b2\<rparr>"
proof -
  from assms(5) obtain p where p: "b1 = q\<lparr>sb_params := p\<rparr>"
    "foldE (\<lambda>k. apply_option Search_VALID_OPTS (Search_setattr fs) (k, dget args k PNone))
      (o1 (filter (\<lambda>k. k \<in> fst ` set Search_VALID_OPTS) (map fst args))) (sb_params q) = Inr p"
    by (auto simp: apply_search_options_def bindE_eq_Inr)
  have n: "{x, y} \<noteq> {''scan_consistency'', ''consistent_with''}"
    if "x \<in> fst ` set args" "y \<in> fst ` set args" for x y
  proof
    assume "{x, y} = {''scan_consistency'', ''consistent_with''}"
    moreover have "{x, y} \<subseteq> fst ` set args" using that by blast
    ultimately show False using assms(4) by simp
  qed
  from search_opts.build_order [where ?o1.0 = o1 and ?o2.0 = o2 and h = "\<lambda>k. dget args k PNone",
      OF assms(3) n assms(1,2) p(2)]
  obtain p' where "foldE (\<lambda>k. apply_option Search_VALID_OPTS (Search_setattr fs) (k, dget args k PNone))
      (o2 (filter (\<lambda>k. k \<in> fst ` set Search_VALID_OPTS) (map fst args))) (sb_params q) = Inr p'"
    "map_of p = map_of p'" by blast
  then show ?thesis by (simp add: apply_search_options_def p(1))
qed

definition search_keys :: "pyval list \<Rightarrow> pydict \<Rightarrow> string set" where
  "search_keys options kwargs = fst ` set (get_search_query_args options kwargs)"

text \<open>C34. A search builder is the same for every order in which Python iterates over the set of
  its options, unless both \<open>scan_consistency\<close> and \<open>consistent_with\<close> are given.\<close>

theorem search_query_order:
  assumes "\<And>ks. mset (o1 ks) = mset ks" "\<And>ks. mset (o2 ks) = mset ks"
    and "\<And>v. v \<in> set options \<Longrightarrow> distinct (map fst (block_items v))"
    and "\<not> {''scan_consistency'', ''consistent_with''} \<subseteq> search_keys options kwargs"
    and "create_search_query_object fs o1 index query options kwargs = Inr b1"
  shows "\<exists>b2. create_search_query_object fs o2 index query options kwargs = Inr b2 \<and>
    map_of (sb_params b1) = map_of (sb_params b2) \<and> b2 = b1\<lparr>sb_params := sb_params b2\<rparr>"
proof -
  let ?all = "get_search_query_args options kwargs"
  let ?args = "AList.delete ''sort'' (AList.delete ''facets'' ?all)"
  have "distinct (map fst (block_items (snd (take_options is_search_options 0 options (PInst ''SearchOptions'' [])))))"
    by (rule block_distinct) (rule assms(3))
  then have "distinct (map fst ?all)"
    by (cases "take_options is_search_options 0 options (PInst ''SearchOptions'' [])")
       (simp add: get_search_query_args_def distinct_dupdate)
  then have d: "distinct (map fst ?args)" by (intro distinct_keys_delete)
  have "fst ` set ?args \<subseteq> fst ` set ?all" by (auto simp: AList.delete_eq)
  then have n: "\<not> {''scan_consistency'', ''consistent_with''} \<subseteq> fst ` set ?args"
    using assms(4) unfolding search_keys_def by blast
  obtain q where q: "SearchQueryBuilder_init index query None (dget ?all ''facets'' (PDict []))
      (dget ?all ''sort'' PNone) = Inr q"
    and r: "apply_search_options fs o1 ?args
      (q\<lparr>sb_params := AList.update ''metrics'' (dget ?args ''metrics'' (PBool True)) (sb_params q)\<rparr>) = Inr b1"
    using assms(5) unfolding create_search_query_object_def Let_def bindE_eq_Inr by blast
  from apply_search_options_order [OF assms(1,2) d n r]
  show ?thesis unfolding create_search_query_object_def Let_def q bindE_simps .
qed

lemma search_query_order_witness:
  "\<exists>b2. create_search_query_object \<lparr>float_repr = \<lambda>_. [], float_parse = \<lambda>_. NaN\<rparr> rev (PStr ''i'') (RawQuery PNone)
        [PInst ''SearchOptions'' [(''limit'', PInt 5)]] [(''scan_consistency'', PStr ''request_plus'')] = Inr b2 \<and>
     map_of (sb_params b2) = map_of [(''metrics'', PBool True), (''limit'', PInt 5),
       (''scan_consistency'', PStr ''request_plus'')]"
proof -
  let ?fs = "\<lparr>float_repr = \<lambda>_. [], float_parse = \<lambda>_. NaN\<rparr>"
  let ?opts = "[PInst ''SearchOptions'' [(''limit'', PInt 5)]]"
  let ?b = "\<lparr>sb_index_name = PStr ''i'', sb_params = [(''metrics'', PBool True), (''limit'', PInt 5),
       (''scan_consistency'', PStr ''request_plus'')], sb_query = RawQuery PNone, sb_vector_search = None,
       sb_facets = [], sb_sort = PNone\<rparr>"
  have 1: "create_search_query_object ?fs (\<lambda>ks. ks) (PStr ''i'') (RawQuery PNone) ?opts
      [(''scan_consistency'', PStr ''request_plus'')] = Inr ?b"
    by code_simp
  have d: "distinct (map fst (block_items v))" if "v \<in> set ?opts" for v using that by simp
  have n: "\<not> {''scan_consistency'', ''consistent_with''} \<subseteq>
      search_keys ?opts [(''scan_consistency'', PStr ''request_plus'')]"
    by code_simp
  from search_query_order [where ?o1.0 = "\<lambda>ks. ks" and ?o2.0 = rev, OF refl _ d n 1]
  show ?thesis by fastforce
qed

subsection \<open>What becomes of a sort option\<close>

definition is_sort :: "pyval \<Rightarrow> bool" where
  "is_sort s = is_instance_of s ''Sort''"

lemma mapE_first_error:
  assumes "x \<in> set xs" "f x = Inl e" "\<And>y e'. y \<in> set xs \<Longrightarrow> f y = Inl e' \<Longrightarrow> e' = e"
  shows "mapE f xs = Inl e"
  using assms
proof (induction xs)
  case (Cons y ys)
  show ?case
  proof (cases "f y")
    case (Inl a)
    then have "a = e" using Cons.prems(3) [of y a] by simp
    with Inl show ?thesis by simp
  next
    case (Inr b)
    then have "x \<in> set ys" using Cons.prems(1,2) by auto
    then have "mapE f ys = Inl e" using Cons.IH Cons.prems(2,3) by (meson list.set_intros(2))
    with Inr show ?thesis by simp
  qed
qed simp

text \<open>A list of field names or a list of sort objects is sent as it was given; a list that
  mixes both is accepted by the builder and makes the encoding raise AttributeError; a
  list with anything else is dropped without an error.\<close>

theorem sort_option_outcome:
  assumes b: "SearchQueryBuilder_init index query vs facets (PList xs) = Inr b"
    and json: "\<And>s. s \<in> set xs \<Longrightarrow> is_sort s \<Longrightarrow> json_dumps fs (attr s ''_json_'') = Inr (f s)"
  shows "if list_all is_str xs
      then sb_sort b = PList xs \<and> sort_specs fs (sb_sort b) = mapE (json_dumps fs) xs
    else if list_all is_sort xs
      then sb_sort b = PList xs \<and> sort_specs fs (sb_sort b) = Inr (map f xs)
    else if list_all (\<lambda>s. is_sort s \<or> is_str s) xs
      then sb_sort b = PList xs \<and> sort_specs fs (sb_sort b) = Inl AttributeError
    else sb_sort b = PNone"
proof -
  from b have s: "sb_sort b = (if list_all (\<lambda>s. is_sort s \<or> is_str s) xs then PList xs else PNone)"
    by (auto simp: SearchQueryBuilder_init_def sort_setter_def py_iter_def is_sort_def bindE_eq_Inr Let_def
        list_all_iff split: if_splits)
  let ?e = "\<lambda>s. bindE (Sort_as_encodable s) (json_dumps fs)"
  have sorts: "?e s = Inr (f s)" if "s \<in> set xs" "is_sort s" for s
    using json [OF that] that(2) by (simp add: Sort_as_encodable_def is_sort_def)
  have strs: "?e s = Inl AttributeError" if "\<not> is_sort s" for s
    using that by (simp add: Sort_as_encodable_def is_sort_def)
  consider "list_all is_str xs" | (sort) "\<not> list_all is_str xs" "list_all is_sort xs"
    | (mixed) "\<not> list_all is_str xs" "\<not> list_all is_sort xs" "list_all (\<lambda>s. is_sort s \<or> is_str s) xs"
    | "\<not> list_all is_str xs" "\<not> list_all is_sort xs" "\<not> list_all (\<lambda>s. is_sort s \<or> is_str s) xs" by blast
  then show ?thesis
  proof cases
    case 1
    then have "list_all (\<lambda>s. is_sort s \<or> is_str s) xs" by (auto simp: list_all_iff)
    with 1 show ?thesis by (simp add: s sort_specs_def py_iter_def)
  next
    case sort
    then have "list_all (\<lambda>s. is_sort s \<or> is_str s) xs" "mapE ?e xs = Inr (map f xs)"
      by (auto simp: list_all_iff intro!: mapE_Inr sorts)
    with sort show ?thesis by (simp add: s sort_specs_def py_iter_def)
  next
    case mixed
    then obtain x where "x \<in> set xs" "\<not> is_sort x" by (auto simp: list_all_iff)
    moreover have "e' = AttributeError" if "y \<in> set xs" "?e y = Inl e'" for y e'
      using that sorts [of y] strs [of y] by (cases "is_sort y") simp_all
    ultimately have "mapE ?e xs = Inl AttributeError" using strs mapE_first_error by meson
    with mixed show ?thesis by (simp add: s sort_specs_def py_iter_def)
  qed (simp add: s)
qed

lemma sort_option_outcome_witness:
  "\<exists>b. SearchQueryBuilder_init (PStr ''i'') (RawQuery PNone) None (PDict [])
      (PList [PStr ''a'', mk_sort (PStr ''b'')]) = Inr b \<and>
     sort_specs \<lparr>float_repr = \<lambda>_. [], float_parse = \<lambda>_. NaN\<rparr> (sb_sort b) = Inl AttributeError"
proof -
  let ?fs = "\<lparr>float_repr = \<lambda>_. [], float_parse = \<lambda>_. NaN\<rparr>"
  let ?xs = "[PStr ''a'', mk_sort (PStr ''b'')]"
  have "\<exists>b. SearchQueryBuilder_init (PStr ''i'') (RawQuery PNone) None (PDict []) (PList ?xs) = Inr b"
    by (simp add: SearchQueryBuilder_init_def FacetDict_init_def sort_setter_def py_iter_def mk_sort_def)
  then obtain b where b: "SearchQueryBuilder_init (PStr ''i'') (RawQuery PNone) None (PDict []) (PList ?xs) = Inr b"
    by blast
  have "json_dumps ?fs (attr s ''_json_'') = Inr (PStr [CHR 0x22, CHR ''b'', CHR 0x22])"
    if "s \<in> set ?xs" "is_sort s" for s
    using that by (auto simp: mk_sort_def is_sort_def) code_simp
  from sort_option_outcome [OF b this] b show ?thesis
    by (auto simp: is_sort_def mk_sort_def)
qed

end
