(* ===== verification/Search_Results.thy ===== *)
theory Search_Results
  imports Search
begin

text \<open>
  What a search returns, in \<open>couchbase/logic/search.py\<close> and \<open>couchbase/search.py\<close>: rows with
  their fields, explanation and locations, facets and metadata.  The state machine of the
  request is that of \<open>Streaming\<close>; here its contract \<open>row_request\<close> is discharged for the
  rows and the response of a search.

  A facet that the core delivers malformed makes the response fail as a whole; the code
  has stored the metadata by then.
\<close>

subsection \<open>Locations\<close>

definition location_names :: "string list" where
  "location_names = [''field'', ''term'', ''position'', ''start'', ''end'', ''array_positions'']"

text \<open>\<open>SearchRowLocation(**d)\<close>: the fields not given are \<open>None\<close>.\<close>

definition SearchRowLocation_of :: "kwargs \<Rightarrow> kwargs res" where
  "SearchRowLocation_of d =
     (if set (map fst d) \<subseteq> set location_names
      then Inr (map (\<lambda>k. (k, kget d k)) location_names) else Inl TypeError)"

definition tval_iter :: "tval \<Rightarrow> tval list res" where
  "tval_iter v = (case v of TList xs \<Rightarrow> Inr xs | TTuple xs \<Rightarrow> Inr xs | TDict d \<Rightarrow> Inr (map fst d)
     | TStr s \<Rightarrow> Inr (map (\<lambda>c. TStr [c]) s) | TBytes b \<Rightarrow> Inr (map (\<lambda>w. TInt (uint w)) b)
     | TBytearray b \<Rightarrow> Inr (map (\<lambda>w. TInt (uint w)) b) | _ \<Rightarrow> Inl TypeError)"

text \<open>\<open>f(**v)\<close> for a value that is no mapping is a \<open>TypeError\<close>.\<close>

definition star_kwargs :: "tval \<Rightarrow> kwargs res" where
  "star_kwargs v = (case v of TDict _ \<Rightarrow> dict_kwargs v | _ \<Rightarrow> Inl TypeError)"

definition locations_get_all :: "tval \<Rightarrow> kwargs list res" where
  "locations_get_all raw =
     bindE (tval_iter raw) (mapE (\<lambda>l. bindE (star_kwargs l) SearchRowLocation_of))"

text \<open>\<open>x in v\<close> for a text \<open>x\<close>, and \<open>v[x]\<close>; lists have no texts as indices.\<close>

definition text_in :: "string \<Rightarrow> tval \<Rightarrow> bool res" where
  "text_in x v =
     (case v of
        TDict d \<Rightarrow> Inr (map_of d (TStr (ustr_of x)) \<noteq> None)
      | TList xs \<Rightarrow> Inr (TStr (ustr_of x) \<in> set xs)
      | TTuple xs \<Rightarrow> Inr (TStr (ustr_of x) \<in> set xs)
      | _ \<Rightarrow> Inl TypeError)"

definition text_item :: "tval \<Rightarrow> string \<Rightarrow> tval res" where
  "text_item v x =
     (case v of
        TDict d \<Rightarrow> (case map_of d (TStr (ustr_of x)) of Some w \<Rightarrow> Inr w | None \<Rightarrow> Inl KeyError)
      | _ \<Rightarrow> Inl TypeError)"

definition get_location :: "string \<Rightarrow> string \<Rightarrow> tval \<Rightarrow> kwargs res" where
  "get_location field trm loc =
     bindE (dict_kwargs loc) (\<lambda>d.
       SearchRowLocation_of
         (AList.update ''position'' (kget d ''pos'')
           (fold (\<lambda>(k, v). AList.update k v) (filter (\<lambda>kv. fst kv \<noteq> ''pos'') d)
             [(''field'', TStr (ustr_of field)), (''term'', TStr (ustr_of trm)), (''position'', TNone)])))"

definition locations_get :: "tval \<Rightarrow> string \<Rightarrow> string \<Rightarrow> kwargs list res" where
  "locations_get raw field trm =
     bindE (text_in field raw) (\<lambda>found.
       if \<not> found then Inl InvalidArgumentException
       else bindE (text_item raw field) (\<lambda>terms. bindE (text_in trm terms) (\<lambda>found.
         if \<not> found then Inl InvalidArgumentException
         else bindE (text_item terms trm) (\<lambda>locs. bindE (tval_iter locs) (mapE (get_location field trm))))))"

definition locations_fields :: "tval \<Rightarrow> tval list res" where
  "locations_fields raw = (case raw of TDict d \<Rightarrow> Inr (map fst d) | _ \<Rightarrow> Inl AttributeError)"

definition locations_terms_for :: "tval \<Rightarrow> string \<Rightarrow> tval list res" where
  "locations_terms_for raw field =
     bindE (text_in field raw) (\<lambda>found.
       if \<not> found then Inl InvalidArgumentException
       else bindE (text_item raw field) locations_fields)"

definition locations_terms :: "tval \<Rightarrow> tval set res" where
  "locations_terms raw =
     (case raw of
        TDict d \<Rightarrow> bindE (mapE (\<lambda>kv. locations_fields (snd kv)) d) (\<lambda>tss. Inr (\<Union>ts \<in> set tss. set ts))
      | _ \<Rightarrow> Inl AttributeError)"

text \<open>
  The core delivers the locations as a list of dictionaries: all of them can be listed,
  but no access by field or term succeeds.
\<close>

lemma locations_by_field_never_work:
  assumes "\<And>l. l \<in> set ls \<Longrightarrow> \<exists>d. l = TDict d"
  shows "locations_get (TList ls) field trm = Inl InvalidArgumentException"
    "locations_terms_for (TList ls) field = Inl InvalidArgumentException"
    "locations_fields (TList ls) = Inl AttributeError" "locations_terms (TList ls) = Inl AttributeError"
proof -
  have "TStr (ustr_of field) \<notin> set ls" using assms by fastforce
  then show "locations_get (TList ls) field trm = Inl InvalidArgumentException"
    "locations_terms_for (TList ls) field = Inl InvalidArgumentException"
    by (simp_all add: locations_get_def locations_terms_for_def text_in_def)
qed (simp_all add: locations_fields_def locations_terms_def)

subsection \<open>Rows\<close>

text \<open>A row object is the dictionary of its fields; the defaults are those of the dataclass.\<close>

definition search_row_defaults :: kwargs where
  "search_row_defaults =
     [(''index'', TNone), (''id'', TNone), (''score'', TNone), (''fields'', TDict []), (''sort'', TList []),
      (''locations'', TNone), (''fragments'', TDict []), (''explanation'', TDict [])]"

definition SearchRow_of :: "kwargs \<Rightarrow> kwargs res" where
  "SearchRow_of d =
     (if set (map fst d) \<subseteq> set (map fst search_row_defaults)
      then Inr (fold (\<lambda>(k, v). AList.update k v) d search_row_defaults) else Inl TypeError)"

datatype search_result = SearchRowObject kwargs | RawSearchRow tval

definition deserialize_search_row :: "py_floats \<Rightarrow> row_factory \<Rightarrow> item \<Rightarrow> search_result res" where
  "deserialize_search_row fs factory i =
     (let row = (case i of Row t \<Rightarrow> t | _ \<Rightarrow> TObject 0)
      in case factory of
           NoClass \<Rightarrow> Inl TypeError
         | OtherClass \<Rightarrow> Inr (RawSearchRow row)
         | RowClass \<Rightarrow>
             bindE (dict_kwargs row) (\<lambda>d.
             let d = AList.update ''locations'' (kget d ''locations'') d; fields = kget d ''fields''
             in bindE (is_null_or_empty_text fields) (\<lambda>empty.
             bindE (if empty then Inr TNone
                    else bindE (json_loads fs fields) (\<lambda>j. bindE (star_kwargs j) (\<lambda>_. Inr j))) (\<lambda>fields.
             let d = AList.update ''fields'' fields d; explanation = kget d ''explanation''
             in bindE (is_null_or_empty_text explanation) (\<lambda>empty.
             bindE (if empty then Inr (TDict []) else json_loads fs explanation) (\<lambda>explanation.
             bindE (SearchRow_of (AList.update ''explanation'' explanation d)) (\<lambda>r.
               Inr (SearchRowObject r))))))))"

subsection \<open>Facets and metadata\<close>

definition dataclass_of :: "string list \<Rightarrow> tval \<Rightarrow> kwargs res" where
  "dataclass_of names v =
     bindE (star_kwargs v) (\<lambda>d.
       if set (map fst d) \<subseteq> set names then Inr (map (\<lambda>k. (k, kget d k)) names) else Inl TypeError)"

definition SearchTermFacet_of :: "tval \<Rightarrow> kwargs res" where
  "SearchTermFacet_of = dataclass_of [''term'', ''count'']"

definition SearchNumericRangeFacet_of :: "tval \<Rightarrow> kwargs res" where
  "SearchNumericRangeFacet_of = dataclass_of [''name'', ''count'', ''min'', ''max'']"

definition SearchDateRangeFacet_of :: "tval \<Rightarrow> kwargs res" where
  "SearchDateRangeFacet_of = dataclass_of [''name'', ''count'', ''start'', ''end'']"

record search_facet =
  sf_fields :: kwargs
  sf_terms :: "kwargs list option"
  sf_numeric_ranges :: "kwargs list option"
  sf_date_ranges :: "kwargs list option"

definition facet_keys :: "string list" where
  "facet_keys = [''name'', ''field'', ''total'', ''missing'', ''other'']"

definition facet_ranges :: "(tval \<Rightarrow> kwargs res) \<Rightarrow> tval \<Rightarrow> kwargs list option res" where
  "facet_ranges f v =
     (if utruthy v then bindE (tval_iter v) (\<lambda>xs. bindE (mapE f xs) (\<lambda>ys. Inr (Some ys))) else Inr None)"

definition search_facet_of :: "tval \<Rightarrow> search_facet res" where
  "search_facet_of facet =
     bindE (dict_kwargs facet) (\<lambda>d.
     bindE (facet_ranges SearchTermFacet_of (kget d ''terms'')) (\<lambda>ts.
     bindE (facet_ranges SearchNumericRangeFacet_of (kget d ''numeric_ranges'')) (\<lambda>ns.
     bindE (facet_ranges SearchDateRangeFacet_of (kget d ''date_ranges'')) (\<lambda>ds.
       Inr \<lparr>sf_fields = map (\<lambda>k. (k, kget d k)) facet_keys, sf_terms = ts, sf_numeric_ranges = ns,
            sf_date_ranges = ds\<rparr>))))"

definition set_facets :: "tval \<Rightarrow> (tval \<times> search_facet) list option res" where
  "set_facets facets =
     (if \<not> utruthy facets then Inr None
      else bindE (tval_iter facets) (\<lambda>xs.
           bindE (foldE (\<lambda>x acc. bindE (search_facet_of x) (\<lambda>f.
                    Inr (AList.update (kget (sf_fields f) ''name'') f acc))) xs []) (\<lambda>fs. Inr (Some fs))))"

text \<open>The metadata and the facets of a response, where it has a value.\<close>

definition Search_meta :: "item \<Rightarrow> (tval \<times> (tval \<times> search_facet) list option) option res" where
  "Search_meta i =
     bindE (response_value i) (\<lambda>result.
       if \<not> utruthy result then Inr None
       else bindE (dict_kwargs result) (\<lambda>d.
            bindE (set_facets (kget d ''facets'')) (\<lambda>fs. Inr (Some (kget d ''metadata'', fs)))))"

lemma star_kwargs_no_stop: "star_kwargs v \<noteq> Inl StopIteration"
  by (cases v) (use dict_kwargs_no_stop in \<open>simp_all add: star_kwargs_def del: dict_kwargs.simps\<close>)

lemma search_row_no_stop: "deserialize_search_row fs factory i \<noteq> Inl StopIteration"
proof -
  have "is_null_or_empty_text v \<noteq> Inl StopIteration" for v
    by (auto simp: is_null_or_empty_text_def split: tval.split)
  moreover have "SearchRow_of d \<noteq> Inl StopIteration" for d by (simp add: SearchRow_of_def)
  ultimately show ?thesis
    using json_loads_no_stop dict_kwargs_no_stop star_kwargs_no_stop
    by (cases factory) (auto simp: deserialize_search_row_def Let_def bindE_eq_Inl split: if_splits)
qed

interpretation search: row_request "core_error fs so" "deserialize_search_row fs factory" Search_meta
  for fs so factory
  by unfold_locales (rule core_error_no_stop search_row_no_stop)+

subsection \<open>Properties\<close>

text \<open>C32. Executing a search delivers every row of the stream once and in order, keeps the
  metadata and the facets of the response, and leaves the request done; whatever the
  stream holds, the execution comes to an end.\<close>

theorem search_execute_completes:
  "(\<exists>x. request_execute (Suc (length es)) (core_error fs so) (deserialize_search_row fs factory) Search_meta
      (Inr es) new_request = Some x) \<and>
   (mapE (\<lambda>t. deserialize_search_row fs factory (Row t)) ts = Inr vs \<and> Search_meta (Response kw) = Inr m \<longrightarrow>
    (\<exists>r. request_execute (Suc (length ts)) (core_error fs so) (deserialize_search_row fs factory) Search_meta
        (Inr (map (\<lambda>t. Yield (Row t)) ts @ [Yield NoRow, Yield (Response kw)])) new_request =
          Some (Inr (map Some vs), r) \<and>
      metadata r = Some m \<and> request_iter backend r = (Inl AlreadyQueriedException, r)))"
proof (intro conjI impI)
  let ?start = "\<lambda>es. new_request\<lparr>started_streaming := True, streaming_result := Some es\<rparr>"
  note start = request_execute_def request_iter_def submit_query_def new_request_def
  have "events_left (?start es) < Suc (length es)" by (simp add: events_left_def)
  from search.drain_ends [OF _ this, of fs so factory "[]"]
  show "\<exists>x. request_execute (Suc (length es)) (core_error fs so) (deserialize_search_row fs factory) Search_meta
      (Inr es) new_request = Some x"
    by (simp add: start)
  assume a: "mapE (\<lambda>t. deserialize_search_row fs factory (Row t)) ts = Inr vs \<and>
      Search_meta (Response kw) = Inr m"
  let ?es = "map (\<lambda>t. Yield (Row t)) ts @ [Yield NoRow, Yield (Response kw)]"
  from search.drain_rows [of "?start ?es" ts kw fs factory vs m "Suc (length ts)" so "[]"] a
  show "\<exists>r. request_execute (Suc (length ts)) (core_error fs so) (deserialize_search_row fs factory) Search_meta
      (Inr ?es) new_request = Some (Inr (map Some vs), r) \<and>
      metadata r = Some m \<and> request_iter backend r = (Inl AlreadyQueriedException, r)"
    by (simp add: start)
qed

lemma search_execute_completes_witness:
  "\<exists>r. request_execute (Suc (Suc 0)) (core_error \<lparr>float_repr = \<lambda>_. [], float_parse = \<lambda>_. NaN\<rparr> (\<lambda>_. []))
      (deserialize_search_row \<lparr>float_repr = \<lambda>_. [], float_parse = \<lambda>_. NaN\<rparr> OtherClass) Search_meta
      (Inr [Yield (Row (TInt 1)), Yield NoRow, Yield (Response [])]) new_request =
    Some (Inr [Some (RawSearchRow (TInt 1))], r) \<and> metadata r = Some None"
proof -
  let ?fs = "\<lparr>float_repr = \<lambda>_. [], float_parse = \<lambda>_. NaN\<rparr>"
  have "mapE (\<lambda>t. deserialize_search_row ?fs OtherClass (Row t)) [TInt 1] = Inr [RawSearchRow (TInt 1)]"
    "Search_meta (Response []) = Inr None"
    by (simp_all add: deserialize_search_row_def Search_meta_def response_value_def kget_def utruthy_def)
  then show ?thesis
    using conjunct2 [OF search_execute_completes [of "[]" ?fs "\<lambda>_. []" OtherClass "[TInt 1]"
      "[RawSearchRow (TInt 1)]" "[]" None "Inr []"]]
    by auto
qed

end
