(* ===== verification/Kv_Requests.thy ===== *)
theory Kv_Requests
  imports Subdoc Streaming N1ql
begin

text \<open>
  \<open>couchbase/logic/collection.py\<close>: the requests that a collection hands to the core.  An
  operation merges its options (\<open>forward_args\<close>), checks them, encodes the value of the
  document and calls the core with the location of the collection, the operation, the
  key and the options; such a call is a \<open>kv_request\<close>.

  A transcoder is an object of the caller or the default one of the scope: the record
  of the collection holds, as the calls \<open>transcoder.encode_value\<close> and
  \<open>transcoder.decode_value\<close>, what each object does; the transcoders of the SDK are those
  of \<open>Transcoding\<close>.  Keyword arguments are those that are no parameters of the
  operation.
\<close>

subsection \<open>The collection and its requests\<close>

record kv_collection =
  co_env :: py_env
  co_floats :: py_floats
  co_connection :: pyval
  co_bucket_name :: pyval
  co_scope_name :: pyval
  co_name :: pyval
  default_transcoder :: pyval
  tc_encode :: "pyval \<Rightarrow> tval \<Rightarrow> (tval \<times> int) res"
  tc_decode :: "pyval \<Rightarrow> decoder"

datatype operation = OP_GET | OP_GET_ANY_REPLICA | OP_GET_ALL_REPLICAS | OP_EXISTS | OP_INSERT
  | OP_UPSERT | OP_REPLACE | OP_REMOVE | OP_TOUCH | OP_GET_AND_TOUCH | OP_GET_AND_LOCK | OP_UNLOCK
  | OP_LOOKUP_IN | OP_LOOKUP_IN_ALL_REPLICAS | OP_LOOKUP_IN_ANY_REPLICA | OP_MUTATE_IN
  | OP_INCREMENT | OP_DECREMENT | OP_APPEND | OP_PREPEND
  | OP_KV_RANGE_SCAN | OP_KV_PREFIX_SCAN | OP_KV_SAMPLING_SCAN

text \<open>
  The value of a request is the pair that a transcoder gives or the bytes of \<open>append\<close>
  and \<open>prepend\<close>; a spec goes out as it is or with its value replaced by encoded bytes.
\<close>

datatype payload = Transcoded tval int | RawPayload tval

datatype core_spec = PlainSpec spec | EncodedSpec SubDocOp string bool bool bool tval

record kv_request =
  rq_conn :: pydict
  rq_op :: operation
  rq_key :: pyval
  rq_value :: "payload option"
  rq_spec :: "core_spec list"
  rq_args :: pydict

definition get_connection_args :: "kv_collection \<Rightarrow> pydict" where
  "get_connection_args col =
     [(''conn'', co_connection col), (''bucket'', co_bucket_name col), (''scope'', co_scope_name col),
      (''collection_name'', co_name col)]"

definition kv_operation :: "kv_collection \<Rightarrow> operation \<Rightarrow> pyval \<Rightarrow> pydict \<Rightarrow> kv_request" where
  "kv_operation col op key args =
     \<lparr>rq_conn = get_connection_args col, rq_op = op, rq_key = key, rq_value = None, rq_spec = [],
      rq_args = args\<rparr>"

text \<open>A scope that is missing (any falsy object) is refused.\<close>

definition CollectionLogic_init :: "kv_collection \<Rightarrow> bool \<Rightarrow> kv_collection res" where
  "CollectionLogic_init col has_scope = (if \<not> has_scope then Inl InvalidArgumentException else Inr col)"

subsection \<open>Options of mutations\<close>

definition get_mutation_options :: "kv_collection \<Rightarrow> pydict list \<Rightarrow> pydict \<Rightarrow> pydict res" where
  "get_mutation_options col opts kwargs =
     bindE (forward_args (co_env col) kwargs opts) (\<lambda>args.
       if dhas args ''durability'' \<and> is_int (dget args ''durability'' PNone) \<and> \<not> dhas args ''timeout''
       then bindE (timedelta_as_microseconds (PTimedelta 10000000)) (\<lambda>us.
              Inr (AList.update ''timeout'' (PInt us) args))
       else Inr args)"

text \<open>
  \<open>transcoder = final_args.pop('transcoder', self.default_transcoder)\<close> and
  \<open>transcoder.encode_value(value)\<close>.
\<close>

definition pop_transcoder :: "kv_collection \<Rightarrow> pydict \<Rightarrow> pyval \<times> pydict" where
  "pop_transcoder col args =
     (dget args ''transcoder'' (default_transcoder col), AList.delete ''transcoder'' args)"

definition store_request ::
  "kv_collection \<Rightarrow> operation \<Rightarrow> pyval \<Rightarrow> tval \<Rightarrow> pydict \<Rightarrow> kv_request res" where
  "store_request col op key value final_args =
     (let (transcoder, final_args) = pop_transcoder col final_args
      in bindE (tc_encode col transcoder value) (\<lambda>(bytes, flags).
           Inr ((kv_operation col op key final_args)\<lparr>rq_value := Some (Transcoded bytes flags)\<rparr>)))"

subsection \<open>Documents\<close>

definition CL_get :: "kv_collection \<Rightarrow> pyval \<Rightarrow> pydict \<Rightarrow> kv_request" where
  "CL_get col key kwargs = kv_operation col OP_GET key kwargs"

definition CL_get_any_replica :: "kv_collection \<Rightarrow> pyval \<Rightarrow> pydict \<Rightarrow> kv_request" where
  "CL_get_any_replica col key kwargs = kv_operation col OP_GET_ANY_REPLICA key kwargs"

definition CL_get_all_replicas :: "kv_collection \<Rightarrow> pyval \<Rightarrow> pydict \<Rightarrow> kv_request" where
  "CL_get_all_replicas col key kwargs = kv_operation col OP_GET_ALL_REPLICAS key kwargs"

definition CL_exists :: "kv_collection \<Rightarrow> pyval \<Rightarrow> pydict list \<Rightarrow> pydict \<Rightarrow> kv_request res" where
  "CL_exists col key opts kwargs =
     bindE (forward_args (co_env col) kwargs opts) (\<lambda>args. Inr (kv_operation col OP_EXISTS key args))"

definition CL_insert :: "kv_collection \<Rightarrow> pyval \<Rightarrow> tval \<Rightarrow> pydict list \<Rightarrow> pydict \<Rightarrow> kv_request res" where
  "CL_insert col key value opts kwargs =
     bindE (get_mutation_options col opts kwargs) (store_request col OP_INSERT key value)"

definition CL_upsert :: "kv_collection \<Rightarrow> pyval \<Rightarrow> tval \<Rightarrow> pydict list \<Rightarrow> pydict \<Rightarrow> kv_request res" where
  "CL_upsert col key value opts kwargs =
     bindE (get_mutation_options col opts kwargs) (store_request col OP_UPSERT key value)"

definition CL_replace :: "kv_collection \<Rightarrow> pyval \<Rightarrow> tval \<Rightarrow> pydict list \<Rightarrow> pydict \<Rightarrow> kv_request res" where
  "CL_replace col key value opts kwargs =
     bindE (get_mutation_options col opts kwargs) (\<lambda>final_args.
       if truthy (dget final_args ''expiry'' PNone) \<and>
          dget final_args ''preserve_expiry'' (PBool False) = PBool True
       then Inl InvalidArgumentException
       else store_request col OP_REPLACE key value final_args)"

definition CL_remove :: "kv_collection \<Rightarrow> pyval \<Rightarrow> pydict list \<Rightarrow> pydict \<Rightarrow> kv_request res" where
  "CL_remove col key opts kwargs =
     bindE (get_mutation_options col opts kwargs) (\<lambda>args. Inr (kv_operation col OP_REMOVE key args))"

definition CL_touch :: "kv_collection \<Rightarrow> pyval \<Rightarrow> pyval \<Rightarrow> pydict list \<Rightarrow> pydict \<Rightarrow> kv_request res" where
  "CL_touch col key expiry opts kwargs =
     bindE (forward_args (co_env col) (AList.update ''expiry'' expiry kwargs) opts)
       (\<lambda>args. Inr (kv_operation col OP_TOUCH key args))"

definition CL_get_and_touch :: "kv_collection \<Rightarrow> pyval \<Rightarrow> pydict \<Rightarrow> kv_request" where
  "CL_get_and_touch col key kwargs = kv_operation col OP_GET_AND_TOUCH key kwargs"

definition CL_get_and_lock :: "kv_collection \<Rightarrow> pyval \<Rightarrow> pydict \<Rightarrow> kv_request" where
  "CL_get_and_lock col key kwargs = kv_operation col OP_GET_AND_LOCK key kwargs"

definition CL_unlock :: "kv_collection \<Rightarrow> pyval \<Rightarrow> pyval \<Rightarrow> pydict list \<Rightarrow> pydict \<Rightarrow> kv_request res" where
  "CL_unlock col key cas opts kwargs =
     bindE (forward_args (co_env col) kwargs opts) (\<lambda>final_args.
       Inr (kv_operation col OP_UNLOCK key (AList.update ''cas'' cas final_args)))"

subsection \<open>Subdocuments\<close>

text \<open>
  The \<open>spec\<close> argument is any iterable: a sequence gives its elements each time it is
  walked over, an iterator only the first time.
\<close>

datatype 'a iterable = Sequence "'a list" | Iterator "'a list"

fun walk :: "'a iterable \<Rightarrow> 'a list \<times> 'a iterable" where
  "walk (Sequence xs) = (xs, Sequence xs)"
| "walk (Iterator xs) = (xs, Iterator [])"

definition subdoc_operation ::
  "kv_collection \<Rightarrow> operation \<Rightarrow> pyval \<Rightarrow> core_spec list \<Rightarrow> pydict \<Rightarrow> kv_request" where
  "subdoc_operation col op key spec args = (kv_operation col op key args)\<lparr>rq_spec := spec\<rparr>"

definition CL_lookup_in :: "kv_collection \<Rightarrow> pyval \<Rightarrow> spec iterable \<Rightarrow> pydict \<Rightarrow> kv_request" where
  "CL_lookup_in col key spec kwargs =
     subdoc_operation col OP_LOOKUP_IN key (map PlainSpec (fst (walk spec))) kwargs"

definition CL_lookup_in_all_replicas ::
  "kv_collection \<Rightarrow> pyval \<Rightarrow> spec iterable \<Rightarrow> pydict \<Rightarrow> kv_request" where
  "CL_lookup_in_all_replicas col key spec kwargs =
     subdoc_operation col OP_LOOKUP_IN_ALL_REPLICAS key (map PlainSpec (fst (walk spec))) kwargs"

definition CL_lookup_in_any_replica ::
  "kv_collection \<Rightarrow> pyval \<Rightarrow> spec iterable \<Rightarrow> pydict \<Rightarrow> kv_request" where
  "CL_lookup_in_any_replica col key spec kwargs =
     subdoc_operation col OP_LOOKUP_IN_ANY_REPLICA key (map PlainSpec (fst (walk spec))) kwargs"

definition StoreSemantics_REPLACE :: pyval where
  "StoreSemantics_REPLACE = PIntEnum ''StoreSemantics'' ''REPLACE'' 0"

definition StoreSemantics_UPSERT :: pyval where
  "StoreSemantics_UPSERT = PIntEnum ''StoreSemantics'' ''UPSERT'' 1"

definition StoreSemantics_INSERT :: pyval where
  "StoreSemantics_INSERT = PIntEnum ''StoreSemantics'' ''INSERT'' 2"

lemmas StoreSemantics_defs = StoreSemantics_REPLACE_def StoreSemantics_UPSERT_def StoreSemantics_INSERT_def

definition allowed_multi_ops :: "SubDocOp list" where
  "allowed_multi_ops = [ARRAY_PUSH_FIRST, ARRAY_PUSH_LAST, ARRAY_INSERT]"

text \<open>
  The value of an array operation is written as JSON and loses its brackets; any other
  value goes through the transcoder, whose flags are dropped.
\<close>

definition strip_brackets :: "ustr \<Rightarrow> ustr" where
  "strip_brackets t = drop 1 (take (length t - 1) t)"

fun final_spec :: "kv_collection \<Rightarrow> pyval \<Rightarrow> spec \<Rightarrow> core_spec res" where
  "final_spec col tc (MutateSpec op path create_parents xattr expand_macros value) =
     (if op \<in> set allowed_multi_ops
      then bindE (dumps (co_floats col) (tval_of value)) (\<lambda>new_value.
           bindE (str_encode (strip_brackets new_value)) (\<lambda>b.
             Inr (EncodedSpec op path create_parents xattr expand_macros b)))
      else bindE (tc_encode col tc (tval_of value)) (\<lambda>(b, flags).
             Inr (EncodedSpec op path create_parents xattr expand_macros b)))"
| "final_spec col tc s = Inr (PlainSpec s)"

definition store_semantics :: "pydict \<Rightarrow> pydict res" where
  "store_semantics args =
     (let insert = dget args ''insert_doc'' PNone; upsert = dget args ''upsert_doc'' PNone;
          replac = dget args ''replace_doc'' PNone;
          args = AList.delete ''replace_doc'' (AList.delete ''upsert_doc'' (AList.delete ''insert_doc'' args))
      in if insert \<noteq> PNone \<and> (upsert \<noteq> PNone \<or> replac \<noteq> PNone) then Inl InvalidArgumentException
         else if upsert \<noteq> PNone \<and> (insert \<noteq> PNone \<or> replac \<noteq> PNone) then Inl InvalidArgumentException
         else let args = (if insert \<noteq> PNone then AList.update ''store_semantics'' StoreSemantics_INSERT args else args);
                  args = (if upsert \<noteq> PNone then AList.update ''store_semantics'' StoreSemantics_UPSERT args else args);
                  args = (if replac \<noteq> PNone then AList.update ''store_semantics'' StoreSemantics_REPLACE args else args)
              in Inr args)"

definition CL_mutate_in ::
  "kv_collection \<Rightarrow> pyval \<Rightarrow> spec iterable \<Rightarrow> pydict list \<Rightarrow> pydict \<Rightarrow> kv_request res" where
  "CL_mutate_in col key spec opts kwargs =
     bindE (get_mutation_options col opts kwargs) (\<lambda>final_args.
       let (transcoder, final_args) = pop_transcoder col final_args;
           expiry = dget final_args ''expiry'' PNone;
           preserve_expiry = dget final_args ''preserve_expiry'' (PBool False);
           (first, spec) = walk spec;
           spec_ops = map spec_op first
       in if DICT_ADD \<in> set spec_ops \<and> preserve_expiry = PBool True then Inl InvalidArgumentException
          else if REPLACE \<in> set spec_ops \<and> truthy expiry \<and> preserve_expiry = PBool True
          then Inl InvalidArgumentException
          else bindE (store_semantics final_args) (\<lambda>final_args.
               bindE (mapE (final_spec col transcoder) (fst (walk spec))) (\<lambda>specs.
                 Inr (subdoc_operation col OP_MUTATE_IN key specs final_args))))"

subsection \<open>Counters and binary values\<close>

definition signed_zero :: pyval where
  "signed_zero = PInst ''SignedInt64'' [(''value'', PInt 0)]"

definition delta_one :: pyval where
  "delta_one = PInst ''DeltaValue'' [(''value'', PInt 1)]"

definition validate_delta_initial :: "pyval \<Rightarrow> pyval \<Rightarrow> unit res" where
  "validate_delta_initial delta initial =
     (if delta \<noteq> PNone \<and> \<not> cint_is_valid DeltaValue delta then Inl InvalidArgumentException
      else if initial \<noteq> PNone \<and> \<not> cint_is_valid SignedInt64 initial then Inl InvalidArgumentException
      else Inr ())"

definition get_and_validate_delta_initial :: "pydict \<Rightarrow> (pyval \<times> pyval) res" where
  "get_and_validate_delta_initial final_args =
     (let initial = dget final_args ''initial'' PNone; delta = dget final_args ''delta'' PNone;
          initial = (if \<not> truthy initial then signed_zero else initial);
          delta = (if \<not> truthy delta then delta_one else delta)
      in bindE (validate_delta_initial delta initial) (\<lambda>_. Inr (delta, initial)))"

text \<open>\<open>int(x)\<close> of a bounded integer.\<close>

definition to_int :: "pyval \<Rightarrow> int res" where
  "to_int v = (case int_of (cint_int v) of Some i \<Rightarrow> Inr i | None \<Rightarrow> Inl TypeError)"

text \<open>The body that \<open>increment\<close> and \<open>decrement\<close> share.\<close>

definition counter_defaults :: "pydict \<Rightarrow> pydict" where
  "counter_defaults final_args =
     (let final_args = (if \<not> truthy (dget final_args ''initial'' PNone)
            then AList.update ''initial'' signed_zero final_args else final_args)
      in if \<not> truthy (dget final_args ''delta'' PNone)
         then AList.update ''delta'' delta_one final_args else final_args)"

definition counter_args :: "pydict \<Rightarrow> pydict res" where
  "counter_args args =
     (let final_args = counter_defaults args
      in bindE (validate_delta_initial (dget final_args ''delta'' PNone) (dget final_args ''initial'' PNone)) (\<lambda>_.
         bindE (to_int (dget final_args ''initial'' PNone)) (\<lambda>initial.
         bindE (to_int (dget final_args ''delta'' PNone)) (\<lambda>delta.
           let final_args = AList.update ''delta'' (PInt delta) (AList.update ''initial'' (PInt initial) final_args)
           in Inr (if initial < 0 then AList.delete ''initial'' final_args else final_args)))))"

definition CL_increment :: "kv_collection \<Rightarrow> pyval \<Rightarrow> pydict list \<Rightarrow> pydict \<Rightarrow> kv_request res" where
  "CL_increment col key opts kwargs =
     bindE (bindE (get_mutation_options col opts kwargs) counter_args) (\<lambda>final_args.
       Inr (kv_operation col OP_INCREMENT key final_args))"

definition CL_decrement :: "kv_collection \<Rightarrow> pyval \<Rightarrow> pydict list \<Rightarrow> pydict \<Rightarrow> kv_request res" where
  "CL_decrement col key opts kwargs =
     bindE (bindE (get_mutation_options col opts kwargs) counter_args) (\<lambda>final_args.
       Inr (kv_operation col OP_DECREMENT key final_args))"

text \<open>A \<open>str\<close> is encoded, a \<open>bytearray\<close> copied, anything else but \<open>bytes\<close> refused.\<close>

definition binary_value :: "tval \<Rightarrow> tval res" where
  "binary_value value =
     (case value of
        TStr s \<Rightarrow> str_encode s
      | TBytearray b \<Rightarrow> Inr (TBytes b)
      | TBytes b \<Rightarrow> Inr (TBytes b)
      | _ \<Rightarrow> Inl ValueError)"

definition CL_append :: "kv_collection \<Rightarrow> pyval \<Rightarrow> tval \<Rightarrow> pydict list \<Rightarrow> pydict \<Rightarrow> kv_request res" where
  "CL_append col key value opts kwargs =
     bindE (get_mutation_options col opts kwargs) (\<lambda>final_args.
     bindE (binary_value value) (\<lambda>v.
       Inr ((kv_operation col OP_APPEND key final_args)\<lparr>rq_value := Some (RawPayload v)\<rparr>)))"

definition CL_prepend :: "kv_collection \<Rightarrow> pyval \<Rightarrow> tval \<Rightarrow> pydict list \<Rightarrow> pydict \<Rightarrow> kv_request res" where
  "CL_prepend col key value opts kwargs =
     bindE (get_mutation_options col opts kwargs) (\<lambda>final_args.
     bindE (binary_value value) (\<lambda>v.
       Inr ((kv_operation col OP_PREPEND key final_args)\<lparr>rq_value := Some (RawPayload v)\<rparr>)))"

subsection \<open>Range scans\<close>

text \<open>A bound of a range scan is a \<open>ScanTerm\<close> as \<open>ScanTerm_init\<close> builds it, or \<open>None\<close>.\<close>

datatype scan_type = RangeScan "pydict option" "pydict option" | PrefixScan pyval
  | SamplingScan pyval pyval | OtherScan

definition set_optional :: "string \<Rightarrow> pyval option \<Rightarrow> pydict \<Rightarrow> pydict" where
  "set_optional k v args = (case v of None \<Rightarrow> args | Some w \<Rightarrow> AList.update k w args)"

fun scan_type_args :: "scan_type \<Rightarrow> pydict \<Rightarrow> (operation \<times> pydict) res" where
  "scan_type_args (RangeScan lo hi) kwargs =
     Inr (OP_KV_RANGE_SCAN,
       set_optional ''end'' (map_option (\<lambda>t. pdict (ScanTerm_to_dict t)) hi)
         (set_optional ''start'' (map_option (\<lambda>t. pdict (ScanTerm_to_dict t)) lo) kwargs))"
| "scan_type_args (PrefixScan prefix) kwargs =
     Inr (OP_KV_PREFIX_SCAN, AList.update ''prefix'' prefix kwargs)"
| "scan_type_args (SamplingScan limit seed) kwargs =
     (case num_of limit of
        None \<Rightarrow> Inl TypeError
      | Some n \<Rightarrow> if n \<le> 0 then Inl InvalidArgumentException
                  else let kwargs = AList.update ''limit'' limit kwargs
                       in Inr (OP_KV_SAMPLING_SCAN,
                            if seed \<noteq> PNone then AList.update ''seed'' seed kwargs else kwargs))"
| "scan_type_args OtherScan kwargs = Inl InvalidArgumentException"

record scan_args =
  sa_transcoder :: pyval
  sa_op :: operation
  sa_op_args :: pydict
  sa_conn :: pydict

definition build_scan_args :: "kv_collection \<Rightarrow> scan_type \<Rightarrow> pydict \<Rightarrow> scan_args res" where
  "build_scan_args col scan_type kwargs =
     bindE (if \<not> dhas kwargs ''concurrency'' then Inr ()
            else case num_of (dget kwargs ''concurrency'' PNone) of
              None \<Rightarrow> Inl TypeError
            | Some n \<Rightarrow> if n < 1 then Inl InvalidArgumentException else Inr ()) (\<lambda>_.
     bindE (scan_type_args scan_type kwargs) (\<lambda>(op_type, kwargs).
       let transcoder = dget kwargs ''transcoder'' PNone;
           kwargs = AList.delete ''transcoder'' kwargs;
           consistent_with = dget kwargs ''consistent_with'' PNone;
           kwargs = AList.delete ''consistent_with'' kwargs
       in bindE (if \<not> truthy consistent_with then Inr kwargs
                 else if \<not> (is_instance_of consistent_with ''MutationState'' \<and>
                           sv_tokens consistent_with \<noteq> [])
                 then Inl InvalidArgumentException
                 else Inr (AList.update ''consistent_with''
                   (PList (map (\<lambda>token. attr token ''_token'') (sv_tokens consistent_with))) kwargs))
            (\<lambda>kwargs. Inr \<lparr>sa_transcoder = transcoder, sa_op = op_type, sa_op_args = kwargs,
                        sa_conn = get_connection_args col\<rparr>)))"

subsection \<open>Requests of mutations\<close>

datatype mutation = Insert tval | Upsert tval | Replace tval | Remove | MutateIn "spec iterable"
  | Increment | Decrement | Append tval | Prepend tval

fun mutation_request ::
  "kv_collection \<Rightarrow> pyval \<Rightarrow> mutation \<Rightarrow> pydict list \<Rightarrow> pydict \<Rightarrow> kv_request res" where
  "mutation_request col key (Insert v) opts kwargs = CL_insert col key v opts kwargs"
| "mutation_request col key (Upsert v) opts kwargs = CL_upsert col key v opts kwargs"
| "mutation_request col key (Replace v) opts kwargs = CL_replace col key v opts kwargs"
| "mutation_request col key Remove opts kwargs = CL_remove col key opts kwargs"
| "mutation_request col key (MutateIn s) opts kwargs = CL_mutate_in col key s opts kwargs"
| "mutation_request col key Increment opts kwargs = CL_increment col key opts kwargs"
| "mutation_request col key Decrement opts kwargs = CL_decrement col key opts kwargs"
| "mutation_request col key (Append v) opts kwargs = CL_append col key v opts kwargs"
| "mutation_request col key (Prepend v) opts kwargs = CL_prepend col key v opts kwargs"

lemma get_mutation_options_eq:
  assumes "forward_args (co_env col) kwargs opts = Inr f"
  shows "get_mutation_options col opts kwargs =
    Inr (if dhas f ''durability'' \<and> is_int (dget f ''durability'' PNone) \<and> \<not> dhas f ''timeout''
      then AList.update ''timeout'' (PInt 10000000) f else f)"
  using assms td_micros_whole_seconds [of 10]
  by (simp add: get_mutation_options_def timedelta_as_microseconds_def)

lemmas mutation_defs = CL_insert_def CL_upsert_def CL_replace_def CL_remove_def CL_mutate_in_def
  CL_increment_def CL_decrement_def CL_append_def CL_prepend_def

definition same_at :: "string list \<Rightarrow> pydict \<Rightarrow> pydict \<Rightarrow> bool" where
  "same_at ks d e \<longleftrightarrow> (\<forall>k \<in> set ks. map_of d k = map_of e k)"

lemma store_request_args:
  assumes "store_request col op key value a = Inr r"
  shows "rq_args r = AList.delete ''transcoder'' a \<and> rq_op r = op \<and> rq_key r = key \<and>
    rq_conn r = get_connection_args col \<and> rq_spec r = [] \<and>
    (\<exists>b f. tc_encode col (dget a ''transcoder'' (default_transcoder col)) value = Inr (b, f) \<and>
       rq_value r = Some (Transcoded b f))"
proof -
  obtain b f where "tc_encode col (dget a ''transcoder'' (default_transcoder col)) value = Inr (b, f)"
    "r = (kv_operation col op key (AList.delete ''transcoder'' a))\<lparr>rq_value := Some (Transcoded b f)\<rparr>"
    using assms by (auto simp: store_request_def pop_transcoder_def bindE_eq_Inr)
  then show ?thesis by (simp add: kv_operation_def)
qed

definition delta_of :: "pydict \<Rightarrow> pyval" where
  "delta_of a = (if truthy (dget a ''delta'' PNone) then dget a ''delta'' PNone else delta_one)"

definition initial_of :: "pydict \<Rightarrow> pyval" where
  "initial_of a = (if truthy (dget a ''initial'' PNone) then dget a ''initial'' PNone else signed_zero)"

definition counter_types :: "pydict \<Rightarrow> bool" where
  "counter_types a \<longleftrightarrow> is_instance_of (delta_of a) ''DeltaValue'' \<and>
     is_instance_of (initial_of a) ''SignedInt64''"

lemma counter_defaults_get:
  "dget (counter_defaults a) ''delta'' PNone = delta_of a"
  "dget (counter_defaults a) ''initial'' PNone = initial_of a"
  "same_at [''timeout'', ''durability'', ''expiry'', ''preserve_expiry''] (counter_defaults a) a"
  by (simp_all add: counter_defaults_def delta_of_def initial_of_def same_at_def dict_simps Let_def)

lemma validate_counter:
  "validate_delta_initial (delta_of a) (initial_of a) =
     (if counter_types a then Inr () else Inl InvalidArgumentException)"
  by (auto simp: validate_delta_initial_def cint_is_valid_def counter_types_def delta_of_def initial_of_def
      delta_one_def signed_zero_def)

lemma counter_args_eq:
  "counter_args a =
     (if \<not> counter_types a then Inl InvalidArgumentException
      else bindE (to_int (initial_of a)) (\<lambda>n. bindE (to_int (delta_of a)) (\<lambda>m.
        let r = AList.update ''delta'' (PInt m) (AList.update ''initial'' (PInt n) (counter_defaults a))
        in Inr (if n < 0 then AList.delete ''initial'' r else r))))"
  by (simp add: counter_args_def counter_defaults_get validate_counter)

lemma counter_args_kept:
  assumes "counter_args a = Inr r"
  shows "same_at [''timeout'', ''durability'', ''expiry'', ''preserve_expiry''] r a"
  using assms counter_defaults_get(3) [of a]
  by (auto simp: counter_args_eq bindE_eq_Inr same_at_def dict_simps Let_def split: if_splits)

lemma store_semantics_args:
  assumes "store_semantics a = Inr r"
  shows "same_at [''timeout'', ''durability'', ''expiry'', ''preserve_expiry''] r a"
  using assms by (auto simp: store_semantics_def same_at_def Let_def dict_simps split: if_splits)

abbreviation kept :: "pydict \<Rightarrow> pydict \<Rightarrow> bool" where
  "kept r a \<equiv> same_at [''timeout'', ''durability'', ''expiry'', ''preserve_expiry''] r a"

lemma kept_trans: "kept c b \<Longrightarrow> kept b a \<Longrightarrow> kept c a"
  by (simp add: same_at_def)

lemma kept_delete_transcoder: "kept (AList.delete ''transcoder'' a) a"
  by (simp add: same_at_def dict_simps)

text \<open>The guard on options that would both set and preserve an expiry.\<close>

definition overwrites_expiry :: "pydict \<Rightarrow> bool" where
  "overwrites_expiry a \<longleftrightarrow> truthy (dget a ''expiry'' PNone) \<and>
     dget a ''preserve_expiry'' (PBool False) = PBool True"

lemma kept_overwrites: "kept r a \<Longrightarrow> overwrites_expiry r = overwrites_expiry a"
  by (simp add: overwrites_expiry_def same_at_def dget_def)

definition ops_of :: "spec iterable \<Rightarrow> SubDocOp set" where
  "ops_of s = spec_op ` set (fst (walk s))"

lemma mutate_in_request:
  assumes "CL_mutate_in col key spec opts kwargs = Inr r"
  shows "\<exists>a b specs. get_mutation_options col opts kwargs = Inr a \<and>
    store_semantics (AList.delete ''transcoder'' a) = Inr b \<and>
    mapE (final_spec col (dget a ''transcoder'' (default_transcoder col))) (fst (walk (snd (walk spec)))) = Inr specs \<and>
    r = subdoc_operation col OP_MUTATE_IN key specs b \<and>
    \<not> (DICT_ADD \<in> ops_of spec \<and> dget a ''preserve_expiry'' (PBool False) = PBool True) \<and>
    \<not> (REPLACE \<in> ops_of spec \<and> overwrites_expiry a)"
proof -
  obtain xs s2 where w: "walk spec = (xs, s2)" by fastforce
  define pe where "pe a = (dget a ''preserve_expiry'' (PBool False) = PBool True)" for a :: pydict
  have dg: "dget (AList.delete ''transcoder'' a) ''expiry'' PNone = dget a ''expiry'' PNone"
    "(dget (AList.delete ''transcoder'' a) ''preserve_expiry'' (PBool False) = PBool True) = pe a" for a
    by (simp_all add: dict_simps pe_def)
  obtain a where a: "get_mutation_options col opts kwargs = Inr a"
    and r: "(if DICT_ADD \<in> set (map spec_op xs) \<and> pe a then Inl InvalidArgumentException
       else if REPLACE \<in> set (map spec_op xs) \<and> truthy (dget a ''expiry'' PNone) \<and> pe a
       then Inl InvalidArgumentException
       else bindE (store_semantics (AList.delete ''transcoder'' a)) (\<lambda>final_args.
         bindE (mapE (final_spec col (dget a ''transcoder'' (default_transcoder col))) (fst (walk s2))) (\<lambda>specs.
           Inr (subdoc_operation col OP_MUTATE_IN key specs final_args)))) = Inr r"
    by (insert assms, unfold CL_mutate_in_def pop_transcoder_def Let_def w prod.case bindE_eq_Inr dg,
        elim exE conjE, rule that, assumption, simp only: bindE_eq_Inr)
  have g: "\<not> (DICT_ADD \<in> set (map spec_op xs) \<and> pe a)"
    "\<not> (REPLACE \<in> set (map spec_op xs) \<and> truthy (dget a ''expiry'' PNone) \<and> pe a)"
    using r by (simp_all split: if_splits)
  then obtain b specs where "store_semantics (AList.delete ''transcoder'' a) = Inr b"
    "mapE (final_spec col (dget a ''transcoder'' (default_transcoder col))) (fst (walk s2)) = Inr specs"
    "r = subdoc_operation col OP_MUTATE_IN key specs b"
    using r by (auto simp: bindE_eq_Inr simp del: set_map)
  then show ?thesis using a g
    by (intro exI [of _ a] exI [of _ b] exI [of _ specs])
      (simp add: w ops_of_def overwrites_expiry_def pe_def)
qed

lemma mutation_request_spec:
  assumes "mutation_request col key m opts kwargs = Inr r"
  shows "\<exists>a. get_mutation_options col opts kwargs = Inr a \<and> kept (rq_args r) a \<and>
    rq_key r = key \<and> rq_conn r = get_connection_args col \<and>
    (\<forall>v. m = Replace v \<longrightarrow> \<not> overwrites_expiry a) \<and>
    (\<forall>s. m = MutateIn s \<longrightarrow> \<not> (REPLACE \<in> ops_of s \<and> overwrites_expiry a) \<and>
       \<not> (DICT_ADD \<in> ops_of s \<and> dget a ''preserve_expiry'' (PBool False) = PBool True))"
proof (cases m)
  case (Insert v)
  then show ?thesis using assms store_request_args kept_delete_transcoder
    by (auto simp: CL_insert_def bindE_eq_Inr dest!: store_request_args)
next
  case (Upsert v)
  then show ?thesis using assms kept_delete_transcoder
    by (auto simp: CL_upsert_def bindE_eq_Inr dest!: store_request_args)
next
  case (Replace v)
  then show ?thesis using assms kept_delete_transcoder
    by (auto simp: CL_replace_def bindE_eq_Inr overwrites_expiry_def dest!: store_request_args
        split: if_splits)
next
  case Remove
  then show ?thesis using assms by (auto simp: CL_remove_def bindE_eq_Inr kv_operation_def same_at_def)
next
  case (MutateIn s)
  from assms MutateIn have "CL_mutate_in col key s opts kwargs = Inr r" by simp
  from mutate_in_request [OF this] obtain a b specs where a: "get_mutation_options col opts kwargs = Inr a"
    "store_semantics (AList.delete ''transcoder'' a) = Inr b"
    "r = subdoc_operation col OP_MUTATE_IN key specs b"
    "\<not> (DICT_ADD \<in> ops_of s \<and> dget a ''preserve_expiry'' (PBool False) = PBool True)"
    "\<not> (REPLACE \<in> ops_of s \<and> overwrites_expiry a)" by blast
  have "kept b a" using store_semantics_args [OF a(2)] kept_delete_transcoder by (rule kept_trans)
  then show ?thesis using a MutateIn by (simp add: subdoc_operation_def kv_operation_def)
next
  case Increment
  then obtain a b where "get_mutation_options col opts kwargs = Inr a" "counter_args a = Inr b"
    "r = kv_operation col OP_INCREMENT key b" using assms by (auto simp: CL_increment_def bindE_eq_Inr)
  then show ?thesis using counter_args_kept [of a b] Increment by (simp add: kv_operation_def)
next
  case Decrement
  then obtain a b where "get_mutation_options col opts kwargs = Inr a" "counter_args a = Inr b"
    "r = kv_operation col OP_DECREMENT key b" using assms by (auto simp: CL_decrement_def bindE_eq_Inr)
  then show ?thesis using counter_args_kept [of a b] Decrement by (simp add: kv_operation_def)
next
  case (Append v)
  then show ?thesis using assms by (auto simp: CL_append_def bindE_eq_Inr kv_operation_def same_at_def)
next
  case (Prepend v)
  then show ?thesis using assms by (auto simp: CL_prepend_def bindE_eq_Inr kv_operation_def same_at_def)
qed

subsection \<open>Properties\<close>

text \<open>C8. A mutation with server-side durability is never sent without a timeout: the
  caller's own in microseconds or ten seconds.  Without that durability a missing
  timeout stays missing.  The parsed durability goes out, with the key and the
  collection's location; a durability that the parser refuses is never sent.\<close>

theorem durable_requests_have_timeout:
  assumes "wf_args kwargs opts" and "mutation_request col key m opts kwargs = Inr r"
  shows "rq_key r = key \<and> rq_conn r = get_connection_args col \<and>
    (case merged_opt kwargs opts ''durability'' of
       Some d \<Rightarrow> \<exists>p. parse_durability d = Inr p \<and>
         map_of (rq_args r) ''durability'' = (if p = PNone then None else Some p)
     | None \<Rightarrow> map_of (rq_args r) ''durability'' = None) \<and>
    (case merged_opt kwargs opts ''timeout'' of
       Some v \<Rightarrow> \<exists>us. timedelta_as_microseconds v = Inr us \<and> map_of (rq_args r) ''timeout'' = Some (PInt us)
     | None \<Rightarrow> map_of (rq_args r) ''timeout'' =
         (if is_int (dget (rq_args r) ''durability'' PNone) then Some (PInt 10000000) else None))"
proof -
  from mutation_request_spec [OF assms(2)] obtain a where a: "get_mutation_options col opts kwargs = Inr a"
    "kept (rq_args r) a" "rq_key r = key" "rq_conn r = get_connection_args col" by blast
  then obtain f where f: "forward_args (co_env col) kwargs opts = Inr f"
    by (auto simp: get_mutation_options_def bindE_eq_Inr)
  have a': "a = (if dhas f ''durability'' \<and> is_int (dget f ''durability'' PNone) \<and> \<not> dhas f ''timeout''
      then AList.update ''timeout'' (PInt 10000000) f else f)"
    using a(1) get_mutation_options_eq [OF f] by simp
  have d: "map_of f ''durability'' = converted parse_durability (merged_opt kwargs opts ''durability'') None"
    using forward_args_lookup [OF assms(1) sole_durability f] .
  have t: "map_of f ''timeout'' = converted (\<lambda>x. py_int (timedelta_as_microseconds x)) (merged_opt kwargs opts ''timeout'') None"
    using forward_args_lookup [OF assms(1) sole_timeout f] .
  have ok: "\<exists>us. timedelta_as_microseconds v = Inr us" if "merged_opt kwargs opts ''timeout'' = Some v" for v
  proof -
    have "accepted (arg_mapping (co_env col)) ''timeout'' v"
      using forward_args_ok [OF assms(1), of "co_env col"] f that by blast
    then show ?thesis by (auto simp: accepted_def arg_mapping_def py_int_def bindE_eq_Inr)
  qed
  have pd: "\<exists>p. parse_durability d = Inr p" if "merged_opt kwargs opts ''durability'' = Some d" for d
  proof -
    have "accepted (arg_mapping (co_env col)) ''durability'' d"
      using forward_args_ok [OF assms(1), of "co_env col"] f that by blast
    then show ?thesis by (auto simp: accepted_def arg_mapping_def)
  qed
  have dd: "case merged_opt kwargs opts ''durability'' of
       Some d \<Rightarrow> \<exists>p. parse_durability d = Inr p \<and> map_of f ''durability'' = (if p = PNone then None else Some p)
     | None \<Rightarrow> map_of f ''durability'' = None"
    using d pd by (force simp: converted_def split: option.splits)
  have k: "map_of (rq_args r) ''durability'' = map_of f ''durability''"
    "map_of (rq_args r) ''timeout'' = map_of a ''timeout''"
    using a(2) a' by (simp_all add: same_at_def dict_simps split: if_splits)
  note dr = dd [folded k(1)]
  have di: "is_int (dget (rq_args r) ''durability'' PNone) \<longleftrightarrow>
      dhas f ''durability'' \<and> is_int (dget f ''durability'' PNone)"
    using k(1) by (auto simp: dget_def dhas_def is_int_def split: option.splits)
  show ?thesis
  proof (cases "merged_opt kwargs opts ''timeout''")
    case None
    then have "\<not> dhas f ''timeout''" using t by (simp add: converted_def dhas_def)
    then show ?thesis
      by (intro conjI a(3,4) dr) (auto simp: None k(2) a' di dict_simps dhas_def)
  next
    case (Some v)
    then obtain us where us: "timedelta_as_microseconds v = Inr us" using ok by blast
    then have m: "map_of f ''timeout'' = Some (PInt us)" using t Some by (simp add: converted_def py_int_def)
    then have "a = f" using a' by (simp add: dhas_def)
    then show ?thesis by (intro conjI a(3,4) dr) (simp add: Some us m k(2))
  qed
qed

definition sample_collection :: kv_collection where
  "sample_collection =
     \<lparr>co_env = \<lparr>time_now = 1700000000, str_of = (\<lambda>_. '''')\<rparr>,
      co_floats = \<lparr>float_repr = (\<lambda>_. []), float_parse = (\<lambda>_. NaN)\<rparr>,
      co_connection = PNone, co_bucket_name = PStr ''b'', co_scope_name = PStr ''s'', co_name = PStr ''c'',
      default_transcoder = PInst ''JSONTranscoder'' [],
      tc_encode = (\<lambda>t v. RawStringTranscoder_encode_value v),
      tc_decode = (\<lambda>t. RawStringTranscoder_decode_value)\<rparr>"

lemmas request_eval = get_mutation_options_def forward_args_def get_temp_opts_def nested_kwargs_def
  dupdate_def forward_step_def arg_mapping_def convert_option_def py_simps DurabilityLevel_defs is_int_def
  kv_operation_def timedelta_as_microseconds_def py_int_def

lemma durable_requests_have_timeout_witness:
  "\<exists>r. mutation_request sample_collection (PStr ''k'') Remove []
       [(''durability'', ServerDurability DurabilityLevel_MAJORITY)] = Inr r \<and>
     map_of (rq_args r) ''timeout'' = Some (PInt 10000000)"
proof -
  obtain r where r: "mutation_request sample_collection (PStr ''k'') Remove []
       [(''durability'', ServerDurability DurabilityLevel_MAJORITY)] = Inr r"
    "map_of (rq_args r) ''durability'' = Some (PInt 1)"
    by (simp add: request_eval sample_collection_def CL_remove_def)
  have "wf_args [(''durability'', ServerDurability DurabilityLevel_MAJORITY)] []"
    by (simp add: wf_args_def)
  from durable_requests_have_timeout [OF this r(1)] r show ?thesis
    by (simp add: merged_opt_def dget_def is_int_def)
qed

text \<open>C17. A preserved expiry is not overwritten: no request to replace a document or a path
  carries a new expiry together with \<open>preserve_expiry=True\<close>, and none that inserts a
  path carries \<open>preserve_expiry=True\<close>.\<close>

theorem preserved_expiry_is_not_overwritten:
  assumes "mutation_request col key m opts kwargs = Inr r"
    and "(\<exists>v. m = Replace v) \<or> (\<exists>s. m = MutateIn s \<and> (REPLACE \<in> ops_of s \<or> DICT_ADD \<in> ops_of s))"
  shows "\<not> (truthy (dget (rq_args r) ''expiry'' PNone) \<and>
      dget (rq_args r) ''preserve_expiry'' (PBool False) = PBool True) \<and>
    (\<forall>s. m = MutateIn s \<and> DICT_ADD \<in> ops_of s \<longrightarrow>
      dget (rq_args r) ''preserve_expiry'' (PBool False) \<noteq> PBool True)"
proof -
  from mutation_request_spec [OF assms(1)] obtain a where a: "kept (rq_args r) a"
    "\<forall>v. m = Replace v \<longrightarrow> \<not> overwrites_expiry a"
    "\<forall>s. m = MutateIn s \<longrightarrow> \<not> (REPLACE \<in> ops_of s \<and> overwrites_expiry a) \<and>
       \<not> (DICT_ADD \<in> ops_of s \<and> dget a ''preserve_expiry'' (PBool False) = PBool True)" by blast
  have "dget (rq_args r) ''preserve_expiry'' (PBool False) = dget a ''preserve_expiry'' (PBool False)"
    "dget (rq_args r) ''expiry'' PNone = dget a ''expiry'' PNone"
    using a(1) by (simp_all add: same_at_def dget_def)
  then show ?thesis using a(2,3) assms(2) unfolding overwrites_expiry_def by metis
qed

lemma preserved_expiry_witness:
  "\<exists>r. mutation_request sample_collection (PStr ''k'') (MutateIn (Sequence [SD_insert ''p'' (PStr ''v'') False False False]))
       [] [] = Inr r \<and> dget (rq_args r) ''preserve_expiry'' (PBool False) \<noteq> PBool True"
proof -
  let ?m = "MutateIn (Sequence [SD_insert ''p'' (PStr ''v'') False False False])"
  obtain r where r: "mutation_request sample_collection (PStr ''k'') ?m [] [] = Inr r"
    by (simp add: request_eval sample_collection_def CL_mutate_in_def pop_transcoder_def SD_insert_def
        is_macro_def store_semantics_def allowed_multi_ops_def RawStringTranscoder_encode_value_def
        is_text_def encode_text_def str_encode_def is_scalar_def)
  have "DICT_ADD \<in> ops_of (Sequence [SD_insert ''p'' (PStr ''v'') False False False])"
    by (simp add: ops_of_def SD_insert_def is_macro_def)
  with preserved_expiry_is_not_overwritten [OF r] r show ?thesis by blast
qed

lemma ConstrainedInt_value:
  assumes "ConstrainedInt cls v = Inr d"
  shows "\<exists>n. to_int d = Inr n \<and> cint_min cls \<le> n \<and> n \<le> cint_max cls"
  using assms
  by (auto simp: ConstrainedInt_def verify_value_def to_int_def cint_int_def Let_def bindE_eq_Inr
      split: option.splits if_splits)

text \<open>C19. Counters: the delta of a request to increment or decrement lies between 0 and
  \<open>2^63 - 1\<close> and is 1 when none (or a falsy one, such as the number 0) was given; the
  initial value is 0 when none was given, and is left out when it is negative; a delta or
  initial value that is no bounded integer of its class is refused.  Both
  operations send the same options.\<close>

theorem counter_requests:
  assumes "forward_args (co_env col) kwargs opts = Inr f"
    and "is_instance_of (delta_of f) ''DeltaValue'' \<Longrightarrow> \<exists>v. ConstrainedInt DeltaValue v = Inr (delta_of f)"
    and "is_instance_of (initial_of f) ''SignedInt64'' \<Longrightarrow> \<exists>v. ConstrainedInt SignedInt64 v = Inr (initial_of f)"
  shows "(if counter_types f
     then \<exists>r m n. CL_increment col key opts kwargs = Inr r \<and>
       CL_decrement col key opts kwargs = Inr (r\<lparr>rq_op := OP_DECREMENT\<rparr>) \<and>
       to_int (delta_of f) = Inr m \<and> 0 \<le> m \<and> m < 2 ^ 63 \<and>
       to_int (initial_of f) = Inr n \<and> -(2 ^ 63) \<le> n \<and> n < 2 ^ 63 \<and>
       map_of (rq_args r) ''delta'' = Some (PInt m) \<and>
       map_of (rq_args r) ''initial'' = (if n < 0 then None else Some (PInt n))
     else CL_increment col key opts kwargs = Inl InvalidArgumentException \<and>
       CL_decrement col key opts kwargs = Inl InvalidArgumentException)"
proof -
  obtain a where a: "get_mutation_options col opts kwargs = Inr a" "delta_of a = delta_of f"
    "initial_of a = initial_of f"
    using get_mutation_options_eq [OF assms(1)] by (auto simp: delta_of_def initial_of_def dict_simps)
  then have t: "counter_types a = counter_types f" by (simp add: counter_types_def)
  show ?thesis
  proof (cases "counter_types f")
    case True
    then obtain v w where "ConstrainedInt DeltaValue v = Inr (delta_of f)"
      "ConstrainedInt SignedInt64 w = Inr (initial_of f)"
      using assms(2,3) by (auto simp: counter_types_def)
    from this [THEN ConstrainedInt_value] obtain m n where
      mn: "to_int (delta_of f) = Inr m" "0 \<le> m" "m < 2 ^ 63"
        "to_int (initial_of f) = Inr n" "-(2 ^ 63) \<le> n" "n < 2 ^ 63" by auto
    then obtain b where b: "counter_args a = Inr b" "map_of b ''delta'' = Some (PInt m)"
      "map_of b ''initial'' = (if n < 0 then None else Some (PInt n))"
      using True by (simp add: counter_args_eq t a(2,3) dict_simps Let_def)
    with a(1) True mn show ?thesis by (simp add: CL_increment_def CL_decrement_def kv_operation_def)
  next
    case False
    then show ?thesis using a(1) by (simp add: CL_increment_def CL_decrement_def counter_args_eq t)
  qed
qed

lemma counter_requests_witness:
  "\<exists>r. CL_decrement sample_collection (PStr ''k'') [] [(''delta'', PInst ''DeltaValue'' [(''value'', PInt 5)])] = Inr r \<and>
     map_of (rq_args r) ''delta'' = Some (PInt 5) \<and> map_of (rq_args r) ''initial'' = Some (PInt 0)"
proof -
  let ?kw = "[(''delta'', PInst ''DeltaValue'' [(''value'', PInt 5)])]"
  have f: "forward_args (co_env sample_collection) ?kw [] = Inr ?kw"
    by (simp add: request_eval sample_collection_def)
  have i: "delta_of ?kw = PInst ''DeltaValue'' [(''value'', PInt 5)]" "initial_of ?kw = signed_zero"
    by (simp_all add: delta_of_def initial_of_def)
  have c: "ConstrainedInt DeltaValue (PInt 5) = Inr (delta_of ?kw)"
    "ConstrainedInt SignedInt64 (PInt 0) = Inr (initial_of ?kw)"
    unfolding i by (simp_all add: ConstrainedInt_def verify_value_def item_value_def value_attr_def signed_zero_def)
  have t: "counter_types ?kw" unfolding counter_types_def i by (simp add: signed_zero_def)
  have v: "to_int (delta_of ?kw) = Inr 5" "to_int (initial_of ?kw) = Inr 0"
    unfolding i by (simp_all add: to_int_def cint_int_def signed_zero_def dget_def)
  have "is_instance_of (delta_of ?kw) ''DeltaValue'' \<Longrightarrow> \<exists>v. ConstrainedInt DeltaValue v = Inr (delta_of ?kw)"
    "is_instance_of (initial_of ?kw) ''SignedInt64'' \<Longrightarrow> \<exists>v. ConstrainedInt SignedInt64 v = Inr (initial_of ?kw)"
    using c by blast+
  note counter_requests [OF f this, of "PStr ''k''", unfolded if_P [OF t] v]
  then show ?thesis by auto
qed

lemma mapE_all2: "mapE f xs = Inr ys \<Longrightarrow> list_all2 (\<lambda>x y. f x = Inr y) xs ys"
  by (induction xs arbitrary: ys) (auto simp: bindE_eq_Inr)

lemma strip_dumps_tuple:
  assumes "dumps fs (TTuple ys) = Inr t"
  shows "t = 91 # strip_brackets t @ [93]"
  using assms by (auto simp: bindE_eq_Inr strip_brackets_def)

text \<open>What the core receives for a spec: the JSON elements of an array operation without the
  brackets around them, any other value as the transcoder encodes it.\<close>

fun sent_as :: "kv_collection \<Rightarrow> pyval \<Rightarrow> spec \<Rightarrow> core_spec \<Rightarrow> bool" where
  "sent_as col tc (MutateSpec op path create_parents xattr expand_macros value) c \<longleftrightarrow>
     (\<exists>b. c = EncodedSpec op path create_parents xattr expand_macros b \<and>
        (if op \<in> {ARRAY_PUSH_FIRST, ARRAY_PUSH_LAST, ARRAY_INSERT}
         then \<forall>ys. value = PTuple ys \<and> plain (co_floats col) (TList (map tval_of ys)) \<longrightarrow>
           (\<exists>text. decode_utf8 b = Inr text \<and>
              loads (co_floats col) ([91] @ text @ [93]) = Inr (TList (map tval_of ys)))
         else \<exists>flags. tc_encode col tc (tval_of value) = Inr (b, flags)))"
| "sent_as col tc s c \<longleftrightarrow> c = PlainSpec s"

lemma final_spec_sent:
  assumes "final_spec col tc s = Inr c"
  shows "sent_as col tc s c"
proof (cases s)
  case (MutateSpec op path cp x e v)
  show ?thesis
  proof (cases "op \<in> set allowed_multi_ops")
    case True
    then obtain t b where t: "dumps (co_floats col) (tval_of v) = Inr t" "str_encode (strip_brackets t) = Inr b"
      "c = EncodedSpec op path cp x e b"
      using assms MutateSpec by (auto simp: bindE_eq_Inr)
    have "\<exists>text. decode_utf8 b = Inr text \<and> loads (co_floats col) ([91] @ text @ [93]) = Inr (TList (map tval_of ys))"
      if v: "v = PTuple ys" "plain (co_floats col) (TList (map tval_of ys))" for ys
    proof (intro exI conjI)
      obtain u where u: "dumps (co_floats col) (TList (map tval_of ys)) = Inr u"
        "loads (co_floats col) u = Inr (TList (map tval_of ys))" using loads_dumps [OF v(2)] by blast
      moreover have "dumps (co_floats col) (TTuple (map tval_of ys)) = Inr t" using t(1) v(1) by simp
      ultimately have "t = u" "t = 91 # strip_brackets t @ [93]" using strip_dumps_tuple by auto
      then show "loads (co_floats col) ([91] @ strip_brackets t @ [93]) = Inr (TList (map tval_of ys))"
        using u(2) by simp
      show "decode_utf8 b = Inr (strip_brackets t)"
        using t(2) by (auto simp: str_encode_def decode_utf8_bytes split: option.splits)
    qed
    then show ?thesis using t(3) True MutateSpec by (auto simp: allowed_multi_ops_def)
  next
    case False
    then show ?thesis using assms MutateSpec by (auto simp: bindE_eq_Inr allowed_multi_ops_def)
  qed
qed (use assms in auto)

text \<open>C12. The specs of a \<open>mutate_in\<close> go out one by one in their order: the elements of an
  array operation are the JSON array of its values without the brackets, so that the core
  reads the same values, any other value is what the operation's transcoder encodes, and a
  spec without a value goes out unchanged.  An iterator of specs, though, has been walked
  over by the check of the options before, and no spec of it goes out.\<close>

theorem mutate_in_specs:
  assumes "CL_mutate_in col key spec opts kwargs = Inr r"
    and "get_mutation_options col opts kwargs = Inr a"
  shows "rq_op r = OP_MUTATE_IN \<and>
    (case spec of
       Sequence xs \<Rightarrow> list_all2 (sent_as col (dget a ''transcoder'' (default_transcoder col))) xs (rq_spec r)
     | Iterator xs \<Rightarrow> rq_spec r = [])"
proof -
  from mutate_in_request [OF assms(1)] obtain a' b specs where m:
    "get_mutation_options col opts kwargs = Inr a'"
    "mapE (final_spec col (dget a' ''transcoder'' (default_transcoder col))) (fst (walk (snd (walk spec)))) = Inr specs"
    "r = subdoc_operation col OP_MUTATE_IN key specs b" by blast
  then have "list_all2 (sent_as col (dget a ''transcoder'' (default_transcoder col)))
      (fst (walk (snd (walk spec)))) specs"
    using assms(2) final_spec_sent by (auto elim!: list_all2_mono dest!: mapE_all2)
  then show ?thesis using m(3)
    by (cases spec) (simp_all add: subdoc_operation_def kv_operation_def)
qed

lemma mutate_in_specs_witness:
  "\<exists>r c. CL_mutate_in sample_collection (PStr ''k'')
      (Sequence [SD_array_append ''p'' [PNone, PBool True] False False, SD_remove ''q'' False]) [] [] = Inr r \<and>
     rq_spec r = [c, PlainSpec (SD_remove ''q'' False)]"
proof -
  let ?ss = "[SD_array_append ''p'' [PNone, PBool True] False False, SD_remove ''q'' False]"
  have g: "get_mutation_options sample_collection [] [] = Inr []"
    by (simp add: request_eval sample_collection_def)
  have "\<exists>r. CL_mutate_in sample_collection (PStr ''k'') (Sequence ?ss) [] [] = Inr r"
    by (simp add: CL_mutate_in_def g pop_transcoder_def SD_array_append_def array_spec_def is_macro_def
        SD_remove_def ArrayValues_def allowed_multi_ops_def store_semantics_def str_encode_def
        strip_brackets_def true_text_def null_text_def is_scalar_def)
  then obtain r where r: "CL_mutate_in sample_collection (PStr ''k'') (Sequence ?ss) [] [] = Inr r" by blast
  from mutate_in_specs [OF this g]
  have "list_all2 (sent_as sample_collection (default_transcoder sample_collection)) ?ss (rq_spec r)"
    by simp
  then show ?thesis using r by (auto simp: list_all2_Cons1 SD_remove_def)
qed

end
