(* ===== verification/Collection.thy ===== *)
theory Collection
  imports Kv_Requests
begin

text \<open>
  \<open>couchbase/collection.py\<close> and \<open>couchbase/binary_collection.py\<close>: the blocking key-value
  operations.  An operation that reads documents merges its options, chooses the transcoder
  and calls the request of \<open>Kv_Requests\<close> inside \<open>block_and_decode\<close>; a mutation runs as a whole inside
  \<open>block\<close>.  The core is a record of the calls: it answers a request with a result, an
  error object or nothing, or raises.
\<close>

record core =
  core_call :: "kv_request \<Rightarrow> (core_result core_return) res"
  core_stream :: "kv_request \<Rightarrow> (((core_result core_return) list) core_return) res"
  core_text :: "tval \<Rightarrow> ustr"

subsection \<open>Calls that decode\<close>

definition with_transcoder :: "kv_collection \<Rightarrow> pydict \<Rightarrow> pydict" where
  "with_transcoder col final_args =
     (let transcoder = dget final_args ''transcoder'' PNone;
          transcoder = (if \<not> truthy transcoder then default_transcoder col else transcoder)
      in AList.update ''transcoder'' transcoder final_args)"

definition decoded_call ::
  "core \<Rightarrow> kv_collection \<Rightarrow> string list \<Rightarrow> (pydict \<Rightarrow> kv_request) \<Rightarrow> pydict \<Rightarrow> core_result option res" where
  "decoded_call core col params request kwargs =
     (let decode = tc_decode col (dget kwargs ''transcoder'' PNone)
      in block_and_decode (co_floats col) (core_text core) decode WrapIn
           (bindE (no_clash params (AList.delete ''transcoder'' kwargs)) (\<lambda>args. core_call core (request args))))"

text \<open>The replicas: what the generator yields and the exception it ends with, if any.\<close>

definition decoded_stream ::
  "core \<Rightarrow> kv_collection \<Rightarrow> string list \<Rightarrow> (pydict \<Rightarrow> kv_request) \<Rightarrow> pydict
     \<Rightarrow> (core_result list \<times> exc option) res" where
  "decoded_stream core col params request kwargs =
     (let decode = tc_decode col (dget kwargs ''transcoder'' PNone)
      in boundary (bindE (bindE (no_clash params (AList.delete ''transcoder'' kwargs))
             (\<lambda>args. core_stream core (request args))) (\<lambda>ret.
           case ret of
             CoreError base \<Rightarrow> bindE (build_exception (co_floats col) (core_text core) base None)
               (\<lambda>c. Inl (exc_of_class c))
           | CoreNone \<Rightarrow> Inr ([], Some TypeError)
           | CoreValue q \<Rightarrow> Inr (decode_replicas (co_floats col) (core_text core) decode q))))"

definition Collection_get ::
  "core \<Rightarrow> kv_collection \<Rightarrow> pyval \<Rightarrow> pydict list \<Rightarrow> pydict \<Rightarrow> core_result option res" where
  "Collection_get core col key opts kwargs =
     bindE (forward_args (co_env col) kwargs opts) (\<lambda>final_args.
       decoded_call core col [''key''] (CL_get col key) (with_transcoder col final_args))"

definition Collection_get_any_replica ::
  "core \<Rightarrow> kv_collection \<Rightarrow> pyval \<Rightarrow> pydict list \<Rightarrow> pydict \<Rightarrow> core_result option res" where
  "Collection_get_any_replica core col key opts kwargs =
     bindE (forward_args (co_env col) kwargs opts) (\<lambda>final_args.
       decoded_call core col [''key''] (CL_get_any_replica col key) (with_transcoder col final_args))"

definition Collection_get_all_replicas ::
  "core \<Rightarrow> kv_collection \<Rightarrow> pyval \<Rightarrow> pydict list \<Rightarrow> pydict \<Rightarrow> (core_result list \<times> exc option) res" where
  "Collection_get_all_replicas core col key opts kwargs =
     bindE (forward_args (co_env col) kwargs opts) (\<lambda>final_args.
       decoded_stream core col [''key''] (CL_get_all_replicas col key) (with_transcoder col final_args))"

definition Collection_get_and_touch ::
  "core \<Rightarrow> kv_collection \<Rightarrow> pyval \<Rightarrow> pyval \<Rightarrow> pydict list \<Rightarrow> pydict \<Rightarrow> core_result option res" where
  "Collection_get_and_touch core col key expiry opts kwargs =
     bindE (forward_args (co_env col) (AList.update ''expiry'' expiry kwargs) opts) (\<lambda>final_args.
       decoded_call core col [''key''] (CL_get_and_touch col key) (with_transcoder col final_args))"

definition Collection_get_and_lock ::
  "core \<Rightarrow> kv_collection \<Rightarrow> pyval \<Rightarrow> pyval \<Rightarrow> pydict list \<Rightarrow> pydict \<Rightarrow> core_result option res" where
  "Collection_get_and_lock core col key lock_time opts kwargs =
     bindE (forward_args (co_env col) (AList.update ''lock_time'' lock_time kwargs) opts) (\<lambda>final_args.
       decoded_call core col [''key''] (CL_get_and_lock col key) (with_transcoder col final_args))"

definition Collection_lookup_in ::
  "core \<Rightarrow> kv_collection \<Rightarrow> pyval \<Rightarrow> spec iterable \<Rightarrow> pydict list \<Rightarrow> pydict \<Rightarrow> core_result option res" where
  "Collection_lookup_in core col key spec opts kwargs =
     bindE (forward_args (co_env col) kwargs opts) (\<lambda>final_args.
       decoded_call core col [''key'', ''spec''] (CL_lookup_in col key spec) (with_transcoder col final_args))"

definition Collection_lookup_in_any_replica ::
  "core \<Rightarrow> kv_collection \<Rightarrow> pyval \<Rightarrow> spec iterable \<Rightarrow> pydict list \<Rightarrow> pydict \<Rightarrow> core_result option res" where
  "Collection_lookup_in_any_replica core col key spec opts kwargs =
     bindE (forward_args (co_env col) kwargs opts) (\<lambda>final_args.
       decoded_call core col [''key'', ''spec''] (CL_lookup_in_any_replica col key spec)
         (with_transcoder col final_args))"

definition Collection_lookup_in_all_replicas ::
  "core \<Rightarrow> kv_collection \<Rightarrow> pyval \<Rightarrow> spec iterable \<Rightarrow> pydict list \<Rightarrow> pydict
     \<Rightarrow> (core_result list \<times> exc option) res" where
  "Collection_lookup_in_all_replicas core col key spec opts kwargs =
     bindE (forward_args (co_env col) kwargs opts) (\<lambda>final_args.
       decoded_stream core col [''key'', ''spec''] (CL_lookup_in_all_replicas col key spec)
         (with_transcoder col final_args))"

subsection \<open>Calls inside \<open>block\<close>\<close>

definition blocking :: "core \<Rightarrow> kv_collection \<Rightarrow> return_cls \<Rightarrow> kv_request res \<Rightarrow> core_result option res" where
  "blocking core col return_cls request =
     block (co_floats col) (core_text core) return_cls (bindE request (core_call core))"

definition Collection_exists ::
  "core \<Rightarrow> kv_collection \<Rightarrow> pyval \<Rightarrow> pydict list \<Rightarrow> pydict \<Rightarrow> core_result option res" where
  "Collection_exists core col key opts kwargs = blocking core col WrapIn (CL_exists col key opts kwargs)"

definition Collection_insert ::
  "core \<Rightarrow> kv_collection \<Rightarrow> pyval \<Rightarrow> tval \<Rightarrow> pydict list \<Rightarrow> pydict \<Rightarrow> core_result option res" where
  "Collection_insert core col key value opts kwargs =
     blocking core col WrapIn (CL_insert col key value opts kwargs)"

definition Collection_upsert ::
  "core \<Rightarrow> kv_collection \<Rightarrow> pyval \<Rightarrow> tval \<Rightarrow> pydict list \<Rightarrow> pydict \<Rightarrow> core_result option res" where
  "Collection_upsert core col key value opts kwargs =
     blocking core col WrapIn (CL_upsert col key value opts kwargs)"

definition Collection_replace ::
  "core \<Rightarrow> kv_collection \<Rightarrow> pyval \<Rightarrow> tval \<Rightarrow> pydict list \<Rightarrow> pydict \<Rightarrow> core_result option res" where
  "Collection_replace core col key value opts kwargs =
     blocking core col WrapIn (CL_replace col key value opts kwargs)"

definition Collection_remove ::
  "core \<Rightarrow> kv_collection \<Rightarrow> pyval \<Rightarrow> pydict list \<Rightarrow> pydict \<Rightarrow> core_result option res" where
  "Collection_remove core col key opts kwargs = blocking core col WrapIn (CL_remove col key opts kwargs)"

definition Collection_touch ::
  "core \<Rightarrow> kv_collection \<Rightarrow> pyval \<Rightarrow> pyval \<Rightarrow> pydict list \<Rightarrow> pydict \<Rightarrow> core_result option res" where
  "Collection_touch core col key expiry opts kwargs =
     blocking core col WrapIn (CL_touch col key expiry opts kwargs)"

definition Collection_unlock ::
  "core \<Rightarrow> kv_collection \<Rightarrow> pyval \<Rightarrow> pyval \<Rightarrow> pydict list \<Rightarrow> pydict \<Rightarrow> core_result option res" where
  "Collection_unlock core col key cas opts kwargs =
     blocking core col NoReturn (CL_unlock col key cas opts kwargs)"

definition Collection_mutate_in ::
  "core \<Rightarrow> kv_collection \<Rightarrow> pyval \<Rightarrow> spec iterable \<Rightarrow> pydict list \<Rightarrow> pydict \<Rightarrow> core_result option res" where
  "Collection_mutate_in core col key spec opts kwargs =
     blocking core col WrapIn (CL_mutate_in col key spec opts kwargs)"

definition Collection_append ::
  "core \<Rightarrow> kv_collection \<Rightarrow> pyval \<Rightarrow> tval \<Rightarrow> pydict list \<Rightarrow> pydict \<Rightarrow> core_result option res" where
  "Collection_append core col key value opts kwargs =
     blocking core col WrapIn (CL_append col key value opts kwargs)"

definition Collection_prepend ::
  "core \<Rightarrow> kv_collection \<Rightarrow> pyval \<Rightarrow> tval \<Rightarrow> pydict list \<Rightarrow> pydict \<Rightarrow> core_result option res" where
  "Collection_prepend core col key value opts kwargs =
     blocking core col WrapIn (CL_prepend col key value opts kwargs)"

definition Collection_increment ::
  "core \<Rightarrow> kv_collection \<Rightarrow> pyval \<Rightarrow> pydict list \<Rightarrow> pydict \<Rightarrow> core_result option res" where
  "Collection_increment core col key opts kwargs =
     blocking core col WrapIn (CL_increment col key opts kwargs)"

definition Collection_decrement ::
  "core \<Rightarrow> kv_collection \<Rightarrow> pyval \<Rightarrow> pydict list \<Rightarrow> pydict \<Rightarrow> core_result option res" where
  "Collection_decrement core col key opts kwargs =
     blocking core col WrapIn (CL_decrement col key opts kwargs)"

subsection \<open>Range scans\<close>

definition Collection_scan ::
  "kv_collection \<Rightarrow> scan_type \<Rightarrow> pydict list \<Rightarrow> pydict \<Rightarrow> (scan_args \<times> scan_request) res" where
  "Collection_scan col scan_type opts kwargs =
     bindE (forward_args (co_env col) kwargs opts) (\<lambda>final_args.
     let final_args = (if \<not> truthy (dget final_args ''transcoder'' PNone)
           then AList.update ''transcoder'' (default_transcoder col) final_args else final_args)
     in bindE (no_clash [''scan_type''] final_args) (\<lambda>final_args.
        bindE (build_scan_args col scan_type final_args) (\<lambda>scan_args.
        bindE (RangeScanRequest_init (truthy (sa_transcoder scan_args))
            (truthy (dget (sa_op_args scan_args) ''ids_only'' (PBool False)))) (\<lambda>request.
          Inr (scan_args, request)))))"

subsection \<open>The transcoders of the SDK\<close>

text \<open>
  \<open>transcoder.encode_value\<close> and \<open>transcoder.decode_value\<close> for the transcoder objects of
  \<open>couchbase/transcoder.py\<close>, what each of them stores and what it gives back.
\<close>

definition class_of :: "pyval \<Rightarrow> string" where
  "class_of t = (case t of PInst c _ \<Rightarrow> c | _ \<Rightarrow> '''')"

definition sdk_encode :: "py_floats \<Rightarrow> pickler \<Rightarrow> pyval \<Rightarrow> tval \<Rightarrow> (tval \<times> int) res" where
  "sdk_encode fs pk t v =
     (if class_of t = ''JSONTranscoder'' then JSONTranscoder_encode_value (DefaultJsonSerializer fs) v
      else if class_of t = ''RawJSONTranscoder'' then RawJSONTranscoder_encode_value v
      else if class_of t = ''RawStringTranscoder'' then RawStringTranscoder_encode_value v
      else if class_of t = ''RawBinaryTranscoder'' then RawBinaryTranscoder_encode_value v
      else if class_of t = ''LegacyTranscoder'' then LegacyTranscoder_encode_value fs pk v
      else Inl AttributeError)"

definition sdk_decode :: "py_floats \<Rightarrow> pickler \<Rightarrow> pyval \<Rightarrow> decoder" where
  "sdk_decode fs pk t v f =
     (if class_of t = ''JSONTranscoder'' then JSONTranscoder_decode_value (DefaultJsonSerializer fs) v f
      else if class_of t = ''RawJSONTranscoder'' then RawJSONTranscoder_decode_value v f
      else if class_of t = ''RawStringTranscoder'' then RawStringTranscoder_decode_value v f
      else if class_of t = ''RawBinaryTranscoder'' then RawBinaryTranscoder_decode_value v f
      else if class_of t = ''LegacyTranscoder'' then LegacyTranscoder_decode_value fs pk v f
      else Inl AttributeError)"

definition sdk_stores :: "py_floats \<Rightarrow> pickler \<Rightarrow> pyval \<Rightarrow> tval \<Rightarrow> bool" where
  "sdk_stores fs pk t v \<longleftrightarrow>
     (if class_of t = ''JSONTranscoder'' then json_stores fs v
      else if class_of t = ''RawJSONTranscoder'' then text_storable v \<or> is_binary v
      else if class_of t = ''RawStringTranscoder'' then text_storable v
      else if class_of t = ''RawBinaryTranscoder'' then is_binary v
      else class_of t = ''LegacyTranscoder'' \<and> legacy_stores fs pk v)"

definition sdk_norm :: "pyval \<Rightarrow> tval \<Rightarrow> tval" where
  "sdk_norm t v =
     (if class_of t = ''RawJSONTranscoder'' then Transcoding.json_bytes v
      else if class_of t = ''RawBinaryTranscoder'' \<or> class_of t = ''LegacyTranscoder'' then to_bytes v
      else v)"

interpretation sdk: transcoder "sdk_encode fs pk t" "sdk_decode fs pk t" "sdk_stores fs pk t" "sdk_norm t"
proof
  fix v assume v: "sdk_stores fs pk t v"
  then consider "class_of t = ''JSONTranscoder''" | "class_of t = ''RawJSONTranscoder''"
    | "class_of t = ''RawStringTranscoder''" | "class_of t = ''RawBinaryTranscoder''"
    | "class_of t = ''LegacyTranscoder''"
    unfolding sdk_stores_def by meson
  then show "\<exists>b f. sdk_encode fs pk t v = Inr (TBytes b, f) \<and>
      sdk_decode fs pk t (TBytes b) (Some f) = Inr (sdk_norm t v)"
  proof cases
    case 1
    then show ?thesis using json.stored [of fs v] v
      by (simp add: sdk_stores_def sdk_encode_def sdk_decode_def sdk_norm_def)
  next
    case 2
    then show ?thesis using raw_json.stored [of v] v
      by (simp add: sdk_stores_def sdk_encode_def sdk_decode_def sdk_norm_def)
  next
    case 3
    then show ?thesis using raw_string.stored [of v] v
      by (simp add: sdk_stores_def sdk_encode_def sdk_decode_def sdk_norm_def)
  next
    case 4
    then show ?thesis using raw_binary.stored [of v] v
      by (simp add: sdk_stores_def sdk_encode_def sdk_decode_def sdk_norm_def)
  next
    case 5
    then show ?thesis using legacy.stored [of fs pk v] v
      by (simp add: sdk_stores_def sdk_encode_def sdk_decode_def sdk_norm_def)
  qed
qed

text \<open>The transcoder that a call with these options uses.\<close>

definition chosen_transcoder :: "kv_collection \<Rightarrow> pydict \<Rightarrow> pydict list \<Rightarrow> pyval" where
  "chosen_transcoder col kwargs opts =
     (case merged_opt kwargs opts ''transcoder'' of Some t \<Rightarrow> t | None \<Rightarrow> default_transcoder col)"

lemma transcoder_option:
  assumes "wf_args kwargs opts" "forward_args env kwargs opts = Inr f"
  shows "map_of f ''transcoder'' = merged_opt kwargs opts ''transcoder''"
  by (rule forward_args_foreign [OF assms(1) _ _ assms(2)]) (simp_all add: arg_mapping_def)

lemma upsert_value:
  assumes "wf_args kwargs opts" "CL_upsert col key v opts kwargs = Inr r"
  shows "\<exists>b f. tc_encode col (chosen_transcoder col kwargs opts) v = Inr (b, f) \<and>
    rq_value r = Some (Transcoded b f)"
proof -
  from assms(2) obtain a where a: "get_mutation_options col opts kwargs = Inr a"
    "store_request col OP_UPSERT key v a = Inr r" by (auto simp: CL_upsert_def bindE_eq_Inr)
  then obtain g where g: "forward_args (co_env col) kwargs opts = Inr g"
    by (auto simp: get_mutation_options_def bindE_eq_Inr)
  have "map_of a ''transcoder'' = merged_opt kwargs opts ''transcoder''"
    using a(1) get_mutation_options_eq [OF g] transcoder_option [OF assms(1) g] by (auto simp: dict_simps)
  then have "dget a ''transcoder'' (default_transcoder col) = chosen_transcoder col kwargs opts"
    by (simp add: dget_def chosen_transcoder_def)
  then show ?thesis using store_request_args [OF a(2)] by simp
qed

lemma get_transcoder:
  assumes "wf_args kwargs opts" "forward_args env kwargs opts = Inr g"
    and "truthy (chosen_transcoder col kwargs opts)"
  shows "dget (with_transcoder col g) ''transcoder'' PNone = chosen_transcoder col kwargs opts"
  using transcoder_option [OF assms(1,2)] assms(3)
  by (auto simp: with_transcoder_def chosen_transcoder_def dict_simps dget_def split: option.splits)

subsection \<open>Errors of the operations\<close>

datatype read = RGet | RGetAnyReplica | RGetAndTouch pyval | RGetAndLock pyval
  | RLookupIn "spec iterable" | RLookupInAnyReplica "spec iterable"

fun run_read ::
  "core \<Rightarrow> kv_collection \<Rightarrow> pyval \<Rightarrow> read \<Rightarrow> pydict list \<Rightarrow> pydict \<Rightarrow> core_result option res" where
  "run_read core col key RGet opts kwargs = Collection_get core col key opts kwargs"
| "run_read core col key RGetAnyReplica opts kwargs = Collection_get_any_replica core col key opts kwargs"
| "run_read core col key (RGetAndTouch x) opts kwargs = Collection_get_and_touch core col key x opts kwargs"
| "run_read core col key (RGetAndLock x) opts kwargs = Collection_get_and_lock core col key x opts kwargs"
| "run_read core col key (RLookupIn s) opts kwargs = Collection_lookup_in core col key s opts kwargs"
| "run_read core col key (RLookupInAnyReplica s) opts kwargs =
     Collection_lookup_in_any_replica core col key s opts kwargs"

fun read_kwargs :: "read \<Rightarrow> pydict \<Rightarrow> pydict" where
  "read_kwargs (RGetAndTouch x) kwargs = AList.update ''expiry'' x kwargs"
| "read_kwargs (RGetAndLock x) kwargs = AList.update ''lock_time'' x kwargs"
| "read_kwargs rd kwargs = kwargs"

fun run_mutation ::
  "core \<Rightarrow> kv_collection \<Rightarrow> pyval \<Rightarrow> mutation \<Rightarrow> pydict list \<Rightarrow> pydict \<Rightarrow> core_result option res" where
  "run_mutation core col key (Insert v) opts kwargs = Collection_insert core col key v opts kwargs"
| "run_mutation core col key (Upsert v) opts kwargs = Collection_upsert core col key v opts kwargs"
| "run_mutation core col key (Replace v) opts kwargs = Collection_replace core col key v opts kwargs"
| "run_mutation core col key Remove opts kwargs = Collection_remove core col key opts kwargs"
| "run_mutation core col key (MutateIn s) opts kwargs = Collection_mutate_in core col key s opts kwargs"
| "run_mutation core col key Increment opts kwargs = Collection_increment core col key opts kwargs"
| "run_mutation core col key Decrement opts kwargs = Collection_decrement core col key opts kwargs"
| "run_mutation core col key (Append v) opts kwargs = Collection_append core col key v opts kwargs"
| "run_mutation core col key (Prepend v) opts kwargs = Collection_prepend core col key v opts kwargs"

lemma run_mutation_eq:
  "run_mutation core col key m opts kwargs =
     blocking core col WrapIn (mutation_request col key m opts kwargs)"
  by (cases m) (simp_all add: Collection_insert_def Collection_upsert_def Collection_replace_def
      Collection_remove_def Collection_mutate_in_def Collection_increment_def Collection_decrement_def
      Collection_append_def Collection_prepend_def)

lemma run_read_eq:
  "\<exists>params request. run_read core col key rd opts kwargs =
     bindE (forward_args (co_env col) (read_kwargs rd kwargs) opts) (\<lambda>final_args.
       decoded_call core col params request (with_transcoder col final_args))"
proof (cases rd)
  case RGet
  show ?thesis unfolding RGet run_read.simps read_kwargs.simps Collection_get_def by (intro exI, rule refl)
next
  case RGetAnyReplica
  show ?thesis unfolding RGetAnyReplica run_read.simps read_kwargs.simps Collection_get_any_replica_def by (intro exI, rule refl)
next
  case (RGetAndTouch x)
  show ?thesis unfolding RGetAndTouch run_read.simps read_kwargs.simps Collection_get_and_touch_def by (intro exI, rule refl)
next
  case (RGetAndLock x)
  show ?thesis unfolding RGetAndLock run_read.simps read_kwargs.simps Collection_get_and_lock_def by (intro exI, rule refl)
next
  case (RLookupIn s)
  show ?thesis unfolding RLookupIn run_read.simps read_kwargs.simps Collection_lookup_in_def by (intro exI, rule refl)
next
  case (RLookupInAnyReplica s)
  show ?thesis unfolding RLookupInAnyReplica run_read.simps read_kwargs.simps Collection_lookup_in_any_replica_def by (intro exI, rule refl)
qed

subsection \<open>Properties\<close>

text \<open>C7. What a collection stores it gives back: when an upsert sends a value that its
  transcoder stores, and the core later answers a get of the key with the bytes and flags that
  were sent, the get returns the value (bytes for a \<open>bytearray\<close> and for text stored raw as
  JSON), provided that both calls use the same transcoder, named in the options or the
  default one.\<close>

theorem upsert_get_roundtrip:
  assumes "tc_encode col = sdk_encode fs pk" "tc_decode col = sdk_decode fs pk"
    and "wf_args kwargs opts" "wf_args kwargs' opts'"
    and "chosen_transcoder col kwargs' opts' = chosen_transcoder col kwargs opts"
    and "sdk_stores fs pk (chosen_transcoder col kwargs opts) v"
    and "CL_upsert col key v opts kwargs = Inr r" "rq_value r = Some (Transcoded b f)"
    and "\<And>q. rq_op q = OP_GET \<Longrightarrow> rq_key q = key \<Longrightarrow>
      core_call core q = Inr (CoreValue \<lparr>raw_value = Document b, raw_flags = Some f, raw_rest = rest\<rparr>)"
    and "forward_args (co_env col) kwargs' opts' = Inr g" "\<not> dhas g ''key''"
  shows "Collection_get core col key opts' kwargs' =
    Inr (Some \<lparr>raw_value = Document (sdk_norm (chosen_transcoder col kwargs opts) v),
       raw_flags = Some f, raw_rest = rest\<rparr>)"
proof -
  define t where "t = chosen_transcoder col kwargs opts"
  have tr: "truthy t" using assms(6) by (cases t) (auto simp: t_def sdk_stores_def class_of_def)
  from upsert_value [OF assms(3,7)] assms(8) have enc: "sdk_encode fs pk t v = Inr (b, f)"
    by (simp add: assms(1) t_def)
  with sdk.stored [OF assms(6) [folded t_def]] have dec: "sdk_decode fs pk t b (Some f) = Inr (sdk_norm t v)"
    by auto
  have gt: "dget (with_transcoder col g) ''transcoder'' PNone = t"
    using get_transcoder [OF assms(4,10)] assms(5) tr by (simp add: t_def)
  have "\<not> dhas (AList.delete ''transcoder'' (with_transcoder col g)) ''key''"
    using assms(11) by (simp add: with_transcoder_def dict_simps Let_def)
  then show ?thesis using assms(10) dec gt
    by (simp add: Collection_get_def decoded_call_def no_clash_def assms(2,9) CL_get_def kv_operation_def
        block_and_decode_def decode_value_def boundary_def t_def)
qed

definition sample_text :: tval where "sample_text = TStr [104, 105]"

lemma upsert_get_roundtrip_witness:
  "\<forall>fs pk. \<exists>b f core. CL_upsert (sample_collection\<lparr>default_transcoder := PInst ''RawStringTranscoder'' [],
       tc_encode := sdk_encode fs pk, tc_decode := sdk_decode fs pk\<rparr>) (PStr ''k'') sample_text [] [] =
       Inr ((kv_operation sample_collection OP_UPSERT (PStr ''k'') [])\<lparr>rq_value := Some (Transcoded b f)\<rparr>) \<and>
     Collection_get core (sample_collection\<lparr>default_transcoder := PInst ''RawStringTranscoder'' [],
       tc_encode := sdk_encode fs pk, tc_decode := sdk_decode fs pk\<rparr>) (PStr ''k'') [] [] =
       Inr (Some \<lparr>raw_value = Document sample_text, raw_flags = Some f, raw_rest = []\<rparr>)"
proof (intro allI)
  fix fs pk
  let ?col = "sample_collection\<lparr>default_transcoder := PInst ''RawStringTranscoder'' [],
       tc_encode := sdk_encode fs pk, tc_decode := sdk_decode fs pk\<rparr>"
  let ?t = "PInst ''RawStringTranscoder'' []"
  have f: "forward_args (co_env ?col) [] [] = Inr []"
    by (simp add: request_eval sample_collection_def)
  have wf: "wf_args [] []" by (simp add: wf_args_def)
  have ch: "chosen_transcoder ?col [] [] = ?t" by (simp add: chosen_transcoder_def merged_opt_def)
  have enc: "sdk_encode fs pk ?t sample_text = Inr (TBytes [104, 105], FMT_UTF8)"
    by (simp add: sdk_encode_def class_of_def RawStringTranscoder_encode_value_def sample_text_def is_text_def
        encode_text_def str_encode_def is_scalar_def utf8_char_def)
  have st: "sdk_stores fs pk (chosen_transcoder ?col [] []) sample_text"
    unfolding ch by (simp add: sdk_stores_def class_of_def text_storable_def sample_text_def is_scalar_def)
  define r where "r = (kv_operation ?col OP_UPSERT (PStr ''k'') [])\<lparr>rq_value := Some (Transcoded (TBytes [104, 105]) FMT_UTF8)\<rparr>"
  have r: "CL_upsert ?col (PStr ''k'') sample_text [] [] = Inr r" "rq_value r = Some (Transcoded (TBytes [104, 105]) FMT_UTF8)"
    using get_mutation_options_eq [OF f]
    by (simp_all add: CL_upsert_def store_request_def pop_transcoder_def enc r_def)
  define core where "core = \<lparr>core_call = (\<lambda>q. Inr (CoreValue
      \<lparr>raw_value = Document (TBytes [104, 105]), raw_flags = Some FMT_UTF8, raw_rest = []\<rparr>)),
     core_stream = (\<lambda>q. Inr CoreNone), core_text = (\<lambda>_. [])\<rparr>"
  have "Collection_get core ?col (PStr ''k'') [] [] =
    Inr (Some \<lparr>raw_value = Document (sdk_norm (chosen_transcoder ?col [] []) sample_text),
       raw_flags = Some FMT_UTF8, raw_rest = []\<rparr>)"
    by (rule upsert_get_roundtrip [OF _ _ wf wf refl st r _ f]) (simp_all add: core_def)
  moreover have "sdk_norm (chosen_transcoder ?col [] []) sample_text = sample_text"
    unfolding ch by (simp add: sdk_norm_def class_of_def)
  ultimately show "\<exists>b f core. CL_upsert ?col (PStr ''k'') sample_text [] [] =
       Inr ((kv_operation sample_collection OP_UPSERT (PStr ''k'') [])\<lparr>rq_value := Some (Transcoded b f)\<rparr>) \<and>
     Collection_get core ?col (PStr ''k'') [] [] =
       Inr (Some \<lparr>raw_value = Document sample_text, raw_flags = Some f, raw_rest = []\<rparr>)" using r(1)
    by (intro exI [of _ "TBytes [104, 105]"] exI [of _ FMT_UTF8] exI [of _ core])
      (simp add: r_def kv_operation_def get_connection_args_def)
qed

text \<open>C15. Every mutation of a collection raises exceptions of the SDK only.  The reading
  operations do too, once their options are merged: what the merging raises reaches
  the caller as it is, so that \<open>get_and_lock\<close> with a number of seconds for its lock time
  raises \<open>AttributeError\<close>.\<close>

theorem collection_errors_are_sdk_errors:
  "(run_mutation core col key m opts kwargs = Inl e \<longrightarrow> is_couchbase_exc e) \<and>
   (run_read core col key rd opts kwargs = Inl e \<longrightarrow>
      is_couchbase_exc e \<or> forward_args (co_env col) (read_kwargs rd kwargs) opts = Inl e) \<and>
   Collection_get_and_lock core col key (PInt 5) [] [] = Inl AttributeError"
proof (intro conjI impI)
  show "is_couchbase_exc e" if "run_mutation core col key m opts kwargs = Inl e"
    using that unfolding run_mutation_eq blocking_def by (rule block.sdk_errors)
  show "is_couchbase_exc e \<or> forward_args (co_env col) (read_kwargs rd kwargs) opts = Inl e"
    if r: "run_read core col key rd opts kwargs = Inl e"
  proof -
    obtain params request where q: "run_read core col key rd opts kwargs =
       bindE (forward_args (co_env col) (read_kwargs rd kwargs) opts) (\<lambda>final_args.
         decoded_call core col params request (with_transcoder col final_args))"
      using run_read_eq by blast
    show ?thesis
    proof (cases "forward_args (co_env col) (read_kwargs rd kwargs) opts")
      case (Inr a)
      then have "decoded_call core col params request (with_transcoder col a) = Inl e" using q r by simp
      then show ?thesis unfolding decoded_call_def Let_def by (blast dest: block_and_decode.sdk_errors)
    qed (use q r in simp)
  qed
  show "Collection_get_and_lock core col key (PInt 5) [] [] = Inl AttributeError"
    by (simp add: Collection_get_and_lock_def request_eval lock_seconds_def)
qed

lemma collection_errors_witness:
  "is_couchbase_exc InvalidArgumentException \<and>
   (\<forall>core. run_mutation core sample_collection (PStr ''k'') Increment [] [(''delta'', PInt 5)] =
     Inl InvalidArgumentException)"
proof -
  have f: "forward_args (co_env sample_collection) [(''delta'', PInt 5)] [] = Inr [(''delta'', PInt 5)]"
    by (simp add: request_eval sample_collection_def)
  have "\<not> counter_types [(''delta'', PInt 5)]" by (simp add: counter_types_def delta_of_def)
  then have run: "run_mutation core sample_collection (PStr ''k'') Increment [] [(''delta'', PInt 5)] =
      Inl InvalidArgumentException" for core
    using get_mutation_options_eq [OF f]
    by (simp add: Collection_increment_def blocking_def block_def CL_increment_def counter_args_eq boundary_def
        is_couchbase_exc_def)
  have "is_couchbase_exc InvalidArgumentException" for core :: core
    using collection_errors_are_sdk_errors [THEN conjunct1, THEN mp, OF run] .
  with run show ?thesis by blast
qed

end
