(* ===== verification/Multi.thy ===== *)
theory Multi
  imports Collection
begin

text \<open>
  The multi operations of \<open>couchbase/collection.py\<close> and their results of
  \<open>couchbase/result.py\<close>.  A multi operation merges options for all its keys with the options
  for single keys, hands the core one dictionary of options per document key, and gets
  back one dictionary that holds a result or an error object for every document key and, under
  the name \<open>all_okay\<close>, whether all of them succeeded.
\<close>

subsection \<open>Option classes\<close>

datatype multi_opts = GetAllReplicasMultiOptions | GetAnyReplicaMultiOptions | GetMultiOptions
  | ExistsMultiOptions | UpsertMultiOptions | InsertMultiOptions | ReplaceMultiOptions
  | RemoveMultiOptions | TouchMultiOptions | GetAndLockMultiOptions | UnlockMultiOptions
  | IncrementMultiOptions | DecrementMultiOptions | AppendMultiOptions | PrependMultiOptions

fun get_valid_keys :: "multi_opts \<Rightarrow> string list" where
  "get_valid_keys GetAllReplicasMultiOptions =
     [''timeout'', ''transcoder'', ''read_preference'', ''per_key_options'', ''return_exceptions'']"
| "get_valid_keys GetAnyReplicaMultiOptions =
     [''timeout'', ''transcoder'', ''read_preference'', ''per_key_options'', ''return_exceptions'']"
| "get_valid_keys GetMultiOptions =
     [''timeout'', ''with_expiry'', ''project'', ''transcoder'', ''per_key_options'', ''return_exceptions'']"
| "get_valid_keys ExistsMultiOptions = [''timeout'', ''per_key_options'', ''return_exceptions'']"
| "get_valid_keys UpsertMultiOptions =
     [''timeout'', ''expiry'', ''preserve_expiry'', ''durability'', ''transcoder'', ''per_key_options'',
      ''return_exceptions'']"
| "get_valid_keys InsertMultiOptions =
     [''timeout'', ''expiry'', ''durability'', ''transcoder'', ''per_key_options'', ''return_exceptions'']"
| "get_valid_keys ReplaceMultiOptions =
     [''timeout'', ''expiry'', ''cas'', ''preserve_expiry'', ''durability'', ''transcoder'',
      ''per_key_options'', ''return_exceptions'']"
| "get_valid_keys RemoveMultiOptions =
     [''timeout'', ''cas'', ''durability'', ''transcoder'', ''per_key_options'', ''return_exceptions'']"
| "get_valid_keys TouchMultiOptions = [''timeout'', ''expiry'', ''per_key_options'', ''return_exceptions'']"
| "get_valid_keys GetAndLockMultiOptions =
     [''timeout'', ''transcoder'', ''per_key_options'', ''return_exceptions'']"
| "get_valid_keys UnlockMultiOptions = [''timeout'', ''per_key_options'', ''return_exceptions'']"
| "get_valid_keys IncrementMultiOptions =
     [''timeout'', ''durability'', ''delta'', ''initial'', ''span'', ''per_key_options'', ''return_exceptions'']"
| "get_valid_keys DecrementMultiOptions =
     [''timeout'', ''durability'', ''delta'', ''initial'', ''span'', ''per_key_options'', ''return_exceptions'']"
| "get_valid_keys AppendMultiOptions =
     [''timeout'', ''durability'', ''cas'', ''span'', ''per_key_options'', ''return_exceptions'']"
| "get_valid_keys PrependMultiOptions =
     [''timeout'', ''durability'', ''cas'', ''span'', ''per_key_options'', ''return_exceptions'']"

definition multi_final_args ::
  "kv_collection \<Rightarrow> multi_opts \<Rightarrow> pydict list \<Rightarrow> pydict \<Rightarrow> pydict res" where
  "multi_final_args col opts_type opts kwargs =
     get_valid_multi_args (co_env col) (get_valid_keys opts_type) kwargs opts"

subsection \<open>The options of every key\<close>

type_synonym per_key = "(pyval \<times> pyval) list"
type_synonym op_args = "(pyval \<times> (pydict \<times> payload option)) list"

text \<open>The dictionary of per-key options, empty when there is none.\<close>

definition per_key_of :: "pydict \<Rightarrow> per_key" where
  "per_key_of final_args =
     (case dget final_args ''per_key_options'' PNone of PDict d \<Rightarrow> d | _ \<Rightarrow> [])"

definition key_dict :: "pyval \<Rightarrow> pydict res" where
  "key_dict o' = (case o' of
       PDict d \<Rightarrow> (case str_items d of Some e \<Rightarrow> Inr e | None \<Rightarrow> Inl TypeError)
     | _ \<Rightarrow> Inl TypeError)"

definition return_exceptions_of :: "pydict \<Rightarrow> bool" where
  "return_exceptions_of final_args = truthy (dget final_args ''return_exceptions'' (PBool True))"

text \<open>
  One key of the loops: the options for all keys, overridden by those of the key; the
  transcoder of the key is looked up (and taken out) under \<open>transcoder\<close> among the document keys.
\<close>

definition key_step ::
  "pydict \<Rightarrow> pyval \<Rightarrow> pyval \<Rightarrow> per_key \<Rightarrow> (pydict \<times> pyval \<times> per_key) res" where
  "key_step final_args op_transcoder key per_key =
     (if \<not> hashable key then Inl TypeError
      else if map_of per_key key = None then Inr (final_args, op_transcoder, per_key)
      else let key_transcoder = (case map_of per_key (PStr ''transcoder'') of Some t \<Rightarrow> t | None \<Rightarrow> op_transcoder);
               per_key = AList.delete (PStr ''transcoder'') per_key
           in case map_of per_key key of
                None \<Rightarrow> Inl KeyError
              | Some o' \<Rightarrow> bindE (key_dict o') (\<lambda>e. Inr (dupdate final_args e, key_transcoder, per_key)))"

fun multi_keys_loop ::
  "pydict \<Rightarrow> pyval \<Rightarrow> pyval list \<Rightarrow> per_key \<Rightarrow> op_args \<Rightarrow> (pyval \<times> pyval) list
     \<Rightarrow> (op_args \<times> (pyval \<times> pyval) list) res" where
  "multi_keys_loop final_args tc [] per_key ops transcoders = Inr (ops, transcoders)"
| "multi_keys_loop final_args tc (key # keys) per_key ops transcoders =
     bindE (key_step final_args tc key per_key) (\<lambda>(a, key_transcoder, per_key).
       multi_keys_loop final_args tc keys per_key (AList.update key (a, None) ops)
         (AList.update key key_transcoder transcoders))"

definition get_multi_op_args ::
  "kv_collection \<Rightarrow> multi_opts \<Rightarrow> pyval \<Rightarrow> pydict list \<Rightarrow> pydict
     \<Rightarrow> (op_args \<times> bool \<times> (pyval \<times> pyval) list) res" where
  "get_multi_op_args col opts_type keys opts kwargs =
     (case keys of
        PList ks \<Rightarrow>
          bindE (multi_final_args col opts_type opts kwargs) (\<lambda>final_args.
          let op_transcoder = dget final_args ''transcoder'' (default_transcoder col);
              final_args = AList.delete ''transcoder'' final_args;
              per_key = per_key_of final_args;
              final_args = AList.delete ''per_key_options'' final_args
          in bindE (multi_keys_loop final_args op_transcoder ks per_key [] []) (\<lambda>(ops, transcoders).
               Inr (ops, return_exceptions_of final_args, transcoders)))
      | _ \<Rightarrow> Inl InvalidArgumentException)"

text \<open>The documents of a multi mutation, or an argument that is no dictionary.\<close>

datatype 'a docs_arg = Docs "(pyval \<times> 'a) list" | NoDict

fun multi_docs_loop ::
  "kv_collection \<Rightarrow> pydict \<Rightarrow> pyval \<Rightarrow> (pyval \<times> tval) list \<Rightarrow> per_key \<Rightarrow> op_args \<Rightarrow> op_args res" where
  "multi_docs_loop col final_args tc [] per_key ops = Inr ops"
| "multi_docs_loop col final_args tc ((key, value) # docs) per_key ops =
     bindE (key_step final_args tc key per_key) (\<lambda>(a, key_transcoder, per_key).
     bindE (tc_encode col key_transcoder value) (\<lambda>(bytes, flags).
       multi_docs_loop col final_args tc docs per_key
         (AList.update key (a, Some (Transcoded bytes flags)) ops)))"

text \<open>
  The check of \<open>expiry\<close> and \<open>preserve_expiry\<close> asks whether the class of the options is an
  instance of \<open>ReplaceMultiOptions\<close>, which no class is.
\<close>

definition opts_type_is_instance :: "multi_opts \<Rightarrow> bool" where
  "opts_type_is_instance opts_type = False"

definition expiry_conflict :: "op_args \<Rightarrow> bool" where
  "expiry_conflict ops = list_ex (\<lambda>(k, v, p). overwrites_expiry v) ops"

definition get_multi_mutation_transcoded_op_args ::
  "kv_collection \<Rightarrow> multi_opts \<Rightarrow> tval docs_arg \<Rightarrow> pydict list \<Rightarrow> pydict \<Rightarrow> (op_args \<times> bool) res" where
  "get_multi_mutation_transcoded_op_args col opts_type keys_and_docs opts kwargs =
     (case keys_and_docs of
        NoDict \<Rightarrow> Inl InvalidArgumentException
      | Docs docs \<Rightarrow>
          bindE (multi_final_args col opts_type opts kwargs) (\<lambda>final_args.
          let per_key = per_key_of final_args;
              final_args = AList.delete ''per_key_options'' final_args;
              op_transcoder = dget final_args ''transcoder'' (default_transcoder col);
              final_args = AList.delete ''transcoder'' final_args
          in bindE (multi_docs_loop col final_args op_transcoder docs per_key []) (\<lambda>ops.
               if opts_type_is_instance opts_type \<and> expiry_conflict ops then Inl InvalidArgumentException
               else Inr (ops, return_exceptions_of final_args))))"

fun multi_binary_loop ::
  "pydict \<Rightarrow> (pyval \<times> tval) list \<Rightarrow> per_key \<Rightarrow> op_args \<Rightarrow> op_args res" where
  "multi_binary_loop final_args [] per_key ops = Inr ops"
| "multi_binary_loop final_args ((key, value) # docs) per_key ops =
     bindE (case map_of per_key key of
              None \<Rightarrow> Inr final_args
            | Some o' \<Rightarrow> bindE (key_dict o') (\<lambda>e. Inr (dupdate final_args e))) (\<lambda>a.
       multi_binary_loop final_args docs per_key (AList.update key (a, Some (RawPayload value)) ops))"

definition get_multi_binary_mutation_op_args ::
  "kv_collection \<Rightarrow> multi_opts \<Rightarrow> tval docs_arg \<Rightarrow> pydict list \<Rightarrow> pydict \<Rightarrow> (op_args \<times> bool) res" where
  "get_multi_binary_mutation_op_args col opts_type keys_and_docs opts kwargs =
     (case keys_and_docs of
        NoDict \<Rightarrow> Inl InvalidArgumentException
      | Docs docs \<Rightarrow>
          bindE (mapE (\<lambda>(k, v). bindE (binary_value v) (\<lambda>w. Inr (k, w))) docs) (\<lambda>parsed.
          bindE (multi_final_args col opts_type opts kwargs) (\<lambda>final_args.
          let per_key = per_key_of final_args;
              final_args = AList.delete ''per_key_options'' final_args
          in bindE (multi_binary_loop final_args parsed per_key []) (\<lambda>ops.
               Inr (ops, return_exceptions_of final_args)))))"

text \<open>
  Counters: the delta and initial value of all keys become integers; those of a key are
  checked and replaced by integers in the dictionary of per-key options itself.
\<close>

definition put_int :: "string \<Rightarrow> pyval \<Rightarrow> pydict \<Rightarrow> pydict res" where
  "put_int k v d = (if truthy v then bindE (to_int v) (\<lambda>i. Inr (AList.update k (PInt i) d)) else Inr d)"

definition counter_key_options :: "pydict \<Rightarrow> pydict res" where
  "counter_key_options e =
     (let delta = dget e ''delta'' PNone; initial = dget e ''initial'' PNone
      in bindE (validate_delta_initial delta initial) (\<lambda>_.
         bindE (put_int ''delta'' delta e) (put_int ''initial'' initial)))"

definition counter_key_step :: "pydict \<Rightarrow> pyval \<Rightarrow> per_key \<Rightarrow> (pydict \<times> per_key) res" where
  "counter_key_step final_args key per_key =
     (if \<not> hashable key then Inl TypeError
      else case map_of per_key key of
        None \<Rightarrow> Inr (final_args, per_key)
      | Some o' \<Rightarrow> bindE (bindE (key_dict o') counter_key_options) (\<lambda>e.
          Inr (dupdate final_args e, AList.update key (pdict e) per_key)))"

fun multi_counter_loop :: "pydict \<Rightarrow> pyval list \<Rightarrow> per_key \<Rightarrow> op_args \<Rightarrow> op_args res" where
  "multi_counter_loop final_args [] per_key ops = Inr ops"
| "multi_counter_loop final_args (key # keys) per_key ops =
     bindE (counter_key_step final_args key per_key) (\<lambda>(a, per_key).
       multi_counter_loop final_args keys per_key (AList.update key (a, None) ops))"

definition get_multi_counter_op_args ::
  "kv_collection \<Rightarrow> multi_opts \<Rightarrow> pyval \<Rightarrow> pydict list \<Rightarrow> pydict \<Rightarrow> (op_args \<times> bool) res" where
  "get_multi_counter_op_args col opts_type keys opts kwargs =
     (case keys of
        PList ks \<Rightarrow>
          bindE (multi_final_args col opts_type opts kwargs) (\<lambda>final_args.
          bindE (get_and_validate_delta_initial final_args) (\<lambda>(global_delta, global_initial).
          bindE (to_int global_delta) (\<lambda>delta.
          bindE (to_int global_initial) (\<lambda>initial.
          let final_args = AList.update ''initial'' (PInt initial) (AList.update ''delta'' (PInt delta) final_args);
              per_key = per_key_of final_args;
              final_args = AList.delete ''per_key_options'' final_args
          in bindE (multi_counter_loop final_args ks per_key []) (\<lambda>ops.
               Inr (ops, return_exceptions_of final_args))))))
      | _ \<Rightarrow> Inl InvalidArgumentException)"

subsection \<open>What comes back\<close>

text \<open>
  The dictionary that the core returns: for the document keys a result or an error object;
  last, \<open>all_okay\<close> is set (\<open>src/kv_ops.cxx\<close>, \<open>src/binary_ops.cxx\<close>), whatever was stored
  under that name.  A key whose request throws before it is sent has no entry, and does not clear the
  flag.
\<close>

datatype 'a multi_entry = AllOkay bool | MError base_exc | MResult 'a

fun is_error :: "'a multi_entry \<Rightarrow> bool" where
  "is_error (MError b) = True"
| "is_error v = False"

record multi_request =
  mr_conn :: pydict
  mr_op :: operation
  mr_args :: op_args

definition core_multi_result :: "(string \<times> 'a multi_entry) list \<Rightarrow> (string \<times> 'a multi_entry) list" where
  "core_multi_result entries =
     AList.update ''all_okay'' (AllOkay (list_all (\<lambda>kv. \<not> is_error (snd kv)) entries)) entries"

definition multi_operation :: "kv_collection \<Rightarrow> operation \<Rightarrow> op_args \<Rightarrow> multi_request" where
  "multi_operation col op ops = \<lparr>mr_conn = get_connection_args col, mr_op = op, mr_args = ops\<rparr>"

text \<open>
  The constructors of \<open>MultiResult\<close>, \<open>MultiExistsResult\<close>, \<open>MultiMutationResult\<close> and
  \<open>MultiCounterResult\<close> run the same loop; \<open>mk\<close> is \<open>ErrorMapper.build_exception\<close>.
\<close>

record 'a multi_result =
  all_ok :: bool
  mresults :: "(string \<times> (exc + 'a)) list"

fun collect_results ::
  "(base_exc \<Rightarrow> exc) \<Rightarrow> bool \<Rightarrow> (string \<times> 'a multi_entry) list \<Rightarrow> (string \<times> (exc + 'a)) list res" where
  "collect_results mk return_exceptions [] = Inr []"
| "collect_results mk return_exceptions ((k, v) # entries) =
     (case v of
        MError b \<Rightarrow> if \<not> return_exceptions then Inl (mk b)
          else bindE (collect_results mk return_exceptions entries) (\<lambda>rs. Inr ((k, Inl (mk b)) # rs))
      | MResult x \<Rightarrow> bindE (collect_results mk return_exceptions entries) (\<lambda>rs. Inr ((k, Inr x) # rs))
      | AllOkay b \<Rightarrow> Inl AttributeError)"

definition MultiResult_init ::
  "(base_exc \<Rightarrow> exc) \<Rightarrow> (string \<times> 'a multi_entry) list \<Rightarrow> bool \<Rightarrow> 'a multi_result res" where
  "MultiResult_init mk raw return_exceptions =
     bindE (collect_results mk return_exceptions (AList.delete ''all_okay'' raw)) (\<lambda>rs.
       Inr \<lparr>all_ok = (case map_of raw ''all_okay'' of Some (AllOkay b) \<Rightarrow> b | Some _ \<Rightarrow> True | None \<Rightarrow> False),
            mresults = rs\<rparr>)"

definition MultiResult_exceptions :: "'a multi_result \<Rightarrow> (string \<times> exc) list" where
  "MultiResult_exceptions m =
     List.map_filter (\<lambda>(k, v). case v of Inl e \<Rightarrow> Some (k, e) | Inr _ \<Rightarrow> None) (mresults m)"

definition MultiResult_results :: "'a multi_result \<Rightarrow> (string \<times> 'a) list" where
  "MultiResult_results m =
     List.map_filter (\<lambda>(k, v). case v of Inl e \<Rightarrow> None | Inr x \<Rightarrow> Some (k, x)) (mresults m)"

text \<open>The loops that decode the documents of a multi get.\<close>

definition decode_entry ::
  "kv_collection \<Rightarrow> (pyval \<times> pyval) list \<Rightarrow> string \<times> core_result multi_entry
     \<Rightarrow> (string \<times> core_result multi_entry) res" where
  "decode_entry col transcoders kv =
     (case kv of (k, v) \<Rightarrow>
        if k = ''all_okay'' then Inr (k, v)
        else case v of
          MError b \<Rightarrow> Inr (k, MError b)
        | AllOkay b \<Rightarrow> Inl AttributeError
        | MResult c \<Rightarrow> (case map_of transcoders (PStr k) of
             None \<Rightarrow> Inl KeyError
           | Some tc \<Rightarrow> bindE (decode_value (tc_decode col tc) (raw_value c) (raw_flags c)) (\<lambda>w.
               Inr (k, MResult (c\<lparr>raw_value := w\<rparr>)))))"

text \<open>
  The results of \<open>get_all_replicas_multi\<close> are streams: each becomes the list of its replicas
  and moves to the end of the dictionary.
\<close>

type_synonym replica_stream = "(core_result core_return) list"

definition is_stream :: "string \<times> 'a multi_entry \<Rightarrow> bool" where
  "is_stream kv = (case snd kv of MResult _ \<Rightarrow> fst kv \<noteq> ''all_okay'' | _ \<Rightarrow> False)"

fun keep_entry :: "string \<times> 'a multi_entry \<Rightarrow> string \<times> 'b multi_entry" where
  "keep_entry (k, MError b) = (k, MError b)"
| "keep_entry (k, AllOkay b) = (k, AllOkay b)"
| "keep_entry (k, MResult _) = (k, AllOkay True)"

definition drain_entry ::
  "core \<Rightarrow> kv_collection \<Rightarrow> (pyval \<times> pyval) list \<Rightarrow> string \<times> replica_stream multi_entry
     \<Rightarrow> (string \<times> (core_result list) multi_entry) res" where
  "drain_entry core col transcoders kv =
     (case kv of
        (k, MResult q) \<Rightarrow>
          (case map_of transcoders (PStr k) of
             None \<Rightarrow> Inl KeyError
           | Some tc \<Rightarrow>
               (case decode_replicas (co_floats col) (core_text core) (tc_decode col tc) q of
                  (rs, None) \<Rightarrow> Inr (k, MResult rs)
                | (rs, Some e) \<Rightarrow> Inl e))
      | _ \<Rightarrow> Inl AttributeError)"

definition decode_streams ::
  "core \<Rightarrow> kv_collection \<Rightarrow> (pyval \<times> pyval) list \<Rightarrow> (string \<times> replica_stream multi_entry) list
     \<Rightarrow> (string \<times> (core_result list) multi_entry) list res" where
  "decode_streams core col transcoders raw =
     bindE (mapE (drain_entry core col transcoders) (filter is_stream raw)) (\<lambda>rs.
       Inr (map keep_entry (filter (\<lambda>kv. \<not> is_stream kv) raw) @ rs))"

subsection \<open>The operations\<close>

type_synonym multi_core = "multi_request \<Rightarrow> (string \<times> core_result multi_entry) list res"

definition mk_error :: "core \<Rightarrow> kv_collection \<Rightarrow> base_exc \<Rightarrow> exc" where
  "mk_error core col = core_error (co_floats col) (core_text core)"

text \<open>What the multi reads, and the multi operations that return no document, have in common.\<close>

definition read_multi ::
  "core \<Rightarrow> kv_collection \<Rightarrow> multi_core \<Rightarrow> multi_opts \<Rightarrow> operation \<Rightarrow> pyval \<Rightarrow> pydict list \<Rightarrow> pydict
     \<Rightarrow> core_result multi_result res" where
  "read_multi core col mc opts_type op keys opts kwargs =
     bindE (get_multi_op_args col opts_type keys opts kwargs) (\<lambda>(ops, return_exceptions, transcoders).
     bindE (mc (multi_operation col op ops)) (\<lambda>raw.
     bindE (mapE (decode_entry col transcoders) raw) (\<lambda>raw.
       MultiResult_init (mk_error core col) raw return_exceptions)))"

definition plain_multi ::
  "core \<Rightarrow> kv_collection \<Rightarrow> multi_core \<Rightarrow> multi_opts \<Rightarrow> operation \<Rightarrow> pyval \<Rightarrow> pydict list \<Rightarrow> pydict
     \<Rightarrow> core_result multi_result res" where
  "plain_multi core col mc opts_type op keys opts kwargs =
     bindE (get_multi_op_args col opts_type keys opts kwargs) (\<lambda>(ops, return_exceptions, transcoders).
     bindE (mc (multi_operation col op ops)) (\<lambda>raw.
       MultiResult_init (mk_error core col) raw return_exceptions))"

definition sent_multi ::
  "core \<Rightarrow> kv_collection \<Rightarrow> multi_core \<Rightarrow> operation \<Rightarrow> (op_args \<times> bool) res \<Rightarrow> core_result multi_result res" where
  "sent_multi core col mc op args =
     bindE args (\<lambda>(ops, return_exceptions).
     bindE (mc (multi_operation col op ops)) (\<lambda>raw.
       MultiResult_init (mk_error core col) raw return_exceptions))"

definition get_multi ::
  "core \<Rightarrow> kv_collection \<Rightarrow> multi_core \<Rightarrow> pyval \<Rightarrow> pydict list \<Rightarrow> pydict \<Rightarrow> core_result multi_result res" where
  "get_multi core col mc = read_multi core col mc GetMultiOptions OP_GET"

definition get_any_replica_multi ::
  "core \<Rightarrow> kv_collection \<Rightarrow> multi_core \<Rightarrow> pyval \<Rightarrow> pydict list \<Rightarrow> pydict \<Rightarrow> core_result multi_result res" where
  "get_any_replica_multi core col mc = read_multi core col mc GetAnyReplicaMultiOptions OP_GET_ANY_REPLICA"

definition get_all_replicas_multi ::
  "core \<Rightarrow> kv_collection \<Rightarrow> (multi_request \<Rightarrow> (string \<times> replica_stream multi_entry) list res)
     \<Rightarrow> pyval \<Rightarrow> pydict list \<Rightarrow> pydict \<Rightarrow> (core_result list) multi_result res" where
  "get_all_replicas_multi core col mc keys opts kwargs =
     bindE (get_multi_op_args col GetAllReplicasMultiOptions keys opts kwargs) (\<lambda>(ops, return_exceptions, transcoders).
     bindE (mc (multi_operation col OP_GET_ALL_REPLICAS ops)) (\<lambda>raw.
     bindE (decode_streams core col transcoders raw) (\<lambda>raw.
       MultiResult_init (mk_error core col) raw return_exceptions)))"

definition get_and_lock_multi ::
  "core \<Rightarrow> kv_collection \<Rightarrow> multi_core \<Rightarrow> pyval \<Rightarrow> pyval \<Rightarrow> pydict list \<Rightarrow> pydict
     \<Rightarrow> core_result multi_result res" where
  "get_and_lock_multi core col mc keys lock_time opts kwargs =
     read_multi core col mc GetAndLockMultiOptions OP_GET_AND_LOCK keys opts
       (AList.update ''lock_time'' lock_time kwargs)"

definition exists_multi ::
  "core \<Rightarrow> kv_collection \<Rightarrow> multi_core \<Rightarrow> pyval \<Rightarrow> pydict list \<Rightarrow> pydict \<Rightarrow> core_result multi_result res" where
  "exists_multi core col mc = plain_multi core col mc ExistsMultiOptions OP_EXISTS"

definition remove_multi ::
  "core \<Rightarrow> kv_collection \<Rightarrow> multi_core \<Rightarrow> pyval \<Rightarrow> pydict list \<Rightarrow> pydict \<Rightarrow> core_result multi_result res" where
  "remove_multi core col mc = plain_multi core col mc RemoveMultiOptions OP_REMOVE"

definition touch_multi ::
  "core \<Rightarrow> kv_collection \<Rightarrow> multi_core \<Rightarrow> pyval \<Rightarrow> pyval \<Rightarrow> pydict list \<Rightarrow> pydict
     \<Rightarrow> core_result multi_result res" where
  "touch_multi core col mc keys expiry opts kwargs =
     plain_multi core col mc TouchMultiOptions OP_TOUCH keys opts (AList.update ''expiry'' expiry kwargs)"

definition insert_multi ::
  "core \<Rightarrow> kv_collection \<Rightarrow> multi_core \<Rightarrow> tval docs_arg \<Rightarrow> pydict list \<Rightarrow> pydict
     \<Rightarrow> core_result multi_result res" where
  "insert_multi core col mc keys_and_docs opts kwargs =
     sent_multi core col mc OP_INSERT
       (get_multi_mutation_transcoded_op_args col InsertMultiOptions keys_and_docs opts kwargs)"

definition upsert_multi ::
  "core \<Rightarrow> kv_collection \<Rightarrow> multi_core \<Rightarrow> tval docs_arg \<Rightarrow> pydict list \<Rightarrow> pydict
     \<Rightarrow> core_result multi_result res" where
  "upsert_multi core col mc keys_and_docs opts kwargs =
     sent_multi core col mc OP_UPSERT
       (get_multi_mutation_transcoded_op_args col UpsertMultiOptions keys_and_docs opts kwargs)"

definition replace_multi ::
  "core \<Rightarrow> kv_collection \<Rightarrow> multi_core \<Rightarrow> tval docs_arg \<Rightarrow> pydict list \<Rightarrow> pydict
     \<Rightarrow> core_result multi_result res" where
  "replace_multi core col mc keys_and_docs opts kwargs =
     sent_multi core col mc OP_REPLACE
       (get_multi_mutation_transcoded_op_args col ReplaceMultiOptions keys_and_docs opts kwargs)"

definition append_multi ::
  "core \<Rightarrow> kv_collection \<Rightarrow> multi_core \<Rightarrow> tval docs_arg \<Rightarrow> pydict list \<Rightarrow> pydict
     \<Rightarrow> core_result multi_result res" where
  "append_multi core col mc keys_and_docs opts kwargs =
     sent_multi core col mc OP_APPEND
       (get_multi_binary_mutation_op_args col AppendMultiOptions keys_and_docs opts kwargs)"

definition prepend_multi ::
  "core \<Rightarrow> kv_collection \<Rightarrow> multi_core \<Rightarrow> tval docs_arg \<Rightarrow> pydict list \<Rightarrow> pydict
     \<Rightarrow> core_result multi_result res" where
  "prepend_multi core col mc keys_and_docs opts kwargs =
     sent_multi core col mc OP_PREPEND
       (get_multi_binary_mutation_op_args col PrependMultiOptions keys_and_docs opts kwargs)"

definition increment_multi ::
  "core \<Rightarrow> kv_collection \<Rightarrow> multi_core \<Rightarrow> pyval \<Rightarrow> pydict list \<Rightarrow> pydict \<Rightarrow> core_result multi_result res" where
  "increment_multi core col mc keys opts kwargs =
     sent_multi core col mc OP_INCREMENT
       (get_multi_counter_op_args col IncrementMultiOptions keys opts kwargs)"

definition decrement_multi ::
  "core \<Rightarrow> kv_collection \<Rightarrow> multi_core \<Rightarrow> pyval \<Rightarrow> pydict list \<Rightarrow> pydict \<Rightarrow> core_result multi_result res" where
  "decrement_multi core col mc keys opts kwargs =
     sent_multi core col mc OP_DECREMENT
       (get_multi_counter_op_args col DecrementMultiOptions keys opts kwargs)"

text \<open>
  \<open>unlock_multi\<close> takes the CAS values from a dictionary or from the results of an
  earlier multi operation.
\<close>

datatype unlock_keys = KeysDict "(pyval \<times> pyval) list" | KeysResult "core_result multi_result" | OtherKeys

definition Result_cas :: "core_result \<Rightarrow> pyval" where
  "Result_cas r = (case map_of (raw_rest r) ''cas'' of Some (TInt i) \<Rightarrow> PInt i | _ \<Rightarrow> PInt 0)"

fun op_keys_cas :: "unlock_keys \<Rightarrow> (pyval \<times> pyval) list res" where
  "op_keys_cas (KeysDict d) =
     (if \<not> list_all (\<lambda>(k, v). is_str k) d then Inl InvalidArgumentException
      else if \<not> list_all (\<lambda>(k, v). is_int v) d then Inl InvalidArgumentException
      else Inr d)"
| "op_keys_cas (KeysResult m) =
     Inr (fold (\<lambda>(k, r). AList.update (PStr k) (Result_cas r)) (MultiResult_results m) [])"
| "op_keys_cas OtherKeys = Inl InvalidArgumentException"

definition unlock_entry ::
  "(base_exc \<Rightarrow> exc) \<Rightarrow> bool \<Rightarrow> string \<times> core_result multi_entry
     \<Rightarrow> (string \<times> exc option) list \<Rightarrow> (string \<times> exc option) list res" where
  "unlock_entry mk return_exceptions kv output =
     (if fst kv = ''all_okay'' then Inr output
      else case snd kv of
        MError b \<Rightarrow> if \<not> return_exceptions then Inl (mk b)
                    else Inr (AList.update (fst kv) (Some (mk b)) output)
      | _ \<Rightarrow> Inr (AList.update (fst kv) None output))"

definition set_cas :: "(pyval \<times> pyval) list \<Rightarrow> pyval \<times> pydict \<times> payload option \<Rightarrow> pyval \<times> pydict \<times> payload option" where
  "set_cas cas op = (case op of (k, v, p) \<Rightarrow>
     (k, AList.update ''cas'' (case map_of cas k of Some c \<Rightarrow> c | None \<Rightarrow> PNone) v, p))"

definition unlock_multi ::
  "core \<Rightarrow> kv_collection \<Rightarrow> multi_core \<Rightarrow> unlock_keys \<Rightarrow> pydict list \<Rightarrow> pydict
     \<Rightarrow> (string \<times> exc option) list res" where
  "unlock_multi core col mc keys opts kwargs =
     bindE (op_keys_cas keys) (\<lambda>cas.
     bindE (get_multi_op_args col UnlockMultiOptions (PList (map fst cas)) opts kwargs)
       (\<lambda>(ops, return_exceptions, transcoders).
     bindE (mc (multi_operation col OP_UNLOCK (map (set_cas cas) ops))) (\<lambda>raw.
       foldE (unlock_entry (mk_error core col) return_exceptions) raw [])))"

subsection \<open>Lemmas\<close>

fun is_flag :: "'a multi_entry \<Rightarrow> bool" where
  "is_flag (AllOkay b) = True"
| "is_flag v = False"

fun entry_outcome :: "(base_exc \<Rightarrow> exc) \<Rightarrow> 'a multi_entry \<Rightarrow> exc + 'a" where
  "entry_outcome mk (MError b) = Inl (mk b)"
| "entry_outcome mk (MResult x) = Inr x"
| "entry_outcome mk (AllOkay b) = Inl AttributeError"

lemma collect_results_ok:
  assumes "list_all (\<lambda>kv. \<not> is_flag (snd kv)) entries"
    and "return_exceptions \<or> list_all (\<lambda>kv. \<not> is_error (snd kv)) entries"
  shows "collect_results mk return_exceptions entries = Inr (map (apsnd (entry_outcome mk)) entries)"
  using assms
proof (induction entries)
  case (Cons kv entries)
  obtain k v where kv: "kv = (k, v)" by fastforce
  have IH: "collect_results mk return_exceptions entries = Inr (map (apsnd (entry_outcome mk)) entries)"
    using Cons by auto
  show ?case using Cons.prems IH by (cases v) (auto simp: kv)
qed simp

lemma collect_results_first_error:
  assumes "list_all (\<lambda>kv. \<not> is_flag (snd kv)) entries" "list_ex (\<lambda>kv. is_error (snd kv)) entries"
  shows "\<exists>pre k b post. entries = pre @ (k, MError b) # post \<and> list_all (\<lambda>kv. \<not> is_error (snd kv)) pre \<and>
    collect_results mk False entries = Inl (mk b)"
  using assms
proof (induction entries)
  case (Cons kv entries)
  obtain k' v where kv: "kv = (k', v)" by fastforce
  show ?case
  proof (cases v)
    case (MError b)
    then show ?thesis
      by (intro exI [of _ "[]"] exI [of _ k'] exI [of _ b] exI [of _ entries]) (simp add: kv)
  next
    case (MResult x)
    then obtain pre k b post where "entries = pre @ (k, MError b) # post"
      "list_all (\<lambda>kv. \<not> is_error (snd kv)) pre" "collect_results mk False entries = Inl (mk b)"
      using Cons kv by auto
    then show ?thesis using MResult kv
      by (intro exI [of _ "kv # pre"] exI [of _ k] exI [of _ b] exI [of _ post]) simp
  qed (use Cons.prems kv in simp)
qed simp

lemma filter_update: "filter (\<lambda>kv. fst kv \<noteq> k) (AList.update k v d) = filter (\<lambda>kv. fst kv \<noteq> k) d"
  by (induction d) auto

lemma delete_filter: "AList.delete k d = filter (\<lambda>kv. fst kv \<noteq> k) d"
  by (simp add: AList.delete_eq case_prod_unfold eq_commute [of k])

lemma delete_core_result:
  "AList.delete ''all_okay'' (core_multi_result entries) = filter (\<lambda>kv. fst kv \<noteq> ''all_okay'') entries"
  by (simp add: core_multi_result_def delete_filter filter_update)

definition decoded_entry ::
  "kv_collection \<Rightarrow> (pyval \<times> pyval) list \<Rightarrow> string \<times> core_result multi_entry \<Rightarrow> string \<times> core_result multi_entry" where
  "decoded_entry col transcoders kv =
     (case decode_entry col transcoders kv of Inr x \<Rightarrow> x | Inl e \<Rightarrow> kv)"

lemma decode_entry_keeps:
  assumes "decode_entry col trs kv = Inr x"
  shows "fst x = fst kv \<and> is_error (snd x) = is_error (snd kv) \<and> is_flag (snd x) = is_flag (snd kv) \<and>
    (\<forall>b. snd x = MError b \<longleftrightarrow> snd kv = MError b)"
  using assms
  by (auto simp: decode_entry_def bindE_eq_Inr split: prod.splits if_splits multi_entry.splits option.splits)

lemma decoded_entry_keeps:
  "fst (decoded_entry col trs kv) = fst kv" "is_error (snd (decoded_entry col trs kv)) = is_error (snd kv)"
  "is_flag (snd (decoded_entry col trs kv)) = is_flag (snd kv)"
  "snd (decoded_entry col trs kv) = MError b \<longleftrightarrow> snd kv = MError b"
  using decode_entry_keeps [of col trs kv] by (auto simp: decoded_entry_def split: sum.splits)

lemma set_core_result:
  "kv \<in> set (core_multi_result entries) \<Longrightarrow> fst kv = ''all_okay'' \<or> kv \<in> set entries"
proof -
  have "kv \<in> set (AList.update k v d) \<Longrightarrow> kv = (k, v) \<or> kv \<in> set d" for k v and d :: "(string \<times> 'a multi_entry) list"
    by (induction d) (auto split: if_splits)
  then show "kv \<in> set (core_multi_result entries) \<Longrightarrow> ?thesis" by (fastforce simp: core_multi_result_def)
qed

lemma decode_entries_ok:
  assumes "\<And>k c. (k, MResult c) \<in> set entries \<Longrightarrow> k \<noteq> ''all_okay'' \<Longrightarrow>
      \<exists>tc w. map_of trs (PStr k) = Some tc \<and> decode_value (tc_decode col tc) (raw_value c) (raw_flags c) = Inr w"
    and "list_all (\<lambda>kv. \<not> is_flag (snd kv)) entries"
  shows "mapE (decode_entry col trs) (core_multi_result entries) =
    Inr (map (decoded_entry col trs) (core_multi_result entries))"
proof (rule mapE_Inr)
  fix kv assume kv: "kv \<in> set (core_multi_result entries)"
  obtain k v where e: "kv = (k, v)" by fastforce
  have "\<exists>x. decode_entry col trs kv = Inr x"
  proof (cases "k = ''all_okay''")
    case False
    then have m: "(k, v) \<in> set entries" using set_core_result [OF kv] e by auto
    show ?thesis
    proof (cases v)
      case (MResult c)
      with assms(1) [of k c] m False obtain tc w where "map_of trs (PStr k) = Some tc"
        "decode_value (tc_decode col tc) (raw_value c) (raw_flags c) = Inr w" by auto
      then show ?thesis using e False MResult by (simp add: decode_entry_def)
    qed (use assms(2) m e False in \<open>auto simp: decode_entry_def list_all_iff\<close>)
  qed (simp add: e decode_entry_def)
  then show "decode_entry col trs kv = Inr (decoded_entry col trs kv)" by (auto simp: decoded_entry_def)
qed

lemma multi_result_sets:
  "(k, e) \<in> set (MultiResult_exceptions m) \<longleftrightarrow> (k, Inl e) \<in> set (mresults m)"
  "(k, x) \<in> set (MultiResult_results m) \<longleftrightarrow> (k, Inr x) \<in> set (mresults m)"
  by (force simp: MultiResult_exceptions_def MultiResult_results_def List.map_filter_def split: sum.splits)+

lemma decoded_documents:
  "AList.delete ''all_okay'' (map (decoded_entry col trs) (core_multi_result entries)) =
     map (decoded_entry col trs) (filter (\<lambda>kv. fst kv \<noteq> ''all_okay'') entries)"
  using delete_core_result [of entries]
  by (simp add: delete_filter filter_map o_def decoded_entry_keeps)

lemma decoded_flag:
  "map_of (map (decoded_entry col trs) (core_multi_result entries)) ''all_okay'' =
     Some (AllOkay (list_all (\<lambda>kv. \<not> is_error (snd kv)) entries))"
proof -
  have "decoded_entry col trs (''all_okay'', v) = (''all_okay'', v)" for v
    by (simp add: decoded_entry_def decode_entry_def)
  then have "map_of (map (decoded_entry col trs) (AList.update ''all_okay'' v d)) ''all_okay'' = Some v" for v d
    by (induction d) (auto simp: decoded_entry_keeps)
  then show ?thesis by (simp add: core_multi_result_def)
qed

lemma outcome_iff:
  "\<not> is_flag v \<Longrightarrow> entry_outcome mk v = Inl e \<longleftrightarrow> (\<exists>b. v = MError b \<and> e = mk b)"
  "\<not> is_flag v \<Longrightarrow> entry_outcome mk v = Inr x \<longleftrightarrow> v = MResult x"
  by (cases v; auto)+

lemma decoded_outcomes:
  assumes "list_all (\<lambda>kv. \<not> is_flag (snd kv)) docs"
    and "\<And>k c. (k, MResult c) \<in> set docs \<Longrightarrow> k \<noteq> ''all_okay'' \<and>
      (\<exists>tc w. map_of trs (PStr k) = Some tc \<and> decode_value (tc_decode col tc) (raw_value c) (raw_flags c) = Inr w)"
    and rs: "rs = map (apsnd (entry_outcome mk)) (map (decoded_entry col trs) docs)"
  shows "map fst rs = map fst docs"
    and "(k, Inl e) \<in> set rs \<longleftrightarrow> (\<exists>b. (k, MError b) \<in> set docs \<and> e = mk b)"
    and "(k, Inr r) \<in> set rs \<longleftrightarrow> (\<exists>c tc w. (k, MResult c) \<in> set docs \<and> map_of trs (PStr k) = Some tc \<and>
            decode_value (tc_decode col tc) (raw_value c) (raw_flags c) = Inr w \<and> r = c\<lparr>raw_value := w\<rparr>)"
proof -
  have r: "rs = map (\<lambda>kv. (fst kv, entry_outcome mk (snd (decoded_entry col trs kv)))) docs"
    by (simp add: rs prod_eq_iff decoded_entry_keeps)
  then show "map fst rs = map fst docs" by simp
  have entry: "(k, z) \<in> set rs \<longleftrightarrow>
      (\<exists>v. (k, v) \<in> set docs \<and> entry_outcome mk (snd (decoded_entry col trs (k, v))) = z)" for z
    unfolding r by (simp add: image_iff) (metis fst_conv prod.collapse)
  have nf: "\<not> is_flag (snd (decoded_entry col trs (k, v)))" if "(k, v) \<in> set docs" for v
    using assms(1) that by (auto simp: list_all_iff decoded_entry_keeps)
  have "entry_outcome mk (snd (decoded_entry col trs (k, v))) = Inl e \<longleftrightarrow> (\<exists>b. v = MError b \<and> e = mk b)"
    if "(k, v) \<in> set docs" for v
    using outcome_iff(1) [OF nf [OF that]] by (simp add: decoded_entry_keeps)
  then show "(k, Inl e) \<in> set rs \<longleftrightarrow> (\<exists>b. (k, MError b) \<in> set docs \<and> e = mk b)" unfolding entry by blast
  have "entry_outcome mk (snd (decoded_entry col trs (k, v))) = Inr r \<longleftrightarrow>
       (\<exists>c tc w. v = MResult c \<and> map_of trs (PStr k) = Some tc \<and>
          decode_value (tc_decode col tc) (raw_value c) (raw_flags c) = Inr w \<and> r = c\<lparr>raw_value := w\<rparr>)"
    if v: "(k, v) \<in> set docs" for v
  proof -
    have "snd (decoded_entry col trs (k, v)) = MResult r \<longleftrightarrow>
       (\<exists>c tc w. v = MResult c \<and> map_of trs (PStr k) = Some tc \<and>
          decode_value (tc_decode col tc) (raw_value c) (raw_flags c) = Inr w \<and> r = c\<lparr>raw_value := w\<rparr>)"
    proof (cases v)
      case (MResult c)
      then show ?thesis using v assms(2) [of k c] unfolding decoded_entry_def decode_entry_def by auto
    qed (use v nf [OF v] decoded_entry_keeps [of col trs "(k, v)"] in auto)
    then show ?thesis using outcome_iff(2) [OF nf [OF v]] by simp
  qed
  then show "(k, Inr r) \<in> set rs \<longleftrightarrow> (\<exists>c tc w. (k, MResult c) \<in> set docs \<and> map_of trs (PStr k) = Some tc \<and>
            decode_value (tc_decode col tc) (raw_value c) (raw_flags c) = Inr w \<and> r = c\<lparr>raw_value := w\<rparr>)"
    unfolding entry by blast
qed

lemma decoded_first_error:
  assumes "map (decoded_entry col trs) docs = pre @ (k, MError b) # post"
    and "list_all (\<lambda>kv. \<not> is_error (snd kv)) pre"
  shows "\<exists>us ws. docs = us @ (k, MError b) # ws \<and> list_all (\<lambda>kv. \<not> is_error (snd kv)) us"
proof -
  obtain us vs where u: "docs = us @ vs" "map (decoded_entry col trs) us = pre"
    "map (decoded_entry col trs) vs = (k, MError b) # post"
    by (insert assms(1), unfold map_eq_append_conv, elim exE conjE, rule that, assumption, erule sym, erule sym)
  obtain kv ws where w: "vs = kv # ws" "decoded_entry col trs kv = (k, MError b)"
    by (insert u(3), unfold map_eq_Cons_conv, elim exE conjE, rule that, assumption+)
  have "fst kv = k" "snd kv = MError b"
    using decoded_entry_keeps(1) [of col trs kv] decoded_entry_keeps(4) [of col trs kv b] w(2) by simp_all
  then have "docs = us @ (k, MError b) # ws" using u(1) w(1) by (metis prod.collapse)
  moreover have "list_all (\<lambda>kv. \<not> is_error (snd kv)) us"
    using assms(2) unfolding u(2) [symmetric] by (simp add: list_all_iff decoded_entry_keeps)
  ultimately show ?thesis by blast
qed

subsection \<open>Properties\<close>

text \<open>C11. A multi get gives each key of the core's answer its own outcome, in the order of
  the answer: the decoded document under the transcoder of the key, or the exception of
  its error; with \<open>return_exceptions=False\<close> the first error is raised instead.  The flag
  \<open>all_ok\<close> says whether all succeeded.  A document with the key \<open>all_okay\<close> has no outcome:
  the flag has taken its place.\<close>

theorem get_multi_outcome:
  assumes "get_multi_op_args col GetMultiOptions keys opts kwargs = Inr (ops, return_exceptions, trs)"
    and "mc (multi_operation col OP_GET ops) = Inr (core_multi_result entries)"
    and "list_all (\<lambda>kv. \<not> is_flag (snd kv)) entries"
    and "\<And>k c. (k, MResult c) \<in> set entries \<Longrightarrow> k \<noteq> ''all_okay'' \<Longrightarrow>
      \<exists>tc w. map_of trs (PStr k) = Some tc \<and> decode_value (tc_decode col tc) (raw_value c) (raw_flags c) = Inr w"
    and "docs = filter (\<lambda>kv. fst kv \<noteq> ''all_okay'') entries"
  shows "if return_exceptions \<or> list_all (\<lambda>kv. \<not> is_error (snd kv)) docs
    then \<exists>m. get_multi core col mc keys opts kwargs = Inr m \<and>
      map fst (mresults m) = map fst docs \<and>
      all_ok m = list_all (\<lambda>kv. \<not> is_error (snd kv)) entries \<and>
      (\<forall>k e. (k, e) \<in> set (MultiResult_exceptions m) \<longleftrightarrow>
         (\<exists>b. (k, MError b) \<in> set docs \<and> e = mk_error core col b)) \<and>
      (\<forall>k r. (k, r) \<in> set (MultiResult_results m) \<longleftrightarrow>
         (\<exists>c tc w. (k, MResult c) \<in> set docs \<and> map_of trs (PStr k) = Some tc \<and>
            decode_value (tc_decode col tc) (raw_value c) (raw_flags c) = Inr w \<and> r = c\<lparr>raw_value := w\<rparr>))
    else \<exists>pre k b post. docs = pre @ (k, MError b) # post \<and> list_all (\<lambda>kv. \<not> is_error (snd kv)) pre \<and>
      get_multi core col mc keys opts kwargs = Inl (mk_error core col b)"
proof -
  define dec where "dec = map (decoded_entry col trs) docs"
  define mk where "mk = mk_error core col"
  have run: "get_multi core col mc keys opts kwargs =
      bindE (collect_results mk return_exceptions dec) (\<lambda>rs.
        Inr \<lparr>all_ok = list_all (\<lambda>kv. \<not> is_error (snd kv)) entries, mresults = rs\<rparr>)"
    using assms(1,2) decode_entries_ok [OF assms(4,3)]
    by (simp add: get_multi_def read_multi_def MultiResult_init_def decoded_documents decoded_flag
        dec_def mk_def assms(5))
  have flags: "list_all (\<lambda>kv. \<not> is_flag (snd kv)) docs" "list_all (\<lambda>kv. \<not> is_flag (snd kv)) dec"
    using assms(3,5) by (auto simp: dec_def list_all_iff decoded_entry_keeps)
  have errs: "list_all (\<lambda>kv. \<not> is_error (snd kv)) dec = list_all (\<lambda>kv. \<not> is_error (snd kv)) docs"
    by (simp add: dec_def list_all_iff decoded_entry_keeps)
  have ok: "k \<noteq> ''all_okay'' \<and>
      (\<exists>tc w. map_of trs (PStr k) = Some tc \<and> decode_value (tc_decode col tc) (raw_value c) (raw_flags c) = Inr w)"
    if "(k, MResult c) \<in> set docs" for k c using that assms(4) [of k c] by (auto simp: assms(5))
  show ?thesis
  proof (cases "return_exceptions \<or> list_all (\<lambda>kv. \<not> is_error (snd kv)) docs")
    case True
    have "get_multi core col mc keys opts kwargs =
        Inr \<lparr>all_ok = list_all (\<lambda>kv. \<not> is_error (snd kv)) entries, mresults = map (apsnd (entry_outcome mk)) dec\<rparr>"
      using run collect_results_ok [OF flags(2), of return_exceptions mk] True errs by simp
    then show ?thesis using decoded_outcomes [where mk = mk, OF flags(1) ok refl]
      unfolding if_P [OF True] multi_result_sets dec_def [symmetric] mk_def by simp
  next
    case False
    then have "list_ex (\<lambda>kv. is_error (snd kv)) dec" using errs unfolding list_ex_iff list_all_iff by blast
    from collect_results_first_error [OF flags(2) this, of mk] obtain pre k b post where
      c: "dec = pre @ (k, MError b) # post" "list_all (\<lambda>kv. \<not> is_error (snd kv)) pre"
        "collect_results mk False dec = Inl (mk b)" by blast
    moreover have "get_multi core col mc keys opts kwargs = Inl (mk_error core col b)"
      using c(3) run False by (simp add: mk_def)
    ultimately show ?thesis using decoded_first_error [OF c(1) [unfolded dec_def] c(2)]
      unfolding if_not_P [OF False] by blast
  qed
qed

definition silent_core :: core where
  "silent_core = \<lparr>core_call = (\<lambda>q. Inr CoreNone), core_stream = (\<lambda>q. Inr CoreNone), core_text = (\<lambda>_. [])\<rparr>"

definition stored_text :: core_result where
  "stored_text = \<lparr>raw_value = Document (TBytes [104, 105]), raw_flags = Some FMT_UTF8, raw_rest = []\<rparr>"

lemma sample_multi_args:
  "get_multi_op_args sample_collection GetMultiOptions (PList [PStr ''a'', PStr ''all_okay'']) [] [] =
     Inr ([(PStr ''a'', [], None), (PStr ''all_okay'', [], None)], True,
       [(PStr ''a'', PInst ''JSONTranscoder'' []), (PStr ''all_okay'', PInst ''JSONTranscoder'' [])])"
  by (simp add: get_multi_op_args_def multi_final_args_def get_valid_multi_args_def get_temp_opts_def nested_kwargs_def
      dupdate_def get_valid_global_multi_opts_def key_step_def per_key_of_def return_exceptions_of_def
      sample_collection_def Let_def)

lemma get_multi_outcome_witness:
  "\<exists>m w. get_multi silent_core sample_collection
       (\<lambda>q. Inr (core_multi_result [(''a'', MResult stored_text), (''all_okay'', MResult stored_text)]))
       (PList [PStr ''a'', PStr ''all_okay'']) [] [] = Inr m \<and>
     all_ok m \<and> map fst (mresults m) = [''a''] \<and> (''a'', stored_text\<lparr>raw_value := w\<rparr>) \<in> set (MultiResult_results m)"
proof -
  let ?es = "[(''a'', MResult stored_text), (''all_okay'', MResult stored_text)]"
  let ?trs = "[(PStr ''a'', PInst ''JSONTranscoder'' []), (PStr ''all_okay'', PInst ''JSONTranscoder'' [])]"
  have dec: "\<exists>w. decode_value (tc_decode sample_collection tc) (raw_value stored_text) (raw_flags stored_text) = Inr w" for tc
    by (simp add: decode_value_def sample_collection_def stored_text_def RawStringTranscoder_decode_value_def Let_def
        decode_format_simps decode_text_def decode_utf8_def utf8_take_def)
  have ok: "\<And>k c. (k, MResult c) \<in> set ?es \<Longrightarrow> k \<noteq> ''all_okay'' \<Longrightarrow>
      \<exists>tc w. map_of ?trs (PStr k) = Some tc \<and> decode_value (tc_decode sample_collection tc) (raw_value c) (raw_flags c) = Inr w"
    using dec by auto
  from get_multi_outcome [where mc = "\<lambda>q. Inr (core_multi_result ?es)" and core = silent_core, OF sample_multi_args refl _ ok refl]
  obtain m where m: "get_multi silent_core sample_collection (\<lambda>q. Inr (core_multi_result ?es))
      (PList [PStr ''a'', PStr ''all_okay'']) [] [] = Inr m" "map fst (mresults m) = [''a'']" "all_ok m"
    "\<forall>k r. (k, r) \<in> set (MultiResult_results m) \<longleftrightarrow>
       (\<exists>c tc w. (k, MResult c) \<in> set [(''a'', MResult stored_text)] \<and> map_of ?trs (PStr k) = Some tc \<and>
          decode_value (tc_decode sample_collection tc) (raw_value c) (raw_flags c) = Inr w \<and> r = c\<lparr>raw_value := w\<rparr>)"
    by auto
  obtain w where "decode_value (tc_decode sample_collection (PInst ''JSONTranscoder'' [])) (raw_value stored_text)
      (raw_flags stored_text) = Inr w" using dec by blast
  then have "(''a'', stored_text\<lparr>raw_value := w\<rparr>) \<in> set (MultiResult_results m)"
    using m(4) by simp
  then show ?thesis by (intro exI [of _ m] exI [of _ w] conjI m(1-3))
qed

subsection \<open>The options that every key is sent with\<close>

text \<open>
  The options for all keys overridden by the options of the key, which a counter converts first.
\<close>

definition own_options :: "(pydict \<Rightarrow> pydict res) \<Rightarrow> pydict \<Rightarrow> per_key \<Rightarrow> pyval \<Rightarrow> pydict \<Rightarrow> bool" where
  "own_options conv globals per_key k a \<longleftrightarrow>
     (case map_of per_key k of None \<Rightarrow> a = globals
      | Some o' \<Rightarrow> \<exists>e. bindE (key_dict o') conv = Inr e \<and> a = dupdate globals e)"

lemma key_step_own:
  assumes "key_step globals tc k pk = Inr (a, t, pk')" "map_of pk (PStr ''transcoder'') = None"
  shows "own_options Inr globals pk k a" "t = tc" "pk' = pk"
proof -
  have del: "AList.delete (PStr ''transcoder'') pk = pk"
    using assms(2) by (simp add: map_of_eq_None_iff)
  show "own_options Inr globals pk k a" "t = tc" "pk' = pk"
    using assms by (auto simp: key_step_def own_options_def Let_def del bindE_eq_Inr split: if_splits option.splits)
qed

text \<open>A loop that adds one entry for every key makes a dictionary of them, in the order of the keys.\<close>

lemma entries_of_keys:
  assumes "list_all2 R xs ps" "distinct (map key xs)" "ops = zip (map key xs) ps"
  shows "map fst ops = map key xs \<and> (\<forall>x \<in> set xs. \<exists>p. map_of ops (key x) = Some p \<and> R x p)"
proof -
  have len: "length xs = length ps" using assms(1) by (rule list_all2_lengthD)
  have "\<exists>p. map_of ops (key x) = Some p \<and> R x p" if x: "x \<in> set xs" for x
  proof -
    obtain i where i: "i < length xs" "xs ! i = x" using x by (auto simp: in_set_conv_nth)
    then have "map_of ops (key x) = Some (ps ! i)"
      using map_of_zip_nth [of "map key xs" ps i] len assms(2,3) by simp
    then show ?thesis using list_all2_nthD [OF assms(1) i(1)] i(2) by auto
  qed
  then show ?thesis using assms(3) len by simp
qed

lemma multi_keys_loop_own:
  assumes "multi_keys_loop globals tc keys pk ops trs = Inr (ops', trs')"
    and "distinct keys" "set keys \<inter> fst ` set ops = {}" "set keys \<inter> fst ` set trs = {}"
    and "map_of pk (PStr ''transcoder'') = None"
  shows "\<exists>ps. ops' = ops @ zip keys ps \<and> trs' = trs @ map (\<lambda>k. (k, tc)) keys \<and>
    list_all2 (\<lambda>k p. own_options Inr globals pk k (fst p) \<and> snd p = None) keys ps"
  using assms
proof (induction keys arbitrary: ops trs)
  case (Cons k keys)
  obtain a where a: "key_step globals tc k pk = Inr (a, tc, pk)" "own_options Inr globals pk k a"
    using Cons.prems(1) key_step_own [OF _ Cons.prems(5)] by (auto simp: bindE_eq_Inr)
  have new: "AList.update k (a, None) ops = ops @ [(k, a, None)]" "AList.update k tc trs = trs @ [(k, tc)]"
    using Cons.prems(3,4) by (auto intro!: update_fresh)
  then have "multi_keys_loop globals tc keys pk (ops @ [(k, a, None)]) (trs @ [(k, tc)]) = Inr (ops', trs')"
    using Cons.prems(1) a(1) by simp
  from Cons.IH [OF this] Cons.prems(2-5) obtain ps where
    "ops' = (ops @ [(k, a, None)]) @ zip keys ps" "trs' = (trs @ [(k, tc)]) @ map (\<lambda>k. (k, tc)) keys"
    "list_all2 (\<lambda>k p. own_options Inr globals pk k (fst p) \<and> snd p = None) keys ps" by auto
  then show ?case using a(2) by (intro exI [of _ "(a, None) # ps"]) simp
qed simp

lemma multi_docs_loop_own:
  assumes "multi_docs_loop col globals tc docs pk ops = Inr ops'"
    and "distinct (map fst docs)" "fst ` set docs \<inter> fst ` set ops = {}"
    and "map_of pk (PStr ''transcoder'') = None"
  shows "\<exists>ps. ops' = ops @ zip (map fst docs) ps \<and>
    list_all2 (\<lambda>d p. own_options Inr globals pk (fst d) (fst p) \<and>
      (\<exists>bytes flags. tc_encode col tc (snd d) = Inr (bytes, flags) \<and> snd p = Some (Transcoded bytes flags))) docs ps"
  using assms
proof (induction docs arbitrary: ops)
  case (Cons d docs)
  obtain k v where d: "d = (k, v)" by fastforce
  obtain a t pk' where s: "key_step globals tc k pk = Inr (a, t, pk')"
    using Cons.prems(1) by (auto simp: d bindE_eq_Inr)
  note own = key_step_own [OF s Cons.prems(4)]
  obtain bytes flags where e: "tc_encode col tc v = Inr (bytes, flags)"
    using Cons.prems(1) s own(2,3) by (auto simp: d bindE_eq_Inr)
  note a = s [unfolded own(2,3)] own(1) e
  let ?p = "(a, Some (Transcoded bytes flags))"
  have new: "AList.update k ?p ops = ops @ [(k, ?p)]" using Cons.prems(3) d by (auto intro!: update_fresh)
  then have "multi_docs_loop col globals tc docs pk (ops @ [(k, ?p)]) = Inr ops'"
    using Cons.prems(1) a(1,3) d by simp
  moreover have "distinct (map fst docs)" "fst ` set docs \<inter> fst ` set (ops @ [(k, ?p)]) = {}"
    using Cons.prems(2,3) d by auto
  ultimately obtain ps where
    "ops' = (ops @ [(k, ?p)]) @ zip (map fst docs) ps"
    "list_all2 (\<lambda>d p. own_options Inr globals pk (fst d) (fst p) \<and>
      (\<exists>bytes flags. tc_encode col tc (snd d) = Inr (bytes, flags) \<and> snd p = Some (Transcoded bytes flags))) docs ps"
    using Cons.IH [OF _ _ _ Cons.prems(4)] by blast
  then show ?case using a(2,3) d by (intro exI [of _ "?p # ps"]) simp
qed simp

lemma multi_binary_loop_own:
  assumes "multi_binary_loop globals docs pk ops = Inr ops'"
    and "distinct (map fst docs)" "fst ` set docs \<inter> fst ` set ops = {}"
  shows "\<exists>ps. ops' = ops @ zip (map fst docs) ps \<and>
    list_all2 (\<lambda>d p. own_options Inr globals pk (fst d) (fst p) \<and> snd p = Some (RawPayload (snd d))) docs ps"
  using assms
proof (induction docs arbitrary: ops)
  case (Cons d docs)
  obtain k v where d: "d = (k, v)" by fastforce
  obtain a where a: "multi_binary_loop globals docs pk (AList.update k (a, Some (RawPayload v)) ops) = Inr ops'"
    "own_options Inr globals pk k a"
    using Cons.prems(1) by (auto simp: d bindE_eq_Inr own_options_def split: option.splits)
  let ?p = "(a, Some (RawPayload v))"
  have "AList.update k ?p ops = ops @ [(k, ?p)]" using Cons.prems(3) d by (auto intro!: update_fresh)
  then have "multi_binary_loop globals docs pk (ops @ [(k, ?p)]) = Inr ops'" using a(1) by simp
  moreover have "distinct (map fst docs)" "fst ` set docs \<inter> fst ` set (ops @ [(k, ?p)]) = {}"
    using Cons.prems(2,3) d by auto
  ultimately obtain ps where
    "ops' = (ops @ [(k, ?p)]) @ zip (map fst docs) ps"
    "list_all2 (\<lambda>d p. own_options Inr globals pk (fst d) (fst p) \<and> snd p = Some (RawPayload (snd d))) docs ps"
    using Cons.IH by blast
  then show ?case using a(2) d by (intro exI [of _ "?p # ps"]) simp
qed simp

text \<open>A counter writes the converted options of a key back, which the other keys do not see.\<close>

lemma multi_counter_loop_own:
  assumes "multi_counter_loop globals keys pk ops = Inr ops'"
    and "distinct keys" "set keys \<inter> fst ` set ops = {}" "\<forall>k \<in> set keys. map_of pk k = map_of pk0 k"
  shows "\<exists>ps. ops' = ops @ zip keys ps \<and>
    list_all2 (\<lambda>k p. own_options counter_key_options globals pk0 k (fst p) \<and> snd p = None) keys ps"
  using assms
proof (induction keys arbitrary: ops pk)
  case (Cons k keys)
  obtain a pk' where a: "counter_key_step globals k pk = Inr (a, pk')"
    "multi_counter_loop globals keys pk' (AList.update k (a, None) ops) = Inr ops'"
    using Cons.prems(1) by (auto simp: bindE_eq_Inr)
  have own: "own_options counter_key_options globals pk0 k a" and same: "\<forall>k' \<in> set keys. map_of pk' k' = map_of pk0 k'"
    using a(1) Cons.prems(2,4)
    by (auto simp: counter_key_step_def own_options_def bindE_eq_Inr dict_simps split: if_splits option.splits)
  have "AList.update k (a, None) ops = ops @ [(k, a, None)]" using Cons.prems(3) by (auto intro!: update_fresh)
  then have "multi_counter_loop globals keys pk' (ops @ [(k, a, None)]) = Inr ops'" using a(2) by simp
  from Cons.IH [OF this] Cons.prems(2,3) same obtain ps where
    "ops' = (ops @ [(k, a, None)]) @ zip keys ps"
    "list_all2 (\<lambda>k p. own_options counter_key_options globals pk0 k (fst p) \<and> snd p = None) keys ps" by auto
  then show ?case using own by (intro exI [of _ "(a, None) # ps"]) simp
qed simp

lemma delete_other_lookup:
  "per_key_of (AList.delete ''transcoder'' f) = per_key_of f"
  "return_exceptions_of (AList.delete k f) = (if k = ''return_exceptions'' then True else return_exceptions_of f)"
  by (simp_all add: per_key_of_def return_exceptions_of_def dict_simps dget_def)

lemma delete_swap: "AList.delete k (AList.delete l f) = AList.delete l (AList.delete k f)"
  by (simp add: delete_filter conj_commute)

lemma op_args_merge:
  assumes "get_multi_op_args col opts_type (PList keys) opts kwargs = Inr (ops, re, trs)"
    and "multi_final_args col opts_type opts kwargs = Inr f" "distinct keys"
    and "map_of (per_key_of f) (PStr ''transcoder'') = None"
  shows "re = return_exceptions_of f \<and> map fst ops = keys \<and>
    (\<forall>k \<in> set keys. map_of trs k = Some (dget f ''transcoder'' (default_transcoder col)) \<and>
      (\<exists>a. map_of ops k = Some (a, None) \<and>
        own_options Inr (AList.delete ''per_key_options'' (AList.delete ''transcoder'' f)) (per_key_of f) k a))"
proof -
  let ?g = "AList.delete ''per_key_options'' (AList.delete ''transcoder'' f)"
  let ?tc = "dget f ''transcoder'' (default_transcoder col)"
  have loop: "multi_keys_loop ?g ?tc keys (per_key_of f) [] [] = Inr (ops, trs)" "re = return_exceptions_of f"
    using assms(1,2) by (auto simp: get_multi_op_args_def Let_def bindE_eq_Inr delete_other_lookup)
  from multi_keys_loop_own [OF loop(1) assms(3) _ _ assms(4)] obtain ps where
    ps: "ops = zip keys ps" "trs = map (\<lambda>k. (k, ?tc)) keys"
      "list_all2 (\<lambda>k p. own_options Inr ?g (per_key_of f) k (fst p) \<and> snd p = None) keys ps" by auto
  have "map_of trs k = Some ?tc" if "k \<in> set keys" for k
    using that unfolding ps(2) by (simp add: map_of_map_restrict)
  moreover have "map fst ops = keys \<and> (\<forall>k \<in> set keys. \<exists>p. map_of ops k = Some p \<and>
      own_options Inr ?g (per_key_of f) k (fst p) \<and> snd p = None)"
    using entries_of_keys [OF ps(3), of "\<lambda>k. k" ops] assms(3) ps(1) by (metis list.map_ident)
  ultimately show ?thesis using loop(2) by (metis prod.collapse)
qed

lemma transcoded_args_merge:
  assumes "get_multi_mutation_transcoded_op_args col opts_type (Docs docs) opts kwargs = Inr (ops, re)"
    and "multi_final_args col opts_type opts kwargs = Inr f" "distinct (map fst docs)"
    and "map_of (per_key_of f) (PStr ''transcoder'') = None"
  shows "re = return_exceptions_of f \<and> map fst ops = map fst docs \<and>
    (\<forall>(k, v) \<in> set docs. \<exists>a bytes flags. map_of ops k = Some (a, Some (Transcoded bytes flags)) \<and>
      tc_encode col (dget f ''transcoder'' (default_transcoder col)) v = Inr (bytes, flags) \<and>
      own_options Inr (AList.delete ''per_key_options'' (AList.delete ''transcoder'' f)) (per_key_of f) k a)"
proof -
  let ?g = "AList.delete ''per_key_options'' (AList.delete ''transcoder'' f)"
  let ?tc = "dget f ''transcoder'' (default_transcoder col)"
  have tc: "dget (AList.delete ''per_key_options'' f) ''transcoder'' (default_transcoder col) = ?tc"
    by (simp add: dget_def dict_simps)
  have loop: "multi_docs_loop col ?g ?tc docs (per_key_of f) [] = Inr ops" "re = return_exceptions_of f"
    using assms(1,2)
    by (auto simp: get_multi_mutation_transcoded_op_args_def Let_def bindE_eq_Inr delete_other_lookup tc
        opts_type_is_instance_def delete_swap [of "''transcoder''"])
  from multi_docs_loop_own [OF loop(1) assms(3) _ assms(4)] obtain ps where
    ps: "ops = zip (map fst docs) ps"
      "list_all2 (\<lambda>d p. own_options Inr ?g (per_key_of f) (fst d) (fst p) \<and> (\<exists>bytes flags.
        tc_encode col ?tc (snd d) = Inr (bytes, flags) \<and> snd p = Some (Transcoded bytes flags))) docs ps" by auto
  from entries_of_keys [OF ps(2) assms(3) ps(1)] loop(2) show ?thesis by fastforce
qed

lemma binary_args_merge:
  assumes "get_multi_binary_mutation_op_args col opts_type (Docs docs) opts kwargs = Inr (ops, re)"
    and "multi_final_args col opts_type opts kwargs = Inr f" "distinct (map fst docs)"
  shows "re = return_exceptions_of f \<and> map fst ops = map fst docs \<and>
    (\<forall>(k, v) \<in> set docs. \<exists>a w. map_of ops k = Some (a, Some (RawPayload w)) \<and> binary_value v = Inr w \<and>
      own_options Inr (AList.delete ''per_key_options'' f) (per_key_of f) k a)"
proof -
  let ?g = "AList.delete ''per_key_options'' f"
  let ?parse = "\<lambda>(k, v). bindE (binary_value v) (\<lambda>w. Inr (k, w))"
  obtain parsed where parsed: "mapE ?parse docs = Inr parsed"
    and loop: "multi_binary_loop ?g parsed (per_key_of f) [] = Inr ops" "re = return_exceptions_of f"
    using assms(1,2) by (auto simp: get_multi_binary_mutation_op_args_def Let_def bindE_eq_Inr delete_other_lookup)
  have "mapE ?parse ds = Inr ps \<Longrightarrow>
      list_all2 (\<lambda>d p. fst p = fst d \<and> binary_value (snd d) = Inr (snd p)) ds ps" for ds ps
    by (induction ds arbitrary: ps) (auto simp: bindE_eq_Inr)
  then have bytes: "list_all2 (\<lambda>d p. fst p = fst d \<and> binary_value (snd d) = Inr (snd p)) docs parsed"
    using parsed by blast
  have keys: "map fst parsed = map fst docs" using bytes by (induction rule: list_all2_induct) auto
  from multi_binary_loop_own [OF loop(1)] keys assms(3) obtain ps where
    ps: "ops = zip (map fst docs) ps"
      "list_all2 (\<lambda>d p. own_options Inr ?g (per_key_of f) (fst d) (fst p) \<and> snd p = Some (RawPayload (snd d))) parsed ps"
    by auto
  have "list_all2 (\<lambda>d p. own_options Inr ?g (per_key_of f) (fst d) (fst p) \<and>
      (\<exists>w. binary_value (snd d) = Inr w \<and> snd p = Some (RawPayload w))) docs ps"
    by (rule list_all2_trans [OF _ bytes ps(2)]) auto
  from entries_of_keys [OF this assms(3) ps(1)] loop(2) show ?thesis by fastforce
qed

lemma counter_args_merge:
  assumes "get_multi_counter_op_args col opts_type (PList keys) opts kwargs = Inr (ops, re)"
    and "multi_final_args col opts_type opts kwargs = Inr f" "distinct keys"
  shows "re = return_exceptions_of f \<and> map fst ops = keys \<and>
    (\<exists>delta initial d i. get_and_validate_delta_initial f = Inr (delta, initial) \<and> to_int delta = Inr d \<and>
      to_int initial = Inr i \<and> (\<forall>k \<in> set keys. \<exists>a. map_of ops k = Some (a, None) \<and>
        own_options counter_key_options (AList.delete ''per_key_options''
          (AList.update ''initial'' (PInt i) (AList.update ''delta'' (PInt d) f))) (per_key_of f) k a))"
proof -
  obtain delta initial d i where di: "get_and_validate_delta_initial f = Inr (delta, initial)"
    "to_int delta = Inr d" "to_int initial = Inr i"
    and loop: "multi_counter_loop (AList.delete ''per_key_options''
          (AList.update ''initial'' (PInt i) (AList.update ''delta'' (PInt d) f))) keys (per_key_of f) [] = Inr ops"
      "re = return_exceptions_of f"
    using assms(1,2) by (auto simp: get_multi_counter_op_args_def Let_def bindE_eq_Inr delete_other_lookup
        per_key_of_def return_exceptions_of_def dget_def dict_simps)
  let ?g = "AList.delete ''per_key_options'' (AList.update ''initial'' (PInt i) (AList.update ''delta'' (PInt d) f))"
  from multi_counter_loop_own [OF loop(1) assms(3)] obtain ps where
    ps: "ops = zip keys ps"
      "list_all2 (\<lambda>k p. own_options counter_key_options ?g (per_key_of f) k (fst p) \<and> snd p = None) keys ps"
    by auto
  have "map fst ops = keys \<and> (\<forall>k \<in> set keys. \<exists>a. map_of ops k = Some (a, None) \<and>
      own_options counter_key_options ?g (per_key_of f) k a)"
    using entries_of_keys [OF ps(2), of "\<lambda>k. k"] assms(3) ps(1) by fastforce
  then show ?thesis using di loop(2) by blast
qed

text \<open>C20. The options of a multi operation, of every kind: the request has one entry for each key, in the order
  of the keys, which holds the options for all keys overridden by the key's own per-key options and nothing of
  other keys.  Every document is encoded or decoded with the transcoder for all keys, even when the per-key
  options name another one; append and prepend send the bytes of the value; a counter converts the delta
  and the initial value for all keys and those of a key to integers.\<close>

theorem multi_requests_merge_options:
  assumes "multi_final_args col opts_type opts kwargs = Inr f"
    and "map_of (per_key_of f) (PStr ''transcoder'') = None" "distinct keys" "distinct (map fst docs)"
    and "tc = dget f ''transcoder'' (default_transcoder col)"
    and "globals = AList.delete ''per_key_options'' (AList.delete ''transcoder'' f)"
  shows "(get_multi_op_args col opts_type (PList keys) opts kwargs = Inr (ops1, re1, trs) \<longrightarrow>
      re1 = return_exceptions_of f \<and> map fst ops1 = keys \<and>
      (\<forall>k \<in> set keys. map_of trs k = Some tc \<and>
        (\<exists>a. map_of ops1 k = Some (a, None) \<and> own_options Inr globals (per_key_of f) k a))) \<and>
    (get_multi_mutation_transcoded_op_args col opts_type (Docs docs) opts kwargs = Inr (ops2, re2) \<longrightarrow>
      re2 = return_exceptions_of f \<and> map fst ops2 = map fst docs \<and>
      (\<forall>(k, v) \<in> set docs. \<exists>a bytes flags. map_of ops2 k = Some (a, Some (Transcoded bytes flags)) \<and>
        tc_encode col tc v = Inr (bytes, flags) \<and> own_options Inr globals (per_key_of f) k a)) \<and>
    (get_multi_binary_mutation_op_args col opts_type (Docs docs) opts kwargs = Inr (ops3, re3) \<longrightarrow>
      re3 = return_exceptions_of f \<and> map fst ops3 = map fst docs \<and>
      (\<forall>(k, v) \<in> set docs. \<exists>a w. map_of ops3 k = Some (a, Some (RawPayload w)) \<and> binary_value v = Inr w \<and>
        own_options Inr (AList.delete ''per_key_options'' f) (per_key_of f) k a)) \<and>
    (get_multi_counter_op_args col opts_type (PList keys) opts kwargs = Inr (ops4, re4) \<longrightarrow>
      re4 = return_exceptions_of f \<and> map fst ops4 = keys \<and>
      (\<exists>delta initial d i. get_and_validate_delta_initial f = Inr (delta, initial) \<and> to_int delta = Inr d \<and>
        to_int initial = Inr i \<and> (\<forall>k \<in> set keys. \<exists>a. map_of ops4 k = Some (a, None) \<and>
          own_options counter_key_options (AList.delete ''per_key_options''
            (AList.update ''initial'' (PInt i) (AList.update ''delta'' (PInt d) f))) (per_key_of f) k a)))"
  unfolding assms(5,6)
  by (intro conjI [OF impI conjI [OF impI conjI [OF impI impI]]]
      op_args_merge [OF _ assms(1,3,2)] transcoded_args_merge [OF _ assms(1,4,2)]
      binary_args_merge [OF _ assms(1,4)] counter_args_merge [OF _ assms(1,3)])

lemma multi_requests_witness:
  "(\<exists>ops trs. get_multi_op_args sample_collection ExistsMultiOptions (PList [PStr ''a'', PStr ''b'']) []
       [(''per_key_options'', PDict [(PStr ''b'', PDict [(PStr ''timeout'', PTimedelta 2000000)])])] =
     Inr (ops, True, trs) \<and> map_of ops (PStr ''a'') = Some ([], None) \<and>
     map_of ops (PStr ''b'') = Some ([(''timeout'', PInt 2000000)], None)) \<and>
   (\<exists>ops. get_multi_binary_mutation_op_args sample_collection ExistsMultiOptions
       (Docs [(PStr ''a'', TBytes [1]), (PStr ''b'', TBytearray [2])]) []
       [(''per_key_options'', PDict [(PStr ''b'', PDict [(PStr ''timeout'', PTimedelta 2000000)])])] =
     Inr (ops, True) \<and> map_of ops (PStr ''a'') = Some ([], Some (RawPayload (TBytes [1]))) \<and>
     map_of ops (PStr ''b'') = Some ([(''timeout'', PInt 2000000)], Some (RawPayload (TBytes [2]))))"
proof -
  let ?col = "sample_collection"
  let ?kw = "[(''per_key_options'', PDict [(PStr ''b'', PDict [(PStr ''timeout'', PTimedelta 2000000)])])]"
  let ?f = "[(''per_key_options'', PDict [(PStr ''b'', PDict [(PStr ''timeout'', PInt 2000000)])])]"
  let ?keys = "[PStr ''a'', PStr ''b'']"
  let ?docs = "[(PStr ''a'', TBytes [1]), (PStr ''b'', TBytearray [2])]"
  have f: "multi_final_args ?col ExistsMultiOptions [] ?kw = Inr ?f"
    using td_micros_whole_seconds [of 2]
    by (simp add: multi_final_args_def get_valid_multi_args_def get_temp_opts_def nested_kwargs_def
        dupdate_def get_valid_global_multi_opts_def multi_step_def VALID_MULTI_OPTS_def get_per_key_opts_def
        py_simps py_int_def sample_collection_def pdict_def)
  have pk: "map_of (per_key_of ?f) (PStr ''transcoder'') = None"
    "own_options Inr [] (per_key_of ?f) (PStr ''a'') a \<longleftrightarrow> a = []"
    "own_options Inr [] (per_key_of ?f) (PStr ''b'') a \<longleftrightarrow> a = [(''timeout'', PInt 2000000)]" for a
    by (simp_all add: per_key_of_def own_options_def key_dict_def dupdate_def)
  have re: "return_exceptions_of ?f" by (simp add: return_exceptions_of_def)
  have d: "distinct ?keys" "distinct (map fst ?docs)" by simp_all
  note M = multi_requests_merge_options [OF f pk(1) d refl refl]
  have g: "AList.delete ''per_key_options'' ?f = []" "AList.delete ''transcoder'' ?f = ?f" by simp_all
  obtain ops trs where 1: "get_multi_op_args ?col ExistsMultiOptions (PList ?keys) [] ?kw = Inr (ops, True, trs)"
    using f by (simp add: get_multi_op_args_def key_step_def per_key_of_def return_exceptions_of_def key_dict_def Let_def)
  obtain ops' where 2: "get_multi_binary_mutation_op_args ?col ExistsMultiOptions (Docs ?docs) [] ?kw = Inr (ops', True)"
    using f by (simp add: get_multi_binary_mutation_op_args_def per_key_of_def return_exceptions_of_def key_dict_def
        binary_value_def Let_def)
  have "map_of ops (PStr ''a'') = Some ([], None)" "map_of ops (PStr ''b'') = Some ([(''timeout'', PInt 2000000)], None)"
    using M [THEN conjunct1, rule_format, OF 1] by (auto simp: g pk)
  moreover have "map_of ops' (PStr ''a'') = Some ([], Some (RawPayload (TBytes [1])))"
    "map_of ops' (PStr ''b'') = Some ([(''timeout'', PInt 2000000)], Some (RawPayload (TBytes [2])))"
    using M [THEN conjunct2, THEN conjunct2, THEN conjunct1, THEN mp, OF 2] by (auto simp: g pk binary_value_def)
  ultimately show ?thesis using 1 2 by blast
qed

lemma foldE_filter:
  "(\<And>x s. x \<in> set xs \<Longrightarrow> \<not> P x \<Longrightarrow> f x s = Inr s) \<Longrightarrow> foldE f xs s = foldE f (filter P xs) s"
proof (induction xs arbitrary: s)
  case (Cons x xs)
  show ?case
  proof (cases "P x")
    case True
    then show ?thesis using Cons by (cases "f x s") simp_all
  qed (use Cons in simp)
qed simp

lemma filter_update_other:
  "k' \<noteq> k \<Longrightarrow> filter (\<lambda>kv. fst kv \<noteq> k) (AList.update k' v d) = AList.update k' v (filter (\<lambda>kv. fst kv \<noteq> k) d)"
  by (induction d) auto

lemma filter_dupdate:
  "filter (\<lambda>kv. fst kv \<noteq> k) (dupdate d e) =
     dupdate (filter (\<lambda>kv. fst kv \<noteq> k) d) (filter (\<lambda>kv. fst kv \<noteq> k) e)"
  unfolding dupdate_def
proof (induction e arbitrary: d)
  case (Cons kv e)
  then show ?case by (cases "fst kv = k") (auto simp: case_prod_unfold filter_update filter_update_other)
qed simp

lemma keys_dupdate: "fst ` set (dupdate d e) = fst ` set d \<union> fst ` set e"
  unfolding dupdate_def by (induction e arbitrary: d) (auto simp: case_prod_unfold dom_update)

lemma delete_keys_set: "fst ` set (AList.delete k d) = fst ` set d - {k}"
  by (induction d) auto

lemma map_of_filter_other: "x \<noteq> k \<Longrightarrow> map_of (filter (\<lambda>kv. fst kv \<noteq> k) d) x = map_of d x"
  by (induction d) auto

lemma multi_final_args_ignores:
  assumes "k \<notin> {''kwargs'', ''per_key_options''}" "k \<notin> set (get_valid_keys opts_type)"
  shows "multi_final_args col opts_type opts (AList.update k v kwargs) =
    multi_final_args col opts_type opts (AList.update k v' kwargs)"
proof -
  have k: "k \<noteq> ''kwargs''" "''kwargs'' \<noteq> k" using assms(1) by auto
  define o' :: pydict where "o' = (case opts of [] \<Rightarrow> [] | d # _ \<Rightarrow> d)"
  define T where "T kw v = dupdate (dupdate o' kw) (AList.delete ''kwargs'' (AList.update k v kwargs))" for kw v
  have temp: "get_temp_opts (AList.update k v kwargs) opts = bindE (nested_kwargs kwargs) (\<lambda>kw. Inr (T kw v))" for v
    using k by (simp add: get_temp_opts_def nested_kwargs_def dict_simps T_def o'_def Let_def key_dict_def)
  have same: "filter (\<lambda>x. fst x \<noteq> k) (T kw v) = filter (\<lambda>x. fst x \<noteq> k) (T kw v')" for kw
    using assms(1) by (simp add: T_def filter_dupdate AList.delete_update filter_update)
  have ne: "T kw v \<noteq> []" for kw v
  proof
    assume "T kw v = []"
    then have "fst ` set (T kw v) = {}" by simp
    moreover have "k \<in> fst ` set (AList.delete ''kwargs'' (AList.update k v kwargs))"
      using k by (simp add: delete_keys_set dom_update)
    ultimately show False by (simp add: T_def keys_dupdate)
  qed
  have step: "foldE (multi_step env (get_valid_keys opts_type)) (T kw v) [] =
      foldE (multi_step env (get_valid_keys opts_type)) (filter (\<lambda>x. fst x \<noteq> k) (T kw v)) []" for env kw v
    by (rule foldE_filter) (use assms(2) in \<open>auto simp: multi_step_def\<close>)
  have pk: "map_of (T kw v) ''per_key_options'' = map_of (filter (\<lambda>x. fst x \<noteq> k) (T kw v)) ''per_key_options''" for kw v
    by (rule map_of_filter_other [symmetric]) (use assms(1) in auto)
  show ?thesis
    unfolding multi_final_args_def get_valid_multi_args_def temp
    by (cases "nested_kwargs kwargs")
      (simp_all add: get_valid_global_multi_opts_def ne step pk [of _ v] pk [of _ v'] same)
qed

text \<open>The lock time never reaches the core: \<open>get_and_lock_multi\<close> does the same whatever lock
  time it is given, and a request of it carries none.\<close>

lemma get_and_lock_multi_without_lock_time:
  "get_and_lock_multi core col mc keys lock_time opts kwargs =
     get_and_lock_multi core col mc keys lock_time' opts kwargs"
  by (simp add: get_and_lock_multi_def read_multi_def get_multi_op_args_def
      multi_final_args_ignores [of "''lock_time''" GetAndLockMultiOptions col opts lock_time kwargs lock_time']
      split: pyval.split)

end
