(* ===== verification/Mgmt_Base.thy ===== *)
theory Mgmt_Base
  imports Buckets Wrappers
begin

text \<open>
  What the managers of \<open>couchbase/management\<close> share: the request of an operation, the decorator
  \<open>BlockingMgmtWrapper.block\<close> of \<open>couchbase/management/logic/wrappers.py\<close> with the core that answers,
  and the readers of the results, which all look up one entry of the raw result and convert it, or
  each of its elements.
\<close>

subsection \<open>Requests\<close>

text \<open>The name of the operation, its arguments, the handlers and the timeout.\<close>

definition mgmt_request ::
  "mgmt_env \<Rightarrow> string \<Rightarrow> string \<Rightarrow> string \<Rightarrow> pydict \<Rightarrow> pydict \<Rightarrow> pydict \<Rightarrow> pydict" where
  "mgmt_request m mgmt_op ops op_type op_args kwargs final_args =
     add_timeout final_args (snd (take_handlers kwargs
       (AList.update ''op_args'' (pdict op_args) (mgmt_kwargs m mgmt_op ops op_type))))"

definition put_given :: "pydict \<Rightarrow> string \<Rightarrow> pydict \<Rightarrow> pydict" where
  "put_given kwargs k op_args =
     (if dget kwargs k PNone \<noteq> PNone then AList.update k (dget kwargs k PNone) op_args else op_args)"

text \<open>\<open>if x is not None: op_args[k] = x\<close>\<close>

definition put_value :: "string \<Rightarrow> pyval \<Rightarrow> pydict \<Rightarrow> pydict" where
  "put_value k v op_args = (if v \<noteq> PNone then AList.update k v op_args else op_args)"

text \<open>\<open>if x: output[k] = x\<close>\<close>

definition put_true :: "string \<Rightarrow> pyval \<Rightarrow> pydict \<Rightarrow> pydict" where
  "put_true k v output = (if truthy v then AList.update k v output else output)"

subsection \<open>The blocking management operations\<close>

record 'w mgmt_core =
  mc_call :: "pydict \<Rightarrow> ('w, pydict core_return) action"
  mc_floats :: py_floats
  mc_text :: "tval \<Rightarrow> ustr"
  mc_clock :: "'w \<Rightarrow> rat \<times> 'w"
  mc_sleep :: "rat \<Rightarrow> 'w \<Rightarrow> 'w"

text \<open>
  \<open>BlockingMgmtWrapper.block\<close> lets \<open>TypeError\<close> and \<open>ValueError\<close> (with their subclasses) through,
  besides the exceptions of the SDK.
\<close>

definition argument_error :: "exc \<Rightarrow> bool" where
  "argument_error e \<longleftrightarrow> e \<in> {TypeError, ValueError, UnicodeDecodeError, JSONDecodeError}"

definition mgmt_boundary :: "'a res \<Rightarrow> 'a res" where
  "mgmt_boundary r = (case r of Inr x \<Rightarrow> Inr x
     | Inl e \<Rightarrow> if is_couchbase_exc e \<or> argument_error e then Inl e else Inl internal_error)"

definition handle_mgmt_response ::
  "'w mgmt_core \<Rightarrow> err_mapping \<Rightarrow> (pydict option \<Rightarrow> 'a res) \<Rightarrow> pydict core_return \<Rightarrow> 'a res" where
  "handle_mgmt_response core error_map handler ret = (case ret of
       CoreError base \<Rightarrow> bindE (build_exception (mc_floats core) (mc_text core) base (Some error_map))
         (\<lambda>c. Inl (exc_of_class c))
     | CoreNone \<Rightarrow> handler None
     | CoreValue raw \<Rightarrow> handler (Some raw))"

definition mgmt_block ::
  "'w mgmt_core \<Rightarrow> err_mapping \<Rightarrow> (pydict option \<Rightarrow> 'a res) \<Rightarrow> pydict res \<Rightarrow> ('w, 'a) action" where
  "mgmt_block core error_map handler request w =
     (case request of
        Inl e \<Rightarrow> (mgmt_boundary (Inl e), w)
      | Inr req \<Rightarrow> (case mc_call core req w of
            (Inl e, w) \<Rightarrow> (mgmt_boundary (Inl e), w)
          | (Inr ret, w) \<Rightarrow> (mgmt_boundary (handle_mgmt_response core error_map handler ret), w)))"

subsection \<open>Reading results\<close>

definition item :: "pyval \<Rightarrow> string \<Rightarrow> pyval res" where
  "item v k = (case v of
       PDict d \<Rightarrow> (case map_of d (PStr k) of None \<Rightarrow> Inl KeyError | Some w \<Rightarrow> Inr w)
     | _ \<Rightarrow> Inl TypeError)"

definition item_or_none :: "pyval \<Rightarrow> string \<Rightarrow> pyval" where
  "item_or_none v k = (case item v k of Inr w \<Rightarrow> w | Inl _ \<Rightarrow> PNone)"

definition seconds_timedelta :: "pyval \<Rightarrow> pyval res" where
  "seconds_timedelta v = (case int_of v of
       None \<Rightarrow> Inl TypeError
     | Some s \<Rightarrow> if timedelta_in_range (s * 10 ^ 6) then Inr (PTimedelta (s * 10 ^ 6)) else Inl OverflowError)"

definition millis_timedelta_of :: "pyval \<Rightarrow> pyval res" where
  "millis_timedelta_of v = (case int_of v of
       None \<Rightarrow> Inl TypeError
     | Some s \<Rightarrow> if timedelta_in_range (s * 10 ^ 3) then Inr (PTimedelta (s * 10 ^ 3)) else Inl OverflowError)"

text \<open>
  \<open>raw_result.get(k, None)\<close> of a result, which is \<open>None\<close> when the core answered nothing: then the
  attribute is missing.
\<close>

definition read_one :: "string \<Rightarrow> (pyval \<Rightarrow> 'a res) \<Rightarrow> pydict option \<Rightarrow> 'a option res" where
  "read_one k f raw = (case raw of
       None \<Rightarrow> Inl AttributeError
     | Some d \<Rightarrow> if truthy (dget d k PNone) then bindE (f (dget d k PNone)) (\<lambda>x. Inr (Some x)) else Inr None)"

definition read_all :: "string \<Rightarrow> (pyval \<Rightarrow> 'a res) \<Rightarrow> pydict option \<Rightarrow> 'a list res" where
  "read_all k f raw = (case raw of
       None \<Rightarrow> Inl AttributeError
     | Some d \<Rightarrow> if truthy (dget d k PNone) then bindE (py_iter (dget d k PNone)) (mapE f) else Inr [])"

definition no_result :: "pydict option \<Rightarrow> unit res" where
  "no_result raw = Inr ()"

subsection \<open>What a request holds\<close>

lemma map_of_put_true: "map_of (put_true k v d) l = (if l = k \<and> truthy v then Some v else map_of d l)"
  by (simp add: put_true_def dict_simps)

lemma mgmt_request_args:
  "map_of (mgmt_request m mgmt_op ops op_type op_args kwargs final_args) ''op_args'' = Some (pdict op_args)"
  by (simp add: mgmt_request_def map_of_add_timeout take_handlers_simps dict_simps)

lemma mgmt_request_op:
  "map_of (mgmt_request m mgmt_op ops op_type op_args kwargs final_args) ''op_type'' = Some (mg_value m ops op_type)"
  "map_of (mgmt_request m mgmt_op ops op_type op_args kwargs final_args) ''mgmt_op'' =
     Some (mg_value m ''mgmt_operations'' mgmt_op)"
  by (simp_all add: mgmt_request_def map_of_add_timeout take_handlers_simps mgmt_kwargs_def dict_simps)

lemma map_of_put_given:
  "map_of (put_given kwargs k d) l =
     (if l = k \<and> dget kwargs k PNone \<noteq> PNone then Some (dget kwargs k PNone) else map_of d l)"
  by (simp add: put_given_def dict_simps)

lemma map_of_put_value:
  "map_of (put_value k v d) l = (if l = k \<and> v \<noteq> PNone then Some v else map_of d l)"
  by (simp add: put_value_def dict_simps)

text \<open>Only exceptions of the SDK and argument errors leave a blocking operation.\<close>

lemma mgmt_block_errors:
  assumes "mgmt_block core m handler request w = (Inl e, w')"
  shows "is_couchbase_exc e \<or> argument_error e"
proof -
  have "is_couchbase_exc e \<or> argument_error e" if "mgmt_boundary r = Inl e" for r :: "'a res"
    using that exc_of_class_sdk by (auto simp: mgmt_boundary_def internal_error_def split: sum.splits if_splits)
  then show ?thesis using assms
    by (auto simp: mgmt_block_def split: sum.splits prod.splits)
qed

subsection \<open>A core for examples\<close>

text \<open>It gives a fixed answer and keeps the requests in the world.\<close>

definition demo_env :: mgmt_env where
  "demo_env = \<lparr>mg_env = \<lparr>time_now = 0, str_of = (\<lambda>_. '''')\<rparr>, mg_conn = PNone, mg_value = (\<lambda>_ _. PNone)\<rparr>"

definition recording_core :: "pydict core_return \<Rightarrow> pydict list mgmt_core" where
  "recording_core answer = \<lparr>mc_call = (\<lambda>req w. (Inr answer, w @ [req])),
     mc_floats = \<lparr>float_repr = (\<lambda>_. []), float_parse = (\<lambda>_. NaN)\<rparr>, mc_text = (\<lambda>_. []),
     mc_clock = (\<lambda>w. (0, w)), mc_sleep = (\<lambda>d w. w)\<rparr>"

end
