(* ===== verification/Query_Indexes.thy ===== *)
theory Query_Indexes
  imports Mgmt_Base Backoff
begin

text \<open>
  Query index management: \<open>couchbase/management/logic/query_index_logic.py\<close>,
  \<open>couchbase/management/queries.py\<close> and, of \<open>couchbase/management/logic/wrappers.py\<close>, the decorator
  \<open>BlockingMgmtWrapper.block\<close>.  The requests are dictionaries as in \<open>Buckets\<close>; the core that
  answers them and the clock are actions on the world.  \<open>watch_indexes\<close> is a loop over both with
  fuel, one unit for every listing of the indexes.
\<close>

subsection \<open>Requests\<close>

definition list_of_keys :: "pyval \<Rightarrow> pyval res" where
  "list_of_keys keys = (case keys of
       PList xs \<Rightarrow> Inr (PList xs) | PTuple xs \<Rightarrow> Inr (PList xs) | PDict d \<Rightarrow> Inr (PList (map fst d))
     | PStr s \<Rightarrow> Inr (PList (map (\<lambda>c. PStr [c]) s)) | _ \<Rightarrow> Inl TypeError)"

definition parse_create_index_args ::
  "pyval \<Rightarrow> pyval \<Rightarrow> pyval \<Rightarrow> pydict \<Rightarrow> pydict res" where
  "parse_create_index_args bucket keys index_name kwargs =
     (let primary = dget kwargs ''primary'' (PBool False); condition = dget kwargs ''condition'' PNone
      in if truthy primary \<and> truthy keys then Inl TypeError
         else if \<not> truthy primary \<and> \<not> truthy keys then Inl ValueError
         else if truthy condition \<and> truthy primary then Inl ValueError
         else
          (let op_args = [(''bucket_name'', bucket)];
               op_args = (if truthy index_name then AList.update ''index_name'' index_name op_args else op_args);
               op_args = (if primary = PBool True then AList.update ''is_primary'' primary op_args else op_args);
               op_args = (if truthy condition then AList.update ''condition'' condition op_args else op_args)
           in bindE (if truthy keys then bindE (list_of_keys keys) (\<lambda>ks. Inr (AList.update ''keys'' ks op_args))
                     else Inr op_args) (\<lambda>op_args.
              let op_args = (if dget kwargs ''ignore_if_exists'' (PBool False) = PBool True
                    then AList.update ''ignore_if_exists'' (PBool True) op_args else op_args)
              in Inr (fold (put_given kwargs) [''scope_name'', ''collection_name'', ''deferred'', ''num_replicas'']
                        op_args))))"

definition index_request ::
  "mgmt_env \<Rightarrow> string \<Rightarrow> pydict \<Rightarrow> pydict \<Rightarrow> pydict \<Rightarrow> pydict" where
  "index_request m = mgmt_request m ''QUERY_INDEX'' ''query_index_mgmt_operations''"

definition create_index_request ::
  "mgmt_env \<Rightarrow> pyval \<Rightarrow> pyval \<Rightarrow> pyval \<Rightarrow> pydict \<Rightarrow> pydict res" where
  "create_index_request m bucket keys index_name kwargs =
     bindE (no_clash [''bucket_name'', ''keys'', ''index_name''] kwargs) (\<lambda>kwargs.
     bindE (parse_create_index_args bucket keys index_name kwargs) (\<lambda>op_args.
       Inr (index_request m ''CREATE_INDEX'' op_args kwargs kwargs)))"

definition drop_index_request ::
  "mgmt_env \<Rightarrow> pyval \<Rightarrow> pyval \<Rightarrow> pydict \<Rightarrow> pydict res" where
  "drop_index_request m bucket index_name kwargs =
     bindE (no_clash [''bucket_name'', ''index_name''] kwargs) (\<lambda>kwargs.
     let ignore_if_not_exists = dget kwargs ''ignore_if_not_exists'' (PBool False);
         kwargs = AList.delete ''ignore_if_not_exists'' kwargs;
         ignore_missing = dget kwargs ''ignore_missing'' (PBool False);
         kwargs = AList.delete ''ignore_missing'' kwargs;
         op_args = [(''bucket_name'', bucket)];
         op_args = (if truthy index_name then AList.update ''index_name'' index_name op_args else op_args);
         op_args = fold (put_given kwargs) [''scope_name'', ''collection_name''] op_args;
         op_args = (if ignore_if_not_exists = PBool True \<or> ignore_missing = PBool True
           then AList.update ''ignore_if_does_not_exist'' (PBool True) op_args else op_args);
         op_args = (if dget kwargs ''primary'' (PBool False) = PBool True
           then AList.update ''is_primary'' (PBool True) op_args else op_args)
     in Inr (index_request m ''DROP_INDEX'' op_args kwargs kwargs))"

definition Logic_create_index ::
  "mgmt_env \<Rightarrow> pyval \<Rightarrow> pyval \<Rightarrow> pyval \<Rightarrow> pydict list \<Rightarrow> pydict \<Rightarrow> pydict res" where
  "Logic_create_index m bucket index_name keys options kwargs =
     bindE (forward_args (mg_env m) kwargs options) (\<lambda>final_args.
       create_index_request m bucket keys index_name final_args)"

definition Logic_create_primary_index ::
  "mgmt_env \<Rightarrow> pyval \<Rightarrow> pydict list \<Rightarrow> pydict \<Rightarrow> pydict res" where
  "Logic_create_primary_index m bucket options kwargs =
     bindE (forward_args (mg_env m) (AList.update ''primary'' (PBool True) kwargs) options) (\<lambda>final_args.
       create_index_request m bucket (PList []) (dget final_args ''index_name'' PNone)
         (AList.delete ''index_name'' final_args))"

definition Logic_drop_index ::
  "mgmt_env \<Rightarrow> pyval \<Rightarrow> pyval \<Rightarrow> pydict list \<Rightarrow> pydict \<Rightarrow> pydict res" where
  "Logic_drop_index m bucket index_name options kwargs =
     bindE (forward_args (mg_env m) kwargs options) (\<lambda>final_args.
       drop_index_request m bucket index_name final_args)"

definition Logic_drop_primary_index ::
  "mgmt_env \<Rightarrow> pyval \<Rightarrow> pydict list \<Rightarrow> pydict \<Rightarrow> pydict res" where
  "Logic_drop_primary_index m bucket options kwargs =
     bindE (forward_args (mg_env m) (AList.update ''primary'' (PBool True) kwargs) options) (\<lambda>final_args.
       drop_index_request m bucket (dget final_args ''index_name'' PNone)
         (AList.delete ''index_name'' final_args))"

definition keyspace_request ::
  "mgmt_env \<Rightarrow> string \<Rightarrow> pyval \<Rightarrow> pydict list \<Rightarrow> pydict \<Rightarrow> pydict res" where
  "keyspace_request m op_type bucket options kwargs =
     bindE (forward_args (mg_env m) kwargs options) (\<lambda>final_args.
       Inr (index_request m op_type
         (fold (put_given final_args) [''scope_name'', ''collection_name''] [(''bucket_name'', bucket)])
         kwargs final_args))"

definition Logic_get_all_indexes :: "mgmt_env \<Rightarrow> pyval \<Rightarrow> pydict list \<Rightarrow> pydict \<Rightarrow> pydict res" where
  "Logic_get_all_indexes m = keyspace_request m ''GET_ALL_INDEXES''"

definition Logic_build_deferred_indexes :: "mgmt_env \<Rightarrow> pyval \<Rightarrow> pydict list \<Rightarrow> pydict \<Rightarrow> pydict res" where
  "Logic_build_deferred_indexes m = keyspace_request m ''BUILD_DEFERRED_INDEXES''"

subsection \<open>Indexes\<close>

record query_index =
  qi_name :: pyval
  qi_is_primary :: bool
  qi_type :: pyval
  qi_state :: pyval
  qi_namespace :: pyval
  qi_datastore_id :: pyval
  qi_keyspace :: pyval
  qi_index_key :: pyval
  qi_condition :: pyval
  qi_bucket_name :: pyval
  qi_scope_name :: pyval
  qi_collection_name :: pyval
  qi_partition :: pyval

definition QueryIndex_from_server :: "pyval \<Rightarrow> query_index res" where
  "QueryIndex_from_server json_data =
     (case json_data of
        PDict d \<Rightarrow>
          let field = (\<lambda>k v. case map_of d (PStr k) of None \<Rightarrow> v | Some w \<Rightarrow> w);
              bucket = field ''bucket_name'' PNone;
              bucket = (if bucket = PNone then field ''keyspace_id'' PNone else bucket)
          in Inr \<lparr>qi_name = field ''name'' PNone, qi_is_primary = truthy (field ''is_primary'' PNone),
                qi_type = field ''type'' PNone, qi_state = field ''state'' PNone,
                qi_namespace = field ''namespace_id'' PNone, qi_datastore_id = field ''datastore_id'' PNone,
                qi_keyspace = field ''keyspace_id'' PNone, qi_index_key = field ''index_key'' (PList []),
                qi_condition = field ''condition'' PNone, qi_bucket_name = bucket,
                qi_scope_name = field ''scope_name'' PNone, qi_collection_name = field ''collection_name'' PNone,
                qi_partition = field ''partition'' PNone\<rparr>
      | _ \<Rightarrow> Inl AttributeError)"

definition get_all_query_indexes :: "pydict option \<Rightarrow> query_index list res" where
  "get_all_query_indexes = read_all ''indexes'' QueryIndex_from_server"

subsection \<open>The errors of the server\<close>

definition QueryIndex_ERROR_MAPPING :: err_mapping where
  "QueryIndex_ERROR_MAPPING =
     [([RStar, RClass [105, 73]] @ lit ''ndex'' @ [RStar] @ lit ''already exists'' @ [RStar],
         ''QueryIndexAlreadyExistsException''),
      ([RStar, RClass [105, 73]] @ lit ''ndex'' @ [RStar, RClass [110, 78]] @ lit ''ot '' @ [RClass [102, 70]]
         @ lit ''ound'' @ [RStar], ''QueryIndexNotFoundException'')]"

subsection \<open>QueryIndexManager\<close>

text \<open>
  \<open>fields\<close>, the old name of \<open>keys\<close>, replaces it before the call; a key that is given twice, or
  not at all, makes the call raise.
\<close>

definition bind_keys :: "pyval option \<Rightarrow> pydict \<Rightarrow> (pyval \<times> pydict) res" where
  "bind_keys keys kwargs =
     (let kwargs = (if dhas kwargs ''fields''
            then AList.update ''keys'' (dget kwargs ''fields'' PNone) (AList.delete ''fields'' kwargs) else kwargs)
      in case (keys, map_of kwargs ''keys'') of
           (None, None) \<Rightarrow> Inl TypeError
         | (Some k, None) \<Rightarrow> Inr (k, kwargs)
         | (None, Some k) \<Rightarrow> Inr (k, AList.delete ''keys'' kwargs)
         | (Some _, Some _) \<Rightarrow> Inl TypeError)"

definition is_sequence :: "pyval \<Rightarrow> bool" where
  "is_sequence v = (case v of PList _ \<Rightarrow> True | PTuple _ \<Rightarrow> True | _ \<Rightarrow> False)"

definition QIM_create_index_request ::
  "mgmt_env \<Rightarrow> pyval \<Rightarrow> pyval \<Rightarrow> pyval option \<Rightarrow> pydict list \<Rightarrow> pydict \<Rightarrow> pydict res" where
  "QIM_create_index_request m bucket index_name keys options kwargs =
     bindE (bind_keys keys kwargs) (\<lambda>(keys, kwargs).
       if \<not> is_str bucket then Inl InvalidArgumentException
       else if \<not> is_str index_name then Inl InvalidArgumentException
       else if \<not> is_sequence keys then Inl InvalidArgumentException
       else Logic_create_index m bucket index_name keys options kwargs)"

definition QIM_create_primary_index_request ::
  "mgmt_env \<Rightarrow> pyval \<Rightarrow> pydict list \<Rightarrow> pydict \<Rightarrow> pydict res" where
  "QIM_create_primary_index_request m bucket options kwargs =
     (if \<not> is_str bucket then Inl InvalidArgumentException
      else Logic_create_primary_index m bucket options kwargs)"

definition QIM_drop_index_request ::
  "mgmt_env \<Rightarrow> pyval \<Rightarrow> pyval \<Rightarrow> pydict list \<Rightarrow> pydict \<Rightarrow> pydict res" where
  "QIM_drop_index_request m bucket index_name options kwargs =
     (if \<not> is_str bucket then Inl InvalidArgumentException
      else if \<not> is_str index_name then Inl InvalidArgumentException
      else Logic_drop_index m bucket index_name options kwargs)"

definition QIM_drop_primary_index_request ::
  "mgmt_env \<Rightarrow> pyval \<Rightarrow> pydict list \<Rightarrow> pydict \<Rightarrow> pydict res" where
  "QIM_drop_primary_index_request m bucket options kwargs =
     (if \<not> is_str bucket then Inl InvalidArgumentException
      else Logic_drop_primary_index m bucket options kwargs)"

definition QIM_get_all_indexes_request ::
  "mgmt_env \<Rightarrow> pyval \<Rightarrow> pydict list \<Rightarrow> pydict \<Rightarrow> pydict res" where
  "QIM_get_all_indexes_request m bucket options kwargs =
     (if \<not> is_str bucket then Inl InvalidArgumentException
      else Logic_get_all_indexes m bucket options kwargs)"

definition QIM_build_deferred_indexes_request ::
  "mgmt_env \<Rightarrow> pyval \<Rightarrow> pydict list \<Rightarrow> pydict \<Rightarrow> pydict res" where
  "QIM_build_deferred_indexes_request m bucket options kwargs =
     (if \<not> is_str bucket then Inl InvalidArgumentException
      else Logic_build_deferred_indexes m bucket options kwargs)"

text \<open>The operations: a request inside \<open>block\<close>, and what it returns.\<close>

definition index_op :: "'w mgmt_core \<Rightarrow> pydict res \<Rightarrow> ('w, unit) action" where
  "index_op core request = mgmt_block core QueryIndex_ERROR_MAPPING no_result request"

definition list_indexes :: "'w mgmt_core \<Rightarrow> pydict res \<Rightarrow> ('w, query_index list) action" where
  "list_indexes core request = mgmt_block core QueryIndex_ERROR_MAPPING get_all_query_indexes request"

subsection \<open>CollectionQueryIndexManager\<close>

record collection_indexes =
  ci_mgmt :: mgmt_env
  ci_bucket :: pyval
  ci_scope :: pyval
  ci_collection :: pyval

definition option_of :: "pydict list \<Rightarrow> string \<Rightarrow> pyval" where
  "option_of options k = (case options of [] \<Rightarrow> PNone | d # _ \<Rightarrow> dget d k PNone)"

definition scoped_kwargs :: "collection_indexes \<Rightarrow> pydict list \<Rightarrow> pydict \<Rightarrow> pydict res" where
  "scoped_kwargs ci options kwargs =
     (if truthy (dget kwargs ''scope_name'' PNone) \<or> truthy (option_of options ''scope_name'')
      then Inl InvalidArgumentException
      else if truthy (dget kwargs ''collection_name'' PNone) \<or> truthy (option_of options ''collection_name'')
      then Inl InvalidArgumentException
      else Inr (AList.update ''collection_name'' (ci_collection ci) (AList.update ''scope_name'' (ci_scope ci) kwargs)))"

definition CQIM_create_index_request ::
  "collection_indexes \<Rightarrow> pyval \<Rightarrow> pyval option \<Rightarrow> pydict list \<Rightarrow> pydict \<Rightarrow> pydict res" where
  "CQIM_create_index_request ci index_name keys options kwargs =
     bindE (bind_keys keys kwargs) (\<lambda>(keys, kwargs).
       if \<not> is_str index_name then Inl InvalidArgumentException
       else if \<not> is_sequence keys then Inl InvalidArgumentException
       else bindE (scoped_kwargs ci options kwargs) (\<lambda>kwargs.
         Logic_create_index (ci_mgmt ci) (ci_bucket ci) index_name keys options kwargs))"

definition CQIM_create_primary_index_request ::
  "collection_indexes \<Rightarrow> pydict list \<Rightarrow> pydict \<Rightarrow> pydict res" where
  "CQIM_create_primary_index_request ci options kwargs =
     bindE (scoped_kwargs ci options kwargs) (\<lambda>kwargs.
       Logic_create_primary_index (ci_mgmt ci) (ci_bucket ci) options kwargs)"

definition CQIM_drop_index_request ::
  "collection_indexes \<Rightarrow> pyval \<Rightarrow> pydict list \<Rightarrow> pydict \<Rightarrow> pydict res" where
  "CQIM_drop_index_request ci index_name options kwargs =
     (if \<not> is_str index_name then Inl InvalidArgumentException
      else bindE (scoped_kwargs ci options kwargs) (\<lambda>kwargs.
        Logic_drop_index (ci_mgmt ci) (ci_bucket ci) index_name options kwargs))"

definition CQIM_drop_primary_index_request ::
  "collection_indexes \<Rightarrow> pydict list \<Rightarrow> pydict \<Rightarrow> pydict res" where
  "CQIM_drop_primary_index_request ci options kwargs =
     bindE (scoped_kwargs ci options kwargs) (\<lambda>kwargs.
       Logic_drop_primary_index (ci_mgmt ci) (ci_bucket ci) options kwargs)"

definition CQIM_get_all_indexes_request ::
  "collection_indexes \<Rightarrow> pydict list \<Rightarrow> pydict \<Rightarrow> pydict res" where
  "CQIM_get_all_indexes_request ci options kwargs =
     bindE (scoped_kwargs ci options kwargs) (\<lambda>kwargs.
       Logic_get_all_indexes (ci_mgmt ci) (ci_bucket ci) options kwargs)"

definition CQIM_build_deferred_indexes_request ::
  "collection_indexes \<Rightarrow> pydict list \<Rightarrow> pydict \<Rightarrow> pydict res" where
  "CQIM_build_deferred_indexes_request ci options kwargs =
     bindE (scoped_kwargs ci options kwargs) (\<lambda>kwargs.
       Logic_build_deferred_indexes (ci_mgmt ci) (ci_bucket ci) options kwargs)"

subsection \<open>Watching indexes\<close>

definition WatchQueryIndexTimeoutException :: exc where
  "WatchQueryIndexTimeoutException = SDKException ''WatchQueryIndexTimeoutException''"

definition QueryIndexNotFoundException :: exc where
  "QueryIndexNotFoundException = SDKException ''QueryIndexNotFoundException''"

definition online :: "query_index \<Rightarrow> bool" where
  "online i = py_eq (qi_state i) (PStr ''online'')"

fun check_indexes :: "pyval list \<Rightarrow> query_index list \<Rightarrow> bool res" where
  "check_indexes [] indexes = Inr (list_all online indexes)"
| "check_indexes (idx_name # index_names) indexes =
     (if list_ex (\<lambda>i. py_eq (qi_name i) idx_name) indexes then check_indexes index_names indexes
      else Inl QueryIndexNotFoundException)"

text \<open>
  The loop.  \<open>listing\<close> asks for the indexes with the time that is left as the timeout.  After an
  ambiguous timeout the listing of the round before is checked again; in the first round the
  variable is unbound.
\<close>

fun watch_loop ::
  "nat \<Rightarrow> 'w mgmt_core \<Rightarrow> (rat \<Rightarrow> ('w, query_index list) action) \<Rightarrow> pyval list \<Rightarrow> rat \<Rightarrow> rat \<Rightarrow> rat \<Rightarrow> rat
     \<Rightarrow> query_index list option \<Rightarrow> 'w \<Rightarrow> (unit res \<times> 'w) option" where
  "watch_loop 0 core listing index_names timeout_millis start interval_millis left indexes w = None"
| "watch_loop (Suc n) core listing index_names timeout_millis start interval_millis left indexes w =
     (case listing left w of (r, w) \<Rightarrow>
      case (case r of Inr ixs \<Rightarrow> Inr (Some ixs)
            | Inl e \<Rightarrow> if e = AmbiguousTimeoutException then Inr indexes else Inl e) of
        Inl e \<Rightarrow> Some (Inl e, w)
      | Inr None \<Rightarrow> Some (Inl UnboundLocalError, w)
      | Inr (Some ixs) \<Rightarrow>
         (case check_indexes index_names ixs of
            Inl e \<Rightarrow> Some (Inl e, w)
          | Inr all_online \<Rightarrow>
              if all_online then Some (Inr (), w)
              else case backoff (mc_clock core) (mc_sleep core) timeout_millis start interval_millis w of
                  (None, w) \<Rightarrow> Some (Inl WatchQueryIndexTimeoutException, w)
                | (Some (interval_millis, left), w) \<Rightarrow>
                    watch_loop n core listing index_names timeout_millis start interval_millis left
                      (Some ixs) w))"

definition millis_timedelta :: "rat \<Rightarrow> pyval" where
  "millis_timedelta ms = PTimedelta (round_half_even (ms * 1000))"

definition watch ::
  "nat \<Rightarrow> 'w mgmt_core \<Rightarrow> (rat \<Rightarrow> ('w, query_index list) action) \<Rightarrow> pyval list \<Rightarrow> int \<Rightarrow> 'w
     \<Rightarrow> (unit res \<times> 'w) option" where
  "watch fuel core listing index_names timeout w =
     (let timeout_millis = of_int timeout / 1000; (start, w) = mc_clock core w
      in watch_loop fuel core listing index_names timeout_millis start 50 timeout_millis None w)"

text \<open>\<open>index_names.append\<close> changes the list of the caller and fails on a tuple.\<close>

definition names_of :: "pyval \<Rightarrow> bool \<Rightarrow> pyval list res" where
  "names_of index_names watch_primary = (case index_names of
       PList xs \<Rightarrow> Inr (if watch_primary then xs @ [PStr ''#primary''] else xs)
     | PTuple xs \<Rightarrow> if watch_primary then Inl AttributeError else Inr xs
     | _ \<Rightarrow> Inl InvalidArgumentException)"

text \<open>The timeout is an integer of microseconds when the options are merged.\<close>

definition watch_timeout :: "pydict \<Rightarrow> int res" where
  "watch_timeout final_args = (case dget final_args ''timeout'' PNone of
       PInt us \<Rightarrow> if us = 0 then Inl InvalidArgumentException else Inr us
     | v \<Rightarrow> if truthy v then Inl TypeError else Inl InvalidArgumentException)"

definition listing_options :: "pydict \<Rightarrow> rat \<Rightarrow> pydict" where
  "listing_options final_args left =
     (let opts = [(''timeout'', millis_timedelta left)]; scope_name = dget final_args ''scope_name'' PNone
      in if truthy scope_name
         then AList.update ''collection_name'' (dget final_args ''collection_name'' PNone)
                (AList.update ''scope_name'' scope_name opts)
         else opts)"

definition QIM_watch_indexes ::
  "nat \<Rightarrow> mgmt_env \<Rightarrow> 'w mgmt_core \<Rightarrow> pyval \<Rightarrow> pyval \<Rightarrow> pydict list \<Rightarrow> pydict \<Rightarrow> 'w \<Rightarrow> (unit res \<times> 'w) option" where
  "QIM_watch_indexes fuel m core bucket index_names options kwargs w =
     (case (if \<not> is_str bucket then Inl InvalidArgumentException
            else if \<not> is_sequence index_names then Inl InvalidArgumentException
            else bindE (forward_args (mg_env m) kwargs options) (\<lambda>final_args.
              bindE (names_of index_names (truthy (dget final_args ''watch_primary'' (PBool False)))) (\<lambda>names.
              bindE (watch_timeout final_args) (\<lambda>timeout. Inr (final_args, names, timeout))))) of
        Inl e \<Rightarrow> Some (Inl e, w)
      | Inr (final_args, names, timeout) \<Rightarrow>
          watch fuel core (\<lambda>left. list_indexes core
              (QIM_get_all_indexes_request m bucket [listing_options final_args left] []))
            names timeout w)"

definition CQIM_watch_indexes ::
  "nat \<Rightarrow> collection_indexes \<Rightarrow> 'w mgmt_core \<Rightarrow> pyval \<Rightarrow> pydict list \<Rightarrow> pydict \<Rightarrow> 'w \<Rightarrow> (unit res \<times> 'w) option" where
  "CQIM_watch_indexes fuel ci core index_names options kwargs w =
     (case (if \<not> is_sequence index_names then Inl InvalidArgumentException
            else bindE (forward_args (mg_env (ci_mgmt ci)) kwargs options) (\<lambda>final_args.
              bindE (names_of index_names (truthy (dget final_args ''watch_primary'' (PBool False)))) (\<lambda>names.
              if truthy (dget final_args ''scope_name'' PNone) then Inl InvalidArgumentException
              else if truthy (dget final_args ''collection_name'' PNone) then Inl InvalidArgumentException
              else bindE (watch_timeout final_args) (\<lambda>timeout. Inr (names, timeout))))) of
        Inl e \<Rightarrow> Some (Inl e, w)
      | Inr (names, timeout) \<Rightarrow>
          watch fuel core (\<lambda>left. list_indexes core
              (CQIM_get_all_indexes_request ci [[(''timeout'', millis_timedelta left)]] []))
            names timeout w)"

subsection \<open>How a watch ends\<close>

lemma check_indexes_spec:
  "check_indexes names ixs =
     (if \<forall>n \<in> set names. \<exists>i \<in> set ixs. py_eq (qi_name i) n then Inr (\<forall>i \<in> set ixs. online i)
      else Inl QueryIndexNotFoundException)"
  by (induction names) (auto simp: list_ex_iff list_all_iff)

text \<open>What the end of a watch says about the last listing and about the clock.\<close>

definition watch_ended ::
  "'w mgmt_core \<Rightarrow> (rat \<Rightarrow> ('w, query_index list) action) \<Rightarrow> pyval list \<Rightarrow> rat \<Rightarrow> rat \<Rightarrow> unit res \<Rightarrow> 'w \<Rightarrow> bool" where
  "watch_ended core listing names T s r w' \<longleftrightarrow> (case r of
     Inr _ \<Rightarrow> \<exists>left w1 ixs. listing left w1 = (Inr ixs, w') \<and>
       (\<forall>n \<in> set names. \<exists>i \<in> set ixs. py_eq (qi_name i) n) \<and> (\<forall>i \<in> set ixs. online i)
   | Inl e \<Rightarrow>
       (e \<noteq> AmbiguousTimeoutException \<and> (\<exists>left w1. listing left w1 = (Inl e, w')))
     \<or> (e = QueryIndexNotFoundException \<and> (\<exists>left w1 ixs n. listing left w1 = (Inr ixs, w') \<and>
          n \<in> set names \<and> (\<forall>i \<in> set ixs. \<not> py_eq (qi_name i) n)))
     \<or> (e = WatchQueryIndexTimeoutException \<and> (\<exists>w1 now. mc_clock core w1 = (now, w') \<and> T \<le> (now - s) * 1000)))"

lemma watch_ended_listing_error:
  "listing left w1 = (Inl e, w') \<Longrightarrow> e \<noteq> AmbiguousTimeoutException \<Longrightarrow>
     watch_ended core listing names T s (Inl e) w'"
  by (auto simp: watch_ended_def)

lemma watch_ended_checked:
  "listing left w1 = (Inr ixs, w') \<Longrightarrow> check_indexes names ixs = Inr True \<Longrightarrow>
     watch_ended core listing names T s (Inr ()) w'"
  "listing left w1 = (Inr ixs, w') \<Longrightarrow> check_indexes names ixs = Inl e \<Longrightarrow>
     watch_ended core listing names T s (Inl e) w'"
  by (fastforce simp: watch_ended_def check_indexes_spec split: if_splits)+

lemma backoff_None:
  "backoff now_of pause T s i w = (None, w') \<Longrightarrow> \<exists>now. now_of w = (now, w') \<and> T \<le> (now - s) * 1000"
  by (cases "now_of w") (auto simp: backoff_def Let_def split: if_splits)

lemma watch_loop_outcome:
  assumes "watch_loop n core listing names T s i left old w = Some (r, w')"
    and "\<forall>ixs. old = Some ixs \<longrightarrow> check_indexes names ixs = Inr False"
  shows "watch_ended core listing names T s r w' \<or>
    (r = Inl UnboundLocalError \<and> old = None \<and> listing left w = (Inl AmbiguousTimeoutException, w'))"
  using assms
proof (induction n arbitrary: i left old w)
  case (Suc n)
  obtain r1 w1 where 1: "listing left w = (r1, w1)" by fastforce
  define seen where "seen = (case r1 of Inr ixs \<Rightarrow> Inr (Some ixs)
      | Inl e \<Rightarrow> if e = AmbiguousTimeoutException then Inr old else Inl e)"
  obtain o2 w2 where 2: "backoff (mc_clock core) (mc_sleep core) T s i w1 = (o2, w2)" by fastforce
  have run: "watch_loop (Suc n) core listing names T s i left old w = (case seen of
        Inl e \<Rightarrow> Some (Inl e, w1)
      | Inr None \<Rightarrow> Some (Inl UnboundLocalError, w1)
      | Inr (Some xs) \<Rightarrow> (case check_indexes names xs of
            Inl e \<Rightarrow> Some (Inl e, w1)
          | Inr all_online \<Rightarrow> if all_online then Some (Inr (), w1)
              else (case o2 of None \<Rightarrow> Some (Inl WatchQueryIndexTimeoutException, w2)
                | Some (i', left') \<Rightarrow> watch_loop n core listing names T s i' left' (Some xs) w2)))"
    unfolding watch_loop.simps 1 prod.case seen_def [symmetric]
    by (cases seen) (simp_all add: 2 split: option.split sum.split prod.split)
  note prem = Suc.prems(1) [unfolded run]
  have again: "watch_ended core listing names T s r w'"
    if "check_indexes names xs = Inr False" "(case o2 of None \<Rightarrow> Some (Inl WatchQueryIndexTimeoutException, w2)
                | Some (i', left') \<Rightarrow> watch_loop n core listing names T s i' left' (Some xs) w2) = Some (r, w')" for xs
  proof (cases o2)
    case None
    then show ?thesis using that(2) backoff_None 2 by (fastforce simp: watch_ended_def)
  next
    case (Some il)
    then show ?thesis using that Suc.IH [of "fst il" "snd il" "Some xs" w2] by (cases il) auto
  qed
  show ?case
  proof (cases r1)
    case (Inr xs)
    then have 1: "listing left w = (Inr xs, w1)" "seen = Inr (Some xs)" by (simp_all add: 1 seen_def)
    show ?thesis
    proof (cases "check_indexes names xs")
      case (Inl e)
      then show ?thesis using prem watch_ended_checked(2) [where listing = listing, OF 1(1)] by (auto simp: 1(2))
    next
      case (Inr all_online)
      then show ?thesis using prem watch_ended_checked(1) [where listing = listing, OF 1(1)] again [of xs]
        by (cases all_online) (simp_all add: run 1(2))
    qed
  next
    case (Inl e)
    show ?thesis
    proof (cases "e = AmbiguousTimeoutException")
      case True
      then show ?thesis using Inl prem Suc.prems(2) 1 again
          by (cases old) (simp_all add: run seen_def)
    next
      case False
      then show ?thesis using Inl prem 1 watch_ended_listing_error [of listing left w e w1]
        by (auto simp: seen_def)
    qed
  qed
qed simp

lemma watch_loop_returns:
  assumes "steady (mc_clock core) (mc_sleep core) time" "\<And>left w r w'. listing left w = (r, w') \<Longrightarrow> time w \<le> time w'"
    and "enough time T s n i w"
  shows "\<exists>r. watch_loop n core listing names T s i left old w = Some r"
  using assms(3)
proof (induction n arbitrary: i left old w)
  case (Suc n)
  obtain r1 w1 where 1: "listing left w = (r1, w1)" by fastforce
  have "\<exists>r. watch_loop n core listing names T s i' left' old' w2 = Some r"
    if "backoff (mc_clock core) (mc_sleep core) T s i w1 = (Some (i', left'), w2)" for i' left' old' w2
    using Suc.IH enough_next [OF assms(1) Suc.prems assms(2) [OF 1] that] by blast
  then show ?case by (auto simp: 1 split: sum.split option.split prod.split)
qed (simp add: enough_def)

lemma mgmt_block_time:
  "(\<And>q w. time w \<le> time (snd (mc_call core q w))) \<Longrightarrow> mgmt_block core em h q w = (r, w') \<Longrightarrow>
     (time w :: rat) \<le> time w'"
  unfolding mgmt_block_def by (auto split: sum.splits prod.splits) (metis snd_conv)+

text \<open>The listing that a watch of an \<open>QueryIndexManager\<close> asks for, and that of a collection's manager.\<close>

definition keyspace_listing ::
  "mgmt_env \<Rightarrow> 'w mgmt_core \<Rightarrow> pyval \<Rightarrow> pydict \<Rightarrow> rat \<Rightarrow> ('w, query_index list) action" where
  "keyspace_listing m core bucket final left =
     list_indexes core (QIM_get_all_indexes_request m bucket [listing_options final left] [])"

definition collection_listing ::
  "collection_indexes \<Rightarrow> 'w mgmt_core \<Rightarrow> rat \<Rightarrow> ('w, query_index list) action" where
  "collection_listing ci core left =
     list_indexes core (CQIM_get_all_indexes_request ci [[(''timeout'', millis_timedelta left)]] [])"

lemma listing_time:
  assumes "\<And>q w. (time w :: rat) \<le> time (snd (mc_call core q w))"
  shows "time w \<le> time (snd (keyspace_listing m core bucket final left w))"
    and "time w \<le> time (snd (collection_listing ci core left w))"
  unfolding keyspace_listing_def collection_listing_def list_indexes_def
  using mgmt_block_time [OF assms] by (metis prod.collapse)+

lemma watch_returns:
  assumes "steady (mc_clock core) (mc_sleep core) time"
    and "\<And>left w. time w \<le> time (snd (listing left w))"
    and "us \<le> 550000 * int n"
  shows "\<exists>r w'. watch (Suc n) core listing names us w = Some (r, w')"
proof -
  obtain start w0 where c: "mc_clock core w = (start, w0)" by fastforce
  then have "start = time w" "time w \<le> time w0"
    using assms(1) unfolding steady_def by (metis fst_conv, metis snd_conv)
  then have "time_left time (of_int us / 1000) start w0 \<le> of_int us / 1000" by (simp add: time_left_def)
  also have "\<dots> \<le> 550 * of_nat n"
  proof -
    have "(of_int us :: rat) \<le> of_int (550000 * int n)" using assms(3) by (simp only: of_int_le_iff)
    then show ?thesis by simp
  qed
  finally have "enough time (of_int us / 1000) start (Suc n) 50 w0" by (simp add: enough_def)
  moreover have "listing left w = (r, w') \<Longrightarrow> time w \<le> time w'" for left w r w'
    using assms(2) [of w left] by simp
  ultimately obtain rw where "watch_loop (Suc n) core listing names (of_int us / 1000) start 50 (of_int us / 1000)
      None w0 = Some rw" using watch_loop_returns [OF assms(1)] by blast
  then show ?thesis unfolding watch_def c Let_def prod.case by (cases rw) blast
qed

lemma QIM_watch_eq:
  assumes "forward_args (mg_env m) kwargs options = Inr final" "is_str bucket"
    and "names_of index_names (truthy (dget final ''watch_primary'' (PBool False))) = Inr names"
    and "watch_timeout final = Inr us"
  shows "QIM_watch_indexes n m core bucket index_names options kwargs w =
    watch n core (keyspace_listing m core bucket final) names us w"
proof -
  have "is_sequence index_names" using assms(3) by (cases index_names) (simp_all add: names_of_def is_sequence_def)
  then show ?thesis using assms by (simp add: QIM_watch_indexes_def keyspace_listing_def [abs_def])
qed

lemma watch_outcome:
  assumes "watch n core listing names us w = Some (r, w')" "mc_clock core w = (start, w0)"
  shows "watch_ended core listing names (of_int us / 1000) start r w' \<or>
    (r = Inl UnboundLocalError \<and> listing (of_int us / 1000) w0 = (Inl AmbiguousTimeoutException, w'))"
proof -
  have "watch_loop n core listing names (of_int us / 1000) start 50 (of_int us / 1000) None w0 = Some (r, w')"
    using assms(1) unfolding watch_def Let_def assms(2) prod.case .
  from watch_loop_outcome [OF this] show ?thesis by simp
qed

lemma CQIM_watch_eq:
  assumes "forward_args (mg_env (ci_mgmt ci)) kwargs options = Inr final"
    and "names_of index_names (truthy (dget final ''watch_primary'' (PBool False))) = Inr names"
    and "watch_timeout final = Inr us"
    and "\<not> truthy (dget final ''scope_name'' PNone)" "\<not> truthy (dget final ''collection_name'' PNone)"
  shows "CQIM_watch_indexes n ci core index_names options kwargs w = watch n core (collection_listing ci core) names us w"
proof -
  have "is_sequence index_names" using assms(2) by (cases index_names) (simp_all add: names_of_def is_sequence_def)
  then show ?thesis using assms by (simp add: CQIM_watch_indexes_def collection_listing_def [abs_def])
qed

lemma watch_at_once:
  assumes "mc_clock core w = (start, w0)" "listing (of_int us / 1000) w0 = (Inr ixs, w1)"
    and "\<forall>x \<in> set names. \<exists>i \<in> set ixs. py_eq (qi_name i) x" "\<forall>i \<in> set ixs. online i"
  shows "watch (Suc n) core listing names us w = Some (Inr (), w1)"
proof -
  have "check_indexes names ixs = Inr True" using assms(3,4) unfolding check_indexes_spec by simp
  then show ?thesis by (simp add: watch_def assms(1,2))
qed

lemma watch_never_ready:
  assumes "\<forall>left w. \<exists>ixs w'. listing left w = (Inr ixs, w') \<and>
      (\<forall>x \<in> set names. \<exists>i \<in> set ixs. py_eq (qi_name i) x) \<and> (\<exists>i \<in> set ixs. \<not> online i)"
    and "watch n core listing names us w = Some (r, w')"
  shows "r = Inl WatchQueryIndexTimeoutException"
proof -
  obtain start w0 where c: "mc_clock core w = (start, w0)" by fastforce
  have no: "listing left v \<noteq> (Inl e, v')" for left v e v' using assms(1) by (metis Inl_Inr_False prod.inject)
  have bad: "\<not> (\<forall>i \<in> set ixs. online i)" "\<forall>x \<in> set names. \<exists>i \<in> set ixs. py_eq (qi_name i) x"
    if "listing left v = (Inr ixs, v')" for left v ixs v'
    using assms(1) [rule_format, of left v] that by auto
  show ?thesis
  proof (cases r)
    case (Inr u)
    then show ?thesis using watch_outcome [OF assms(2) c] bad(1) by (simp add: watch_ended_def) meson
  next
    case (Inl e)
    have "\<not> (\<exists>left w1 ixs n. listing left w1 = (Inr ixs, w') \<and> n \<in> set names \<and>
        (\<forall>i \<in> set ixs. \<not> py_eq (qi_name i) n))" using bad(2) by meson
    then have "e = WatchQueryIndexTimeoutException"
      using watch_outcome [OF assms(2) c] no unfolding watch_ended_def Inl sum.case by blast
    then show ?thesis using Inl by simp
  qed
qed

subsection \<open>Properties\<close>

text \<open>C10. What the end of a watch means: it returns only when a listing names every watched index
  and all indexes of that listing, watched or not, are online; it reports the timeout only when
  the time is up, and a missing index only when a listing lacks a watched one; any other exception
  is that of a listing, except that an ambiguous timeout of the first one makes it raise
  \<open>UnboundLocalError\<close>.\<close>

theorem watch_indexes_outcome:
  assumes "QIM_watch_indexes n m core bucket index_names options kwargs w = Some (r, w')"
    and "forward_args (mg_env m) kwargs options = Inr final" "is_str bucket"
    and "names_of index_names (truthy (dget final ''watch_primary'' (PBool False))) = Inr names"
    and "watch_timeout final = Inr us" "mc_clock core w = (start, w0)"
  shows "case r of
      Inr _ \<Rightarrow> \<exists>left w1 ixs. keyspace_listing m core bucket final left w1 = (Inr ixs, w') \<and>
        (\<forall>n \<in> set names. \<exists>i \<in> set ixs. py_eq (qi_name i) n) \<and> (\<forall>i \<in> set ixs. online i)
    | Inl e \<Rightarrow>
        e \<noteq> AmbiguousTimeoutException \<and> (\<exists>left w1. keyspace_listing m core bucket final left w1 = (Inl e, w'))
      \<or> e = QueryIndexNotFoundException \<and> (\<exists>left w1 ixs n.
          keyspace_listing m core bucket final left w1 = (Inr ixs, w') \<and> n \<in> set names \<and>
          (\<forall>i \<in> set ixs. \<not> py_eq (qi_name i) n))
      \<or> e = WatchQueryIndexTimeoutException \<and>
          (\<exists>w1 now. mc_clock core w1 = (now, w') \<and> of_int us / 1000 \<le> (now - start) * 1000)
      \<or> e = UnboundLocalError \<and>
          keyspace_listing m core bucket final (of_int us / 1000) w0 = (Inl AmbiguousTimeoutException, w')"
  using watch_outcome [OF assms(1) [unfolded QIM_watch_eq [OF assms(2-5)]] assms(6)]
  unfolding watch_ended_def by (cases r) auto

text \<open>C9. A watch ends, for both managers: with a clock that does not run backwards, one listing for every 550
  milliseconds of the timeout and one more are enough.  It returns at once, after its first listing and
  without a pause, when that listing has every watched index and all its indexes are online; and it ends with the
  timeout when every listing has the watched indexes but also an index that is not online, be it a watched
  one or any other of the keyspace.\<close>

theorem watch_indexes_ends:
  assumes "steady (mc_clock core) (mc_sleep core) time" "\<And>q w. time w \<le> time (snd (mc_call core q w))"
    and "forward_args env kwargs options = Inr final"
    and "names_of index_names (truthy (dget final ''watch_primary'' (PBool False))) = Inr names"
    and "watch_timeout final = Inr us" "us \<le> 550000 * int n"
    and "run = QIM_watch_indexes (Suc n) m core bucket index_names options kwargs \<and>
        listing = keyspace_listing m core bucket final \<and> mg_env m = env \<and> is_str bucket
      \<or> run = CQIM_watch_indexes (Suc n) ci core index_names options kwargs \<and>
        listing = collection_listing ci core \<and> mg_env (ci_mgmt ci) = env \<and>
        \<not> truthy (dget final ''scope_name'' PNone) \<and> \<not> truthy (dget final ''collection_name'' PNone)"
  shows "\<exists>r w'. run w = Some (r, w') \<and>
    (\<forall>start w0 ixs w1. mc_clock core w = (start, w0) \<and> listing (of_int us / 1000) w0 = (Inr ixs, w1) \<and>
        (\<forall>x \<in> set names. \<exists>i \<in> set ixs. py_eq (qi_name i) x) \<and> (\<forall>i \<in> set ixs. online i) \<longrightarrow>
      r = Inr () \<and> w' = w1) \<and>
    ((\<forall>left w. \<exists>ixs w'. listing left w = (Inr ixs, w') \<and>
        (\<forall>x \<in> set names. \<exists>i \<in> set ixs. py_eq (qi_name i) x) \<and> (\<exists>i \<in> set ixs. \<not> online i)) \<longrightarrow>
      r = Inl WatchQueryIndexTimeoutException)"
proof -
  have run: "run w = watch (Suc n) core listing names us w"
    using assms(7) QIM_watch_eq [OF _ _ assms(4,5)] CQIM_watch_eq [OF _ assms(4,5)] assms(3) by auto
  have "time w \<le> time (snd (listing left w))" for left w
    using assms(7) listing_time [where time = time, OF assms(2)] by auto
  from watch_returns [where listing = listing, OF assms(1) this assms(6)] obtain r w' where
    r: "watch (Suc n) core listing names us w = Some (r, w')" by blast
  show ?thesis unfolding run
  proof (intro exI [of _ r] exI [of _ w'] conjI r allI impI; (elim conjE)?)
    fix start w0 ixs w1
    assume "mc_clock core w = (start, w0)" "listing (of_int us / 1000) w0 = (Inr ixs, w1)"
      "\<forall>x \<in> set names. \<exists>i \<in> set ixs. py_eq (qi_name i) x" "\<forall>i \<in> set ixs. online i"
    from watch_at_once [where listing = listing, OF this] r show "r = Inr ()" "w' = w1" by simp_all
  qed (rule watch_never_ready [where listing = listing, OF _ r])
qed

text \<open>A core with given indexes, for the witnesses; its world is the time in seconds.\<close>

definition index_entry :: "string \<times> string \<Rightarrow> pyval" where
  "index_entry ns = PDict [(PStr ''name'', PStr (fst ns)), (PStr ''state'', PStr (snd ns))]"

definition demo_core :: "(string \<times> string) list \<Rightarrow> rat mgmt_core" where
  "demo_core ixs = \<lparr>mc_call = (\<lambda>q w. (Inr (CoreValue [(''indexes'', PList (map index_entry ixs))]), w)),
     mc_floats = \<lparr>float_repr = (\<lambda>_. []), float_parse = (\<lambda>_. NaN)\<rparr>, mc_text = (\<lambda>_. []),
     mc_clock = (\<lambda>w. (w, w)), mc_sleep = (\<lambda>d w. w + d)\<rparr>"

lemma demo_listing:
  assumes "final = [(''timeout'', PInt us)]" "ixs \<noteq> []"
  shows "\<exists>xs. keyspace_listing demo_env (demo_core ixs) (PStr ''b'') final left w = (Inr xs, w) \<and>
    map (\<lambda>i. (qi_name i, qi_state i)) xs = map (\<lambda>(n, s). (PStr n, PStr s)) ixs"
proof -
  have "\<exists>t. timedelta_as_microseconds (millis_timedelta left) = Inr t"
    by (simp add: timedelta_as_microseconds_def millis_timedelta_def)
  then obtain q where q: "QIM_get_all_indexes_request demo_env (PStr ''b'') [listing_options final left] [] = Inr q"
    by (auto simp: QIM_get_all_indexes_request_def Logic_get_all_indexes_def keyspace_request_def listing_options_def
        assms(1) forward_args_def get_temp_opts_def nested_kwargs_def dupdate_def forward_step_def arg_mapping_def
        convert_option_def py_int_def demo_env_def dget_def)
  have "\<exists>xs. mapE QueryIndex_from_server (map index_entry ixs) = Inr xs \<and>
      map (\<lambda>i. (qi_name i, qi_state i)) xs = map (\<lambda>(n, s). (PStr n, PStr s)) ixs"
    by (induction ixs) (auto simp: QueryIndex_from_server_def index_entry_def Let_def)
  then show ?thesis using assms(2)
    by (auto simp: keyspace_listing_def list_indexes_def mgmt_block_def q demo_core_def mgmt_boundary_def
        handle_mgmt_response_def get_all_query_indexes_def read_all_def py_iter_def dget_def)
qed

lemma demo_options:
  "forward_args (mg_env demo_env) [(''timeout'', PTimedelta 1000000)] [] = Inr [(''timeout'', PInt 1000000)]"
  using td_micros_whole_seconds [of 1]
  by (simp add: forward_args_def get_temp_opts_def nested_kwargs_def dupdate_def forward_step_def arg_mapping_def
      convert_option_def py_simps py_int_def demo_env_def)

lemma watch_indexes_ends_witness:
  "(\<exists>w'. QIM_watch_indexes (Suc 2) demo_env (demo_core [(''i1'', ''deferred'')]) (PStr ''b'')
     (PList [PStr ''i1'']) [] [(''timeout'', PTimedelta 1000000)] 0 =
     Some (Inl WatchQueryIndexTimeoutException, w')) \<and>
   QIM_watch_indexes (Suc 2) demo_env (demo_core [(''i1'', ''online'')]) (PStr ''b'')
     (PList [PStr ''i1'']) [] [(''timeout'', PTimedelta 1000000)] 0 = Some (Inr (), 0)"
proof -
  let ?f = "[(''timeout'', PInt 1000000)]"
  let ?run = "\<lambda>core. QIM_watch_indexes (Suc 2) demo_env core (PStr ''b'') (PList [PStr ''i1'']) []
     [(''timeout'', PTimedelta 1000000)]"
  let ?wait = "demo_core [(''i1'', ''deferred'')]" and ?ready = "demo_core [(''i1'', ''online'')]"
  have st: "steady (mc_clock (demo_core is)) (mc_sleep (demo_core is)) (\<lambda>w. w)"
    and mono: "\<And>q w. w \<le> snd (mc_call (demo_core is) q w)" for "is"
    by (simp_all add: steady_def demo_core_def)
  have nm: "names_of (PList [PStr ''i1'']) (truthy (dget ?f ''watch_primary'' (PBool False))) = Inr [PStr ''i1'']"
    by (simp add: names_of_def)
  have tm: "watch_timeout ?f = Inr 1000000" by (simp add: watch_timeout_def)
  have le: "1000000 \<le> 550000 * int 2" by simp
  have entry: "\<exists>a. keyspace_listing demo_env (demo_core [(''i1'', s)]) (PStr ''b'') ?f left w = (Inr [a], w) \<and>
      qi_name a = PStr ''i1'' \<and> qi_state a = PStr s" for s left w
    using demo_listing [OF refl, of "[(''i1'', s)]" 1000000 left w] by (auto simp: map_eq_Cons_conv)
  have one: "?run core = QIM_watch_indexes (Suc 2) demo_env core (PStr ''b'') (PList [PStr ''i1'']) []
        [(''timeout'', PTimedelta 1000000)] \<and> keyspace_listing demo_env core (PStr ''b'') ?f =
        keyspace_listing demo_env core (PStr ''b'') ?f \<and> mg_env demo_env = mg_env demo_env \<and> is_str (PStr ''b'')"
    for core :: "rat mgmt_core" by simp
  have W: "\<exists>r w'. ?run (demo_core is) 0 = Some (r, w') \<and>
    (\<forall>start w0 ixs w1. mc_clock (demo_core is) 0 = (start, w0) \<and>
        keyspace_listing demo_env (demo_core is) (PStr ''b'') ?f (of_int 1000000 / 1000) w0 = (Inr ixs, w1) \<and>
        (\<forall>x \<in> set [PStr ''i1'']. \<exists>i \<in> set ixs. py_eq (qi_name i) x) \<and> (\<forall>i \<in> set ixs. online i) \<longrightarrow>
      r = Inr () \<and> w' = w1) \<and>
    ((\<forall>left w. \<exists>ixs w'. keyspace_listing demo_env (demo_core is) (PStr ''b'') ?f left w = (Inr ixs, w') \<and>
        (\<forall>x \<in> set [PStr ''i1'']. \<exists>i \<in> set ixs. py_eq (qi_name i) x) \<and> (\<exists>i \<in> set ixs. \<not> online i)) \<longrightarrow>
      r = Inl WatchQueryIndexTimeoutException)" for "is"
    by (rule watch_indexes_ends [OF st mono demo_options nm tm le disjI1 [OF one]])
  have never: "\<forall>left w. \<exists>ixs w'. keyspace_listing demo_env ?wait (PStr ''b'') ?f left w = (Inr ixs, w') \<and>
      (\<forall>x \<in> set [PStr ''i1'']. \<exists>i \<in> set ixs. py_eq (qi_name i) x) \<and> (\<exists>i \<in> set ixs. \<not> online i)"
    (is "\<forall>left w. ?P left w")
  proof (intro allI)
    show "?P left w" for left w using entry [of "''deferred''" left w] by (auto simp: online_def)
  qed
  then have "\<exists>w'. ?run ?wait 0 = Some (Inl WatchQueryIndexTimeoutException, w')"
    using W [of "[(''i1'', ''deferred'')]"] by blast
  moreover obtain a where a: "keyspace_listing demo_env ?ready (PStr ''b'') ?f (of_int 1000000 / 1000) 0 = (Inr [a], 0)"
    "qi_name a = PStr ''i1''" "online a"
    using entry [of "''online''" "of_int 1000000 / 1000" 0] by (auto simp: online_def)
  have "?run ?ready 0 = Some (Inr (), 0)"
  proof -
    have "mc_clock ?ready 0 = (0, 0)" by (simp add: demo_core_def)
    moreover have "\<forall>x \<in> set [PStr ''i1'']. \<exists>i \<in> set [a]. py_eq (qi_name i) x" "\<forall>i \<in> set [a]. online i"
      using a(2,3) by simp_all
    ultimately show ?thesis using W [of "[(''i1'', ''online'')]"] a(1) by blast
  qed
  ultimately show ?thesis by blast
qed

lemma watch_indexes_outcome_witness:
  "\<exists>w'. QIM_watch_indexes (Suc 0) demo_env (demo_core [(''i1'', ''online'')]) (PStr ''b'')
       (PList [PStr ''i1'']) [] [(''timeout'', PTimedelta 1000000)] 0 = Some (Inr (), w') \<and>
     (\<exists>left w1 ixs. keyspace_listing demo_env (demo_core [(''i1'', ''online'')]) (PStr ''b'')
        [(''timeout'', PInt 1000000)] left w1 = (Inr ixs, w') \<and> (\<exists>i \<in> set ixs. py_eq (qi_name i) (PStr ''i1'')))"
proof -
  let ?core = "demo_core [(''i1'', ''online'')]"
  let ?f = "[(''timeout'', PInt 1000000)]"
  have nm: "names_of (PList [PStr ''i1'']) (truthy (dget ?f ''watch_primary'' (PBool False))) = Inr [PStr ''i1'']"
    by (simp add: names_of_def)
  have tm: "watch_timeout ?f = Inr 1000000" by (simp add: watch_timeout_def)
  have b: "is_str (PStr ''b'')" by simp
  have c: "mc_clock ?core 0 = (0, 0)" by (simp add: demo_core_def)
  obtain xs where xs: "keyspace_listing demo_env ?core (PStr ''b'') ?f 1000 0 = (Inr xs, 0)"
    "map (\<lambda>i. (qi_name i, qi_state i)) xs = map (\<lambda>(n, s). (PStr n, PStr s)) [(''i1'', ''online'')]"
    using demo_listing [OF refl, of "[(''i1'', ''online'')]" 1000000 1000 0] by auto
  then have "check_indexes [PStr ''i1''] xs = Inr True" by (auto simp: map_eq_Cons_conv online_def)
  then have r: "QIM_watch_indexes (Suc 0) demo_env ?core (PStr ''b'') (PList [PStr ''i1'']) []
       [(''timeout'', PTimedelta 1000000)] 0 = Some (Inr (), 0)"
    unfolding QIM_watch_eq [OF demo_options b nm tm] by (simp add: watch_def c xs(1) del: check_indexes.simps)
  from watch_indexes_outcome [OF r demo_options b nm tm c] show ?thesis using r by auto
qed

subsection \<open>Requests of a collection's manager\<close>

datatype index_command = CreateIndex pyval "pyval option" | CreatePrimaryIndex | DropIndex pyval
  | DropPrimaryIndex | GetAllIndexes | BuildDeferredIndexes

fun collection_index_request ::
  "collection_indexes \<Rightarrow> index_command \<Rightarrow> pydict list \<Rightarrow> pydict \<Rightarrow> pydict res" where
  "collection_index_request ci (CreateIndex name keys) = CQIM_create_index_request ci name keys"
| "collection_index_request ci CreatePrimaryIndex = CQIM_create_primary_index_request ci"
| "collection_index_request ci (DropIndex name) = CQIM_drop_index_request ci name"
| "collection_index_request ci DropPrimaryIndex = CQIM_drop_primary_index_request ci"
| "collection_index_request ci GetAllIndexes = CQIM_get_all_indexes_request ci"
| "collection_index_request ci BuildDeferredIndexes = CQIM_build_deferred_indexes_request ci"

lemma index_request_args:
  "map_of (index_request m op_type op_args kwargs final) ''op_args'' = Some (pdict op_args)"
  by (simp add: index_request_def mgmt_request_def map_of_add_timeout take_handlers_simps mgmt_kwargs_def)

text \<open>The arguments of a request that name its keyspace.\<close>

definition in_keyspace :: "pyval \<Rightarrow> pyval \<Rightarrow> pyval \<Rightarrow> pydict \<Rightarrow> bool" where
  "in_keyspace bucket scope collection req \<longleftrightarrow> (\<exists>op_args. map_of req ''op_args'' = Some (pdict op_args) \<and>
     map_of op_args ''bucket_name'' = Some bucket \<and> map_of op_args ''scope_name'' = Some scope \<and>
     map_of op_args ''collection_name'' = Some collection)"

lemma create_in_keyspace:
  assumes "create_index_request m bucket keys name kw = Inr req"
    and "map_of kw ''scope_name'' = Some s" "map_of kw ''collection_name'' = Some c" "s \<noteq> PNone" "c \<noteq> PNone"
  shows "in_keyspace bucket s c req"
  using assms
  by (auto simp: in_keyspace_def create_index_request_def no_clash_def parse_create_index_args_def bindE_eq_Inr
      index_request_args map_of_put_given dget_def dict_simps Let_def split: if_splits)

lemma drop_in_keyspace:
  assumes "drop_index_request m bucket name kw = Inr req"
    and "map_of kw ''scope_name'' = Some s" "map_of kw ''collection_name'' = Some c" "s \<noteq> PNone" "c \<noteq> PNone"
  shows "in_keyspace bucket s c req"
  using assms
  by (auto simp: in_keyspace_def drop_index_request_def no_clash_def bindE_eq_Inr
      index_request_args map_of_put_given dget_def dict_simps Let_def split: if_splits)

lemma wf_args_update: "wf_args kwargs options \<Longrightarrow> k \<noteq> ''kwargs'' \<Longrightarrow> wf_args (AList.update k v kwargs) options"
  by (simp add: wf_args_def distinct_keys_update dict_simps)

lemma wf_args_delete: "wf_args kwargs options \<Longrightarrow> wf_args (AList.delete k kwargs) options"
  by (simp add: wf_args_def distinct_keys_delete dict_simps)

lemma bind_keys_wf:
  "bind_keys keys kwargs = Inr (ks, kw) \<Longrightarrow> wf_args kwargs options \<Longrightarrow> wf_args kw options"
  by (auto simp: bind_keys_def Let_def split: option.splits if_splits intro!: wf_args_update wf_args_delete)

lemma scoped_final:
  assumes "scoped_kwargs ci options kwargs = Inr kw" "wf_args kwargs options"
    and "forward_args env (if primary then AList.update ''primary'' (PBool True) kw else kw) options = Inr final"
  shows "map_of final ''scope_name'' = Some (ci_scope ci)" "map_of final ''collection_name'' = Some (ci_collection ci)"
proof -
  let ?kw = "if primary then AList.update ''primary'' (PBool True) kw else kw"
  have kw: "map_of ?kw ''scope_name'' = Some (ci_scope ci)" "map_of ?kw ''collection_name'' = Some (ci_collection ci)"
    "wf_args ?kw options"
    using assms(1,2) by (auto simp: scoped_kwargs_def dict_simps wf_args_update split: if_splits)
  show "map_of final ''scope_name'' = Some (ci_scope ci)" "map_of final ''collection_name'' = Some (ci_collection ci)"
    using forward_args_foreign [OF kw(3) _ _ assms(3)] kw(1,2)
    by (simp_all add: arg_mapping_def merged_opt_def)
qed

lemmas scoped_final_plain = scoped_final [where primary = False, unfolded if_False]
lemmas scoped_final_primary = scoped_final [where primary = True, unfolded if_True]

lemma keyspace_request_in:
  assumes "scoped_kwargs ci options kwargs = Inr kw" "wf_args kwargs options"
    and "keyspace_request m op bucket kw2 kw = Inr req" "kw2 = options"
    and "ci_scope ci \<noteq> PNone" "ci_collection ci \<noteq> PNone"
  shows "in_keyspace bucket (ci_scope ci) (ci_collection ci) req"
proof -
  obtain final where f: "forward_args (mg_env m) kw options = Inr final"
    and req: "req = index_request m op (fold (put_given final) [''scope_name'', ''collection_name''] [(''bucket_name'', bucket)]) kw final"
    using assms(3,4) by (auto simp: keyspace_request_def bindE_eq_Inr)
  show ?thesis using scoped_final_plain [OF assms(1,2) f] assms(5,6)
    unfolding req in_keyspace_def index_request_args
    by (intro exI [of _ "fold (put_given final) [''scope_name'', ''collection_name''] [(''bucket_name'', bucket)]"])
      (simp add: map_of_put_given dget_def)
qed

lemma collection_request_in_keyspace:
  assumes "collection_index_request ci c options kwargs = Inr req" "wf_args kwargs options"
    and "ci_scope ci \<noteq> PNone" "ci_collection ci \<noteq> PNone"
  shows "in_keyspace (ci_bucket ci) (ci_scope ci) (ci_collection ci) req"
proof (cases c)
  case (CreateIndex name keys)
  then obtain ks kwargs1 kw1 final where f: "bind_keys keys kwargs = Inr (ks, kwargs1)" "scoped_kwargs ci options kwargs1 = Inr kw1"
    "forward_args (mg_env (ci_mgmt ci)) kw1 options = Inr final"
    "create_index_request (ci_mgmt ci) (ci_bucket ci) ks name final = Inr req"
    using assms(1) by (auto simp: CQIM_create_index_request_def Logic_create_index_def bindE_eq_Inr split: if_splits)
  show ?thesis using create_in_keyspace [OF f(4)] assms(3,4)
      scoped_final_plain [OF f(2) bind_keys_wf [OF f(1) assms(2)] f(3)] by simp
next
  case CreatePrimaryIndex
  then obtain kw1 final where f: "scoped_kwargs ci options kwargs = Inr kw1"
    "forward_args (mg_env (ci_mgmt ci)) (AList.update ''primary'' (PBool True) kw1) options = Inr final"
    "create_index_request (ci_mgmt ci) (ci_bucket ci) (PList []) (dget final ''index_name'' PNone)
       (AList.delete ''index_name'' final) = Inr req"
    using assms(1) by (auto simp: CQIM_create_primary_index_request_def Logic_create_primary_index_def bindE_eq_Inr)
  show ?thesis using create_in_keyspace [OF f(3)] scoped_final_primary [OF f(1) assms(2) f(2)] assms(3,4)
    by (simp add: dict_simps)
next
  case (DropIndex name)
  then obtain kw1 final where f: "scoped_kwargs ci options kwargs = Inr kw1"
    "forward_args (mg_env (ci_mgmt ci)) kw1 options = Inr final"
    "drop_index_request (ci_mgmt ci) (ci_bucket ci) name final = Inr req"
    using assms(1) by (auto simp: CQIM_drop_index_request_def Logic_drop_index_def bindE_eq_Inr split: if_splits)
  show ?thesis using drop_in_keyspace [OF f(3)] scoped_final_plain [OF f(1) assms(2) f(2)] assms(3,4) by simp
next
  case DropPrimaryIndex
  then obtain kw1 final where f: "scoped_kwargs ci options kwargs = Inr kw1"
    "forward_args (mg_env (ci_mgmt ci)) (AList.update ''primary'' (PBool True) kw1) options = Inr final"
    "drop_index_request (ci_mgmt ci) (ci_bucket ci) (dget final ''index_name'' PNone)
       (AList.delete ''index_name'' final) = Inr req"
    using assms(1) by (auto simp: CQIM_drop_primary_index_request_def Logic_drop_primary_index_def bindE_eq_Inr)
  show ?thesis using drop_in_keyspace [OF f(3)] scoped_final_primary [OF f(1) assms(2) f(2)] assms(3,4)
    by (simp add: dict_simps)
next
  case GetAllIndexes
  then show ?thesis using assms keyspace_request_in
    by (auto simp: CQIM_get_all_indexes_request_def Logic_get_all_indexes_def bindE_eq_Inr)
next
  case BuildDeferredIndexes
  then show ?thesis using assms keyspace_request_in
    by (auto simp: CQIM_build_deferred_indexes_request_def Logic_build_deferred_indexes_def bindE_eq_Inr)
qed

text \<open>C18. Every request of a collection's index manager names the manager's own bucket, scope and
  collection: options that name another scope or collection are refused, and whatever else
  the caller passes does not change them.\<close>

theorem collection_requests_stay_in_collection:
  assumes "collection_index_request ci c options kwargs = Inr req" "wf_args kwargs options"
    and "ci_scope ci \<noteq> PNone" "ci_collection ci \<noteq> PNone"
  shows "(\<exists>op_args. map_of req ''op_args'' = Some (pdict op_args) \<and>
      map_of op_args ''bucket_name'' = Some (ci_bucket ci) \<and>
      map_of op_args ''scope_name'' = Some (ci_scope ci) \<and>
      map_of op_args ''collection_name'' = Some (ci_collection ci)) \<and>
    \<not> truthy (option_of options ''scope_name'') \<and> \<not> truthy (option_of options ''collection_name'')"
proof -
  obtain kwargs' kw where kw: "scoped_kwargs ci options kwargs' = Inr kw" "wf_args kwargs' options"
    using assms(1,2) bind_keys_wf by (cases c) (auto simp: CQIM_create_index_request_def
        CQIM_create_primary_index_request_def CQIM_drop_index_request_def CQIM_drop_primary_index_request_def
        CQIM_get_all_indexes_request_def CQIM_build_deferred_indexes_request_def bindE_eq_Inr split: if_splits)
  from collection_request_in_keyspace [OF assms]
  show ?thesis using kw(1) by (auto simp: in_keyspace_def scoped_kwargs_def split: if_splits)
qed

definition demo_indexes :: collection_indexes where
  "demo_indexes = \<lparr>ci_mgmt = demo_env, ci_bucket = PStr ''b'', ci_scope = PStr ''s'', ci_collection = PStr ''c''\<rparr>"

lemma collection_requests_witness:
  "\<exists>req op_args. collection_index_request demo_indexes (CreateIndex (PStr ''i'') (Some (PList [PStr ''f'']))) []
       [(''scope_name'', PStr '''')] = Inr req \<and>
     map_of req ''op_args'' = Some (pdict op_args) \<and> map_of op_args ''scope_name'' = Some (PStr ''s'')"
proof -
  let ?c = "CreateIndex (PStr ''i'') (Some (PList [PStr ''f'']))"
  let ?kw = "[(''scope_name'', PStr '''')]"
  obtain req where r: "collection_index_request demo_indexes ?c [] ?kw = Inr req"
    by (simp add: CQIM_create_index_request_def bind_keys_def is_sequence_def scoped_kwargs_def option_of_def
        demo_indexes_def demo_env_def Logic_create_index_def forward_args_def get_temp_opts_def nested_kwargs_def dupdate_def
        forward_step_def arg_mapping_def create_index_request_def no_clash_def parse_create_index_args_def
        list_of_keys_def dget_def dhas_def)
  have wf: "wf_args ?kw []" by (simp add: wf_args_def)
  from collection_requests_stay_in_collection [OF r wf] r show ?thesis
    by (auto simp: demo_indexes_def)
qed

end
