(* ===== verification/Collections_Mgmt.thy ===== *)
theory Collections_Mgmt
  imports Mgmt_Base
begin

text \<open>
  Scopes and collections: \<open>couchbase/management/logic/collections_logic.py\<close>, the overloads of
  \<open>couchbase/management/collections.py\<close> (with \<open>Overload.__call__\<close> of \<open>couchbase/_utils.py\<close>, which picks
  them), the reading of \<open>get_all_scopes\<close> in \<open>couchbase/management/logic/wrappers.py\<close>, and the conversions
  of a collection's settings in the extension module, \<open>src/management/collection_management.cxx\<close>.
\<close>

subsection \<open>Settings and specs\<close>

text \<open>\<open>CreateCollectionSettings\<close> and \<open>UpdateCollectionSettings\<close> have the same fields.\<close>

record collection_settings =
  cs_max_expiry :: pyval
  cs_history :: pyval

record collection_spec =
  sp_name :: pyval
  sp_scope_name :: pyval
  sp_max_expiry :: pyval
  sp_history :: pyval

record scope_spec =
  sc_name :: pyval
  sc_collections :: "collection_spec list"

definition CollectionSpec_init :: "pyval \<Rightarrow> pyval \<Rightarrow> pyval \<Rightarrow> pyval \<Rightarrow> pyval \<Rightarrow> collection_spec" where
  "CollectionSpec_init collection_name scope_name max_expiry max_ttl history =
     \<lparr>sp_name = collection_name, sp_scope_name = scope_name,
       sp_max_expiry = (if max_ttl \<noteq> PNone \<and> max_expiry = PNone then max_ttl else max_expiry),
       sp_history = history\<rparr>"

subsection \<open>Requests\<close>

record collection_manager =
  cm_mgmt :: mgmt_env
  cm_bucket :: pyval

definition collection_request ::
  "collection_manager \<Rightarrow> string \<Rightarrow> pydict \<Rightarrow> pydict list \<Rightarrow> pydict \<Rightarrow> pydict res" where
  "collection_request cm op_type op_args options kwargs =
     (let (kwargs', req) = take_handlers kwargs
            (mgmt_kwargs (cm_mgmt cm) ''COLLECTION'' ''collection_mgmt_operations'' op_type
               @ [(''op_args'', pdict op_args)])
      in finish_request (cm_mgmt cm) kwargs' options req)"

definition scope_args :: "collection_manager \<Rightarrow> pyval \<Rightarrow> pydict" where
  "scope_args cm scope = [(''bucket_name'', cm_bucket cm), (''scope_name'', scope)]"

definition collection_args :: "collection_manager \<Rightarrow> pyval \<Rightarrow> pyval \<Rightarrow> pydict" where
  "collection_args cm scope name = scope_args cm scope @ [(''collection_name'', name)]"

text \<open>\<open>int(settings.max_expiry.total_seconds())\<close>\<close>

definition expiry_seconds :: "pyval \<Rightarrow> pyval res" where
  "expiry_seconds v = (case v of
       PTimedelta us \<Rightarrow> Inr (PInt (py_trunc (total_seconds us))) | _ \<Rightarrow> Inl AttributeError)"

definition settings_args :: "collection_settings \<Rightarrow> pydict \<Rightarrow> pydict res" where
  "settings_args settings op_args =
     bindE (if cs_max_expiry settings \<noteq> PNone
            then bindE (expiry_seconds (cs_max_expiry settings)) (\<lambda>s. Inr (AList.update ''max_expiry'' s op_args))
            else Inr op_args) (\<lambda>op_args.
       Inr (if cs_history settings \<noteq> PNone then AList.update ''history'' (cs_history settings) op_args else op_args))"

definition create_scope :: "collection_manager \<Rightarrow> pyval \<Rightarrow> pydict list \<Rightarrow> pydict \<Rightarrow> pydict res" where
  "create_scope cm scope = collection_request cm ''CREATE_SCOPE'' (scope_args cm scope)"

definition drop_scope :: "collection_manager \<Rightarrow> pyval \<Rightarrow> pydict list \<Rightarrow> pydict \<Rightarrow> pydict res" where
  "drop_scope cm scope = collection_request cm ''DROP_SCOPE'' (scope_args cm scope)"

definition get_all_scopes_request :: "collection_manager \<Rightarrow> pydict list \<Rightarrow> pydict \<Rightarrow> pydict res" where
  "get_all_scopes_request cm = collection_request cm ''GET_ALL_SCOPES'' [(''bucket_name'', cm_bucket cm)]"


definition Logic_drop_collection ::
  "collection_manager \<Rightarrow> pyval \<Rightarrow> pyval \<Rightarrow> pydict list \<Rightarrow> pydict \<Rightarrow> pydict res" where
  "Logic_drop_collection cm scope name = collection_request cm ''DROP_COLLECTION'' (collection_args cm scope name)"

definition update_collection ::
  "collection_manager \<Rightarrow> pyval \<Rightarrow> pyval \<Rightarrow> collection_settings \<Rightarrow> pydict list \<Rightarrow> pydict \<Rightarrow> pydict res" where
  "update_collection cm scope name settings options kwargs =
     bindE (settings_args settings (collection_args cm scope name)) (\<lambda>op_args.
       collection_request cm ''UPDATE_COLLECTION'' op_args options kwargs)"

subsection \<open>Overloads\<close>

text \<open>
  The positional arguments of a call.  \<open>Overload.__call__\<close> takes the overload for a \<open>CollectionSpec\<close>
  when the first of them is one, and otherwise the default.
\<close>

datatype arg = Val pyval | Spec collection_spec | Settings collection_settings | Options pydict

definition option_args :: "arg list \<Rightarrow> pydict list res" where
  "option_args args = (case args of
       [] \<Rightarrow> Inr []
     | Options d # _ \<Rightarrow> Inr [d]
     | Val v # _ \<Rightarrow> if truthy v then Inl AttributeError else Inr []
     | _ \<Rightarrow> Inl AttributeError)"


fun drop_collection :: "collection_manager \<Rightarrow> arg list \<Rightarrow> pydict \<Rightarrow> pydict res" where
  "drop_collection cm (Spec s # args) kwargs =
     bindE (option_args args) (\<lambda>options. Logic_drop_collection cm (sp_scope_name s) (sp_name s) options kwargs)"
| "drop_collection cm (Val scope # Val name # args) kwargs =
     bindE (option_args args) (\<lambda>options. Logic_drop_collection cm scope name options kwargs)"
| "drop_collection cm args kwargs = Inl TypeError"

subsection \<open>Reading all scopes\<close>

definition read_collection :: "pyval \<Rightarrow> collection_spec res" where
  "read_collection c =
     bindE (item c ''name'') (\<lambda>name. bindE (item c ''scope_name'') (\<lambda>scope.
     bindE (bindE (item c ''max_expiry'') seconds_timedelta) (\<lambda>expiry.
       Inr (CollectionSpec_init name scope expiry PNone (item_or_none c ''history'')))))"

definition read_scope :: "pyval \<Rightarrow> scope_spec res" where
  "read_scope s =
     bindE (item s ''name'') (\<lambda>name. bindE (item s ''collections'') (\<lambda>cs. case cs of
         PList xs \<Rightarrow> bindE (mapE read_collection xs) (\<lambda>cs. Inr \<lparr>sc_name = name, sc_collections = cs\<rparr>)
       | _ \<Rightarrow> Inl TypeError))"

definition get_all_scopes :: "pydict \<Rightarrow> scope_spec list res" where
  "get_all_scopes raw_result =
     (let raw_scopes = dget raw_result ''scopes'' PNone
      in if \<not> truthy raw_scopes then Inr []
         else case raw_scopes of PList ss \<Rightarrow> mapE read_scope ss | _ \<Rightarrow> Inl TypeError)"

subsection \<open>The extension module\<close>








subsection \<open>Properties\<close>



text \<open>The signed 32-bit number that an expiry becomes.\<close>

definition signed32 :: "int \<Rightarrow> int" where
  "signed32 s = sint (word_of_int s :: 32 word)"


lemma signed32_range: "- (2 ^ 31) \<le> signed32 s" "signed32 s < 2 ^ 31"
  using sint_ge [of "word_of_int s :: 32 word"] sint_lt [of "word_of_int s :: 32 word"]
  by (simp_all add: signed32_def)




end
