(* ===== verification/Collection_Containers.thy ===== *)
theory Collection_Containers
  imports Retry_Loops "HOL-Library.Sublist"
begin

text \<open>
  The deprecated container methods of \<open>couchbase/collection.py\<close> (\<open>list_append\<close> to
  \<open>queue_size\<close>) and their decorator \<open>BlockingWrapper._dsop\<close>, over the collection of \<open>Datastructures\<close>.
  Of their keyword arguments the model keeps \<open>create\<close> and \<open>cas\<close>; the others only go through
  to the collection.  \<open>create\<close> counts only when it is passed by keyword, as the decorator reads it
  from there.  The loops of \<open>set_remove\<close> and \<open>queue_pop\<close> have no time limit: they take fuel.
\<close>

datatype create_type = Create_list | Create_dict

definition insert_empty :: "'w collection \<Rightarrow> string \<Rightarrow> create_type option \<Rightarrow> ('w, unit) action" where
  "insert_empty col key create_type = (case create_type of
       Some Create_list \<Rightarrow> c_insert col key (PList [])
     | Some Create_dict \<Rightarrow> c_insert col key (PDict [])
     | None \<Rightarrow> returnA ())"

definition dsop ::
  "'w collection \<Rightarrow> string \<Rightarrow> create_type option \<Rightarrow> bool \<Rightarrow> ('w, 'a) action \<Rightarrow> ('w, 'a) action" where
  "dsop col key create_type create fn w = (case fn w of
       (Inr x, w) \<Rightarrow> (Inr x, w)
     | (Inl e, w) \<Rightarrow>
         if e = DocumentNotFoundException
         then (if create
               then bindA (catchA (insert_empty col key create_type) DocumentExistsException (returnA ())) (\<lambda>_. fn) w
               else (Inl e, w))
         else if e = PathNotFoundException then (Inl IndexError, w)
         else (Inl e, w))"

definition list_append :: "'w collection \<Rightarrow> string \<Rightarrow> pyval \<Rightarrow> bool \<Rightarrow> int option \<Rightarrow> ('w, unit) action" where
  "list_append col key value create cas = dsop col key (Some Create_list) create
     (c_mutate_in col key [SD_array_append '''' [value] False False] cas)"

definition list_prepend :: "'w collection \<Rightarrow> string \<Rightarrow> pyval \<Rightarrow> bool \<Rightarrow> int option \<Rightarrow> ('w, unit) action" where
  "list_prepend col key value create cas = dsop col key (Some Create_list) create
     (c_mutate_in col key [SD_array_prepend '''' [value] False False] cas)"

definition list_set :: "'w collection \<Rightarrow> string \<Rightarrow> int \<Rightarrow> pyval \<Rightarrow> bool \<Rightarrow> int option \<Rightarrow> ('w, unit) action" where
  "list_set col key index value create cas = dsop col key None create
     (c_mutate_in col key [SD_replace (elem_path index) value False] cas)"

definition list_get :: "'w collection \<Rightarrow> string \<Rightarrow> int \<Rightarrow> bool \<Rightarrow> ('w, pyval) action" where
  "list_get col key index create = dsop col key None create
     (lookup_first col key (SD_get (elem_path index) False))"

definition list_remove :: "'w collection \<Rightarrow> string \<Rightarrow> int \<Rightarrow> bool \<Rightarrow> int option \<Rightarrow> ('w, unit) action" where
  "list_remove col key index create cas = dsop col key None create
     (c_mutate_in col key [SD_remove (elem_path index) False] cas)"

definition list_size :: "'w collection \<Rightarrow> string \<Rightarrow> bool \<Rightarrow> ('w, pyval) action" where
  "list_size col key create = dsop col key None create (lookup_first col key (SD_count '''' False))"

definition map_add :: "'w collection \<Rightarrow> string \<Rightarrow> string \<Rightarrow> pyval \<Rightarrow> bool \<Rightarrow> int option \<Rightarrow> ('w, unit) action" where
  "map_add col key mapkey value create cas = dsop col key (Some Create_dict) create
     (c_mutate_in col key [SD_upsert mapkey value False False] cas)"

definition map_get :: "'w collection \<Rightarrow> string \<Rightarrow> string \<Rightarrow> bool \<Rightarrow> ('w, pyval) action" where
  "map_get col key mapkey create = dsop col key None create (lookup_first col key (SD_get mapkey False))"

definition map_remove :: "'w collection \<Rightarrow> string \<Rightarrow> string \<Rightarrow> bool \<Rightarrow> int option \<Rightarrow> ('w, unit) action" where
  "map_remove col key mapkey create cas = dsop col key None create
     (c_mutate_in col key [SD_remove mapkey False] cas)"

definition map_size :: "'w collection \<Rightarrow> string \<Rightarrow> bool \<Rightarrow> ('w, pyval) action" where
  "map_size col key create = dsop col key None create (lookup_first col key (SD_count '''' False))"

definition set_add :: "'w collection \<Rightarrow> string \<Rightarrow> pyval \<Rightarrow> bool \<Rightarrow> int option \<Rightarrow> ('w, unit) action" where
  "set_add col key value create cas = dsop col key (Some Create_list) create
     (catchA (c_mutate_in col key [SD_array_addunique '''' value False False] cas)
       PathExistsException (returnA ()))"

text \<open>\<open>v.index(value)\<close> (\<open>None\<close> stands for its \<open>ValueError\<close>) and \<open>value in v\<close>.\<close>

definition index_in :: "pyval \<Rightarrow> pyval \<Rightarrow> nat option res" where
  "index_in value v = (case v of
       PList xs \<Rightarrow> Inr (py_index value xs)
     | PTuple xs \<Rightarrow> Inr (py_index value xs)
     | PStr s \<Rightarrow> (case value of
           PStr t \<Rightarrow> Inr (find (\<lambda>i. prefix t (drop i s)) [0..<Suc (length s)])
         | _ \<Rightarrow> Inl TypeError)
     | _ \<Rightarrow> Inl AttributeError)"

definition contains :: "pyval \<Rightarrow> pyval \<Rightarrow> bool res" where
  "contains value v = (case v of
       PStr s \<Rightarrow> (case value of PStr t \<Rightarrow> Inr (sublist t s) | _ \<Rightarrow> Inl TypeError)
     | _ \<Rightarrow> bindE (as_list v) (\<lambda>xs. Inr (py_in value xs)))"

text \<open>\<open>set_remove\<close> tries again only on \<open>DocumentExistsException\<close>.\<close>

fun set_remove_loop :: "nat \<Rightarrow> 'w collection \<Rightarrow> string \<Rightarrow> pyval \<Rightarrow> bool \<Rightarrow> 'w \<Rightarrow> (unit res \<times> 'w) option" where
  "set_remove_loop 0 col key value create w = None"
| "set_remove_loop (Suc n) col key value create w =
     (case c_get col key w of
        (Inl e, w) \<Rightarrow> Some (Inl e, w)
      | (Inr (v, cas), w) \<Rightarrow>
         (case index_in value v of
            Inl e \<Rightarrow> Some (Inl e, w)
          | Inr None \<Rightarrow> Some (Inr (), w)
          | Inr (Some ix) \<Rightarrow>
              (case list_remove col key (int ix) create (Some cas) w of
                 (Inr _, w) \<Rightarrow> Some (Inr (), w)
               | (Inl e, w) \<Rightarrow>
                   if e = DocumentExistsException then set_remove_loop n col key value create w
                   else if e = ValueError then Some (Inr (), w)
                   else Some (Inl e, w))))"

definition fueled_dsop ::
  "'w collection \<Rightarrow> string \<Rightarrow> create_type option \<Rightarrow> bool \<Rightarrow> ('w \<Rightarrow> ('a res \<times> 'w) option) \<Rightarrow> 'w
     \<Rightarrow> ('a res \<times> 'w) option" where
  "fueled_dsop col key create_type create fn w = (case fn w of
       None \<Rightarrow> None
     | Some (Inr x, w) \<Rightarrow> Some (Inr x, w)
     | Some (Inl e, w) \<Rightarrow>
         if e = DocumentNotFoundException
         then (if create
               then (case catchA (insert_empty col key create_type) DocumentExistsException (returnA ()) w of
                       (Inl e, w) \<Rightarrow> Some (Inl e, w) | (Inr _, w) \<Rightarrow> fn w)
               else Some (Inl e, w))
         else if e = PathNotFoundException then Some (Inl IndexError, w)
         else Some (Inl e, w))"

definition set_remove :: "nat \<Rightarrow> 'w collection \<Rightarrow> string \<Rightarrow> pyval \<Rightarrow> bool \<Rightarrow> 'w \<Rightarrow> (unit res \<times> 'w) option" where
  "set_remove fuel col key value create =
     fueled_dsop col key None create (set_remove_loop fuel col key value create)"

definition set_size :: "'w collection \<Rightarrow> string \<Rightarrow> bool \<Rightarrow> ('w, pyval) action" where
  "set_size = list_size"

definition set_contains :: "'w collection \<Rightarrow> string \<Rightarrow> pyval \<Rightarrow> ('w, bool) action" where
  "set_contains col key value =
     bindA (c_get col key) (\<lambda>(v, cas). liftA (contains value v))"

definition queue_push :: "'w collection \<Rightarrow> string \<Rightarrow> pyval \<Rightarrow> bool \<Rightarrow> int option \<Rightarrow> ('w, unit) action" where
  "queue_push col key value create cas = dsop col key (Some Create_list) create
     (list_prepend col key value False cas)"

text \<open>
  The item is a plain value, which has no attribute \<open>cas\<close>: the removal of \<open>queue_pop\<close> carries only
  a CAS that the caller has passed.
\<close>

fun queue_pop_loop ::
  "nat \<Rightarrow> 'w collection \<Rightarrow> string \<Rightarrow> bool \<Rightarrow> int option \<Rightarrow> 'w \<Rightarrow> (pyval res \<times> 'w) option" where
  "queue_pop_loop 0 col key create cas w = None"
| "queue_pop_loop (Suc n) col key create cas w =
     (case list_get col key (-1) create w of
        (Inl e, w) \<Rightarrow> Some (Inl (if e = IndexError then QueueEmpty else e), w)
      | (Inr itm, w) \<Rightarrow>
         (case list_remove col key (-1) create cas w of
            (Inr _, w) \<Rightarrow> Some (Inr itm, w)
          | (Inl e, w) \<Rightarrow>
              if e = DocumentExistsException then queue_pop_loop n col key create cas w
              else Some (Inl (if e = IndexError then QueueEmpty else e), w)))"

definition queue_pop ::
  "nat \<Rightarrow> 'w collection \<Rightarrow> string \<Rightarrow> bool \<Rightarrow> int option \<Rightarrow> 'w \<Rightarrow> (pyval res \<times> 'w) option" where
  "queue_pop fuel col key create cas =
     fueled_dsop col key None create (queue_pop_loop fuel col key create cas)"

definition queue_size :: "'w collection \<Rightarrow> string \<Rightarrow> ('w, pyval) action" where
  "queue_size col key = dsop col key None False (list_size col key False)"

subsection \<open>Popping from a queue\<close>

lemma list_get_last:
  assumes "document_store col doc ok" "ok w" "doc w k = Some (PList xs, c)"
  shows "\<exists>w'. list_get col k (-1) create w = (Inr (if xs = [] then PNone else last xs), w') \<and> same_docs doc ok w w'"
proof -
  obtain w' where w': "c_lookup_in col k [SD_get (elem_path (-1)) False] w =
      (Inr ([sd_entry (PList xs) (SD_get (elem_path (-1)) False)], c), w')" "same_docs doc ok w w'"
    using last_lookup [OF assms] by blast
  have "first_value [sd_entry (PList xs) (SD_get (elem_path (-1)) False)] =
      Inr (if xs = [] then PNone else last xs)"
    by (simp add: first_value_def SD_get_def sd_resolve_def elem_index_def dget_def last_conv_nth)
  then show ?thesis using w' by (simp add: list_get_def dsop_def lookup_first_def bindA_def liftA_def)
qed

lemma list_remove_last:
  assumes "document_store col doc ok" "ok w" "doc w k = Some (PList xs, c)"
  shows "\<exists>w'. list_remove col k (-1) create None w = (if xs = [] then Inl IndexError else Inr (), w') \<and>
    (if xs = [] then same_docs doc ok w w' else stored doc ok k (PList (butlast xs)) w w')"
proof -
  let ?s = "SD_remove (elem_path (-1)) False"
  have "\<exists>w'. case doc w k of
          None \<Rightarrow> c_mutate_in col k [?s] None w = (Inl DocumentNotFoundException, w') \<and> same_docs doc ok w w'
        | Some (v, c') \<Rightarrow> known_path v (spec_path ?s) \<longrightarrow>
            (if (None :: int option) \<noteq> None \<and> None \<noteq> Some c'
             then c_mutate_in col k [?s] None w = (Inl CasMismatchException, w') \<and> same_docs doc ok w w'
             else (case sd_mutate v ?s of
                 Inl e \<Rightarrow> c_mutate_in col k [?s] None w = (Inl e, w') \<and> same_docs doc ok w w'
               | Inr u \<Rightarrow> c_mutate_in col k [?s] None w = (Inr (), w') \<and> stored doc ok k u w w'))"
    using assms(1,2) unfolding document_store_def by blast
  moreover have "remove_nth (length xs - 1) xs = butlast xs" if "xs \<noteq> []"
    using that by (simp add: remove_nth_def butlast_conv_take)
  ultimately show ?thesis using assms(3)
    by (cases "xs = []") (auto simp: SD_remove_def list_remove_def dsop_def elem_index_def)
qed

lemma list_get_missing:
  assumes "document_store col doc ok" "ok w" "doc w k = None"
  shows "\<exists>w'. list_get col k i False w = (Inl DocumentNotFoundException, w') \<and> same_docs doc ok w w'"
proof -
  have "\<exists>w'. case doc w k of
          None \<Rightarrow> c_lookup_in col k [SD_get (elem_path i) False] w = (Inl DocumentNotFoundException, w')
            \<and> same_docs doc ok w w'
        | Some (v, c) \<Rightarrow> known_path v (spec_path (SD_get (elem_path i) False)) \<longrightarrow>
            c_lookup_in col k [SD_get (elem_path i) False] w =
              (Inr ([sd_entry v (SD_get (elem_path i) False)], c), w') \<and> same_docs doc ok w w'"
    using assms(1,2) unfolding document_store_def by blast
  then show ?thesis using assms(3)
    by (auto simp: list_get_def dsop_def lookup_first_def bindA_def)
qed

text \<open>C21. The deprecated \<open>queue_pop\<close> returns and removes the last element of the array as long as nobody
  else writes (an empty queue is \<open>QueueEmpty\<close>, a missing document stays missing).  But its removal
  carries no CAS: when another client replaces the array in between, it returns one element
  and removes another.\<close>

theorem queue_pop_outcome:
  assumes "document_store col doc ok" "ok w"
  shows "(doc w k = None \<longrightarrow>
      (\<exists>w'. queue_pop (Suc n) col k False None w = Some (Inl DocumentNotFoundException, w') \<and> same_docs doc ok w w')) \<and>
    (\<forall>xs c. doc w k = Some (PList xs, c) \<longrightarrow>
      (\<exists>w'. if xs = [] then queue_pop (Suc n) col k False None w = Some (Inl QueueEmpty, w') \<and> same_docs doc ok w w'
        else queue_pop (Suc n) col k False None w = Some (Inr (last xs), w') \<and>
          stored doc ok k (PList (butlast xs)) w w')) \<and>
    (case queue_pop 1 crowd_collection ''q'' False None
        (crowd_start [Write ''q'' (PList [PInt 3, PInt 4])] ''q'' (PList [PInt 1])) of
       Some (Inr x, w') \<Rightarrow> x = PInt 1 \<and> cr_hist w' = [(''q'', PList [PInt 3, PInt 4], PList [PInt 3])]
     | _ \<Rightarrow> False)"
proof (intro conjI allI impI)
  assume "doc w k = None"
  then show "\<exists>w'. queue_pop (Suc n) col k False None w = Some (Inl DocumentNotFoundException, w') \<and> same_docs doc ok w w'"
    using list_get_missing [OF assms, of k "-1"] by (auto simp: queue_pop_def fueled_dsop_def)
next
  fix xs c assume d: "doc w k = Some (PList xs, c)"
  obtain w1 where 1: "list_get col k (-1) False w = (Inr (if xs = [] then PNone else last xs), w1)" "same_docs doc ok w w1"
    using list_get_last [OF assms d] by blast
  then have d1: "ok w1" "doc w1 k = Some (PList xs, c)" "doc w1 = doc w" using d by (auto simp: same_docs_def)
  obtain w2 where 2: "list_remove col k (-1) False None w1 = (if xs = [] then Inl IndexError else Inr (), w2)"
    "if xs = [] then same_docs doc ok w1 w2 else stored doc ok k (PList (butlast xs)) w1 w2"
    using list_remove_last [OF assms(1) d1(1,2)] by blast
  show "\<exists>w'. if xs = [] then queue_pop (Suc n) col k False None w = Some (Inl QueueEmpty, w') \<and> same_docs doc ok w w'
      else queue_pop (Suc n) col k False None w = Some (Inr (last xs), w') \<and> stored doc ok k (PList (butlast xs)) w w'"
    using 2 d1(3) by (intro exI [of _ w2], cases "xs = []")
      (simp_all add: queue_pop_def fueled_dsop_def 1(1) same_docs_def stored_def)
next
  show "case queue_pop 1 crowd_collection ''q'' False None
        (crowd_start [Write ''q'' (PList [PInt 3, PInt 4])] ''q'' (PList [PInt 1])) of
       Some (Inr x, w') \<Rightarrow> x = PInt 1 \<and> cr_hist w' = [(''q'', PList [PInt 3, PInt 4], PList [PInt 3])]
     | _ \<Rightarrow> False"
    by code_simp
qed

lemma queue_pop_outcome_witness:
  "\<exists>w'. queue_pop (Suc 0) mem_collection ''q'' False None (mem_put ''q'' (PList [PInt 7, PInt 8]) mem_empty) =
     Some (Inr (PInt 8), w') \<and> (\<exists>c. mem_docs w' ''q'' = Some (PList [PInt 7], c))"
proof -
  let ?w = "mem_put ''q'' (PList [PInt 7, PInt 8]) mem_empty"
  have "mem_docs ?w ''q'' = Some (PList [PInt 7, PInt 8], 1)" by (simp add: mem_put_def mem_empty_def)
  with queue_pop_outcome [OF mem_store, of ?w "''q''" 0] show ?thesis
    by (auto simp: stored_def)
qed

end
