(* ===== verification/Cluster_Results.thy ===== *)
theory Cluster_Results
  imports Py_Base
begin

text \<open>
  Results about the cluster in \<open>couchbase/result.py\<close> and \<open>couchbase/diagnostics.py\<close>:
  \<open>DiagnosticsResult\<close> with the reports of its endpoints, and \<open>ClusterInfoResult\<close>, an object
  whose getters compute and keep what they read from the version of the nodes.  \<open>parse_int\<close> stands
  for \<open>int()\<close> of a text.
\<close>

subsection \<open>Diagnostics\<close>

datatype EndpointState = Disconnected | Connecting | Connected | Disconnecting
datatype ClusterState = Online | Degraded | Offline

definition EndpointState_of :: "pyval \<Rightarrow> EndpointState res" where
  "EndpointState_of v =
     (if v = PStr ''disconnected'' then Inr Disconnected
      else if v = PStr ''connecting'' then Inr Connecting
      else if v = PStr ''connected'' then Inr Connected
      else if v = PStr ''disconnecting'' then Inr Disconnecting
      else Inl ValueError)"

definition ServiceType :: "string list" where
  "ServiceType = [''views'', ''kv'', ''query'', ''search'', ''analytics'', ''mgmt'']"

type_synonym endpoints = "(string \<times> pydict list) list"

definition DiagnosticsResult_init :: "endpoints option \<Rightarrow> endpoints res" where
  "DiagnosticsResult_init svc_endpoints = (case svc_endpoints of
       None \<Rightarrow> Inr []
     | Some ss \<Rightarrow> mapE (\<lambda>(service, es). if service \<in> set ServiceType then Inr (service, es) else Inl ValueError) ss)"

definition endpoint_state :: "pydict \<Rightarrow> EndpointState res" where
  "endpoint_state src = EndpointState_of (dget src ''state'' PNone)"

definition count_endpoint :: "pydict \<Rightarrow> nat \<times> nat \<Rightarrow> (nat \<times> nat) res" where
  "count_endpoint e counts = (case counts of (num_found, num_connected) \<Rightarrow>
     bindE (endpoint_state e) (\<lambda>s.
       Inr (num_found + 1, if s = Connected then num_connected + 1 else num_connected)))"

definition DiagnosticsResult_state :: "endpoints \<Rightarrow> ClusterState res" where
  "DiagnosticsResult_state eps =
     bindE (foldE (\<lambda>(service, es). foldE count_endpoint es) eps (0, 0)) (\<lambda>(num_found, num_connected).
       Inr (if num_found = num_connected then Online
            else if num_connected > 0 then Degraded else Offline))"

lemma count_endpoints:
  assumes "\<forall>e \<in> set es. endpoint_state e = Inr (st e)"
  shows "foldE count_endpoint es (n, m) =
    Inr (n + length es, m + length (filter (\<lambda>e. st e = Connected) es))"
  using assms by (induction es arbitrary: n m) (auto simp: count_endpoint_def)

lemma count_services:
  assumes "\<forall>(s, es) \<in> set eps. \<forall>e \<in> set es. endpoint_state e = Inr (st e)"
  shows "foldE (\<lambda>(service, es). foldE count_endpoint es) eps (n, m) =
    Inr (n + length (concat (map snd eps)), m + length (filter (\<lambda>e. st e = Connected) (concat (map snd eps))))"
  using assms
proof (induction eps arbitrary: n m)
  case (Cons se eps)
  then show ?case by (cases se) (auto simp: count_endpoints [of _ st] add.assoc)
qed simp

text \<open>
  The state of the cluster: online when every endpoint is connected, and so also when there is
  none; offline when there are endpoints and none is connected.
\<close>

lemma DiagnosticsResult_state_spec:
  assumes "\<forall>(s, es) \<in> set eps. \<forall>e \<in> set es. endpoint_state e = Inr (st e)"
    and "es = concat (map snd eps)"
  shows "DiagnosticsResult_state eps = Inr (if \<forall>e \<in> set es. st e = Connected then Online
    else if \<exists>e \<in> set es. st e = Connected then Degraded else Offline)"
proof -
  have all: "length es = length (filter (\<lambda>e. st e = Connected) es) \<longleftrightarrow> (\<forall>e \<in> set es. st e = Connected)"
    using length_filter_less [of _ es "\<lambda>e. st e = Connected"] by fastforce
  have ex: "0 < length (filter (\<lambda>e. st e = Connected) es) \<longleftrightarrow> (\<exists>e \<in> set es. st e = Connected)"
    by (auto simp: filter_empty_conv)
  have "DiagnosticsResult_state eps =
      (let n = length es; m = length (filter (\<lambda>e. st e = Connected) es)
       in Inr (if n = m then Online else if m > 0 then Degraded else Offline))"
    using count_services [OF assms(1), of 0 0] by (simp add: DiagnosticsResult_state_def assms(2))
  then show ?thesis by (simp only: Let_def all ex)
qed

subsection \<open>Cluster info\<close>

record cluster_info =
  ci_nodes :: "pydict list option"
  version_raw :: "string option"
  server_version_kept :: "string option"
  server_build_kept :: "int option"
  is_enterprise_kept :: "bool option"

definition ClusterInfoResult_init :: "pydict list option \<Rightarrow> cluster_info" where
  "ClusterInfoResult_init ns = \<lparr>ci_nodes = ns, version_raw = None, server_version_kept = None,
     server_build_kept = None, is_enterprise_kept = None\<rparr>"

fun common_version :: "pydict list \<Rightarrow> string option \<Rightarrow> string option res" where
  "common_version [] version = Inr version"
| "common_version (n # ns) version = (case map_of n ''version'' of
     Some (PStr v) \<Rightarrow> (case version of
         None \<Rightarrow> common_version ns (Some v)
       | Some u \<Rightarrow> if v \<noteq> u then Inr None else common_version ns version)
   | Some _ \<Rightarrow> Inl TypeError
   | None \<Rightarrow> Inl KeyError)"

definition set_server_version :: "cluster_info \<Rightarrow> cluster_info res" where
  "set_server_version c = (case ci_nodes c of
       None \<Rightarrow> Inl TypeError
     | Some ns \<Rightarrow> bindE (common_version ns None) (\<lambda>v. Inr (c\<lparr>version_raw := v\<rparr>)))"

fun split_dash :: "string \<Rightarrow> string list" where
  "split_dash [] = [[]]"
| "split_dash (c # s) = (case split_dash s of
     [] \<Rightarrow> [[c]] | t # ts \<Rightarrow> if c = CHR ''-'' then [] # t # ts else (c # t) # ts)"

definition upper :: "string \<Rightarrow> string" where
  "upper s = map (\<lambda>c. let n = (of_char c :: nat) in if 97 \<le> n \<and> n \<le> 122 then char_of (n - 32) else c) s"

text \<open>An empty version text is as good as none, as in the tests of the code.\<close>

definition known :: "string option \<Rightarrow> string option" where
  "known v = (case v of Some s \<Rightarrow> if s = [] then None else Some s | None \<Rightarrow> None)"

definition server_version :: "cluster_info \<Rightarrow> (string option \<times> cluster_info) res" where
  "server_version c =
     bindE (if known (server_version_kept c) = None then set_server_version c else Inr c) (\<lambda>c.
       let c = (case known (version_raw c) of
             Some v \<Rightarrow> c\<lparr>server_version_kept := Some (take 10 v)\<rparr> | None \<Rightarrow> c)
       in Inr (server_version_kept c, c))"

definition server_version_build ::
  "(string \<Rightarrow> int option) \<Rightarrow> cluster_info \<Rightarrow> (int option \<times> cluster_info) res" where
  "server_version_build parse_int c =
     bindE (if server_build_kept c = None \<or> server_build_kept c = Some 0 then set_server_version c else Inr c) (\<lambda>c.
     bindE (case known (version_raw c) of
         None \<Rightarrow> Inr c
       | Some v \<Rightarrow> (case split_dash v of
             [_, b, _] \<Rightarrow> (case parse_int b of
                 Some i \<Rightarrow> Inr (c\<lparr>server_build_kept := Some i\<rparr>) | None \<Rightarrow> Inl ValueError)
           | _ \<Rightarrow> Inr c)) (\<lambda>c. Inr (server_build_kept c, c)))"

definition is_enterprise :: "cluster_info \<Rightarrow> (bool option \<times> cluster_info) res" where
  "is_enterprise c =
     bindE (if is_enterprise_kept c \<noteq> Some True then set_server_version c else Inr c) (\<lambda>c.
       let c = (case known (version_raw c) of
             None \<Rightarrow> c
           | Some v \<Rightarrow> (case split_dash v of
                 [_, _, e] \<Rightarrow> c\<lparr>is_enterprise_kept := Some (upper e = ''ENTERPRISE'')\<rparr>
               | _ \<Rightarrow> c))
       in Inr (is_enterprise_kept c, c))"

text \<open>\<open>is_community\<close> starts by reading an attribute that the constructor never sets.\<close>

definition is_community :: "cluster_info \<Rightarrow> (bool option \<times> cluster_info) res" where
  "is_community c = Inl AttributeError"

lemma common_version_same:
  "ns \<noteq> [] \<Longrightarrow> \<forall>n \<in> set ns. map_of n ''version'' = Some (PStr v) \<Longrightarrow> u = None \<or> u = Some v \<Longrightarrow>
     common_version ns u = Inr (Some v)"
proof (induction ns arbitrary: u)
  case (Cons n ns)
  then show ?case by (cases "ns = []") auto
qed simp

lemma split_dash_plain: "CHR ''-'' \<notin> set s \<Longrightarrow> split_dash s = [s]"
  by (induction s) auto

lemma split_dash_Cons: "CHR ''-'' \<notin> set s \<Longrightarrow> split_dash (s @ CHR ''-'' # t) = s # split_dash t"
proof (induction s)
  case Nil
  have "split_dash t \<noteq> []" by (cases t) (auto split: list.splits)
  then show ?case by (auto split: list.splits)
qed auto

text \<open>The getters on a cluster whose nodes all run the version \<open>v-b-e\<close>.\<close>

lemma cluster_info_of_version:
  assumes "ns \<noteq> []" "\<forall>n \<in> set ns. map_of n ''version'' = Some (PStr (v @ ''-'' @ b @ ''-'' @ e))"
    and "CHR ''-'' \<notin> set v" "CHR ''-'' \<notin> set b" "CHR ''-'' \<notin> set e" "parse_int b = Some i"
  shows "bindE (server_version_build parse_int (ClusterInfoResult_init (Some ns))) (\<lambda>r. Inr (fst r)) = Inr (Some i)"
    and "bindE (is_enterprise (ClusterInfoResult_init (Some ns))) (\<lambda>r. Inr (fst r)) = Inr (Some (upper e = ''ENTERPRISE''))"
    and "bindE (server_version (ClusterInfoResult_init (Some ns))) (\<lambda>r. Inr (fst r)) =
      Inr (Some (take 10 (v @ ''-'' @ b @ ''-'' @ e)))"
proof -
  have s: "split_dash (v @ ''-'' @ b @ ''-'' @ e) = [v, b, e]"
    using assms(3-5) split_dash_Cons [of v "b @ ''-'' @ e"] split_dash_Cons [of b e] split_dash_plain [of e] by simp
  have c: "common_version ns None = Inr (Some (v @ ''-'' @ b @ ''-'' @ e))"
    using common_version_same [OF assms(1,2)] by simp
  have k: "known (Some (v @ ''-'' @ b @ ''-'' @ e)) = Some (v @ ''-'' @ b @ ''-'' @ e)" by (simp add: known_def)
  note facts = ClusterInfoResult_init_def set_server_version_def c
  show "bindE (server_version_build parse_int (ClusterInfoResult_init (Some ns))) (\<lambda>r. Inr (fst r)) = Inr (Some i)"
    using assms(6) s k by (simp add: server_version_build_def facts)
  show "bindE (is_enterprise (ClusterInfoResult_init (Some ns))) (\<lambda>r. Inr (fst r)) = Inr (Some (upper e = ''ENTERPRISE''))"
    using s k by (simp add: is_enterprise_def facts Let_def)
  show "bindE (server_version (ClusterInfoResult_init (Some ns))) (\<lambda>r. Inr (fst r)) =
      Inr (Some (take 10 (v @ ''-'' @ b @ ''-'' @ e)))"
    using k by (simp add: server_version_def facts known_def Let_def)
qed

end
