(* ===== verification/View_Indexes.thy ===== *)
theory View_Indexes
  imports Mgmt_Base Analytics
begin

text \<open>
  View management: \<open>couchbase/management/logic/view_index_logic.py\<close> with the blocking manager of
  \<open>couchbase/management/views.py\<close>, and the readers of its results in \<open>logic/wrappers.py\<close>.

  A design document is a record of its name without prefixes, its views, its revision and its
  namespace.  \<open>publish_design_document\<close> reads a document of the development namespace and writes it to the
  production namespace, two calls of the core.
\<close>

subsection \<open>Namespaces, views and design documents\<close>

definition Namespace_PRODUCTION :: pyval where
  "Namespace_PRODUCTION = PInst ''DesignDocumentNamespace'' [(''name'', PStr ''PRODUCTION''), (''value'', PBool False)]"

definition Namespace_DEVELOPMENT :: pyval where
  "Namespace_DEVELOPMENT = PInst ''DesignDocumentNamespace'' [(''name'', PStr ''DEVELOPMENT''), (''value'', PBool True)]"

definition Namespace_to_str :: "pyval \<Rightarrow> pyval res" where
  "Namespace_to_str ns =
     (if is_instance_of ns ''DesignDocumentNamespace''
      then Inr (PStr (if truthy (attr ns ''value'') then ''development'' else ''production''))
      else Inl AttributeError)"

definition Namespace_from_str :: "pyval \<Rightarrow> pyval" where
  "Namespace_from_str value = (if py_eq value (PStr ''production'') then Namespace_PRODUCTION else Namespace_DEVELOPMENT)"

definition drop_prefix :: "string \<Rightarrow> string \<Rightarrow> string" where
  "drop_prefix p name = (if take (length p) name = p then drop (length p) name else name)"

definition unprefix :: "string \<Rightarrow> string" where
  "unprefix name = fold drop_prefix [''_design/'', ''dev_''] name"

definition unprefix_value :: "pyval \<Rightarrow> pyval res" where
  "unprefix_value v = (case v of PStr s \<Rightarrow> Inr (PStr (unprefix s)) | PBytes _ \<Rightarrow> Inl TypeError
     | PBytearray _ \<Rightarrow> Inl TypeError | _ \<Rightarrow> Inl AttributeError)"

record view =
  v_map :: pyval
  v_reduce :: pyval

definition View_as_dict :: "view \<Rightarrow> pydict" where
  "View_as_dict v = filter (\<lambda>(k, x). truthy x) [(''map'', v_map v), (''reduce'', v_reduce v)]"

definition View_to_json :: "py_floats \<Rightarrow> view \<Rightarrow> pyval res" where
  "View_to_json fs v = json_dumps fs (pdict (View_as_dict v))"

text \<open>\<open>View(**value)\<close>\<close>

definition View_of :: "pyval \<Rightarrow> view res" where
  "View_of value = (case value of
       PDict d \<Rightarrow>
        (if list_all (\<lambda>(k, v). k = PStr ''map'' \<or> k = PStr ''reduce'') d
         then case map_of d (PStr ''map'') of
             None \<Rightarrow> Inl TypeError
           | Some m \<Rightarrow> Inr \<lparr>v_map = m, v_reduce = (case map_of d (PStr ''reduce'') of None \<Rightarrow> PNone | Some r \<Rightarrow> r)\<rparr>
         else Inl TypeError)
     | _ \<Rightarrow> Inl TypeError)"

record design_document =
  dd_name :: pyval
  dd_views :: "(pyval \<times> view) list"
  dd_rev :: pyval
  dd_namespace :: pyval

definition DesignDocument_init :: "pyval \<Rightarrow> (pyval \<times> view) list \<Rightarrow> pyval \<Rightarrow> pyval \<Rightarrow> design_document res" where
  "DesignDocument_init name views namespace revision =
     bindE (unprefix_value name) (\<lambda>name.
       Inr \<lparr>dd_name = name, dd_views = views, dd_rev = revision, dd_namespace = namespace\<rparr>)"

definition DesignDocument_add_view :: "pyval \<Rightarrow> view \<Rightarrow> design_document \<Rightarrow> design_document" where
  "DesignDocument_add_view name view d = d\<lparr>dd_views := AList.update name view (dd_views d)\<rparr>"

definition DesignDocument_get_view :: "pyval \<Rightarrow> design_document \<Rightarrow> view option" where
  "DesignDocument_get_view name d = map_of (dd_views d) name"

definition DesignDocument_as_dict :: "design_document \<Rightarrow> pyval \<Rightarrow> pydict res" where
  "DesignDocument_as_dict d namespace =
     bindE (if namespace \<noteq> PNone
            then bindE (Namespace_to_str namespace) (\<lambda>s. Inr [(''name'', dd_name d), (''namespace'', s)])
            else Inr [(''name'', dd_name d)]) (\<lambda>output.
       let output = output @ [(''views'', PDict (map (\<lambda>(k, v). (k, pdict (View_as_dict v))) (dd_views d)))]
       in Inr (if truthy (dd_rev d) then output @ [(''rev'', dd_rev d)] else output))"

definition DesignDocument_from_json :: "pyval \<Rightarrow> design_document res" where
  "DesignDocument_from_json raw_json = (case raw_json of
       PDict raw \<Rightarrow>
         let get = (\<lambda>k v. case map_of raw (PStr k) of None \<Rightarrow> v | Some w \<Rightarrow> w);
             ns = Namespace_from_str (get ''namespace'' PNone)
         in bindE (case get ''views'' (PDict []) of
                PDict vs \<Rightarrow> mapE (\<lambda>(k, v). bindE (View_of v) (\<lambda>v. Inr (k, v))) vs
              | _ \<Rightarrow> Inl AttributeError) (\<lambda>views.
            DesignDocument_init (get ''name'' PNone) views ns (get ''rev'' PNone))
     | _ \<Rightarrow> Inl AttributeError)"

subsection \<open>Requests\<close>

record view_manager =
  vm_mgmt :: mgmt_env
  vm_bucket :: pyval

definition view_request ::
  "view_manager \<Rightarrow> string \<Rightarrow> pydict \<Rightarrow> pydict \<Rightarrow> pydict \<Rightarrow> pydict" where
  "view_request vm op_type op_args final_args kwargs =
     mgmt_request (vm_mgmt vm) ''VIEW_INDEX'' ''view_index_mgmt_operations'' op_type
       (put_given final_args ''client_context_id'' op_args) kwargs final_args"

definition Logic_get_design_document ::
  "view_manager \<Rightarrow> pyval \<Rightarrow> pyval \<Rightarrow> pydict list \<Rightarrow> pydict \<Rightarrow> pydict res" where
  "Logic_get_design_document vm name namespace options kwargs =
     (if \<not> truthy name then Inl InvalidArgumentException
      else if \<not> truthy namespace then Inl InvalidArgumentException
      else bindE (forward_args (mg_env (vm_mgmt vm)) kwargs options) (\<lambda>final_args.
        bindE (Namespace_to_str namespace) (\<lambda>ns.
          Inr (view_request vm ''GET_INDEX''
            [(''bucket_name'', vm_bucket vm), (''document_name'', name), (''namespace'', ns)] final_args kwargs))))"

definition Logic_get_all_design_documents ::
  "view_manager \<Rightarrow> pyval \<Rightarrow> pydict list \<Rightarrow> pydict \<Rightarrow> pydict res" where
  "Logic_get_all_design_documents vm namespace options kwargs =
     (if \<not> truthy namespace then Inl InvalidArgumentException
      else bindE (forward_args (mg_env (vm_mgmt vm)) kwargs options) (\<lambda>final_args.
        bindE (Namespace_to_str namespace) (\<lambda>ns.
          Inr (view_request vm ''GET_ALL_INDEXES''
            [(''bucket_name'', vm_bucket vm), (''namespace'', ns)] final_args kwargs))))"

definition Logic_upsert_design_document ::
  "view_manager \<Rightarrow> design_document option \<Rightarrow> pyval \<Rightarrow> pydict list \<Rightarrow> pydict \<Rightarrow> pydict res" where
  "Logic_upsert_design_document vm design_doc namespace options kwargs =
     (case design_doc of
        None \<Rightarrow> Inl InvalidArgumentException
      | Some d \<Rightarrow>
          if \<not> truthy namespace then Inl InvalidArgumentException
          else bindE (forward_args (mg_env (vm_mgmt vm)) kwargs options) (\<lambda>final_args.
            bindE (DesignDocument_as_dict d namespace) (\<lambda>doc.
              Inr (view_request vm ''UPSERT_INDEX''
                [(''bucket_name'', vm_bucket vm), (''design_docucment'', pdict doc)] final_args kwargs))))"

definition Logic_drop_design_document ::
  "view_manager \<Rightarrow> pyval \<Rightarrow> pyval \<Rightarrow> pydict list \<Rightarrow> pydict \<Rightarrow> pydict res" where
  "Logic_drop_design_document vm name namespace options kwargs =
     (if \<not> truthy name then Inl InvalidArgumentException
      else if \<not> truthy namespace then Inl InvalidArgumentException
      else bindE (forward_args (mg_env (vm_mgmt vm)) kwargs options) (\<lambda>final_args.
        bindE (Namespace_to_str namespace) (\<lambda>ns.
          Inr (view_request vm ''DROP_INDEX''
            [(''bucket_name'', vm_bucket vm), (''document_name'', name), (''namespace'', ns)] final_args kwargs))))"

subsection \<open>The blocking manager\<close>

definition View_ERROR_MAPPING :: err_mapping where
  "View_ERROR_MAPPING =
     [(lit ''not_found'', ''DesignDocumentNotFoundException''),
      ([RStar] @ lit ''Limit(s) exceeded'' @ [RSpaces] @ lit ''['' @ [RStar] @ lit '']'' @ [RStar],
         ''RateLimitedException'')]"

definition read_design_document :: "pydict option \<Rightarrow> design_document option res" where
  "read_design_document = read_one ''design_document'' DesignDocument_from_json"

definition read_all_design_documents :: "pydict option \<Rightarrow> design_document list res" where
  "read_all_design_documents = read_all ''design_documents'' DesignDocument_from_json"

definition VIM_get_design_document ::
  "'w mgmt_core \<Rightarrow> view_manager \<Rightarrow> pyval \<Rightarrow> pyval \<Rightarrow> pydict list \<Rightarrow> pydict \<Rightarrow> ('w, design_document option) action" where
  "VIM_get_design_document core vm name namespace options kwargs =
     mgmt_block core View_ERROR_MAPPING read_design_document
       (Logic_get_design_document vm name namespace options kwargs)"

definition VIM_get_all_design_documents ::
  "'w mgmt_core \<Rightarrow> view_manager \<Rightarrow> pyval \<Rightarrow> pydict list \<Rightarrow> pydict \<Rightarrow> ('w, design_document list) action" where
  "VIM_get_all_design_documents core vm namespace options kwargs =
     mgmt_block core View_ERROR_MAPPING read_all_design_documents
       (Logic_get_all_design_documents vm namespace options kwargs)"

definition VIM_upsert_design_document ::
  "'w mgmt_core \<Rightarrow> view_manager \<Rightarrow> design_document option \<Rightarrow> pyval \<Rightarrow> pydict list \<Rightarrow> pydict \<Rightarrow> ('w, unit) action" where
  "VIM_upsert_design_document core vm design_doc namespace options kwargs =
     mgmt_block core View_ERROR_MAPPING no_result
       (Logic_upsert_design_document vm design_doc namespace options kwargs)"

definition VIM_drop_design_document ::
  "'w mgmt_core \<Rightarrow> view_manager \<Rightarrow> pyval \<Rightarrow> pyval \<Rightarrow> pydict list \<Rightarrow> pydict \<Rightarrow> ('w, unit) action" where
  "VIM_drop_design_document core vm name namespace options kwargs =
     mgmt_block core View_ERROR_MAPPING no_result
       (Logic_drop_design_document vm name namespace options kwargs)"

text \<open>Both calls are blocking operations of their own; \<open>block\<close> around them only lets the errors through.\<close>

definition VIM_publish_design_document ::
  "'w mgmt_core \<Rightarrow> view_manager \<Rightarrow> pyval \<Rightarrow> pydict list \<Rightarrow> pydict \<Rightarrow> ('w, unit) action" where
  "VIM_publish_design_document core vm name options kwargs w =
     (case VIM_get_design_document core vm name Namespace_DEVELOPMENT options kwargs w of
        (Inl e, w) \<Rightarrow> (mgmt_boundary (Inl e), w)
      | (Inr doc, w) \<Rightarrow>
          apfst mgmt_boundary (VIM_upsert_design_document core vm doc Namespace_PRODUCTION options kwargs w))"

subsection \<open>Properties\<close>

lemma view_of_as_dict:
  assumes "truthy (v_map v)" "v_reduce v = PNone \<or> truthy (v_reduce v)"
  shows "View_of (pdict (View_as_dict v)) = Inr v"
  using assms by (cases v) (auto simp: View_of_def View_as_dict_def pdict_def)

text \<open>The names that survive another \<open>unprefix\<close>.\<close>

definition bare_name :: "pyval \<Rightarrow> bool" where
  "bare_name v = (case v of PStr s \<Rightarrow> unprefix s = s | _ \<Rightarrow> False)"

lemma unprefix_bare: "bare_name v \<Longrightarrow> unprefix_value v = Inr v"
  by (auto simp: bare_name_def unprefix_value_def split: pyval.splits)

definition complete_view :: "view \<Rightarrow> bool" where
  "complete_view v \<longleftrightarrow> truthy (v_map v) \<and> (v_reduce v = PNone \<or> truthy (v_reduce v))"

definition complete_document :: "design_document \<Rightarrow> bool" where
  "complete_document d \<longleftrightarrow> bare_name (dd_name d) \<and> list_all (\<lambda>(k, v). complete_view v) (dd_views d) \<and>
     (dd_rev d = PNone \<or> truthy (dd_rev d))"

lemma namespaces_truthy: "truthy Namespace_PRODUCTION" "truthy Namespace_DEVELOPMENT"
  by (simp_all add: Namespace_PRODUCTION_def Namespace_DEVELOPMENT_def)

lemma namespace_strings:
  "Namespace_to_str Namespace_PRODUCTION = Inr (PStr ''production'')"
  "Namespace_to_str Namespace_DEVELOPMENT = Inr (PStr ''development'')"
  by (simp_all add: Namespace_to_str_def Namespace_PRODUCTION_def Namespace_DEVELOPMENT_def)

interpretation view_namespace: enum_codec "[Namespace_PRODUCTION, Namespace_DEVELOPMENT]"
  "\<lambda>ns. projr (Namespace_to_str ns)" "\<lambda>v. Inr (Namespace_from_str v)"
  by unfold_locales (auto simp: namespace_strings Namespace_from_str_def)

lemma views_read_back:
  assumes "list_all (\<lambda>(k, v). complete_view v) vs"
  shows "mapE (\<lambda>(k, v). bindE (View_of v) (\<lambda>v. Inr (k, v))) (map (\<lambda>(k, v). (k, pdict (View_as_dict v))) vs) = Inr vs"
  using assms
proof (induction vs)
  case (Cons kv vs)
  then show ?case using view_of_as_dict [of "snd kv"] by (cases kv) (simp add: complete_view_def)
qed simp

lemma document_reads_back:
  assumes "complete_document d" "ns = Namespace_PRODUCTION \<or> ns = Namespace_DEVELOPMENT"
  shows "\<exists>doc. DesignDocument_as_dict d ns = Inr doc \<and>
    DesignDocument_from_json (pdict doc) = Inr (d\<lparr>dd_namespace := ns\<rparr>)"
proof -
  obtain s where s: "Namespace_to_str ns = Inr (PStr s)" "Namespace_from_str (PStr s) = ns"
    using assms(2) by (auto simp: namespace_strings Namespace_from_str_def)
  have ns: "ns \<noteq> PNone" using assms(2) by (auto simp: Namespace_PRODUCTION_def Namespace_DEVELOPMENT_def)
  define doc where "doc = [(''name'', dd_name d), (''namespace'', PStr s),
      (''views'', PDict (map (\<lambda>(k, v). (k, pdict (View_as_dict v))) (dd_views d)))]
      @ (if truthy (dd_rev d) then [(''rev'', dd_rev d)] else [])"
  have doc: "DesignDocument_as_dict d ns = Inr doc"
    using ns by (simp add: DesignDocument_as_dict_def s(1) doc_def)
  have "DesignDocument_from_json (pdict doc) = Inr (d\<lparr>dd_namespace := ns\<rparr>)"
    using assms(1) views_read_back [of "dd_views d"]
    by (cases d) (auto simp: DesignDocument_from_json_def pdict_def doc_def complete_document_def
        DesignDocument_init_def unprefix_bare s(2) Let_def)
  with doc show ?thesis by blast
qed

text \<open>What a request asks of the core: the operation on view indexes, and its arguments.\<close>

definition asks_for :: "view_manager \<Rightarrow> string \<Rightarrow> pydict \<Rightarrow> pydict \<Rightarrow> bool" where
  "asks_for vm op_type op_args req \<longleftrightarrow>
     map_of req ''mgmt_op'' = Some (mg_value (vm_mgmt vm) ''mgmt_operations'' ''VIEW_INDEX'') \<and>
     map_of req ''op_type'' = Some (mg_value (vm_mgmt vm) ''view_index_mgmt_operations'' op_type) \<and>
     map_of req ''op_args'' = Some (pdict op_args) \<and> map_of op_args ''bucket_name'' = Some (vm_bucket vm)"

lemma view_request_asks:
  assumes "map_of op_args ''bucket_name'' = Some (vm_bucket vm)"
  shows "asks_for vm op_type (put_given final_args ''client_context_id'' op_args)
    (view_request vm op_type op_args final_args kwargs)"
  using assms by (simp add: asks_for_def view_request_def mgmt_request_op mgmt_request_args map_of_put_given)

lemma get_request_asks:
  assumes "Logic_get_design_document vm name Namespace_DEVELOPMENT options kwargs = Inr req"
  shows "\<exists>op_args. asks_for vm ''GET_INDEX'' op_args req \<and> map_of op_args ''document_name'' = Some name \<and>
    map_of op_args ''namespace'' = Some (PStr ''development'')"
proof -
  let ?args = "[(''bucket_name'', vm_bucket vm), (''document_name'', name), (''namespace'', PStr ''development'')]"
  obtain final_args where "req = view_request vm ''GET_INDEX'' ?args final_args kwargs"
    using assms by (auto simp: Logic_get_design_document_def bindE_eq_Inr namespace_strings split: if_splits)
  then have "asks_for vm ''GET_INDEX'' (put_given final_args ''client_context_id'' ?args) req"
    using view_request_asks [of ?args vm] by simp
  moreover have "map_of (put_given final_args ''client_context_id'' ?args) ''document_name'' = Some name"
    "map_of (put_given final_args ''client_context_id'' ?args) ''namespace'' = Some (PStr ''development'')"
    by (simp_all add: map_of_put_given)
  ultimately show ?thesis by blast
qed

text \<open>The call of an operation without a result, and its outcome.\<close>

lemma call_without_result:
  assumes "mc_call core req w = (a, w')"
  shows "\<exists>r. mgmt_block core em no_result (Inr req) w = (r, w') \<and>
    (r = Inr () \<longleftrightarrow> a = Inr CoreNone \<or> (\<exists>raw. a = Inr (CoreValue raw)))"
proof -
  have "mgmt_boundary (handle_mgmt_response core em no_result (CoreError b)) \<noteq> Inr ()" for b
    by (cases "build_exception (mc_floats core) (mc_text core) b (Some em)")
      (simp_all add: handle_mgmt_response_def mgmt_boundary_def)
  then show ?thesis using assms
    by (cases a; cases "projr a")
      (auto simp: mgmt_block_def handle_mgmt_response_def mgmt_boundary_def no_result_def)
qed

text \<open>C40. Publishing a design document asks the core for the document of that name in the development
  namespace.  From the answer it writes, by one upsert, the same name, views and revision to the production namespace of
  the same bucket, and returns exactly when that upsert succeeds.  When the document cannot be read, the error
  comes out and nothing is written.\<close>

theorem publish_writes_what_it_reads:
  assumes req: "Logic_get_design_document vm name Namespace_DEVELOPMENT options kwargs = Inr req"
    and call: "mc_call core req w = (answer, w1)"
  shows "(\<exists>op_args. asks_for vm ''GET_INDEX'' op_args req \<and> map_of op_args ''document_name'' = Some name \<and>
      map_of op_args ''namespace'' = Some (PStr ''development'')) \<and>
    (complete_document d \<and> DesignDocument_as_dict d Namespace_DEVELOPMENT = Inr stored \<and>
        answer = Inr (CoreValue [(''design_document'', pdict stored)]) \<longrightarrow>
      (\<exists>req' op_args doc a w2 r. asks_for vm ''UPSERT_INDEX'' op_args req' \<and>
        map_of op_args ''design_docucment'' = Some (pdict doc) \<and>
        DesignDocument_from_json (pdict doc) = Inr (d\<lparr>dd_namespace := Namespace_PRODUCTION\<rparr>) \<and>
        mc_call core req' w1 = (a, w2) \<and> VIM_publish_design_document core vm name options kwargs w = (r, w2) \<and>
        (r = Inr () \<longleftrightarrow> a = Inr CoreNone \<or> (\<exists>raw. a = Inr (CoreValue raw))))) \<and>
    (answer = Inl e \<or> answer = Inr (CoreError base) \<longrightarrow>
      (\<exists>e'. VIM_publish_design_document core vm name options kwargs w = (Inl e', w1)))"
proof (intro conjI impI; (elim conjE)?)
  let ?doc = "d\<lparr>dd_namespace := Namespace_DEVELOPMENT\<rparr>"
  obtain final_args where final: "forward_args (mg_env (vm_mgmt vm)) kwargs options = Inr final_args"
    using req by (auto simp: Logic_get_design_document_def bindE_eq_Inr split: if_splits)
  show "\<exists>op_args. asks_for vm ''GET_INDEX'' op_args req \<and> map_of op_args ''document_name'' = Some name \<and>
      map_of op_args ''namespace'' = Some (PStr ''development'')" by (rule get_request_asks [OF req])
  show "\<exists>req' op_args doc a w2 r. asks_for vm ''UPSERT_INDEX'' op_args req' \<and>
        map_of op_args ''design_docucment'' = Some (pdict doc) \<and>
        DesignDocument_from_json (pdict doc) = Inr (d\<lparr>dd_namespace := Namespace_PRODUCTION\<rparr>) \<and>
        mc_call core req' w1 = (a, w2) \<and> VIM_publish_design_document core vm name options kwargs w = (r, w2) \<and>
        (r = Inr () \<longleftrightarrow> a = Inr CoreNone \<or> (\<exists>raw. a = Inr (CoreValue raw)))"
    if d: "complete_document d" "DesignDocument_as_dict d Namespace_DEVELOPMENT = Inr stored"
      and a: "answer = Inr (CoreValue [(''design_document'', pdict stored)])"
  proof -
    have "DesignDocument_from_json (pdict stored) = Inr ?doc" and "truthy (pdict stored)"
      using document_reads_back [OF d(1), of Namespace_DEVELOPMENT] d(2)
      by (auto simp: pdict_def DesignDocument_as_dict_def bindE_eq_Inr Let_def split: if_splits)
    then have get: "VIM_get_design_document core vm name Namespace_DEVELOPMENT options kwargs w = (Inr (Some ?doc), w1)"
      by (simp add: VIM_get_design_document_def req mgmt_block_def call a mgmt_boundary_def handle_mgmt_response_def
          read_design_document_def read_one_def)
    have "complete_document ?doc" using d(1) by (simp add: complete_document_def)
    from document_reads_back [OF this, of Namespace_PRODUCTION] obtain doc where
      doc: "DesignDocument_as_dict ?doc Namespace_PRODUCTION = Inr doc"
        "DesignDocument_from_json (pdict doc) = Inr (d\<lparr>dd_namespace := Namespace_PRODUCTION\<rparr>)" by auto
    let ?args = "[(''bucket_name'', vm_bucket vm), (''design_docucment'', pdict doc)]"
    define op_args where "op_args = put_given final_args ''client_context_id'' ?args"
    define req' where "req' = view_request vm ''UPSERT_INDEX'' ?args final_args kwargs"
    have up: "Logic_upsert_design_document vm (Some ?doc) Namespace_PRODUCTION options kwargs = Inr req'"
      by (simp add: Logic_upsert_design_document_def final doc(1) req'_def namespaces_truthy)
    obtain a' w2 where call': "mc_call core req' w1 = (a', w2)" by fastforce
    from call_without_result [OF call', of View_ERROR_MAPPING] obtain r where
      r: "mgmt_block core View_ERROR_MAPPING no_result (Inr req') w1 = (r, w2)"
        "r = Inr () \<longleftrightarrow> a' = Inr CoreNone \<or> (\<exists>raw. a' = Inr (CoreValue raw))" by blast
    have "VIM_publish_design_document core vm name options kwargs w = (mgmt_boundary r, w2)"
      by (simp add: VIM_publish_design_document_def get VIM_upsert_design_document_def up r(1))
    moreover have "mgmt_boundary r = Inr () \<longleftrightarrow> r = Inr ()"
      by (cases r) (auto simp: mgmt_boundary_def)
    moreover have "asks_for vm ''UPSERT_INDEX'' op_args req'"
      unfolding op_args_def req'_def by (rule view_request_asks) simp
    moreover have "map_of op_args ''design_docucment'' = Some (pdict doc)"
      by (simp add: op_args_def map_of_put_given)
    ultimately show ?thesis using call' doc(2) r(2) by blast
  qed
  show "\<exists>e'. VIM_publish_design_document core vm name options kwargs w = (Inl e', w1)"
    if "answer = Inl e \<or> answer = Inr (CoreError base)"
    using that by (auto simp: VIM_publish_design_document_def VIM_get_design_document_def req mgmt_block_def call
        mgmt_boundary_def handle_mgmt_response_def bindE_def split: sum.splits)
qed

lemma publish_witness:
  "\<exists>req' op_args doc.
    VIM_publish_design_document
        (recording_core (CoreValue [(''design_document'', pdict [(''name'', PStr ''d''), (''namespace'', PStr ''development''),
          (''views'', PDict [(PStr ''v'', pdict [(''map'', PStr ''f'')])])])]))
        \<lparr>vm_mgmt = demo_env, vm_bucket = PStr ''b''\<rparr> (PStr ''d'') [] [] [] =
      (Inr (), [mgmt_request demo_env ''VIEW_INDEX'' ''view_index_mgmt_operations'' ''GET_INDEX''
          [(''bucket_name'', PStr ''b''), (''document_name'', PStr ''d''), (''namespace'', PStr ''development'')] [] [], req']) \<and>
    asks_for \<lparr>vm_mgmt = demo_env, vm_bucket = PStr ''b''\<rparr> ''UPSERT_INDEX'' op_args req' \<and>
    map_of op_args ''design_docucment'' = Some (pdict doc) \<and>
    DesignDocument_from_json (pdict doc) =
      Inr \<lparr>dd_name = PStr ''d'', dd_views = [(PStr ''v'', \<lparr>v_map = PStr ''f'', v_reduce = PNone\<rparr>)], dd_rev = PNone,
        dd_namespace = Namespace_PRODUCTION\<rparr>"
proof -
  let ?d = "\<lparr>dd_name = PStr ''d'', dd_views = [(PStr ''v'', \<lparr>v_map = PStr ''f'', v_reduce = PNone\<rparr>)], dd_rev = PNone,
      dd_namespace = Namespace_DEVELOPMENT\<rparr>"
  let ?stored = "[(''name'', PStr ''d''), (''namespace'', PStr ''development''),
      (''views'', PDict [(PStr ''v'', pdict [(''map'', PStr ''f'')])])]"
  let ?core = "recording_core (CoreValue [(''design_document'', pdict ?stored)])"
  let ?vm = "\<lparr>vm_mgmt = demo_env, vm_bucket = PStr ''b''\<rparr>"
  let ?req = "mgmt_request demo_env ''VIEW_INDEX'' ''view_index_mgmt_operations'' ''GET_INDEX''
      [(''bucket_name'', PStr ''b''), (''document_name'', PStr ''d''), (''namespace'', PStr ''development'')] [] []"
  have req: "Logic_get_design_document ?vm (PStr ''d'') Namespace_DEVELOPMENT [] [] = Inr ?req"
    by (simp add: Logic_get_design_document_def namespaces_truthy forward_args_def get_temp_opts_def nested_kwargs_def
        demo_env_def namespace_strings view_request_def put_given_def dupdate_def)
  have call: "mc_call ?core ?req [] = (Inr (CoreValue [(''design_document'', pdict ?stored)]), [?req])"
    by (simp add: recording_core_def)
  have d: "complete_document ?d"
    by (simp add: complete_document_def complete_view_def bare_name_def unprefix_def drop_prefix_def)
  have stored: "DesignDocument_as_dict ?d Namespace_DEVELOPMENT = Inr ?stored"
    by (simp add: DesignDocument_as_dict_def namespace_strings View_as_dict_def Namespace_DEVELOPMENT_def
        namespace_strings(2) [unfolded Namespace_DEVELOPMENT_def] Let_def)
  from publish_writes_what_it_reads [OF req call, of ?d ?stored, THEN conjunct2, THEN conjunct1, rule_format,
      OF conjI, OF d conjI, OF stored refl]
  obtain req' op_args doc a w2 r where p: "asks_for ?vm ''UPSERT_INDEX'' op_args req'"
    "map_of op_args ''design_docucment'' = Some (pdict doc)"
    "DesignDocument_from_json (pdict doc) = Inr (?d\<lparr>dd_namespace := Namespace_PRODUCTION\<rparr>)"
    "mc_call ?core req' [?req] = (a, w2)" "VIM_publish_design_document ?core ?vm (PStr ''d'') [] [] [] = (r, w2)"
    "r = Inr () \<longleftrightarrow> a = Inr CoreNone \<or> (\<exists>raw. a = Inr (CoreValue raw))" by blast
  have "w2 = [?req, req']" "r = Inr ()" using p(4,6) by (auto simp: recording_core_def)
  then show ?thesis using p by auto
qed

end
