(* ===== verification/Search_Indexes.thy ===== *)
theory Search_Indexes
  imports Mgmt_Base Query_Base
begin

text \<open>
  Search index management: \<open>couchbase/management/logic/search_index_logic.py\<close> with the blocking managers of
  \<open>couchbase/management/search.py\<close> for a cluster and for a scope, and the readers of their results in
  \<open>logic/wrappers.py\<close>.

  The parameters of an index are values of JSON (\<open>tval\<close>), its other fields are Python values.  A
  manager of a cluster has no bucket and scope name.
\<close>

subsection \<open>Indexes\<close>

record search_index =
  si_name :: pyval
  si_source_type :: pyval
  si_idx_type :: pyval
  si_source_name :: pyval
  si_uuid :: pyval
  si_params :: tval
  si_source_uuid :: pyval
  si_source_params :: tval
  si_plan_params :: tval

definition SearchIndex_is_valid :: "search_index \<Rightarrow> bool res" where
  "SearchIndex_is_valid i =
     bindE (is_null_or_empty (si_name i)) (\<lambda>a. if a then Inr False else
     bindE (is_null_or_empty (si_idx_type i)) (\<lambda>b. if b then Inr False else
     bindE (is_null_or_empty (si_source_type i)) (\<lambda>c. Inr (\<not> c))))"

text \<open>\<open>len(params)\<close> and, when it is not 0, the parameters as JSON.\<close>

definition tlen :: "tval \<Rightarrow> nat res" where
  "tlen v = (case v of TDict d \<Rightarrow> Inr (length d) | TList xs \<Rightarrow> Inr (length xs) | TTuple xs \<Rightarrow> Inr (length xs)
     | TStr s \<Rightarrow> Inr (length s) | TBytes b \<Rightarrow> Inr (length b) | TBytearray b \<Rightarrow> Inr (length b) | _ \<Rightarrow> Inl TypeError)"

definition put_json :: "py_floats \<Rightarrow> string \<Rightarrow> tval \<Rightarrow> pydict \<Rightarrow> pydict res" where
  "put_json fs k v output =
     bindE (tlen v) (\<lambda>n. if n > 0 then bindE (dumps_ascii fs v) (\<lambda>t. Inr (AList.update k t output)) else Inr output)"

definition SearchIndex_as_dict :: "py_floats \<Rightarrow> search_index \<Rightarrow> pydict res" where
  "SearchIndex_as_dict fs i =
     (let output = [(''name'', si_name i), (''type'', si_idx_type i), (''source_type'', si_source_type i)];
          output = put_true ''uuid'' (si_uuid i) output
      in bindE (put_json fs ''params_json'' (si_params i) output) (\<lambda>output.
           let output = put_true ''source_uuid'' (si_source_uuid i) output;
               output = put_true ''source_name'' (si_source_name i) output
           in bindE (put_json fs ''source_params_json'' (si_source_params i) output) (\<lambda>output.
                put_json fs ''plan_params_json'' (si_plan_params i) output)))"

text \<open>\<open>json.loads\<close> of a text of the core; other values than texts do not occur there.\<close>

definition loads_text :: "py_floats \<Rightarrow> pyval \<Rightarrow> tval res" where
  "loads_text fs v = (case v of PStr s \<Rightarrow> loads fs (map of_char s) | _ \<Rightarrow> Inl TypeError)"

definition loaded :: "py_floats \<Rightarrow> (string \<Rightarrow> pyval option) \<Rightarrow> string \<Rightarrow> tval res" where
  "loaded fs get k = (case get k of None \<Rightarrow> Inr (TDict []) | Some v \<Rightarrow> loads_text fs v)"

definition SearchIndex_from_server :: "py_floats \<Rightarrow> pyval \<Rightarrow> search_index res" where
  "SearchIndex_from_server fs json_data = (case json_data of
       PDict d \<Rightarrow>
         let get = (\<lambda>k. map_of d (PStr k)); field = (\<lambda>k. case get k of None \<Rightarrow> PNone | Some v \<Rightarrow> v)
         in bindE (loaded fs get ''params_json'') (\<lambda>params.
            bindE (loaded fs get ''source_params_json'') (\<lambda>source_params.
            bindE (loaded fs get ''plan_params_json'') (\<lambda>plan_params.
              Inr \<lparr>si_name = field ''name'', si_source_type = field ''source_type'', si_idx_type = field ''type'',
                si_source_name = field ''source_name'', si_uuid = field ''uuid'', si_params = params,
                si_source_uuid = field ''source_uuid'', si_source_params = source_params,
                si_plan_params = plan_params\<rparr>)))
     | _ \<Rightarrow> Inl TypeError)"

text \<open>
  The Python value of a JSON value; the floats that are not numbers become objects.  Texts keep the
  characters up to \<open>U+00FF\<close>, the others are not modelled.
\<close>

fun pyval_of :: "tval \<Rightarrow> pyval" where
  "pyval_of TNone = PNone"
| "pyval_of (TBool b) = PBool b"
| "pyval_of (TInt i) = PInt i"
| "pyval_of (TFloat x) = (case x of Finite q \<Rightarrow> PFloat q | _ \<Rightarrow> PInst ''float'' [])"
| "pyval_of (TStr s) = PStr (map char_of s)"
| "pyval_of (TBytes b) = PBytes b"
| "pyval_of (TBytearray b) = PBytearray b"
| "pyval_of (TList xs) = PList (map pyval_of xs)"
| "pyval_of (TTuple xs) = PTuple (map pyval_of xs)"
| "pyval_of (TDict d) = PDict (map (\<lambda>kv. (pyval_of (fst kv), pyval_of (snd kv))) d)"
| "pyval_of (TObject n) = PInst ''object'' []"

text \<open>\<open>name.split('.')[-1]\<close>\<close>

definition last_token :: "ustr \<Rightarrow> ustr" where
  "last_token s = rev (takeWhile (\<lambda>c. c \<noteq> 46) (rev s))"

definition SearchIndex_from_json :: "py_floats \<Rightarrow> tval \<Rightarrow> search_index res" where
  "SearchIndex_from_json fs json_input =
     bindE (case json_input of TStr s \<Rightarrow> loads fs s | v \<Rightarrow> Inr v) (\<lambda>json_data.
       case json_data of
         TDict d \<Rightarrow>
           let get = (\<lambda>k. map_of d (TStr (ustr_of k)));
               field = (\<lambda>k v. case get k of None \<Rightarrow> v | Some w \<Rightarrow> pyval_of w);
               params = (\<lambda>k. case get k of None \<Rightarrow> TDict [] | Some w \<Rightarrow> if w = TNone then TDict [] else w)
           in (case get ''name'' of
                 Some (TStr name) \<Rightarrow>
                   Inr \<lparr>si_name = PStr (map char_of (last_token name)),
                     si_source_type = field ''sourceType'' (PStr ''couchbase''),
                     si_idx_type = field ''type'' (PStr ''fulltext-index''),
                     si_source_name = field ''sourceName'' PNone, si_uuid = PNone,
                     si_params = params ''params'', si_source_uuid = PNone,
                     si_source_params = params ''sourceParams'', si_plan_params = params ''planParams''\<rparr>
               | _ \<Rightarrow> Inl InvalidArgumentException)
       | _ \<Rightarrow> Inl InvalidArgumentException)"

subsection \<open>Requests\<close>

record search_manager =
  sm_mgmt :: mgmt_env
  sm_floats :: py_floats
  sm_bucket :: pyval
  sm_scope :: pyval

definition scoped_search_request ::
  "search_manager \<Rightarrow> string \<Rightarrow> pydict \<Rightarrow> pydict \<Rightarrow> pydict \<Rightarrow> pydict" where
  "scoped_search_request sm op_type op_args final_args kwargs =
     mgmt_request (sm_mgmt sm) ''SEARCH_INDEX'' ''search_index_mgmt_operations'' op_type
       (put_value ''scope_name'' (sm_scope sm) (put_value ''bucket_name'' (sm_bucket sm)
         (put_given final_args ''client_context_id'' op_args))) kwargs final_args"

definition cluster_request ::
  "search_manager \<Rightarrow> string \<Rightarrow> pydict \<Rightarrow> pydict \<Rightarrow> pydict \<Rightarrow> pydict" where
  "cluster_request sm op_type op_args final_args kwargs =
     mgmt_request (sm_mgmt sm) ''SEARCH_INDEX'' ''search_index_mgmt_operations'' op_type
       (put_given final_args ''client_context_id'' op_args) kwargs final_args"

definition named_search_request ::
  "search_manager \<Rightarrow> string \<Rightarrow> pydict \<Rightarrow> pyval \<Rightarrow> pydict list \<Rightarrow> pydict \<Rightarrow> pydict res" where
  "named_search_request sm op_type extra index_name options kwargs =
     bindE (is_null_or_empty index_name) (\<lambda>e. if e then Inl InvalidArgumentException else
       bindE (forward_args (mg_env (sm_mgmt sm)) kwargs options) (\<lambda>final_args.
         Inr (scoped_search_request sm op_type ((''index_name'', index_name) # extra) final_args kwargs)))"

definition upsert_search_index ::
  "search_manager \<Rightarrow> search_index option \<Rightarrow> pydict list \<Rightarrow> pydict \<Rightarrow> pydict res" where
  "upsert_search_index sm index options kwargs =
     (case index of
        None \<Rightarrow> Inl InvalidArgumentException
      | Some i \<Rightarrow>
          bindE (SearchIndex_is_valid i) (\<lambda>valid. if \<not> valid then Inl InvalidArgumentException else
          bindE (forward_args (mg_env (sm_mgmt sm)) kwargs options) (\<lambda>final_args.
          bindE (SearchIndex_as_dict (sm_floats sm) i) (\<lambda>d.
            Inr (scoped_search_request sm ''UPSERT_INDEX'' [(''index'', pdict d)] final_args kwargs)))))"

definition drop_search_index :: "search_manager \<Rightarrow> pyval \<Rightarrow> pydict list \<Rightarrow> pydict \<Rightarrow> pydict res" where
  "drop_search_index sm = named_search_request sm ''DROP_INDEX'' []"

definition get_search_index :: "search_manager \<Rightarrow> pyval \<Rightarrow> pydict list \<Rightarrow> pydict \<Rightarrow> pydict res" where
  "get_search_index sm = named_search_request sm ''GET_INDEX'' []"

definition get_all_search_indexes :: "search_manager \<Rightarrow> pydict list \<Rightarrow> pydict \<Rightarrow> pydict res" where
  "get_all_search_indexes sm options kwargs =
     bindE (forward_args (mg_env (sm_mgmt sm)) kwargs options) (\<lambda>final_args.
       Inr (scoped_search_request sm ''GET_ALL_INDEXES'' [] final_args kwargs))"

definition get_indexed_documents_count :: "search_manager \<Rightarrow> pyval \<Rightarrow> pydict list \<Rightarrow> pydict \<Rightarrow> pydict res" where
  "get_indexed_documents_count sm = named_search_request sm ''GET_INDEX_DOCUMENT_COUNT'' []"

definition pause_ingest :: "search_manager \<Rightarrow> pyval \<Rightarrow> pydict list \<Rightarrow> pydict \<Rightarrow> pydict res" where
  "pause_ingest sm = named_search_request sm ''CONTROL_INGEST'' [(''pause'', PBool True)]"

definition resume_ingest :: "search_manager \<Rightarrow> pyval \<Rightarrow> pydict list \<Rightarrow> pydict \<Rightarrow> pydict res" where
  "resume_ingest sm = named_search_request sm ''CONTROL_INGEST'' [(''pause'', PBool False)]"

definition allow_querying :: "search_manager \<Rightarrow> pyval \<Rightarrow> pydict list \<Rightarrow> pydict \<Rightarrow> pydict res" where
  "allow_querying sm = named_search_request sm ''CONTROL_QUERY'' [(''allow'', PBool True)]"

definition disallow_querying :: "search_manager \<Rightarrow> pyval \<Rightarrow> pydict list \<Rightarrow> pydict \<Rightarrow> pydict res" where
  "disallow_querying sm = named_search_request sm ''CONTROL_QUERY'' [(''allow'', PBool False)]"

definition freeze_plan :: "search_manager \<Rightarrow> pyval \<Rightarrow> pydict list \<Rightarrow> pydict \<Rightarrow> pydict res" where
  "freeze_plan sm = named_search_request sm ''FREEZE_PLAN'' [(''freeze'', PBool True)]"

definition unfreeze_plan :: "search_manager \<Rightarrow> pyval \<Rightarrow> pydict list \<Rightarrow> pydict \<Rightarrow> pydict res" where
  "unfreeze_plan sm = named_search_request sm ''FREEZE_PLAN'' [(''freeze'', PBool False)]"

definition analyze_document ::
  "search_manager \<Rightarrow> pyval \<Rightarrow> tval \<Rightarrow> pydict list \<Rightarrow> pydict \<Rightarrow> pydict res" where
  "analyze_document sm index_name document options kwargs =
     bindE (is_null_or_empty index_name) (\<lambda>e. if e then Inl InvalidArgumentException
       else if \<not> utruthy document then Inl InvalidArgumentException
       else case dumps_ascii (sm_floats sm) document of
           Inl _ \<Rightarrow> Inl InvalidArgumentException
         | Inr json_doc \<Rightarrow>
             bindE (forward_args (mg_env (sm_mgmt sm)) kwargs options) (\<lambda>final_args.
               Inr (scoped_search_request sm ''ANALYZE_DOCUMENT''
                 [(''index_name'', index_name), (''encoded_document'', json_doc)] final_args kwargs)))"

definition get_index_stats :: "search_manager \<Rightarrow> pyval \<Rightarrow> pydict list \<Rightarrow> pydict \<Rightarrow> pydict res" where
  "get_index_stats sm index_name options kwargs =
     bindE (is_null_or_empty index_name) (\<lambda>e. if e then Inl InvalidArgumentException
       else if sm_bucket sm \<noteq> PNone \<and> sm_scope sm \<noteq> PNone then Inl FeatureUnavailableException
       else bindE (forward_args (mg_env (sm_mgmt sm)) kwargs options) (\<lambda>final_args.
         Inr (cluster_request sm ''GET_INDEX_STATS'' [(''index_name'', index_name)] final_args kwargs)))"

definition get_all_index_stats :: "search_manager \<Rightarrow> pydict list \<Rightarrow> pydict \<Rightarrow> pydict res" where
  "get_all_index_stats sm options kwargs =
     bindE (forward_args (mg_env (sm_mgmt sm)) kwargs options) (\<lambda>final_args.
       Inr (cluster_request sm ''GET_ALL_STATS'' [] final_args kwargs))"

subsection \<open>Results\<close>

definition SearchIndex_ERROR_MAPPING :: err_mapping where
  "SearchIndex_ERROR_MAPPING =
     [([RStar, RClass [105, 73]] @ lit ''ndex not found'' @ [RStar], ''SearchIndexNotFoundException''),
      ([RStar, RClass [67, 99]] @ lit ''reate'' @ [RClass [73, 105]] @ lit ''ndex, '' @ [RClass [80, 112]]
         @ lit ''repare failed, err: '' @ [RClass [69, 101]] @ lit ''xceeds indexes limit'', ''QuotaLimitedException'')]"

definition read_search_index :: "py_floats \<Rightarrow> pydict option \<Rightarrow> search_index option res" where
  "read_search_index fs = read_one ''index'' (SearchIndex_from_server fs)"

definition read_all_search_indexes :: "py_floats \<Rightarrow> pydict option \<Rightarrow> search_index list res" where
  "read_all_search_indexes fs = read_all ''indexes'' (SearchIndex_from_server fs)"

definition read_document_count :: "pydict option \<Rightarrow> pyval res" where
  "read_document_count raw = (case raw of None \<Rightarrow> Inl AttributeError | Some d \<Rightarrow> Inr (dget d ''count'' (PInt 0)))"

definition read_analysis :: "py_floats \<Rightarrow> pydict option \<Rightarrow> (tval option \<times> pyval option) res" where
  "read_analysis fs raw =
     bindE (read_one ''analysis'' (loads_text fs) raw) (\<lambda>analysis.
     bindE (read_one ''status'' Inr raw) (\<lambda>status. Inr (analysis, status)))"

definition read_stats :: "py_floats \<Rightarrow> pydict option \<Rightarrow> tval option res" where
  "read_stats fs = read_one ''stats'' (loads_text fs)"

text \<open>The operations: a request inside \<open>block\<close>, and the reader of what it returns.\<close>

definition search_op ::
  "'w mgmt_core \<Rightarrow> (pydict option \<Rightarrow> 'a res) \<Rightarrow> pydict res \<Rightarrow> ('w, 'a) action" where
  "search_op core = mgmt_block core SearchIndex_ERROR_MAPPING"

subsection \<open>An index is read back as it was sent\<close>

text \<open>Parameters that a JSON text of ASCII characters carries.\<close>

definition ascii_params :: "py_floats \<Rightarrow> tval \<Rightarrow> bool" where
  "ascii_params fs p \<longleftrightarrow> (case p of TDict _ \<Rightarrow> True | _ \<Rightarrow> False) \<and> plain fs p \<and>
     (case dumps fs p of Inr t \<Rightarrow> list_all (\<lambda>c. c < 127) t | Inl _ \<Rightarrow> False)"

definition optional :: "pyval \<Rightarrow> bool" where
  "optional v \<longleftrightarrow> v = PNone \<or> truthy v"

definition sendable_index :: "py_floats \<Rightarrow> search_index \<Rightarrow> bool" where
  "sendable_index fs i \<longleftrightarrow> optional (si_source_name i) \<and> optional (si_uuid i) \<and> optional (si_source_uuid i) \<and>
     ascii_params fs (si_params i) \<and> ascii_params fs (si_source_params i) \<and> ascii_params fs (si_plan_params i)"

lemma ascii_concat: "list_all (\<lambda>c. c < 127) t \<Longrightarrow> concat (map ascii_escape t) = t"
  by (induction t) (auto simp: ascii_escape_def)

lemma ascii_chars: "list_all (\<lambda>c. c < 127) t \<Longrightarrow> map of_char (map char_of t :: string) = (t :: nat list)"
  by (induction t) auto

lemma dumps_ascii_loads:
  assumes "ascii_params fs p"
  shows "\<exists>t. dumps_ascii fs p = Inr (PStr t) \<and> loads_text fs (PStr t) = Inr p"
proof -
  obtain t where t: "dumps fs p = Inr t" "loads fs t = Inr p" "list_all (\<lambda>c. c < 127) t"
    using assms loads_dumps [of fs p] by (auto simp: ascii_params_def)
  then show ?thesis
    using ascii_chars [OF t(3)] by (simp add: dumps_ascii_def ascii_concat loads_text_def)
qed

text \<open>The entry that \<open>put_json\<close> makes, and what reading makes of it.\<close>

definition json_entry :: "py_floats \<Rightarrow> tval \<Rightarrow> pyval option" where
  "json_entry fs p = (if p = TDict [] then None else Some (projr (dumps_ascii fs p)))"

lemma put_json_entry:
  assumes "ascii_params fs p"
  shows "put_json fs k p output =
      Inr (case json_entry fs p of None \<Rightarrow> output | Some t \<Rightarrow> AList.update k t output)"
    and "(case json_entry fs p of None \<Rightarrow> Inr (TDict []) | Some v \<Rightarrow> loads_text fs v) = Inr p"
proof -
  obtain d where d: "p = TDict d" using assms by (auto simp: ascii_params_def split: tval.splits)
  obtain t where "dumps_ascii fs p = Inr (PStr t)" "loads_text fs (PStr t) = Inr p"
    using dumps_ascii_loads [OF assms] by blast
  then show "put_json fs k p output =
      Inr (case json_entry fs p of None \<Rightarrow> output | Some t \<Rightarrow> AList.update k t output)"
    and "(case json_entry fs p of None \<Rightarrow> Inr (TDict []) | Some v \<Rightarrow> loads_text fs v) = Inr p"
    using d by (auto simp: put_json_def tlen_def json_entry_def)
qed

lemma map_of_pdict: "map_of (map (\<lambda>(k, v). (PStr k, v)) d) (PStr k) = map_of d k"
  by (induction d) auto

text \<open>C39. An index whose optional fields are missing or not empty and whose parameters are JSON in ASCII is
  read back from the dictionary it is sent as.\<close>

theorem search_index_roundtrip:
  assumes "sendable_index fs i"
  shows "\<exists>d. SearchIndex_as_dict fs i = Inr d \<and> SearchIndex_from_server fs (pdict d) = Inr i"
proof -
  note ok = assms [unfolded sendable_index_def]
  define add where "add k t e = (case t of None \<Rightarrow> e | Some t \<Rightarrow> AList.update k t e)"
    for k t and e :: pydict
  define d where "d = add ''plan_params_json'' (json_entry fs (si_plan_params i))
     (add ''source_params_json'' (json_entry fs (si_source_params i))
     (put_true ''source_name'' (si_source_name i) (put_true ''source_uuid'' (si_source_uuid i)
     (add ''params_json'' (json_entry fs (si_params i)) (put_true ''uuid'' (si_uuid i)
       [(''name'', si_name i), (''type'', si_idx_type i), (''source_type'', si_source_type i)])))))"
  have d: "SearchIndex_as_dict fs i = Inr d"
    using ok by (simp add: SearchIndex_as_dict_def put_json_entry(1) d_def add_def Let_def)
  have look: "map_of (add k t e) l = (if l = k \<and> t \<noteq> None then t else map_of e l)" for k t e l
    by (auto simp: add_def dict_simps split: option.splits)
  have "map_of d ''params_json'' = json_entry fs (si_params i)"
    "map_of d ''source_params_json'' = json_entry fs (si_source_params i)"
    "map_of d ''plan_params_json'' = json_entry fs (si_plan_params i)"
    by (simp_all add: d_def look map_of_put_true)
  then have params: "loaded fs (map_of d) ''params_json'' = Inr (si_params i)"
    "loaded fs (map_of d) ''source_params_json'' = Inr (si_source_params i)"
    "loaded fs (map_of d) ''plan_params_json'' = Inr (si_plan_params i)"
    using ok put_json_entry(2) unfolding loaded_def by (metis, metis, metis)
  have fields: "map_of d ''name'' = Some (si_name i)" "map_of d ''type'' = Some (si_idx_type i)"
    "map_of d ''source_type'' = Some (si_source_type i)"
    "map_of d ''uuid'' = (if truthy (si_uuid i) then Some (si_uuid i) else None)"
    "map_of d ''source_uuid'' = (if truthy (si_source_uuid i) then Some (si_source_uuid i) else None)"
    "map_of d ''source_name'' = (if truthy (si_source_name i) then Some (si_source_name i) else None)"
    by (simp_all add: d_def look map_of_put_true)
  have "SearchIndex_from_server fs (pdict d) = Inr i"
    using ok by (cases i) (auto simp: SearchIndex_from_server_def pdict_def map_of_pdict params [simplified] fields optional_def Let_def)
  with d show ?thesis by blast
qed

lemma search_index_roundtrip_witness:
  "\<exists>d. SearchIndex_as_dict \<lparr>float_repr = (\<lambda>_. []), float_parse = (\<lambda>_. NaN)\<rparr>
      \<lparr>si_name = PStr ''i'', si_source_type = PStr ''couchbase'', si_idx_type = PStr ''fulltext-index'',
        si_source_name = PStr ''b'', si_uuid = PNone, si_params = TDict [(TStr [97], TInt 1)], si_source_uuid = PNone,
        si_source_params = TDict [], si_plan_params = TDict []\<rparr> = Inr d \<and>
    SearchIndex_from_server \<lparr>float_repr = (\<lambda>_. []), float_parse = (\<lambda>_. NaN)\<rparr> (pdict d) = Inr
      \<lparr>si_name = PStr ''i'', si_source_type = PStr ''couchbase'', si_idx_type = PStr ''fulltext-index'',
        si_source_name = PStr ''b'', si_uuid = PNone, si_params = TDict [(TStr [97], TInt 1)], si_source_uuid = PNone,
        si_source_params = TDict [], si_plan_params = TDict []\<rparr>"
  by (rule search_index_roundtrip)
    (simp add: sendable_index_def optional_def ascii_params_def json_string_def escape_char_def int_repr_def digits.simps [of "Suc 0"])

subsection \<open>The scope of a manager\<close>

datatype search_command = Upsert "search_index option" | Drop pyval | Get pyval | GetAll | Count pyval
  | Pause pyval | Resume pyval | Allow pyval | Disallow pyval | Freeze pyval | Unfreeze pyval
  | Analyze pyval tval | Stats pyval | AllStats

fun search_command_request :: "search_manager \<Rightarrow> search_command \<Rightarrow> pydict list \<Rightarrow> pydict \<Rightarrow> pydict res" where
  "search_command_request sm (Upsert i) = upsert_search_index sm i"
| "search_command_request sm (Drop n) = drop_search_index sm n"
| "search_command_request sm (Get n) = get_search_index sm n"
| "search_command_request sm GetAll = get_all_search_indexes sm"
| "search_command_request sm (Count n) = get_indexed_documents_count sm n"
| "search_command_request sm (Pause n) = pause_ingest sm n"
| "search_command_request sm (Resume n) = resume_ingest sm n"
| "search_command_request sm (Allow n) = allow_querying sm n"
| "search_command_request sm (Disallow n) = disallow_querying sm n"
| "search_command_request sm (Freeze n) = freeze_plan sm n"
| "search_command_request sm (Unfreeze n) = unfreeze_plan sm n"
| "search_command_request sm (Analyze n d) = analyze_document sm n d"
| "search_command_request sm (Stats n) = get_index_stats sm n"
| "search_command_request sm AllStats = get_all_index_stats sm"

fun command_index :: "search_command \<Rightarrow> pyval option" where
  "command_index (Upsert i) = map_option si_name i"
| "command_index GetAll = None"
| "command_index AllStats = None"
| "command_index (Drop n) = Some n" | "command_index (Get n) = Some n" | "command_index (Count n) = Some n"
| "command_index (Pause n) = Some n" | "command_index (Resume n) = Some n" | "command_index (Allow n) = Some n"
| "command_index (Disallow n) = Some n" | "command_index (Freeze n) = Some n" | "command_index (Unfreeze n) = Some n"
| "command_index (Analyze n d) = Some n" | "command_index (Stats n) = Some n"

definition in_scope :: "search_manager \<Rightarrow> pydict \<Rightarrow> bool" where
  "in_scope sm req \<longleftrightarrow> (\<exists>op_args. map_of req ''op_args'' = Some (pdict op_args) \<and>
     (sm_bucket sm \<noteq> PNone \<longrightarrow> map_of op_args ''bucket_name'' = Some (sm_bucket sm)) \<and>
     (sm_scope sm \<noteq> PNone \<longrightarrow> map_of op_args ''scope_name'' = Some (sm_scope sm)))"

lemmas search_operations = drop_search_index_def get_search_index_def get_indexed_documents_count_def pause_ingest_def
  resume_ingest_def allow_querying_def disallow_querying_def freeze_plan_def unfreeze_plan_def

lemma scoped_search_request_in_scope: "in_scope sm (scoped_search_request sm op op_args final kwargs)"
  unfolding in_scope_def scoped_search_request_def
  by (intro exI conjI, rule mgmt_request_args) (simp_all add: map_of_put_value)

lemma named_search_request_cases:
  assumes "named_search_request sm op extra n options kwargs = Inr req"
  shows "in_scope sm req \<and> is_null_or_empty n = Inr False"
  using assms scoped_search_request_in_scope
  by (auto simp: named_search_request_def bindE_eq_Inr split: if_splits)

text \<open>C38. Every request of a scope's manager names its bucket and scope, except for the statistics of all
  indexes, which the scope does not restrict; the statistics of one index are refused there.  No
  request goes out for an index whose name is missing or blank.\<close>

theorem search_requests_stay_in_scope:
  assumes "search_command_request sm c options kwargs = Inr req"
  shows "(c = AllStats \<or> (\<exists>n. c = Stats n \<and> (sm_bucket sm = PNone \<or> sm_scope sm = PNone)) \<or> in_scope sm req) \<and>
    (\<forall>n. command_index c = Some n \<longrightarrow> is_null_or_empty n = Inr False)"
proof (cases c)
  case (Upsert i)
  then show ?thesis using assms scoped_search_request_in_scope
    by (auto simp: upsert_search_index_def bindE_eq_Inr SearchIndex_is_valid_def split: option.splits if_splits)
next
  case GetAll
  then show ?thesis using assms scoped_search_request_in_scope by (auto simp: get_all_search_indexes_def bindE_eq_Inr)
next
  case (Analyze n d)
  then show ?thesis using assms scoped_search_request_in_scope
    by (auto simp: analyze_document_def bindE_eq_Inr split: if_splits sum.splits)
next
  case (Stats n)
  then show ?thesis using assms by (auto simp: get_index_stats_def bindE_eq_Inr split: if_splits)
qed (use assms named_search_request_cases in \<open>auto simp: search_operations\<close>)

lemma search_requests_witness:
  "\<exists>req. search_command_request \<lparr>sm_mgmt = demo_env, sm_floats = \<lparr>float_repr = (\<lambda>_. []), float_parse = (\<lambda>_. NaN)\<rparr>,
      sm_bucket = PStr ''b'', sm_scope = PStr ''s''\<rparr> (Pause (PStr ''i'')) [] [] = Inr req \<and>
    in_scope \<lparr>sm_mgmt = demo_env, sm_floats = \<lparr>float_repr = (\<lambda>_. []), float_parse = (\<lambda>_. NaN)\<rparr>,
      sm_bucket = PStr ''b'', sm_scope = PStr ''s''\<rparr> req"
proof -
  let ?sm = "\<lparr>sm_mgmt = demo_env, sm_floats = \<lparr>float_repr = (\<lambda>_. []), float_parse = (\<lambda>_. NaN)\<rparr>,
      sm_bucket = PStr ''b'', sm_scope = PStr ''s''\<rparr>"
  have "\<exists>req. search_command_request ?sm (Pause (PStr ''i'')) [] [] = Inr req"
    by (simp add: pause_ingest_def named_search_request_def is_null_or_empty_def str_isspace_def demo_env_def
        forward_args_def get_temp_opts_def nested_kwargs_def dupdate_def)
  then obtain req where r: "search_command_request ?sm (Pause (PStr ''i'')) [] [] = Inr req" ..
  from search_requests_stay_in_scope [OF r] have "in_scope ?sm req" by simp
  with r show ?thesis by blast
qed

end
