(* ===== verification/Analytics_Mgmt.thy ===== *)
theory Analytics_Mgmt
  imports Mgmt_Base
begin

text \<open>
  Analytics management: \<open>couchbase/management/logic/analytics_logic.py\<close> with the blocking manager of
  \<open>couchbase/management/analytics.py\<close>, and the readers of its results in \<open>logic/wrappers.py\<close>.

  A link is one of three records.  Certificates are bytes.  \<open>form_encode\<close>, which nothing calls, is left
  out.
\<close>

subsection \<open>Requests\<close>

definition analytics_request ::
  "mgmt_env \<Rightarrow> string \<Rightarrow> pydict \<Rightarrow> pydict \<Rightarrow> pydict \<Rightarrow> pydict" where
  "analytics_request m = mgmt_request m ''ANALYTICS'' ''analytics_mgmt_operations''"

text \<open>\<open>if final_args.get(k, False) is True: op_args[k'] = ...\<close>\<close>

definition put_flag :: "pydict \<Rightarrow> string \<Rightarrow> string \<Rightarrow> pydict \<Rightarrow> pydict" where
  "put_flag final_args k k' op_args =
     (if dget final_args k (PBool False) = PBool True then AList.update k' (PBool True) op_args else op_args)"

definition Logic_create_dataverse :: "mgmt_env \<Rightarrow> pyval \<Rightarrow> pydict list \<Rightarrow> pydict \<Rightarrow> pydict res" where
  "Logic_create_dataverse m dataverse_name options kwargs =
     bindE (forward_args (mg_env m) kwargs options) (\<lambda>final_args.
       Inr (analytics_request m ''CREATE_DATAVERSE''
         (put_flag final_args ''ignore_if_exists'' ''ignore_if_exists'' [(''dataverse_name'', dataverse_name)])
         kwargs final_args))"

definition Logic_drop_dataverse :: "mgmt_env \<Rightarrow> pyval \<Rightarrow> pydict list \<Rightarrow> pydict \<Rightarrow> pydict res" where
  "Logic_drop_dataverse m dataverse_name options kwargs =
     bindE (forward_args (mg_env m) kwargs options) (\<lambda>final_args.
       Inr (analytics_request m ''DROP_DATAVERSE''
         (put_flag final_args ''ignore_if_not_exists'' ''ignore_if_does_not_exist''
           [(''dataverse_name'', dataverse_name)]) kwargs final_args))"

definition Logic_create_dataset :: "mgmt_env \<Rightarrow> pyval \<Rightarrow> pyval \<Rightarrow> pydict list \<Rightarrow> pydict \<Rightarrow> pydict res" where
  "Logic_create_dataset m dataset_name bucket options kwargs =
     bindE (forward_args (mg_env m) kwargs options) (\<lambda>final_args.
       Inr (analytics_request m ''CREATE_DATASET''
         (put_flag final_args ''ignore_if_exists'' ''ignore_if_exists''
           (put_given final_args ''dataverse_name''
             [(''dataset_name'', dataset_name), (''bucket_name'', bucket)])) kwargs final_args))"

definition Logic_drop_dataset :: "mgmt_env \<Rightarrow> pyval \<Rightarrow> pydict list \<Rightarrow> pydict \<Rightarrow> pydict res" where
  "Logic_drop_dataset m dataset_name options kwargs =
     bindE (forward_args (mg_env m) kwargs options) (\<lambda>final_args.
       Inr (analytics_request m ''DROP_DATASET''
         (put_flag final_args ''ignore_if_not_exists'' ''ignore_if_does_not_exist''
           (put_given final_args ''dataverse_name'' [(''dataset_name'', dataset_name)])) kwargs final_args))"

definition plain_analytics_request :: "mgmt_env \<Rightarrow> string \<Rightarrow> pydict list \<Rightarrow> pydict \<Rightarrow> pydict res" where
  "plain_analytics_request m op_type options kwargs =
     bindE (forward_args (mg_env m) kwargs options) (\<lambda>final_args.
       Inr (analytics_request m op_type [] kwargs final_args))"

definition Logic_get_all_datasets :: "mgmt_env \<Rightarrow> pydict list \<Rightarrow> pydict \<Rightarrow> pydict res" where
  "Logic_get_all_datasets m = plain_analytics_request m ''GET_ALL_DATASETS''"

definition field_type :: "pyval \<times> pyval \<Rightarrow> (pyval \<times> pyval) res" where
  "field_type kv = (case snd kv of PEnum _ _ s \<Rightarrow> Inr (fst kv, PStr s) | _ \<Rightarrow> Inl AttributeError)"

definition Logic_create_analytics_index ::
  "mgmt_env \<Rightarrow> pyval \<Rightarrow> pyval \<Rightarrow> pyval \<Rightarrow> pydict list \<Rightarrow> pydict \<Rightarrow> pydict res" where
  "Logic_create_analytics_index m name dataset_name field_types options kwargs =
     bindE (forward_args (mg_env m) kwargs options) (\<lambda>final_args.
     bindE (case field_types of PDict d \<Rightarrow> mapE field_type d | _ \<Rightarrow> Inl AttributeError) (\<lambda>fs.
       Inr (analytics_request m ''CREATE_INDEX''
         (put_flag final_args ''ignore_if_exists'' ''ignore_if_exists''
           (put_given final_args ''dataverse_name''
             [(''index_name'', name), (''dataset_name'', dataset_name), (''fields'', PDict fs)]))
         kwargs final_args)))"

definition Logic_drop_analytics_index ::
  "mgmt_env \<Rightarrow> pyval \<Rightarrow> pyval \<Rightarrow> pydict list \<Rightarrow> pydict \<Rightarrow> pydict res" where
  "Logic_drop_analytics_index m name dataset_name options kwargs =
     bindE (forward_args (mg_env m) kwargs options) (\<lambda>final_args.
       Inr (analytics_request m ''DROP_INDEX''
         (put_flag final_args ''ignore_if_not_exists'' ''ignore_if_does_not_exist''
           (put_given final_args ''dataverse_name''
             [(''index_name'', name), (''dataset_name'', dataset_name)])) kwargs final_args))"

definition Logic_get_all_analytics_indexes :: "mgmt_env \<Rightarrow> pydict list \<Rightarrow> pydict \<Rightarrow> pydict res" where
  "Logic_get_all_analytics_indexes m = plain_analytics_request m ''GET_ALL_INDEXES''"

definition Logic_connect_link :: "mgmt_env \<Rightarrow> pydict list \<Rightarrow> pydict \<Rightarrow> pydict res" where
  "Logic_connect_link m options kwargs =
     bindE (forward_args (mg_env m) kwargs options) (\<lambda>final_args.
       Inr (analytics_request m ''LINK_CONNECT''
         (put_flag final_args ''force'' ''force''
           (put_given final_args ''link_name'' (put_given final_args ''dataverse_name'' []))) kwargs final_args))"

definition Logic_disconnect_link :: "mgmt_env \<Rightarrow> pydict list \<Rightarrow> pydict \<Rightarrow> pydict res" where
  "Logic_disconnect_link m options kwargs =
     bindE (forward_args (mg_env m) kwargs options) (\<lambda>final_args.
       Inr (analytics_request m ''LINK_DISCONNECT''
         (put_given final_args ''link_name'' (put_given final_args ''dataverse_name'' [])) kwargs final_args))"

definition Logic_get_pending_mutations :: "mgmt_env \<Rightarrow> pydict list \<Rightarrow> pydict \<Rightarrow> pydict res" where
  "Logic_get_pending_mutations m = plain_analytics_request m ''GET_PENDING_MUTATIONS''"

definition Logic_drop_link :: "mgmt_env \<Rightarrow> pyval \<Rightarrow> pyval \<Rightarrow> pydict list \<Rightarrow> pydict \<Rightarrow> pydict res" where
  "Logic_drop_link m link_name dataverse_name options kwargs =
     bindE (forward_args (mg_env m) kwargs options) (\<lambda>final_args.
       Inr (analytics_request m ''DROP_LINK''
         [(''link_name'', link_name), (''dataverse_name'', dataverse_name)] kwargs final_args))"

definition Logic_get_links :: "mgmt_env \<Rightarrow> pydict list \<Rightarrow> pydict \<Rightarrow> pydict res" where
  "Logic_get_links m = plain_analytics_request m ''GET_ALL_LINKS''"

subsection \<open>Links\<close>

definition Level_NONE :: pyval where "Level_NONE = PEnum ''AnalyticsEncryptionLevel'' ''NONE'' ''none''"
definition Level_HALF :: pyval where "Level_HALF = PEnum ''AnalyticsEncryptionLevel'' ''HALF'' ''half''"
definition Level_FULL :: pyval where "Level_FULL = PEnum ''AnalyticsEncryptionLevel'' ''FULL'' ''full''"

lemmas level_defs = Level_NONE_def Level_HALF_def Level_FULL_def

record encryption_settings =
  es_level :: pyval
  es_certificate :: pyval
  es_client_certificate :: pyval
  es_client_key :: pyval

definition EncryptionSettings_init :: "pyval \<Rightarrow> pyval \<Rightarrow> pyval \<Rightarrow> pyval \<Rightarrow> encryption_settings" where
  "EncryptionSettings_init level certificate client_certificate client_key =
     \<lparr>es_level = (if level = PNone then Level_NONE else level), es_certificate = certificate,
       es_client_certificate = client_certificate, es_client_key = client_key\<rparr>"

record couchbase_link =
  cl_dataverse :: pyval
  cl_link_name :: pyval
  cl_hostname :: pyval
  cl_encryption :: encryption_settings
  cl_username :: pyval
  cl_password :: pyval

record s3_link =
  s3_dataverse :: pyval
  s3_link_name :: pyval
  s3_access_key_id :: pyval
  s3_region :: pyval
  s3_secret_access_key :: pyval
  s3_session_token :: pyval
  s3_service_endpoint :: pyval

record azure_link =
  az_dataverse :: pyval
  az_link_name :: pyval
  az_connection_string :: pyval
  az_account_name :: pyval
  az_account_key :: pyval
  az_shared_access_signature :: pyval
  az_blob_endpoint :: pyval
  az_endpiont_suffix :: pyval

datatype analytics_link = CouchbaseRemote couchbase_link | S3External s3_link | AzureBlobExternal azure_link

text \<open>\<open>v and len(v) > 0\<close>, and \<open>v.decode('utf-8')\<close>.\<close>

definition has_bytes :: "pyval \<Rightarrow> bool res" where
  "has_bytes v = (if \<not> truthy v then Inr False
     else case v of PBytes b \<Rightarrow> Inr True | PBytearray b \<Rightarrow> Inr True | PStr s \<Rightarrow> Inr True | PList xs \<Rightarrow> Inr True
       | PTuple xs \<Rightarrow> Inr True | PSet xs \<Rightarrow> Inr True | PDict d \<Rightarrow> Inr True | _ \<Rightarrow> Inl TypeError)"

definition decode_bytes :: "octets \<Rightarrow> pyval res" where
  "decode_bytes b = (case utf8_decode b of None \<Rightarrow> Inl UnicodeDecodeError | Some s \<Rightarrow> Inr (PStr (map char_of s)))"

definition put_decoded :: "string \<Rightarrow> pyval \<Rightarrow> pydict \<Rightarrow> pydict res" where
  "put_decoded k v output =
     (if \<not> truthy v then Inr output
      else bindE (case v of PBytes b \<Rightarrow> decode_bytes b | PBytearray b \<Rightarrow> decode_bytes b | _ \<Rightarrow> Inl AttributeError) (\<lambda>t.
        Inr (AList.update k t output)))"

definition EncryptionSettings_as_dict :: "encryption_settings \<Rightarrow> pydict res" where
  "EncryptionSettings_as_dict es =
     bindE (case es_level es of PEnum _ _ s \<Rightarrow> Inr [(''encryption_level'', PStr s)] | _ \<Rightarrow> Inl AttributeError) (\<lambda>d.
     bindE (put_decoded ''certificate'' (es_certificate es) d) (\<lambda>d.
     bindE (put_decoded ''client_certificate'' (es_client_certificate es) d) (\<lambda>d.
       put_decoded ''client_key'' (es_client_key es) d)))"

text \<open>\<open>bytes(text, 'utf-8')\<close>\<close>

definition bytes_of :: "pyval \<Rightarrow> pyval res" where
  "bytes_of v = (case v of
       PStr s \<Rightarrow> (case utf8_encode (map of_char s) of None \<Rightarrow> Inl ValueError | Some b \<Rightarrow> Inr (PBytes b))
     | _ \<Rightarrow> Inl TypeError)"

definition read_bytes :: "(pyval \<times> pyval) list \<Rightarrow> string \<Rightarrow> pyval \<Rightarrow> pyval res" where
  "read_bytes raw k old = (case map_of raw (PStr k) of
       None \<Rightarrow> Inr old
     | Some v \<Rightarrow> bindE (is_null_or_empty v) (\<lambda>empty. if empty then Inr old else bytes_of v))"

text \<open>The client certificate of the server becomes the certificate of the settings.\<close>

definition EncryptionSettings_from_server_json :: "pyval \<Rightarrow> encryption_settings res" where
  "EncryptionSettings_from_server_json raw_data =
     bindE (item raw_data ''encryption_level'') (\<lambda>level.
       let raw = (case raw_data of PDict d \<Rightarrow> d | _ \<Rightarrow> []);
           es = EncryptionSettings_init PNone PNone PNone PNone;
           es = (if py_eq level (PStr ''none'') then es\<lparr>es_level := Level_NONE\<rparr>
                 else if py_eq level (PStr ''half'') then es\<lparr>es_level := Level_HALF\<rparr>
                 else if py_eq level (PStr ''full'') then es\<lparr>es_level := Level_FULL\<rparr> else es)
       in bindE (read_bytes raw ''certificate'' (es_certificate es)) (\<lambda>c.
          bindE (read_bytes raw ''client_certificate'' c) (\<lambda>c. Inr (es\<lparr>es_certificate := c\<rparr>))))"

text \<open>The checks of \<open>validate\<close>: a list of values of which none may be missing or blank.\<close>

fun all_given :: "pyval list \<Rightarrow> bool res" where
  "all_given [] = Inr True"
| "all_given (v # vs) = bindE (is_null_or_empty v) (\<lambda>empty. if empty then Inr False else all_given vs)"

definition refuse_unless :: "bool res \<Rightarrow> unit res" where
  "refuse_unless r = bindE r (\<lambda>ok. if ok then Inr () else Inl InvalidArgumentException)"

fun all_bytes :: "pyval list \<Rightarrow> bool res" where
  "all_bytes [] = Inr True"
| "all_bytes (v # vs) = bindE (has_bytes v) (\<lambda>given. if given then all_bytes vs else Inr False)"

definition CouchbaseRemote_validate :: "couchbase_link \<Rightarrow> unit res" where
  "CouchbaseRemote_validate l =
     bindE (refuse_unless (all_given [cl_dataverse l, cl_link_name l, cl_hostname l])) (\<lambda>_.
       let es = cl_encryption l
       in if es_level es = Level_NONE \<or> es_level es = Level_HALF
          then refuse_unless (all_given [cl_username l, cl_password l])
          else if es_level es = Level_FULL
          then refuse_unless (all_bytes [es_certificate es, es_client_certificate es, es_client_key es])
          else Inr ())"

definition S3External_validate :: "s3_link \<Rightarrow> unit res" where
  "S3External_validate l = refuse_unless (all_given
     [s3_dataverse l, s3_link_name l, s3_access_key_id l, s3_secret_access_key l, s3_region l])"

definition AzureBlobExternal_validate :: "azure_link \<Rightarrow> unit res" where
  "AzureBlobExternal_validate l =
     bindE (refuse_unless (all_given [az_dataverse l, az_link_name l])) (\<lambda>_.
     bindE (is_null_or_empty (az_connection_string l)) (\<lambda>no_string.
       if \<not> no_string then Inr ()
       else bindE (all_given [az_account_name l, az_account_key l]) (\<lambda>acct_name_and_key.
            bindE (all_given [az_account_name l, az_shared_access_signature l]) (\<lambda>acct_name_and_sas.
              refuse_unless (Inr (acct_name_and_key \<or> acct_name_and_sas))))))"

fun Link_validate :: "analytics_link \<Rightarrow> unit res" where
  "Link_validate (CouchbaseRemote l) = CouchbaseRemote_validate l"
| "Link_validate (S3External l) = S3External_validate l"
| "Link_validate (AzureBlobExternal l) = AzureBlobExternal_validate l"

definition CouchbaseRemote_as_dict :: "couchbase_link \<Rightarrow> pydict res" where
  "CouchbaseRemote_as_dict l =
     bindE (EncryptionSettings_as_dict (cl_encryption l)) (\<lambda>es.
       Inr (AList.update ''encryption'' (pdict es)
         (put_true ''password'' (cl_password l) (put_true ''username'' (cl_username l)
           [(''link_name'', cl_link_name l), (''dataverse'', cl_dataverse l), (''hostname'', cl_hostname l),
            (''link_type'', PStr ''couchbase'')]))))"

definition S3External_as_dict :: "s3_link \<Rightarrow> pydict" where
  "S3External_as_dict l =
     put_true ''service_endpoint'' (s3_service_endpoint l) (put_true ''session_token'' (s3_session_token l)
       [(''link_name'', s3_link_name l), (''dataverse'', s3_dataverse l), (''access_key_id'', s3_access_key_id l),
        (''secret_access_key'', s3_secret_access_key l), (''region'', s3_region l), (''link_type'', PStr ''s3'')])"

definition AzureBlobExternal_as_dict :: "azure_link \<Rightarrow> pydict" where
  "AzureBlobExternal_as_dict l =
     fold (\<lambda>(k, v). put_true k v)
       [(''connection_string'', az_connection_string l), (''account_name'', az_account_name l),
        (''account_key'', az_account_key l), (''shared_access_signature'', az_shared_access_signature l),
        (''blob_endpoint'', az_blob_endpoint l), (''endpiont_suffix'', az_endpiont_suffix l)]
       [(''link_name'', az_link_name l), (''dataverse'', az_dataverse l), (''link_type'', PStr ''azureblob'')]"

fun Link_as_dict :: "analytics_link \<Rightarrow> pydict res" where
  "Link_as_dict (CouchbaseRemote l) = CouchbaseRemote_as_dict l"
| "Link_as_dict (S3External l) = Inr (S3External_as_dict l)"
| "Link_as_dict (AzureBlobExternal l) = Inr (AzureBlobExternal_as_dict l)"

fun Link_type :: "analytics_link \<Rightarrow> pyval" where
  "Link_type (CouchbaseRemote l) = PStr ''couchbase''"
| "Link_type (S3External l) = PStr ''s3''"
| "Link_type (AzureBlobExternal l) = PStr ''azureblob''"

definition link_request ::
  "mgmt_env \<Rightarrow> string \<Rightarrow> analytics_link \<Rightarrow> pydict list \<Rightarrow> pydict \<Rightarrow> pydict res" where
  "link_request m op_type link options kwargs =
     bindE (Link_validate link) (\<lambda>_.
     bindE (forward_args (mg_env m) kwargs options) (\<lambda>final_args.
     bindE (Link_as_dict link) (\<lambda>d.
       Inr (analytics_request m op_type [(''link'', pdict d), (''link_type'', Link_type link)] kwargs final_args))))"

definition Logic_create_link :: "mgmt_env \<Rightarrow> analytics_link \<Rightarrow> pydict list \<Rightarrow> pydict \<Rightarrow> pydict res" where
  "Logic_create_link m = link_request m ''LINK_CREATE''"

definition Logic_replace_link :: "mgmt_env \<Rightarrow> analytics_link \<Rightarrow> pydict list \<Rightarrow> pydict \<Rightarrow> pydict res" where
  "Logic_replace_link m = link_request m ''LINK_REPLACE''"

definition CouchbaseRemote_from_server_json :: "pyval \<Rightarrow> analytics_link res" where
  "CouchbaseRemote_from_server_json raw =
     bindE (item raw ''dataverse'') (\<lambda>dataverse. bindE (item raw ''link_name'') (\<lambda>link_name.
     bindE (item raw ''hostname'') (\<lambda>hostname.
     bindE (bindE (item raw ''encryption_settings'') EncryptionSettings_from_server_json) (\<lambda>encryption.
       Inr (CouchbaseRemote \<lparr>cl_dataverse = dataverse, cl_link_name = link_name, cl_hostname = hostname,
         cl_encryption = encryption, cl_username = item_or_none raw ''username'', cl_password = PNone\<rparr>)))))"

definition S3External_from_server_json :: "pyval \<Rightarrow> analytics_link res" where
  "S3External_from_server_json raw =
     bindE (item raw ''dataverse'') (\<lambda>dataverse. bindE (item raw ''link_name'') (\<lambda>link_name.
     bindE (item raw ''access_key_id'') (\<lambda>access_key_id. bindE (item raw ''region'') (\<lambda>region.
       Inr (S3External \<lparr>s3_dataverse = dataverse, s3_link_name = link_name, s3_access_key_id = access_key_id,
         s3_region = region, s3_secret_access_key = PNone, s3_session_token = PNone,
         s3_service_endpoint = item_or_none raw ''service_endpoint''\<rparr>)))))"

definition AzureBlobExternal_from_server_json :: "pyval \<Rightarrow> analytics_link res" where
  "AzureBlobExternal_from_server_json raw =
     bindE (item raw ''dataverse'') (\<lambda>dataverse. bindE (item raw ''link_name'') (\<lambda>link_name.
       Inr (AzureBlobExternal \<lparr>az_dataverse = dataverse, az_link_name = link_name, az_connection_string = PNone,
         az_account_name = item_or_none raw ''account_name'', az_account_key = PNone,
         az_shared_access_signature = PNone, az_blob_endpoint = item_or_none raw ''blob_endpoint'',
         az_endpiont_suffix = item_or_none raw ''endpoint_suffix''\<rparr>)))"

subsection \<open>The blocking manager\<close>

text \<open>
  Its methods take one optional block of options; \<open>None\<close> is no block.  A pattern \<open>(scope)*\<close> before \<open>.*\<close>, or
  \<open>(collection)*\<close> at the end, matches nothing more than the pattern without it and is left out.
\<close>

definition Analytics_ERROR_MAPPING :: err_mapping where
  "Analytics_ERROR_MAPPING =
     [([RStar] @ lit ''24055'' @ [RStar] @ lit ''already exists'', ''AnalyticsLinkExistsException''),
      ([RStar] @ lit ''24006'' @ [RStar] @ lit ''does not exist'', ''AnalyticsLinkNotFoundException''),
      ([RStar] @ lit ''24034'' @ [RStar] @ lit ''Cannot find'', ''DataverseNotFoundException''),
      ([RStar] @ lit ''24025'' @ [RStar] @ lit ''Cannot find analytics '', ''DatasetNotFoundException''),
      ([RStar] @ lit ''24039'' @ [RStar] @ lit ''An analytics'' @ [RSpaces, RStar] @ lit ''already exists'',
         ''DataverseAlreadyExistsException''),
      ([RStar] @ lit ''24040'' @ [RStar] @ lit ''An analytics'' @ [RSpaces, RStar] @ lit ''already exists'',
         ''DatasetAlreadyExistsException'')]"

definition analytics_op ::
  "'w mgmt_core \<Rightarrow> (pydict option \<Rightarrow> 'a res) \<Rightarrow> pydict res \<Rightarrow> ('w, 'a) action" where
  "analytics_op core = mgmt_block core Analytics_ERROR_MAPPING"

definition with_str :: "pyval list \<Rightarrow> exc \<Rightarrow> 'a res \<Rightarrow> 'a res" where
  "with_str vs e r = (if list_all is_str vs then r else Inl e)"

definition AIM_create_dataverse_request :: "mgmt_env \<Rightarrow> pyval \<Rightarrow> pydict list \<Rightarrow> pydict \<Rightarrow> pydict res" where
  "AIM_create_dataverse_request m name options kwargs =
     with_str [name] InvalidArgumentException (Logic_create_dataverse m name options kwargs)"

definition AIM_drop_dataverse_request :: "mgmt_env \<Rightarrow> pyval \<Rightarrow> pydict list \<Rightarrow> pydict \<Rightarrow> pydict res" where
  "AIM_drop_dataverse_request m name options kwargs =
     with_str [name] InvalidArgumentException (Logic_drop_dataverse m name options kwargs)"

definition AIM_create_dataset_request :: "mgmt_env \<Rightarrow> pyval \<Rightarrow> pyval \<Rightarrow> pydict list \<Rightarrow> pydict \<Rightarrow> pydict res" where
  "AIM_create_dataset_request m dataset bucket options kwargs =
     with_str [dataset, bucket] InvalidArgumentException (Logic_create_dataset m dataset bucket options kwargs)"

definition AIM_drop_dataset_request :: "mgmt_env \<Rightarrow> pyval \<Rightarrow> pydict list \<Rightarrow> pydict \<Rightarrow> pydict res" where
  "AIM_drop_dataset_request m dataset options kwargs =
     with_str [dataset] InvalidArgumentException (Logic_drop_dataset m dataset options kwargs)"

definition is_data_type :: "pyval \<Rightarrow> bool" where
  "is_data_type v = (case v of PEnum c _ _ \<Rightarrow> c = ''AnalyticsDataType'' | _ \<Rightarrow> False)"

text \<open>\<open>None\<close> passes the check of the fields.\<close>

definition AIM_create_index_request ::
  "mgmt_env \<Rightarrow> pyval \<Rightarrow> pyval \<Rightarrow> pyval \<Rightarrow> pydict list \<Rightarrow> pydict \<Rightarrow> pydict res" where
  "AIM_create_index_request m name dataset field_types options kwargs =
     with_str [name, dataset] InvalidArgumentException
       (if (case field_types of PNone \<Rightarrow> True | PDict d \<Rightarrow> list_all (is_data_type \<circ> snd) d | _ \<Rightarrow> False)
        then Logic_create_analytics_index m name dataset field_types options kwargs
        else Inl InvalidArgumentException)"

definition AIM_drop_index_request :: "mgmt_env \<Rightarrow> pyval \<Rightarrow> pyval \<Rightarrow> pydict list \<Rightarrow> pydict \<Rightarrow> pydict res" where
  "AIM_drop_index_request m name dataset options kwargs =
     with_str [name, dataset] InvalidArgumentException (Logic_drop_analytics_index m name dataset options kwargs)"

definition AIM_drop_link_request :: "mgmt_env \<Rightarrow> pyval \<Rightarrow> pyval \<Rightarrow> pydict list \<Rightarrow> pydict \<Rightarrow> pydict res" where
  "AIM_drop_link_request m link_name dataverse options kwargs =
     with_str [link_name, dataverse] ValueError (Logic_drop_link m link_name dataverse options kwargs)"

subsection \<open>Results\<close>

record analytics_dataset =
  ad_dataset_name :: pyval
  ad_dataverse_name :: pyval
  ad_link_name :: pyval
  ad_bucket_name :: pyval

record analytics_index =
  ai_name :: pyval
  ai_dataset_name :: pyval
  ai_dataverse_name :: pyval
  ai_is_primary :: pyval

text \<open>\<open>return_cls(**ds)\<close> of a dataclass with these fields, all of them optional.\<close>

definition dataclass_args :: "string list \<Rightarrow> pyval \<Rightarrow> (string \<Rightarrow> pyval) res" where
  "dataclass_args names v = (case v of
       PDict d \<Rightarrow> if list_all (\<lambda>(k, _). k \<in> PStr ` set names) d
         then Inr (\<lambda>k. case map_of d (PStr k) of None \<Rightarrow> PNone | Some w \<Rightarrow> w) else Inl TypeError
     | _ \<Rightarrow> Inl TypeError)"

definition AnalyticsDataset_of :: "pyval \<Rightarrow> analytics_dataset res" where
  "AnalyticsDataset_of v =
     bindE (dataclass_args [''dataset_name'', ''dataverse_name'', ''link_name'', ''bucket_name''] v) (\<lambda>get.
       Inr \<lparr>ad_dataset_name = get ''dataset_name'', ad_dataverse_name = get ''dataverse_name'',
         ad_link_name = get ''link_name'', ad_bucket_name = get ''bucket_name''\<rparr>)"

definition AnalyticsIndex_of :: "pyval \<Rightarrow> analytics_index res" where
  "AnalyticsIndex_of v =
     bindE (dataclass_args [''name'', ''dataset_name'', ''dataverse_name'', ''is_primary''] v) (\<lambda>get.
       Inr \<lparr>ai_name = get ''name'', ai_dataset_name = get ''dataset_name'',
         ai_dataverse_name = get ''dataverse_name'', ai_is_primary = get ''is_primary''\<rparr>)"

definition read_all_datasets :: "pydict option \<Rightarrow> analytics_dataset list res" where
  "read_all_datasets = read_all ''datasets'' AnalyticsDataset_of"

definition read_all_analytics_indexes :: "pydict option \<Rightarrow> analytics_index list res" where
  "read_all_analytics_indexes = read_all ''indexes'' AnalyticsIndex_of"

definition read_pending_mutations :: "pydict option \<Rightarrow> pyval res" where
  "read_pending_mutations raw = (case raw of None \<Rightarrow> Inl AttributeError | Some d \<Rightarrow> Inr (dget d ''stats'' PNone))"

definition read_links :: "pydict option \<Rightarrow> analytics_link list res" where
  "read_links raw =
     bindE (read_all ''couchbase_links'' CouchbaseRemote_from_server_json raw) (\<lambda>cb.
     bindE (read_all ''s3_links'' S3External_from_server_json raw) (\<lambda>s3.
     bindE (read_all ''azure_blob_links'' AzureBlobExternal_from_server_json raw) (\<lambda>az.
       Inr (cb @ s3 @ az))))"

subsection \<open>A link that was read cannot be written back\<close>

lemma refuse_unless_Inr: "refuse_unless r = Inr () \<longleftrightarrow> r = Inr True"
  by (cases r) (auto simp: refuse_unless_def)

lemma all_given_Inr: "all_given vs = Inr True \<longleftrightarrow> (\<forall>v \<in> set vs. is_null_or_empty v = Inr False)"
proof (induction vs)
  case (Cons v vs)
  then show ?case by (cases "is_null_or_empty v") auto
qed simp

lemma all_bytes_Inr: "all_bytes vs = Inr True \<longleftrightarrow> (\<forall>v \<in> set vs. has_bytes v = Inr True)"
proof (induction vs)
  case (Cons v vs)
  then show ?case by (cases "has_bytes v") auto
qed simp

declare all_given.simps [simp del] all_bytes.simps [simp del]

lemma None_not_given: "is_null_or_empty PNone = Inr True" "has_bytes PNone = Inr False"
  by (simp_all add: is_null_or_empty_def has_bytes_def)

lemma level_from_server:
  assumes "EncryptionSettings_from_server_json raw = Inr es"
  shows "es_level es \<in> {Level_NONE, Level_HALF, Level_FULL} \<and> es_client_certificate es = PNone \<and> es_client_key es = PNone"
  using assms by (auto simp: EncryptionSettings_from_server_json_def EncryptionSettings_init_def bindE_eq_Inr Let_def
      split: if_splits)

lemma read_link_invalid:
  "CouchbaseRemote_from_server_json raw = Inr l \<Longrightarrow> Link_validate l \<noteq> Inr ()"
  "S3External_from_server_json raw = Inr l \<Longrightarrow> Link_validate l \<noteq> Inr ()"
  "AzureBlobExternal_from_server_json raw = Inr l \<Longrightarrow> Link_validate l \<noteq> Inr ()"
proof -
  show "Link_validate l \<noteq> Inr ()" if "S3External_from_server_json raw = Inr l"
    using that by (auto simp: S3External_from_server_json_def bindE_eq_Inr S3External_validate_def refuse_unless_Inr
        all_given_Inr None_not_given)
  show "Link_validate l \<noteq> Inr ()" if read: "AzureBlobExternal_from_server_json raw = Inr l"
  proof
    assume "Link_validate l = Inr ()"
    moreover obtain a where a: "l = AzureBlobExternal a" "az_connection_string a = PNone" "az_account_key a = PNone"
      "az_shared_access_signature a = PNone"
      using read by (auto simp: AzureBlobExternal_from_server_json_def bindE_eq_Inr)
    ultimately show False
      by (auto simp: AzureBlobExternal_validate_def bindE_eq_Inr refuse_unless_Inr all_given_Inr None_not_given
          split: if_splits)
  qed
  show "Link_validate l \<noteq> Inr ()" if read: "CouchbaseRemote_from_server_json raw = Inr l"
  proof
    assume v: "Link_validate l = Inr ()"
    obtain c r where c: "l = CouchbaseRemote c" "cl_password c = PNone"
      "EncryptionSettings_from_server_json r = Inr (cl_encryption c)"
      using read by (auto simp: CouchbaseRemote_from_server_json_def bindE_eq_Inr)
    have "es_level (cl_encryption c) \<in> {Level_NONE, Level_HALF, Level_FULL}"
      "es_client_certificate (cl_encryption c) = PNone"
      using level_from_server [OF c(3)] by simp_all
    then show False using v c(1,2)
      by (auto simp: CouchbaseRemote_validate_def bindE_eq_Inr refuse_unless_Inr all_given_Inr all_bytes_Inr
          None_not_given level_defs Let_def split: if_splits)
  qed
qed

lemma read_links_invalid:
  assumes "read_links raw = Inr ls" "l \<in> set ls"
  shows "Link_validate l \<noteq> Inr ()"
proof -
  have "\<exists>x. f x = Inr l" if "read_all k f raw = Inr xs" "l \<in> set xs" for k xs and f :: "pyval \<Rightarrow> analytics_link res"
  proof -
    have "mapE f vs = Inr xs \<Longrightarrow> \<exists>x. f x = Inr l" for vs
      using that(2) by (induction vs arbitrary: xs) (auto simp: bindE_eq_Inr)
    then show ?thesis using that by (auto simp: read_all_def bindE_eq_Inr split: option.splits if_splits)
  qed
  note reader = this
  obtain cb s3 az where r: "read_all ''couchbase_links'' CouchbaseRemote_from_server_json raw = Inr cb"
    "read_all ''s3_links'' S3External_from_server_json raw = Inr s3"
    "read_all ''azure_blob_links'' AzureBlobExternal_from_server_json raw = Inr az" "ls = cb @ s3 @ az"
    using assms(1) by (auto simp: read_links_def bindE_eq_Inr)
  then consider "l \<in> set cb" | "l \<in> set s3" | "l \<in> set az" using assms(2) by auto
  then show ?thesis
    by cases (use reader [OF r(1)] reader [OF r(2)] reader [OF r(3)] read_link_invalid in blast)+
qed

definition given :: "pyval \<Rightarrow> bool" where
  "given v \<longleftrightarrow> is_null_or_empty v = Inr False"

text \<open>What a link needs before it is sent.\<close>

fun complete_link :: "analytics_link \<Rightarrow> bool" where
  "complete_link (CouchbaseRemote l) \<longleftrightarrow>
     given (cl_dataverse l) \<and> given (cl_link_name l) \<and> given (cl_hostname l) \<and>
     (es_level (cl_encryption l) \<in> {Level_NONE, Level_HALF} \<longrightarrow> given (cl_username l) \<and> given (cl_password l)) \<and>
     (es_level (cl_encryption l) = Level_FULL \<longrightarrow>
        truthy (es_certificate (cl_encryption l)) \<and> truthy (es_client_certificate (cl_encryption l)) \<and>
        truthy (es_client_key (cl_encryption l)))"
| "complete_link (S3External l) \<longleftrightarrow>
     given (s3_dataverse l) \<and> given (s3_link_name l) \<and> given (s3_access_key_id l) \<and>
     given (s3_secret_access_key l) \<and> given (s3_region l)"
| "complete_link (AzureBlobExternal l) \<longleftrightarrow>
     given (az_dataverse l) \<and> given (az_link_name l) \<and>
     (given (az_connection_string l) \<or>
      given (az_account_name l) \<and> (given (az_account_key l) \<or> given (az_shared_access_signature l)))"

lemma has_bytes_truthy: "has_bytes v = Inr True \<Longrightarrow> truthy v"
  by (cases "truthy v") (simp_all add: has_bytes_def)

lemma valid_link_complete: "Link_validate l = Inr () \<Longrightarrow> complete_link l"
proof (cases l)
  case (CouchbaseRemote c)
  assume "Link_validate l = Inr ()"
  then show ?thesis
    by (auto simp: CouchbaseRemote CouchbaseRemote_validate_def bindE_eq_Inr refuse_unless_Inr all_given_Inr all_bytes_Inr
        given_def has_bytes_truthy level_defs Let_def split: if_splits)
next
  case (S3External c)
  assume "Link_validate l = Inr ()"
  then show ?thesis
    by (simp add: S3External S3External_validate_def refuse_unless_Inr all_given_Inr given_def)
next
  case (AzureBlobExternal c)
  assume "Link_validate l = Inr ()"
  then show ?thesis
    by (auto simp: AzureBlobExternal AzureBlobExternal_validate_def bindE_eq_Inr refuse_unless_Inr all_given_Inr
        given_def split: if_splits)
qed

text \<open>C37. Only complete links are created or replaced, with the credentials that their kind and encryption level ask for; the
  request holds the link as a dictionary and its type.  A link that \<open>get_links\<close> returned can never be
  replaced as it is: the secrets are not read back, and the client certificate goes to the wrong
  field.\<close>

theorem links_are_complete:
  shows "(link_request m op link options kwargs = Inr req \<longrightarrow> complete_link link \<and>
      (\<exists>d. Link_as_dict link = Inr d \<and>
        map_of req ''op_args'' = Some (pdict [(''link'', pdict d), (''link_type'', Link_type link)]))) \<and>
    (read_links raw = Inr links \<and> link \<in> set links \<longrightarrow>
      (\<exists>e. Logic_create_link m link options kwargs = Inl e) \<and> (\<exists>e. Logic_replace_link m link options kwargs = Inl e))"
proof (intro conjI impI)
  assume "link_request m op link options kwargs = Inr req"
  then obtain final d where r: "Link_validate link = Inr ()" "Link_as_dict link = Inr d"
    "req = analytics_request m op [(''link'', pdict d), (''link_type'', Link_type link)] kwargs final"
    by (auto simp: link_request_def bindE_eq_Inr)
  then show "complete_link link" "\<exists>d. Link_as_dict link = Inr d \<and>
      map_of req ''op_args'' = Some (pdict [(''link'', pdict d), (''link_type'', Link_type link)])"
    using valid_link_complete by (simp_all add: analytics_request_def mgmt_request_args)
next
  assume "read_links raw = Inr links \<and> link \<in> set links"
  then have "Link_validate link \<noteq> Inr ()" using read_links_invalid by blast
  then obtain e where "Link_validate link = Inl e" by (cases "Link_validate link") auto
  then show "\<exists>e. Logic_create_link m link options kwargs = Inl e" "\<exists>e. Logic_replace_link m link options kwargs = Inl e"
    by (simp_all add: Logic_create_link_def Logic_replace_link_def link_request_def)
qed

lemma links_witness:
  "(\<exists>links link. read_links (Some [(''s3_links'', PList [pdict [(''dataverse'', PStr ''d''), (''link_name'', PStr ''l''),
      (''access_key_id'', PStr ''a''), (''region'', PStr ''r'')]])]) = Inr links \<and> link \<in> set links \<and>
    (\<exists>e. Logic_replace_link demo_env link [] [] = Inl e)) \<and>
   complete_link (S3External \<lparr>s3_dataverse = PStr ''d'', s3_link_name = PStr ''l'', s3_access_key_id = PStr ''a'',
     s3_region = PStr ''r'', s3_secret_access_key = PStr ''k'', s3_session_token = PNone, s3_service_endpoint = PNone\<rparr>)"
proof
  let ?raw = "Some [(''s3_links'', PList [pdict [(''dataverse'', PStr ''d''), (''link_name'', PStr ''l''),
      (''access_key_id'', PStr ''a''), (''region'', PStr ''r'')]])]"
  let ?link = "S3External \<lparr>s3_dataverse = PStr ''d'', s3_link_name = PStr ''l'', s3_access_key_id = PStr ''a'',
      s3_region = PStr ''r'', s3_secret_access_key = PNone, s3_session_token = PNone, s3_service_endpoint = PNone\<rparr>"
  have "read_links ?raw = Inr [?link]"
    by (simp add: read_links_def read_all_def py_iter_def pdict_def S3External_from_server_json_def item_def item_or_none_def)
  then show "\<exists>links link. read_links ?raw = Inr links \<and> link \<in> set links \<and>
      (\<exists>e. Logic_replace_link demo_env link [] [] = Inl e)"
    using links_are_complete [of demo_env _ ?link "[]" "[]" _ ?raw "[?link]"] by auto
  let ?full = "S3External \<lparr>s3_dataverse = PStr ''d'', s3_link_name = PStr ''l'', s3_access_key_id = PStr ''a'',
      s3_region = PStr ''r'', s3_secret_access_key = PStr ''k'', s3_session_token = PNone, s3_service_endpoint = PNone\<rparr>"
  have "\<exists>req. link_request demo_env ''LINK_CREATE'' ?full [] [] = Inr req"
    by (simp add: link_request_def S3External_validate_def refuse_unless_def all_given.simps is_null_or_empty_def
        str_isspace_def demo_env_def
        forward_args_def get_temp_opts_def nested_kwargs_def dupdate_def)
  then show "complete_link ?full" using links_are_complete [of demo_env _ ?full "[]" "[]"] by blast
qed

end
